(* ===== verification/Prelude.thy ===== *)
theory Prelude
  imports Main
begin

text \<open>
  What the component theories share: the collections of simplification rules, and the library
  functions of ECMAScript on arrays and strings that the sources call, with their laws.
\<close>

named_theorems js_exact \<open>evaluation of arithmetic at precision 0, where it is exact\<close>
named_theorems js_order \<open>introduction rules for comparisons that hold at every precision\<close>
named_theorems js_fin \<open>introduction rules for finiteness and for being a number\<close>

section \<open>Exceptions\<close>

text \<open>A computation that throws is \<open>Inl\<close> the error; sequencing stops at the first error.\<close>

definition ebind :: "'e + 'a \<Rightarrow> ('a \<Rightarrow> 'e + 'b) \<Rightarrow> 'e + 'b" where
  "ebind m k = (case m of Inl e \<Rightarrow> Inl e | Inr x \<Rightarrow> k x)"

lemma ebind_simps [simp]: "ebind (Inl e) k = Inl e" "ebind (Inr x) k = k x"
  by (simp_all add: ebind_def)

lemma ebind_cong [fundef_cong]:
  "m = m' \<Longrightarrow> (\<And>x. m' = Inr x \<Longrightarrow> k x = k' x) \<Longrightarrow> ebind m k = ebind m' k'"
  by (cases m') auto

lemma ebind_Inr_iff [simp]: "ebind m k = Inr y \<longleftrightarrow> (\<exists>x. m = Inr x \<and> k x = Inr y)"
  by (cases m) auto

lemma ebind_Inl_iff: "ebind m k = Inl e \<longleftrightarrow> m = Inl e \<or> (\<exists>x. m = Inr x \<and> k x = Inl e)"
  by (cases m) auto

lemma ebind_assoc: "ebind (ebind m f) g = ebind m (\<lambda>x. ebind (f x) g)"
  by (cases m) auto

text \<open>Loops whose body may throw: over an array, with and without an accumulator.\<close>

fun emap :: "('a \<Rightarrow> 'e + 'b) \<Rightarrow> 'a list \<Rightarrow> 'e + 'b list" where
  "emap f [] = Inr []"
| "emap f (x # xs) = ebind (f x) (\<lambda>y. ebind (emap f xs) (\<lambda>ys. Inr (y # ys)))"

fun efold :: "('s \<Rightarrow> 'a \<Rightarrow> 'e + 's) \<Rightarrow> 's \<Rightarrow> 'a list \<Rightarrow> 'e + 's" where
  "efold f s [] = Inr s"
| "efold f s (x # xs) = ebind (f s x) (\<lambda>s. efold f s xs)"

lemma emap_Inr_length: "emap f xs = Inr ys \<Longrightarrow> length ys = length xs"
  by (induction xs arbitrary: ys) auto

lemma emap_Inr_nth: "emap f xs = Inr ys \<Longrightarrow> i < length xs \<Longrightarrow> f (xs ! i) = Inr (ys ! i)"
proof (induction xs arbitrary: ys i)
  case (Cons x xs)
  then show ?case by (cases i) auto
qed simp

lemma emap_Inr_set: "emap f xs = Inr ys \<Longrightarrow> y \<in> set ys \<Longrightarrow> \<exists>x \<in> set xs. f x = Inr y"
  by (induction xs arbitrary: ys) auto

lemma efold_append: "efold f s (xs @ ys) = ebind (efold f s xs) (\<lambda>s. efold f s ys)"
  by (induction xs arbitrary: s) (auto simp: ebind_assoc)

text \<open>An invariant of the body is an invariant of the loop.\<close>

lemma efold_invariant:
  assumes "efold f s xs = Inr t" "I s" "\<And>s x s'. x \<in> set xs \<Longrightarrow> I s \<Longrightarrow> f s x = Inr s' \<Longrightarrow> I s'"
  shows "I t"
  using assms by (induction xs arbitrary: s) auto

section \<open>Arrays\<close>

text \<open>\<^verbatim>\<open>xs.slice(-n)\<close> keeps the last \<open>n\<close> elements, all of them when there are fewer;
  \<open>n\<close> is positive in every use (\<^verbatim>\<open>slice(-0)\<close> would keep everything).\<close>

definition slice_last :: "nat \<Rightarrow> 'a list \<Rightarrow> 'a list" where
  "slice_last n xs = drop (length xs - n) xs"

lemma length_slice_last [simp]: "length (slice_last n xs) = min n (length xs)"
  by (simp add: slice_last_def)

lemma slice_last_id [simp]: "length xs \<le> n \<Longrightarrow> slice_last n xs = xs"
  by (simp add: slice_last_def)

lemma slice_last_idem [simp]: "slice_last n (slice_last n xs) = slice_last n xs"
  by (rule slice_last_id) simp

lemma set_slice_last: "set (slice_last n xs) \<subseteq> set xs"
  by (simp add: slice_last_def set_drop_subset)

lemma slice_last_append: "0 < n \<Longrightarrow> slice_last n (xs @ [x]) = slice_last (n - 1) xs @ [x]"
  by (cases n) (simp_all add: slice_last_def)

lemma last_slice_last_append [simp]: "0 < n \<Longrightarrow> last (slice_last n (xs @ [x])) = x"
  by (simp add: slice_last_append)

text \<open>\<^verbatim>\<open>xs.at(-1)\<close>.\<close>

definition at_last :: "'a list \<Rightarrow> 'a option" where
  "at_last xs = (if xs = [] then None else Some (last xs))"

text \<open>The last element that satisfies a predicate: the loops that count an index down.\<close>

fun find_last :: "('a \<Rightarrow> bool) \<Rightarrow> 'a list \<Rightarrow> 'a option" where
  "find_last P [] = None"
| "find_last P (x # xs) =
     (case find_last P xs of Some y \<Rightarrow> Some y | None \<Rightarrow> if P x then Some x else None)"

lemma find_last_append:
  "find_last P (xs @ ys) = (case find_last P ys of Some y \<Rightarrow> Some y | None \<Rightarrow> find_last P xs)"
  by (induction xs) (auto split: option.splits)

lemma find_last_snoc [simp]:
  "find_last P (xs @ [x]) = (if P x then Some x else find_last P xs)"
  by (simp add: find_last_append)

lemma find_last_SomeD: "find_last P xs = Some y \<Longrightarrow> y \<in> set xs \<and> P y"
  by (induction xs) (auto split: option.splits if_splits)

lemma find_last_None_iff: "find_last P xs = None \<longleftrightarrow> (\<forall>x \<in> set xs. \<not> P x)"
  by (induction xs) (auto split: option.splits)

lemma find_Some_iff_props: "List.find P xs = Some x \<Longrightarrow> x \<in> set xs \<and> P x"
  by (induction xs) (auto split: if_splits)

lemma map_enumerate_snd: "map (\<lambda>(i, x). f x) (enumerate k xs) = map f xs"
  by (induction xs arbitrary: k) simp_all

text \<open>\<^verbatim>\<open>xs.join(sep)\<close>.\<close>

fun join_with :: "'a list \<Rightarrow> 'a list list \<Rightarrow> 'a list" where
  "join_with sep [] = []"
| "join_with sep [x] = x"
| "join_with sep (x # y # ys) = x @ sep @ join_with sep (y # ys)"

section \<open>Association lists\<close>

text \<open>Objects used as dictionaries keep the insertion order of their keys:
  \<^verbatim>\<open>Object.fromEntries\<close> and assignment overwrite in place or append.\<close>

fun aput :: "'k \<Rightarrow> 'v \<Rightarrow> ('k \<times> 'v) list \<Rightarrow> ('k \<times> 'v) list" where
  "aput k v [] = [(k, v)]"
| "aput k v ((k', v') # kvs) = (if k' = k then (k, v) # kvs else (k', v') # aput k v kvs)"

lemma map_of_aput [simp]: "map_of (aput k v kvs) = (map_of kvs)(k \<mapsto> v)"
  by (induction kvs) (auto simp: fun_upd_twist)

lemma keys_aput: "set (map fst (aput k v kvs)) = insert k (set (map fst kvs))"
proof (induction kvs)
  case (Cons kv kvs)
  obtain a b where kv: "kv = (a, b)" by (cases kv)
  show ?case
    using Cons by (cases "a = k") (simp_all add: kv insert_commute del: set_map)
qed simp

lemma fst_set_aput [simp]: "fst ` set (aput k v kvs) = insert k (fst ` set kvs)"
  using keys_aput [of k v kvs] by simp

lemma distinct_aput: "distinct (map fst kvs) \<Longrightarrow> distinct (map fst (aput k v kvs))"
proof (induction kvs)
  case (Cons kv kvs)
  obtain a b where kv: "kv = (a, b)" by (cases kv)
  show ?case
    using Cons keys_aput [of k v kvs] by (simp add: kv del: set_map) auto
qed simp

definition from_entries :: "('k \<times> 'v) list \<Rightarrow> ('k \<times> 'v) list" where
  "from_entries kvs = foldl (\<lambda>acc kv. aput (fst kv) (snd kv) acc) [] kvs"

lemma map_of_foldl_aput:
  "map_of (foldl (\<lambda>acc kv. aput (fst kv) (snd kv) acc) acc kvs) = map_of acc ++ map_of (rev kvs)"
  by (induction kvs arbitrary: acc) (auto simp: fun_eq_iff map_add_def split: option.splits)

lemma map_of_from_entries: "map_of (from_entries kvs) = map_of (rev kvs)"
  by (simp add: from_entries_def map_of_foldl_aput)

lemma map_of_from_entries_fun:
  "map_of (from_entries (map (\<lambda>x. (f x, g)) xs)) k = (if k \<in> f ` set xs then Some g else None)"
  by (induction xs) (auto simp: map_of_from_entries map_add_def rev_map split: option.splits
      dest: map_of_SomeD)

end
