(* ===== verification/Rounding.thy ===== *)
theory Rounding
  imports Complex_Main "HOL-Library.Word" "HOL-Library.Numeral_Type" Prelude
begin

text \<open>
  Rounding of exact rationals to a binary floating-point grid, as IEEE-754 prescribes for the
  \<^verbatim>\<open>number\<close> type of ECMAScript: round to nearest, ties to the even significand, gradual
  underflow at the exponent \<open>-1074\<close>. The precision is a parameter: \<open>rnd 53\<close> is binary64, and
  \<open>rnd 0\<close> is exact arithmetic. Every function computes, so a witness evaluates it; the lemmas
  are the facts the number type needs: rounding is monotone, odd, idempotent and exact on
  small integers and on powers of two.
\<close>

section \<open>Rounding to a binary grid\<close>

definition pow2 :: "int \<Rightarrow> rat" where
  "pow2 k = (if 0 \<le> k then of_int (2 ^ nat k) else 1 / of_int (2 ^ nat (- k)))"

lemma pow2_pos [simp]: "0 < pow2 k"
  by (simp add: pow2_def)

lemma abs_pow2 [simp]: "\<bar>pow2 k\<bar> = pow2 k"
  by (simp add: less_imp_le)

lemma pow2_nonzero [simp]: "pow2 k \<noteq> 0"
  by (simp add: pow2_def)

lemma pow2_add: "pow2 (j + k) = pow2 j * pow2 k"
proof -
  have powi: "pow2 i = 2 powi i" for i
    by (simp add: pow2_def power_int_def field_simps)
  show ?thesis by (simp add: powi power_int_add)
qed

lemma pow2_0 [simp]: "pow2 0 = 1"
  by (simp add: pow2_def)

lemma pow2_Suc: "pow2 (k + 1) = 2 * pow2 k"
  by (simp add: pow2_add) (simp add: pow2_def)

lemma pow2_mono: "j \<le> k \<Longrightarrow> pow2 j \<le> pow2 k"
proof -
  assume "j \<le> k"
  then obtain n where k: "k = j + int n" using zle_iff_zadd by blast
  have "1 \<le> pow2 (int n)" by (simp add: pow2_def)
  then show ?thesis by (simp add: k pow2_add)
qed

lemma pow2_strict_mono: "j < k \<Longrightarrow> pow2 j < pow2 k"
proof -
  assume "j < k"
  then have "2 * pow2 j \<le> pow2 k" using pow2_mono [of "j + 1" k] by (simp add: pow2_Suc)
  then show ?thesis using pow2_pos [of j] by linarith
qed

lemma pow2_less_iff: "pow2 j < pow2 k \<longleftrightarrow> j < k"
  using pow2_mono [of k j] pow2_strict_mono [of j k] by force

text \<open>The exponent of the leading binary digit, by bit lengths of numerator and denominator.\<close>

function bits :: "int \<Rightarrow> int" where
  "bits n = (if n \<le> 0 then 0 else 1 + bits (n div 2))"
  by pat_completeness auto
termination
  by (relation "measure nat") auto

declare bits.simps [simp del]

lemma bits_bounds: "0 < n \<Longrightarrow> 0 < bits n \<and> 2 ^ nat (bits n - 1) \<le> n \<and> n < 2 ^ nat (bits n)"
proof (induction n rule: bits.induct)
  case (1 n)
  show ?case
  proof (cases "n div 2 = 0")
    case True
    with 1 have "n = 1" by simp
    then show ?thesis by (simp add: bits.simps)
  next
    case False
    with 1 have IH: "0 < bits (n div 2)" "2 ^ nat (bits (n div 2) - 1) \<le> n div 2"
        "n div 2 < 2 ^ nat (bits (n div 2))"
      by auto
    have b: "bits n = 1 + bits (n div 2)" using 1 by (simp add: bits.simps [of n])
    define m where "m = nat (bits (n div 2) - 1)"
    have m: "bits (n div 2) = 1 + int m" using IH(1) by (simp add: m_def)
    have s: "nat (1 + int m) = Suc m" "nat (2 + int m) = Suc (Suc m)" by simp_all
    from IH show ?thesis unfolding b m by (simp add: s) linarith
  qed
qed

definition ilog2 :: "rat \<Rightarrow> int" where
  "ilog2 r = (case quotient_of r of (a, b) \<Rightarrow>
     (let k = bits a - bits b
      in if pow2 k \<le> r then k else k - 1))"

lemma pow2_int: "pow2 (int n) = 2 ^ n"
  by (simp add: pow2_def)

lemma ilog2_bounds:
  assumes "0 < r"
  shows "pow2 (ilog2 r) \<le> r \<and> r < pow2 (ilog2 r + 1)"
proof -
  obtain a b where q: "quotient_of r = (a, b)" by (cases "quotient_of r")
  have b0: "0 < b" using q quotient_of_denom_pos by blast
  have r: "r = of_int a / of_int b" using q by (rule quotient_of_div)
  have a0: "0 < a" using assms r b0 by (simp add: zero_less_divide_iff)
  define i where "i = bits a"
  define j where "j = bits b"
  have ai: "0 < i" "2 ^ nat (i - 1) \<le> a" "a < 2 ^ nat i" using bits_bounds [OF a0] by (auto simp: i_def)
  have bj: "0 < j" "2 ^ nat (j - 1) \<le> b" "b < 2 ^ nat j" using bits_bounds [OF b0] by (auto simp: j_def)
  have ra: "pow2 (i - 1) \<le> of_int a" "of_int a < pow2 i"
    using ai by (simp_all add: pow2_def)
  have rb: "pow2 (j - 1) \<le> of_int b" "of_int b < pow2 j"
    using bj by (simp_all add: pow2_def)
  have bp: "(0::rat) < of_int b" using b0 by simp
  have up: "r < pow2 (i - j + 1)"
  proof -
    have "pow2 i = pow2 (i - j + 1) * pow2 (j - 1)"
      by (simp flip: pow2_add)
    also have "\<dots> \<le> pow2 (i - j + 1) * of_int b" using rb(1) by simp
    finally have "of_int a < pow2 (i - j + 1) * of_int b" using ra(2) by simp
    then show ?thesis using bp by (simp add: r divide_less_eq)
  qed
  have lo: "pow2 (i - j - 1) \<le> r"
  proof -
    have "pow2 (i - j - 1) * of_int b \<le> pow2 (i - j - 1) * pow2 j"
      using rb(2) by (simp add: less_imp_le)
    also have "\<dots> = pow2 (i - 1)" by (simp flip: pow2_add)
    finally have "pow2 (i - j - 1) * of_int b \<le> of_int a" using ra(1) by simp
    then show ?thesis using bp by (simp add: r le_divide_eq)
  qed
  show ?thesis
    using up lo by (simp add: ilog2_def q Let_def flip: i_def j_def)
qed

lemma ilog2_mono:
  assumes "0 < x" "x \<le> y"
  shows "ilog2 x \<le> ilog2 y"
proof -
  have "pow2 (ilog2 x) < pow2 (ilog2 y + 1)"
    using ilog2_bounds [of x] ilog2_bounds [of y] assms by linarith
  then show ?thesis by (simp add: pow2_less_iff)
qed

definition round_even :: "rat \<Rightarrow> int" where
  "round_even x =
     (let n = \<lfloor>x\<rfloor>; d = x - of_int n
      in if d < 1/2 then n else if 1/2 < d then n + 1 else if even n then n else n + 1)"

lemma round_even_int [simp]: "round_even (of_int n) = n"
  by (simp add: round_even_def)

lemma round_even_cases: "round_even x = \<lfloor>x\<rfloor> \<or> round_even x = \<lfloor>x\<rfloor> + 1"
  by (auto simp: round_even_def Let_def)

lemma round_even_mono:
  assumes "x \<le> y"
  shows "round_even x \<le> round_even y"
proof (cases "\<lfloor>x\<rfloor> = \<lfloor>y\<rfloor>")
  case True
  then show ?thesis using assms by (auto simp: round_even_def Let_def)
next
  case False
  then have "\<lfloor>x\<rfloor> + 1 \<le> \<lfloor>y\<rfloor>" using floor_mono [OF assms] by linarith
  then show ?thesis using round_even_cases [of x] round_even_cases [of y] by linarith
qed

lemma round_even_minus: "round_even (- x) = - round_even x"
proof (cases "x \<in> \<int>")
  case True
  then obtain n where "x = of_int n" by (auto elim: Ints_cases)
  then show ?thesis using round_even_int [of "- n"] by simp
next
  case False
  then have "x \<noteq> of_int \<lfloor>x\<rfloor>" by (metis Ints_of_int)
  then have nf: "\<lfloor>- x\<rfloor> = - \<lfloor>x\<rfloor> - 1"
    using ceiling_altdef [of x] by (simp add: ceiling_def)
  define d where "d = x - of_int \<lfloor>x\<rfloor>"
  have x: "x = of_int \<lfloor>x\<rfloor> + d" by (simp add: d_def)
  have 1: "round_even x = (if d < 1/2 then \<lfloor>x\<rfloor> else if 1/2 < d then \<lfloor>x\<rfloor> + 1
      else if even \<lfloor>x\<rfloor> then \<lfloor>x\<rfloor> else \<lfloor>x\<rfloor> + 1)"
    by (simp add: round_even_def d_def Let_def)
  have 2: "- x - of_int (- \<lfloor>x\<rfloor> - 1) = 1 - d" by (simp add: d_def)
  show ?thesis unfolding 1 unfolding round_even_def nf Let_def 2 by simp
qed

definition rnd :: "nat \<Rightarrow> rat \<Rightarrow> rat" where
  "rnd p r =
     (if p = 0 \<or> r = 0 then r
      else let e = max (- 1074) (ilog2 \<bar>r\<bar> - int p + 1)
           in of_int (round_even (r / pow2 e)) * pow2 e)"

lemma rnd_0 [simp]: "rnd p 0 = 0"
  by (simp add: rnd_def)

lemma rnd_exact [simp]: "rnd 0 r = r"
  by (simp add: rnd_def)

lemma rnd_minus: "rnd p (- r) = - rnd p r"
  by (simp add: rnd_def Let_def round_even_minus)

lemma rnd_nonneg: "0 \<le> r \<Longrightarrow> 0 \<le> rnd p r"
proof -
  assume "0 \<le> r"
  then have "0 \<le> round_even (r / pow2 e)" for e
    using round_even_mono [of 0 "r / pow2 e"] round_even_int [of 0] by (simp add: less_imp_le)
  then have "0 \<le> of_int (round_even (r / pow2 e)) * pow2 e" for e
    by (simp add: less_imp_le)
  then show ?thesis using \<open>0 \<le> r\<close> unfolding rnd_def Let_def by simp
qed

lemma rnd_pos_mono:
  assumes "0 < x" "x \<le> y"
  shows "rnd p x \<le> rnd p y"
proof (cases "p = 0")
  case True
  then show ?thesis using assms by simp
next
  case False
  define ex where "ex = max (- 1074) (ilog2 x - int p + 1)"
  define ey where "ey = max (- 1074) (ilog2 y - int p + 1)"
  have le: "ex \<le> ey" using ilog2_mono [OF assms] by (simp add: ex_def ey_def)
  have rx: "rnd p x = of_int (round_even (x / pow2 ex)) * pow2 ex"
    and ry: "rnd p y = of_int (round_even (y / pow2 ey)) * pow2 ey"
    using assms False by (simp_all add: rnd_def ex_def ey_def Let_def)
  show ?thesis
  proof (cases "ex = ey")
    case True
    then show ?thesis
      using round_even_mono [of "x / pow2 ex" "y / pow2 ex"] assms
      by (simp add: rx ry divide_right_mono less_imp_le)
  next
    case neq: False
    then have ey: "ey = ilog2 y - int p + 1" and lt: "ex + 1 \<le> ey" and ixy: "ex \<ge> ilog2 x - int p + 1"
      using le by (auto simp: ex_def ey_def max_def split: if_splits)
    have pp: "int (p - 1) = int p - 1" using False by simp
    have "x < pow2 (ex + int p)"
      using ilog2_bounds [of x] assms pow2_mono [of "ilog2 x + 1" "ex + int p"] ixy by linarith
    then have "x / pow2 ex \<le> of_int (2 ^ p)"
      by (simp add: pow2_add pow2_int field_simps)
    then have "round_even (x / pow2 ex) \<le> 2 ^ p"
      using round_even_mono round_even_int by metis
    then have 1: "rnd p x \<le> pow2 (int p + ex)"
      by (simp add: rx pow2_add pow2_int)
    have "pow2 (ey + int (p - 1)) \<le> y" using ilog2_bounds [of y] assms ey pp by simp
    then have "of_int (2 ^ (p - 1)) \<le> y / pow2 ey"
      by (simp add: pow2_add pow2_int field_simps)
    then have "2 ^ (p - 1) \<le> round_even (y / pow2 ey)"
      using round_even_mono round_even_int by metis
    then have 2: "pow2 (int (p - 1) + ey) \<le> rnd p y"
      by (simp add: ry pow2_add pow2_int)
    have "pow2 (int p + ex) \<le> pow2 (int (p - 1) + ey)"
      by (rule pow2_mono) (use lt pp in simp)
    with 1 2 show ?thesis by linarith
  qed
qed

lemma rnd_mono: "x \<le> y \<Longrightarrow> rnd p x \<le> rnd p y"
proof -
  assume xy: "x \<le> y"
  consider "0 < x" | "x \<le> 0" "0 \<le> y" | "y < 0" by linarith
  then show ?thesis
  proof cases
    case 1
    then show ?thesis using xy by (rule rnd_pos_mono)
  next
    case 2
    then show ?thesis using rnd_nonneg [of y p] rnd_nonneg [of "- x" p] by (simp add: rnd_minus)
  next
    case 3
    then show ?thesis using rnd_pos_mono [of "- y" "- x" p] xy by (simp add: rnd_minus)
  qed
qed

text \<open>Values on the grid are fixed points.\<close>

lemma rnd_grid:
  assumes e: "- 1074 \<le> e" and m: "\<bar>m\<bar> \<le> 2 ^ p"
  shows "rnd p (of_int m * pow2 e) = of_int m * pow2 e"
proof (cases "p = 0 \<or> m = 0")
  case True
  then show ?thesis by auto
next
  case False
  let ?r = "of_int m * pow2 e"
  have r0: "0 < \<bar>?r\<bar>" using False by simp
  have absr: "\<bar>?r\<bar> = of_int \<bar>m\<bar> * pow2 e" by (simp add: abs_mult)
  define e' where "e' = max (- 1074) (ilog2 \<bar>?r\<bar> - int p + 1)"
  have eq: "rnd p ?r = of_int (round_even (?r / pow2 e')) * pow2 e'"
    using False by (simp add: rnd_def e'_def Let_def)
  have "\<exists>n. ?r / pow2 e' = of_int n"
  proof (cases "e' \<le> e")
    case True
    then obtain k where k: "e = e' + int k" using zle_iff_zadd by blast
    have "?r / pow2 e' = of_int (m * 2 ^ k)" by (simp add: k pow2_add pow2_int)
    then show ?thesis by blast
  next
    case e': False
    have "of_int \<bar>m\<bar> \<le> (2::rat) ^ p" using m by (metis of_int_le_iff of_int_numeral of_int_power)
    then have up: "\<bar>?r\<bar> \<le> pow2 (int p + e)" by (simp add: absr pow2_add pow2_int)
    have "pow2 (ilog2 \<bar>?r\<bar>) \<le> pow2 (int p + e)" using ilog2_bounds [OF r0] up by linarith
    then have "ilog2 \<bar>?r\<bar> \<le> int p + e" by (metis leD leI pow2_less_iff)
    then have e1: "e' = e + 1" "ilog2 \<bar>?r\<bar> = int p + e" using e' e by (auto simp: e'_def max_def split: if_splits)
    then have "pow2 (int p + e) \<le> \<bar>?r\<bar>" using ilog2_bounds [OF r0] by simp
    then have "\<bar>?r\<bar> = pow2 (int p + e)" using up by linarith
    then have "of_int \<bar>m\<bar> = (2::rat) ^ p" by (simp add: absr pow2_add pow2_int)
    then have "\<bar>m\<bar> = 2 ^ p" by (metis of_int_eq_iff of_int_numeral of_int_power)
    then have "\<bar>m\<bar> = 2 * 2 ^ (p - 1)" using False by (metis not_gr_zero power_eq_if)
    then obtain n where n: "m = 2 * n" by (metis abs_if minus_equation_iff mult_minus_right)
    have "?r / pow2 e' = of_int n" by (simp add: e1 n pow2_Suc)
    then show ?thesis by blast
  qed
  then obtain n where n: "?r / pow2 e' = of_int n" by blast
  then have "?r = of_int n * pow2 e'" by (simp add: divide_eq_eq)
  moreover have "rnd p ?r = of_int n * pow2 e'" unfolding eq n by simp
  ultimately show ?thesis by simp
qed

lemma rnd_int: "\<bar>n\<bar> \<le> 2 ^ p \<Longrightarrow> rnd p (of_int n) = of_int n"
  using rnd_grid [of 0 n p] by simp

lemma rnd_pow2: "- 1074 \<le> k \<Longrightarrow> rnd p (pow2 k) = pow2 k"
  using rnd_grid [of k 1 p] by simp

lemma rnd_on_grid:
  assumes "0 < p"
  shows "\<exists>m e. - 1074 \<le> e \<and> \<bar>m\<bar> \<le> 2 ^ p \<and> rnd p r = of_int m * pow2 e"
proof (cases "r = 0")
  case True
  then show ?thesis by (intro exI [of _ 0]) auto
next
  case False
  define e where "e = max (- 1074) (ilog2 \<bar>r\<bar> - int p + 1)"
  have eq: "rnd p r = of_int (round_even (r / pow2 e)) * pow2 e"
    using False assms by (simp add: rnd_def e_def Let_def)
  have "\<bar>r\<bar> < pow2 (ilog2 \<bar>r\<bar> + 1)" using ilog2_bounds [of "\<bar>r\<bar>"] False by simp
  also have "\<dots> \<le> pow2 (int p + e)" by (rule pow2_mono) (simp add: e_def)
  finally have b: "\<bar>r / pow2 e\<bar> \<le> of_int (2 ^ p)"
    by (simp add: abs_divide pow2_add pow2_int field_simps)
  then have "r / pow2 e \<le> of_int (2 ^ p)" "of_int (- (2 ^ p)) \<le> r / pow2 e"
    by (simp_all only: abs_le_iff of_int_minus) (simp_all add: minus_le_iff)
  then have "round_even (r / pow2 e) \<le> 2 ^ p" "- (2 ^ p) \<le> round_even (r / pow2 e)"
    using round_even_mono round_even_int by metis+
  then show ?thesis using eq by (intro exI [of _ "round_even (r / pow2 e)"] exI [of _ e])
      (auto simp: e_def abs_le_iff)
qed

lemma rnd_idem [simp]: "rnd p (rnd p r) = rnd p r"
proof (cases "p = 0")
  case False
  then obtain m e where "- 1074 \<le> e" "\<bar>m\<bar> \<le> 2 ^ p" "rnd p r = of_int m * pow2 e"
    using rnd_on_grid [of p r] by auto
  then show ?thesis using rnd_grid by metis
qed simp

end
