(* ===== verification/JsNumber.thy ===== *)
theory JsNumber
  imports Rounding
begin

text \<open>
  The \<^verbatim>\<open>number\<close> type of ECMAScript. A number is finite (a rational), an infinity or
  \<^verbatim>\<open>NaN\<close>. The phantom type parameter is the precision of the arithmetic: \<open>53 jsnum\<close> is
  binary64, the arithmetic the program runs on, and \<open>0 jsnum\<close> is the same arithmetic without
  rounding or overflow. Definitions of the components are polymorphic in it, so a statement
  proved for every precision holds of the program's arithmetic as it is, and a statement about
  \<open>0 jsnum\<close> is about the formulas themselves, free of rounding.

  The sign of zero is not represented. Where the components divide, the divisor is tested
  against zero or is the negation of nothing, and the printed forms of the two zeros agree in
  \<^verbatim>\<open>String\<close> and \<^verbatim>\<open>JSON.stringify\<close>, so no operation that is modelled tells them apart.
\<close>

datatype 'p jsnum = Fin rat | PInf | NInf | NaN

type_synonym js = "53 jsnum"
type_synonym exact = "0 jsnum"

section \<open>Rounding a rational to a number\<close>

definition lit :: "rat \<Rightarrow> ('p::len0) jsnum" where
  "lit r =
     (let v = rnd LENGTH('p) r
      in if LENGTH('p) \<noteq> 0 \<and> v \<noteq> 0 \<and> 1024 \<le> ilog2 \<bar>v\<bar> then (if 0 < v then PInf else NInf) else Fin v)"

lemma lit_exact [simp, js_exact]: "(lit r :: exact) = Fin r"
  by (simp add: lit_def)

fun is_fin :: "'p jsnum \<Rightarrow> bool" where
  "is_fin (Fin _) = True"
| "is_fin _ = False"

lemma is_finE: "is_fin x \<Longrightarrow> (\<And>r. x = Fin r \<Longrightarrow> P) \<Longrightarrow> P"
  by (cases x) auto

lemma lit_not_NaN [simp, js_fin]: "lit r \<noteq> NaN"
  by (simp add: lit_def Let_def)

section \<open>Order, arithmetic\<close>

instantiation jsnum :: (type) "{zero, one, ord, uminus, abs}"
begin
definition zero_jsnum :: "'a jsnum" where "0 = Fin 0"
definition one_jsnum :: "'a jsnum" where "1 = Fin 1"
fun less_eq_jsnum :: "'a jsnum \<Rightarrow> 'a jsnum \<Rightarrow> bool" where
  "less_eq_jsnum (Fin a) (Fin b) = (a \<le> b)"
| "less_eq_jsnum NaN _ = False"
| "less_eq_jsnum _ NaN = False"
| "less_eq_jsnum NInf _ = True"
| "less_eq_jsnum _ PInf = True"
| "less_eq_jsnum _ _ = False"
definition less_jsnum :: "'a jsnum \<Rightarrow> 'a jsnum \<Rightarrow> bool" where
  "(x < y) = (x \<le> y \<and> x \<noteq> y)" for x y :: "'a jsnum"
fun uminus_jsnum :: "'a jsnum \<Rightarrow> 'a jsnum" where
  "uminus_jsnum (Fin a) = Fin (- a)"
| "uminus_jsnum PInf = NInf"
| "uminus_jsnum NInf = PInf"
| "uminus_jsnum NaN = NaN"
fun abs_jsnum :: "'a jsnum \<Rightarrow> 'a jsnum" where
  "abs_jsnum (Fin a) = Fin \<bar>a\<bar>"
| "abs_jsnum NaN = NaN"
| "abs_jsnum _ = PInf"
instance ..
end

instantiation jsnum :: (len0) "{plus, minus, times, inverse}"
begin
fun plus_jsnum :: "'a jsnum \<Rightarrow> 'a jsnum \<Rightarrow> 'a jsnum" where
  "plus_jsnum (Fin a) (Fin b) = lit (a + b)"
| "plus_jsnum NaN _ = NaN"
| "plus_jsnum _ NaN = NaN"
| "plus_jsnum PInf NInf = NaN"
| "plus_jsnum NInf PInf = NaN"
| "plus_jsnum PInf _ = PInf"
| "plus_jsnum _ PInf = PInf"
| "plus_jsnum NInf _ = NInf"
| "plus_jsnum _ NInf = NInf"
definition minus_jsnum :: "'a jsnum \<Rightarrow> 'a jsnum \<Rightarrow> 'a jsnum" where
  "x - y = x + - y" for x y :: "'a jsnum"
fun times_jsnum :: "'a jsnum \<Rightarrow> 'a jsnum \<Rightarrow> 'a jsnum" where
  "times_jsnum (Fin a) (Fin b) = lit (a * b)"
| "times_jsnum x y =
     (if x = NaN \<or> y = NaN \<or> x = 0 \<or> y = 0 then NaN
      else if (0 < x) = (0 < y) then PInf else NInf)"
fun divide_jsnum :: "'a jsnum \<Rightarrow> 'a jsnum \<Rightarrow> 'a jsnum" where
  "divide_jsnum (Fin a) (Fin b) =
     (if b = 0 then (if a = 0 then NaN else if 0 < a then PInf else NInf) else lit (a / b))"
| "divide_jsnum (Fin a) NaN = NaN"
| "divide_jsnum (Fin a) _ = 0"
| "divide_jsnum NaN _ = NaN"
| "divide_jsnum x (Fin b) = (if 0 \<le> b then x else - x)"
| "divide_jsnum _ _ = NaN"
definition inverse_jsnum :: "'a jsnum \<Rightarrow> 'a jsnum" where
  "inverse x = 1 div x" for x :: "'a jsnum"
instance ..
end

text \<open>\<^verbatim>\<open>===\<close>: \<^verbatim>\<open>NaN\<close> differs from itself.\<close>

definition js_eq :: "'p jsnum \<Rightarrow> 'p jsnum \<Rightarrow> bool" where
  "js_eq x y = (x = y \<and> x \<noteq> NaN)"

section \<open>The library's functions\<close>

definition jmax :: "'p jsnum \<Rightarrow> 'p jsnum \<Rightarrow> 'p jsnum" where
  "jmax x y = (if x = NaN \<or> y = NaN then NaN else if x \<le> y then y else x)"

definition jmin :: "'p jsnum \<Rightarrow> 'p jsnum \<Rightarrow> 'p jsnum" where
  "jmin x y = (if x = NaN \<or> y = NaN then NaN else if x \<le> y then x else y)"

text \<open>\<^verbatim>\<open>Math.max(...xs)\<close> and \<^verbatim>\<open>Math.min(...xs)\<close>: without arguments, the infinities.\<close>

definition jmaxs :: "'p jsnum list \<Rightarrow> 'p jsnum" where
  "jmaxs xs = foldl jmax NInf xs"

definition jmins :: "'p jsnum list \<Rightarrow> 'p jsnum" where
  "jmins xs = foldl jmin PInf xs"

text \<open>\<^verbatim>\<open>Math.round\<close> takes halves up, \<^verbatim>\<open>Math.floor\<close> goes down; both keep the non-finite values.\<close>

fun jround :: "('p::len0) jsnum \<Rightarrow> 'p jsnum" where
  "jround (Fin a) = lit (of_int \<lfloor>a + 1/2\<rfloor>)"
| "jround x = x"

fun jfloor :: "('p::len0) jsnum \<Rightarrow> 'p jsnum" where
  "jfloor (Fin a) = lit (of_int \<lfloor>a\<rfloor>)"
| "jfloor x = x"

text \<open>\<^verbatim>\<open>%\<close>: the remainder has the sign of the dividend.\<close>

definition rtrunc :: "rat \<Rightarrow> int" where
  "rtrunc x = (if 0 \<le> x then \<lfloor>x\<rfloor> else \<lceil>x\<rceil>)"

fun jrem :: "('p::len0) jsnum \<Rightarrow> 'p jsnum \<Rightarrow> 'p jsnum" where
  "jrem (Fin a) (Fin b) = (if b = 0 then NaN else lit (a - b * of_int (rtrunc (a / b))))"
| "jrem (Fin a) NaN = NaN"
| "jrem (Fin a) _ = Fin a"
| "jrem _ _ = NaN"

text \<open>\<^verbatim>\<open>xs.reduce((sum, x) => sum + x, 0)\<close>.\<close>

definition jsum :: "('p::len0) jsnum list \<Rightarrow> 'p jsnum" where
  "jsum xs = foldl (+) 0 xs"

definition clamp :: "'p jsnum \<Rightarrow> 'p jsnum \<Rightarrow> 'p jsnum \<Rightarrow> 'p jsnum" where
  "clamp x lo hi = jmin hi (jmax lo x)"

section \<open>Order laws\<close>

declare zero_jsnum_def [simp] one_jsnum_def [simp]

lemma Fin_less [simp]: "(Fin a < Fin b) = (a < b)"
  by (auto simp: less_jsnum_def)

lemma num_less_simps [simp]:
  "\<not> x < NaN" "\<not> NaN < x" "\<not> PInf < x" "\<not> x < NInf" "NInf < Fin a" "Fin a < PInf" "NInf < PInf"
  by (cases x; simp add: less_jsnum_def)+

lemma num_le_simps [simp]:
  "\<not> x \<le> NaN" "\<not> NaN \<le> x" "x \<le> PInf \<longleftrightarrow> x \<noteq> NaN" "NInf \<le> x \<longleftrightarrow> x \<noteq> NaN"
  "PInf \<le> x \<longleftrightarrow> x = PInf" "x \<le> NInf \<longleftrightarrow> x = NInf"
  by (cases x; simp)+

lemma num_refl [simp]: "x \<le> x \<longleftrightarrow> x \<noteq> NaN" for x :: "'p jsnum"
  by (cases x) simp_all

lemma num_trans: "x \<le> y \<Longrightarrow> y \<le> z \<Longrightarrow> x \<le> z" for x :: "'p jsnum"
  by (cases x; cases y; cases z) auto

lemma num_antisym: "x \<le> y \<Longrightarrow> y \<le> x \<Longrightarrow> x = y" for x :: "'p jsnum"
  by (cases x; cases y) auto

lemma num_total: "x \<noteq> NaN \<Longrightarrow> y \<noteq> NaN \<Longrightarrow> x \<le> y \<or> y \<le> x" for x :: "'p jsnum"
  by (cases x; cases y) auto

lemma num_not_le: "x \<noteq> NaN \<Longrightarrow> y \<noteq> NaN \<Longrightarrow> \<not> x \<le> y \<longleftrightarrow> y < x" for x :: "'p jsnum"
  by (cases x; cases y) (auto simp: less_jsnum_def)

lemma num_not_less: "x \<noteq> NaN \<Longrightarrow> y \<noteq> NaN \<Longrightarrow> \<not> x < y \<longleftrightarrow> y \<le> x" for x :: "'p jsnum"
  by (cases x; cases y) (auto simp: less_jsnum_def)

lemma num_less_imp_le: "x < y \<Longrightarrow> x \<le> y" for x :: "'p jsnum"
  by (simp add: less_jsnum_def)

lemma num_less_le_trans: "x < y \<Longrightarrow> y \<le> z \<Longrightarrow> x < z" for x :: "'p jsnum"
  by (cases x; cases y; cases z) (auto simp: less_jsnum_def)

lemma num_le_less_trans: "x \<le> y \<Longrightarrow> y < z \<Longrightarrow> x < z" for x :: "'p jsnum"
  by (cases x; cases y; cases z) (auto simp: less_jsnum_def)

lemma num_le_not_NaN: "x \<le> y \<Longrightarrow> x \<noteq> NaN \<and> y \<noteq> NaN" for x :: "'p jsnum"
  by auto

section \<open>Rounding a literal\<close>

lemma lit_cases:
  fixes r :: rat
  obtains "(lit r :: ('p::len0) jsnum) = Fin (rnd LENGTH('p) r)"
  | "(lit r :: 'p jsnum) = PInf" "0 < r" "LENGTH('p) \<noteq> 0" "1024 \<le> ilog2 (rnd LENGTH('p) r)" "0 < rnd LENGTH('p) r"
  | "(lit r :: 'p jsnum) = NInf" "r < 0" "LENGTH('p) \<noteq> 0" "1024 \<le> ilog2 (- rnd LENGTH('p) r)" "rnd LENGTH('p) r < 0"
proof -
  have pos: "0 < rnd LENGTH('p) r \<Longrightarrow> 0 < r" using rnd_mono [of r 0 "LENGTH('p)"] by force
  have neg: "rnd LENGTH('p) r < 0 \<Longrightarrow> r < 0" using rnd_mono [of 0 r "LENGTH('p)"] by force
  show ?thesis using that pos neg by (force simp: lit_def Let_def split: if_splits)
qed

lemma lit_0 [simp]: "lit 0 = Fin 0"
  by (simp add: lit_def)

lemma lit_mono [js_order]: "a \<le> b \<Longrightarrow> lit a \<le> (lit b :: ('p::len0) jsnum)"
proof -
  assume ab: "a \<le> b"
  let ?f = "rnd LENGTH('p)"
  have m: "?f a \<le> ?f b" using ab by (rule rnd_mono)
  show ?thesis
  proof (rule lit_cases [where 'p = 'p and r = a]; rule lit_cases [where 'p = 'p and r = b])
    assume A: "lit a = (PInf :: 'p jsnum)" "LENGTH('p) \<noteq> 0" "1024 \<le> ilog2 (?f a)" "0 < ?f a"
      and B: "lit b = (Fin (?f b) :: 'p jsnum)"
    have "1024 \<le> ilog2 (?f b)" "0 < ?f b" using A m ilog2_mono [of "?f a" "?f b"] by auto
    then have "lit b = (PInf :: 'p jsnum)" using A by (simp add: lit_def Let_def)
    then show ?thesis by simp
  next
    assume A: "lit a = (Fin (?f a) :: 'p jsnum)"
      and B: "lit b = (NInf :: 'p jsnum)" "LENGTH('p) \<noteq> 0" "1024 \<le> ilog2 (- ?f b)" "?f b < 0"
    have "1024 \<le> ilog2 (- ?f a)" "?f a < 0" using B m ilog2_mono [of "- ?f b" "- ?f a"] by auto
    then have "lit a = (NInf :: 'p jsnum)" using B by (simp add: lit_def Let_def)
    then show ?thesis using B by simp
  qed (use ab m in auto)
qed

lemma lit_nonneg [js_order]: "0 \<le> a \<Longrightarrow> Fin 0 \<le> lit a"
  using lit_mono [of 0 a] by simp

lemma lit_nonpos [js_order]: "a \<le> 0 \<Longrightarrow> lit a \<le> Fin 0"
  using lit_mono [of a 0] by simp

lemma lit_uminus: "- lit r = lit (- r)"
  by (simp add: lit_def Let_def rnd_minus)

lemma lit_is_fin:
  assumes "\<bar>r\<bar> \<le> 2 ^ 1000"
  shows "(lit r :: ('p::len0) jsnum) = Fin (rnd LENGTH('p) r)"
proof (rule lit_cases [where 'p = 'p and r = r])
  have big: "s \<le> pow2 1000 \<Longrightarrow> 0 < rnd LENGTH('p) s \<Longrightarrow> ilog2 (rnd LENGTH('p) s) < 1024" for s
  proof -
    assume s: "s \<le> pow2 1000" "0 < rnd LENGTH('p) s"
    have "pow2 (ilog2 (rnd LENGTH('p) s)) \<le> rnd LENGTH('p) s" using s ilog2_bounds by blast
    also have "\<dots> \<le> pow2 1000" using rnd_mono [OF s(1), of "LENGTH('p)"] rnd_pow2 [of 1000] by simp
    finally have "ilog2 (rnd LENGTH('p) s) \<le> 1000"
      by (metis linorder_not_less pow2_less_iff)
    then show ?thesis by simp
  qed
  have r: "r \<le> pow2 1000" "- r \<le> pow2 1000" using assms by (simp_all add: pow2_def abs_le_iff)
  show "lit r = (PInf :: 'p jsnum) \<Longrightarrow> 1024 \<le> ilog2 (rnd LENGTH('p) r) \<Longrightarrow> 0 < rnd LENGTH('p) r \<Longrightarrow> ?thesis"
    using big [OF r(1)] by simp
  show "lit r = (NInf :: 'p jsnum) \<Longrightarrow> 1024 \<le> ilog2 (- rnd LENGTH('p) r) \<Longrightarrow> rnd LENGTH('p) r < 0 \<Longrightarrow> ?thesis"
    using big [OF r(2)] by (simp add: rnd_minus)
qed simp_all

lemma lit_int:
  assumes "\<bar>n\<bar> \<le> 2 ^ LENGTH('p)" "\<bar>n\<bar> \<le> 2 ^ 1000"
  shows "(lit (of_int n) :: ('p::len0) jsnum) = Fin (of_int n)"
proof -
  have "\<bar>of_int n\<bar> \<le> (2::rat) ^ 1000"
    using assms(2) by (metis of_int_abs of_int_le_iff of_int_numeral of_int_power)
  then show ?thesis using assms(1) by (simp add: lit_is_fin rnd_int)
qed

lemma lit_le_PInf [simp]: "lit r \<le> PInf" "NInf \<le> lit r"
  by simp_all

section \<open>Arithmetic laws that hold at every precision\<close>

lemma NaN_plus [simp]: "NaN + x = NaN" "x + NaN = NaN"
  by (cases x; simp)+

lemma NaN_minus [simp]: "NaN - x = NaN" "x - NaN = NaN"
  by (simp_all add: minus_jsnum_def)

lemma NaN_times [simp]: "NaN * x = NaN" "x * NaN = NaN"
  by (cases x; simp)+

lemma Fin_minus [simp]: "Fin a - Fin b = lit (a - b)"
  by (simp add: minus_jsnum_def)

lemma num_add_mono [js_order]:
  "a \<le> b \<Longrightarrow> c \<le> d \<Longrightarrow> a + c \<noteq> NaN \<Longrightarrow> b + d \<noteq> NaN \<Longrightarrow> a + c \<le> b + d" for a :: "('p::len0) jsnum"
  by (cases a; cases b; cases c; cases d) (simp_all add: lit_mono)

lemma num_uminus_le [simp]: "- x \<le> - y \<longleftrightarrow> y \<le> x" for x :: "'p jsnum"
  by (cases x; cases y) simp_all

lemma num_uminus_NaN [simp]: "- x = NaN \<longleftrightarrow> x = NaN" for x :: "'p jsnum"
  by (cases x) simp_all

lemma num_uminus_uminus [simp]: "- (- x) = x" for x :: "'p jsnum"
  by (cases x) simp_all

lemma num_diff_nonneg [js_order]:
  "y \<le> x \<Longrightarrow> x - y \<noteq> NaN \<Longrightarrow> Fin 0 \<le> x - y" for x :: "('p::len0) jsnum"
  by (cases x; cases y) (simp_all add: minus_jsnum_def lit_nonneg)

lemma num_diff_mono [js_order]:
  "a \<le> b \<Longrightarrow> d \<le> c \<Longrightarrow> a - c \<noteq> NaN \<Longrightarrow> b - d \<noteq> NaN \<Longrightarrow> a - c \<le> b - d" for a :: "('p::len0) jsnum"
  unfolding minus_jsnum_def by (rule num_add_mono) simp_all

lemma num_add_nonneg [js_order]:
  "Fin 0 \<le> x \<Longrightarrow> Fin 0 \<le> y \<Longrightarrow> Fin 0 \<le> x + y" for x :: "('p::len0) jsnum"
  by (cases x; cases y) (simp_all add: lit_nonneg)

lemma num_mult_nonneg [js_order]:
  "Fin 0 \<le> x \<Longrightarrow> Fin 0 \<le> y \<Longrightarrow> x * y \<noteq> NaN \<Longrightarrow> Fin 0 \<le> x * y" for x :: "('p::len0) jsnum"
  by (cases x; cases y) (auto simp: lit_nonneg split: if_splits)

lemma num_divide_nonneg [js_order]:
  "Fin 0 \<le> x \<Longrightarrow> Fin 0 \<le> y \<Longrightarrow> x / y \<noteq> NaN \<Longrightarrow> Fin 0 \<le> x / y" for x :: "('p::len0) jsnum"
  by (cases x; cases y) (auto simp: lit_nonneg split: if_splits)

lemma num_abs_nonneg [js_order]: "x \<noteq> NaN \<Longrightarrow> Fin 0 \<le> \<bar>x\<bar>" for x :: "'p jsnum"
  by (cases x) simp_all

lemma num_abs_NaN [simp]: "\<bar>x\<bar> = NaN \<longleftrightarrow> x = NaN" for x :: "'p jsnum"
  by (cases x) simp_all

lemma num_diff_self: "is_fin x \<Longrightarrow> x - x = Fin 0" for x :: "('p::len0) jsnum"
  by (cases x) simp_all

lemma num_minus_plus_self: "is_fin x \<Longrightarrow> x + - x = Fin 0" for x :: "('p::len0) jsnum"
  by (cases x) simp_all

lemma num_add_commute: "x + y = y + x" for x :: "('p::len0) jsnum"
  by (cases x; cases y) (simp_all add: add.commute)

section \<open>Minimum, maximum, clamping, rounding\<close>

lemma jmax_Fin [simp]: "jmax (Fin a) (Fin b) = Fin (max a b)"
  by (simp add: jmax_def max_def)

lemma jmin_Fin [simp]: "jmin (Fin a) (Fin b) = Fin (min a b)"
  by (simp add: jmin_def min_def)

lemma jmax_NaN [simp]: "jmax x y = NaN \<longleftrightarrow> x = NaN \<or> y = NaN"
  by (simp add: jmax_def)

lemma jmin_NaN [simp]: "jmin x y = NaN \<longleftrightarrow> x = NaN \<or> y = NaN"
  by (simp add: jmin_def)

lemma jmax_ge1 [js_order]: "x \<noteq> NaN \<Longrightarrow> y \<noteq> NaN \<Longrightarrow> x \<le> jmax x y"
  using num_total [of x y] by (simp add: jmax_def)

lemma jmax_ge2 [js_order]: "x \<noteq> NaN \<Longrightarrow> y \<noteq> NaN \<Longrightarrow> y \<le> jmax x y"
  using num_total [of x y] by (auto simp: jmax_def)

lemma jmin_le1 [js_order]: "x \<noteq> NaN \<Longrightarrow> y \<noteq> NaN \<Longrightarrow> jmin x y \<le> x"
  using num_total [of x y] by (auto simp: jmin_def)

lemma jmin_le2 [js_order]: "x \<noteq> NaN \<Longrightarrow> y \<noteq> NaN \<Longrightarrow> jmin x y \<le> y"
  using num_total [of x y] by (auto simp: jmin_def)

lemma jmax_least [js_order]: "x \<le> z \<Longrightarrow> y \<le> z \<Longrightarrow> jmax x y \<le> z"
  by (auto simp: jmax_def)

lemma jmin_greatest [js_order]: "z \<le> x \<Longrightarrow> z \<le> y \<Longrightarrow> z \<le> jmin x y"
  by (auto simp: jmin_def)

lemma jmax_absorb: "y \<le> x \<Longrightarrow> jmax x y = x" "x \<le> y \<Longrightarrow> jmax x y = y"
  by (auto simp: jmax_def intro: num_antisym)

lemma jmin_absorb: "x \<le> y \<Longrightarrow> jmin x y = x" "y \<le> x \<Longrightarrow> jmin x y = y"
  by (auto simp: jmin_def intro: num_antisym)

lemma jmax_0_nonneg [js_order]: "x \<noteq> NaN \<Longrightarrow> Fin 0 \<le> jmax (Fin 0) x"
  by (rule jmax_ge1) auto

lemma clamp_Fin [simp]: "clamp (Fin x) (Fin lo) (Fin hi) = Fin (min hi (max lo x))"
  by (simp add: clamp_def)

lemma clamp_NaN [simp]: "clamp x lo hi = NaN \<longleftrightarrow> x = NaN \<or> lo = NaN \<or> hi = NaN"
  by (auto simp: clamp_def)

lemma clamp_bounds [js_order]:
  assumes "lo \<le> hi" "x \<noteq> NaN"
  shows "lo \<le> clamp x lo hi" "clamp x lo hi \<le> hi"
  using assms num_total [of x hi] num_total [of x lo]
  by (auto simp: clamp_def intro!: jmin_greatest jmax_ge1 jmin_le1)

lemma clamp_id: "lo \<le> x \<Longrightarrow> x \<le> hi \<Longrightarrow> clamp x lo hi = x"
  by (simp add: clamp_def jmax_absorb jmin_absorb)

lemma clamp_is_fin: "is_fin lo \<Longrightarrow> is_fin hi \<Longrightarrow> x \<noteq> NaN \<Longrightarrow> is_fin (clamp x lo hi)"
  by (cases x; cases lo; cases hi) (simp_all add: clamp_def jmin_def jmax_def)

lemma jround_mono [js_order]: "x \<le> y \<Longrightarrow> jround x \<le> jround y"
  by (cases x; cases y) (auto intro!: lit_mono floor_mono)

lemma jround_NaN [simp]: "jround x = NaN \<longleftrightarrow> x = NaN"
  by (cases x) simp_all

lemma floor_half [simp]: "\<lfloor>1 / 2 :: rat\<rfloor> = 0"
  by (simp add: floor_eq_iff)

lemma jround_0: "jround (Fin 0) = Fin 0"
  by simp

lemma jround_nonneg [js_order]: "Fin 0 \<le> x \<Longrightarrow> Fin 0 \<le> jround x"
  using jround_mono [of "Fin 0" x] by (simp add: jround_0 del: jround.simps)

lemma jfloor_mono [js_order]: "x \<le> y \<Longrightarrow> jfloor x \<le> jfloor y"
  by (cases x; cases y) (auto intro!: lit_mono floor_mono)

lemma jfloor_NaN [simp]: "jfloor x = NaN \<longleftrightarrow> x = NaN"
  by (cases x) simp_all

lemma jmaxs_Nil [simp]: "jmaxs [] = NInf"
  by (simp add: jmaxs_def)

lemma jmaxs_snoc [simp]: "jmaxs (xs @ [x]) = jmax (jmaxs xs) x"
  by (simp add: jmaxs_def)

lemma jmins_snoc [simp]: "jmins (xs @ [x]) = jmin (jmins xs) x"
  by (simp add: jmins_def)

lemma jmaxs_NaN: "jmaxs xs = NaN \<longleftrightarrow> NaN \<in> set xs"
  by (induction xs rule: rev_induct) auto

lemma jmins_NaN: "jmins xs = NaN \<longleftrightarrow> NaN \<in> set xs"
  by (induction xs rule: rev_induct) (auto simp: jmins_def)

lemma jmaxs_ge: "NaN \<notin> set xs \<Longrightarrow> x \<in> set xs \<Longrightarrow> x \<le> jmaxs xs"
proof (induction xs rule: rev_induct)
  case (snoc y xs)
  have n: "jmaxs xs \<noteq> NaN" "y \<noteq> NaN" using snoc.prems by (auto simp: jmaxs_NaN)
  from snoc show ?case
    using jmax_ge1 [OF n] jmax_ge2 [OF n] by (auto intro: num_trans)
qed simp

lemma jmins_le: "NaN \<notin> set xs \<Longrightarrow> x \<in> set xs \<Longrightarrow> jmins xs \<le> x"
proof (induction xs rule: rev_induct)
  case (snoc y xs)
  have n: "jmins xs \<noteq> NaN" "y \<noteq> NaN" using snoc.prems by (auto simp: jmins_NaN)
  from snoc show ?case
    using jmin_le1 [OF n] jmin_le2 [OF n] by (auto intro: num_trans)
qed simp

lemma jmaxs_least: "(\<And>x. x \<in> set xs \<Longrightarrow> x \<le> z) \<Longrightarrow> z \<noteq> NaN \<Longrightarrow> jmaxs xs \<le> z"
  by (induction xs rule: rev_induct) (auto intro: jmax_least)

lemma jmaxs_in: "xs \<noteq> [] \<Longrightarrow> NaN \<notin> set xs \<Longrightarrow> jmaxs xs \<in> set xs"
proof (induction xs rule: rev_induct)
  case (snoc x xs)
  show ?case
  proof (cases xs)
    case Nil
    then show ?thesis using snoc.prems by (cases x) (auto simp: jmaxs_def jmax_def)
  next
    case Cons
    then have "jmaxs xs \<in> set xs" using snoc by auto
    then show ?thesis by (simp add: jmax_def) (use snoc.prems in \<open>auto simp: jmaxs_NaN\<close>)
  qed
qed simp

section \<open>Sums\<close>

lemma jsum_Nil [simp]: "jsum [] = Fin 0"
  by (simp add: jsum_def)

lemma jsum_snoc [simp]: "jsum (xs @ [x]) = jsum xs + x"
  by (simp add: jsum_def)

lemma jsum_nonneg: "(\<And>x. x \<in> set xs \<Longrightarrow> Fin 0 \<le> x) \<Longrightarrow> Fin 0 \<le> jsum xs"
  by (induction xs rule: rev_induct) (auto intro: num_add_nonneg)

section \<open>Exact arithmetic\<close>

lemma jsum_exact [js_exact]: "jsum (map Fin rs) = (Fin (sum_list rs) :: exact)"
  by (induction rs rule: rev_induct) simp_all

lemma jsum_exact_map: "(\<And>x. x \<in> set xs \<Longrightarrow> f x = (Fin (g x) :: exact)) \<Longrightarrow> jsum (map f xs) = Fin (\<Sum>x\<leftarrow>xs. g x)"
  using jsum_exact [of "map g xs"] by (simp add: comp_def cong: map_cong)

lemmas exact_eval = js_exact zero_jsnum_def one_jsnum_def jmax_Fin jmin_Fin clamp_Fin

section \<open>Representable numbers\<close>

text \<open>A number of the model may be a rational that no double is; the results of arithmetic are not
  of that kind, and adding a nonnegative number to one of them does not decrease it.\<close>

definition representable :: "('p::len0) jsnum \<Rightarrow> bool" where
  "representable x = (case x of Fin r \<Rightarrow> (lit r :: 'p jsnum) = Fin r | _ \<Rightarrow> True)"

lemma representable_simps [simp]: "representable NaN" "representable PInf" "representable NInf" "representable (Fin 0)"
  by (simp_all add: representable_def)

lemma representable_lit [simp]: "representable (lit r)"
proof (cases "(lit r :: 'a jsnum)")
  case (Fin v)
  then have "v = rnd LENGTH('a) r" using lit_cases [where r = r and 'p = 'a] by (metis jsnum.distinct(1,3) jsnum.inject)
  then have "rnd LENGTH('a) v = v" by (simp add: rnd_idem)
  then have "(lit v :: 'a jsnum) = Fin v"
    using Fin by (auto simp: lit_def Let_def abs_if split: if_splits)
  then show ?thesis using Fin by (simp add: representable_def)
qed simp_all

lemma representable_one [simp]: "representable (1 :: ('p::len0) jsnum)"
proof -
  have "(lit (of_int 1) :: 'p jsnum) = Fin (of_int 1)" by (rule lit_int) simp_all
  then show ?thesis by (simp add: representable_def)
qed

lemma representable_Fin_1 [simp]:
  "representable (Fin 1 :: ('p::len0) jsnum)" "representable (Fin (- 1) :: ('p::len0) jsnum)"
  using lit_int [of 1, where 'p = 'p] lit_int [of "- 1", where 'p = 'p] by (simp_all add: representable_def)

lemma representable_add [simp]: "representable (x + y)"
  by (cases x; cases y) simp_all

lemma representable_mult [simp]: "representable (x * y)"
  by (cases x; cases y) simp_all

lemma representable_uminus [simp]: "representable (- x) = representable x"
proof (cases x)
  case (Fin r)
  have "(lit (- r) :: 'a jsnum) = Fin (- r) \<longleftrightarrow> (lit r :: 'a jsnum) = Fin r"
    by (metis lit_uminus num_uminus_uminus uminus_jsnum.simps(1))
  then show ?thesis using Fin by (simp add: representable_def)
qed simp_all

lemma num_le_add [js_order]:
  assumes "representable x" "x + y \<noteq> NaN" "Fin 0 \<le> y" shows "x \<le> x + y"
proof (cases x; cases y)
  fix a b assume "x = Fin a" "y = Fin b"
  then show ?thesis using assms lit_mono [of a "a + b", where 'p = 'a] by (simp add: representable_def)
qed (use assms in auto)

lemma num_leD: "x \<le> y \<Longrightarrow> \<not> y < x" for x :: "'p jsnum"
  using num_antisym [of x y] by (auto simp: less_jsnum_def)

lemma num_diff_pos_imp_less: "Fin 0 < u - v \<Longrightarrow> v < u" for u :: "('p::len0) jsnum"
proof (cases u; cases v)
  fix a b assume uv: "u = Fin a" "v = Fin b" and pos: "Fin 0 < u - v"
  show "v < u"
  proof (rule ccontr)
    assume "\<not> v < u"
    then have "u - v \<le> Fin 0" using uv by (simp add: lit_nonpos)
    then show False using pos num_leD by blast
  qed
qed (simp_all add: minus_jsnum_def)

end
