(* ===== verification/Formula.thy ===== *)
theory Formula
  imports JsNumber "HOL-Library.Char_ord" "HOL-Library.List_Lexorder"
begin

text \<open>
  The formula language of \<^verbatim>\<open>packages/engine/src/model/formula.ts\<close>: the check that a parsed
  expression uses only allowed constructs, and the evaluator.

  The parser is the package acorn, a parameter of \<open>compileFormula\<close>. A node is a
  constructor per ESTree type that the two functions distinguish; every other type is
  \<open>OtherNode\<close> with its name. The accessors that test the presence of a node's fields are the
  constructor patterns, so their \<^verbatim>\<open>malformed AST\<close> errors do not occur.
\<close>

section \<open>Syntax trees, namespaces, errors\<close>

datatype 'p fvalue = NumV "'p jsnum" | BoolV bool | OtherV string

datatype 'p fnode =
    Literal "'p fvalue"
  | Identifier string
  | BinaryExpression string "'p fnode" "'p fnode"
  | UnaryExpression string "'p fnode"
  | LogicalExpression string "'p fnode" "'p fnode"
  | ConditionalExpression "'p fnode" "'p fnode" "'p fnode"
  | CallExpression "'p fnode" "'p fnode list"
  | OtherNode string

datatype 'p ferror =
    FormulaEmpty
  | FormulaTooLong nat
  | SyntaxFailure string
  | TrailingInput
  | TooComplex nat
  | NodeNotAllowed string
  | ConstantNotAllowed string
  | BinaryNotAllowed string
  | UnaryNotAllowed string
  | LogicalNotAllowed string
  | OnlyDirectCalls
  | FunctionNotAllowed string
  | PrivateName string
  | UnknownVariables "string list" "string list"
  | CallDepthExceeded nat
  | CompareNotAllowed string
  | FunctionAsValue string
  | UnknownVariable string
  | VariableNotFinite string
  | ResultNotFinite
  | DivisionByZero
  | SqrtDomain "'p jsnum"
  | LogDomain "'p jsnum"
  | ClipOrder "'p jsnum" "'p jsnum"
  | PowLimit "'p jsnum"
  | HostTypeError string

fun node_type :: "'p fnode \<Rightarrow> string" where
  "node_type (Literal _) = ''Literal''"
| "node_type (Identifier _) = ''Identifier''"
| "node_type (BinaryExpression _ _ _) = ''BinaryExpression''"
| "node_type (UnaryExpression _ _) = ''UnaryExpression''"
| "node_type (LogicalExpression _ _ _) = ''LogicalExpression''"
| "node_type (ConditionalExpression _ _ _) = ''ConditionalExpression''"
| "node_type (CallExpression _ _) = ''CallExpression''"
| "node_type (OtherNode ty) = ty"

text \<open>All but \<open>HostTypeError\<close> are \<^verbatim>\<open>FormulaError\<close>s; that one is a \<^verbatim>\<open>TypeError\<close> of the host.\<close>

type_synonym 'p namespace = "(string \<times> 'p fvalue) list"

text \<open>The functions of \<^verbatim>\<open>Math\<close> whose results ECMAScript leaves to the implementation.\<close>

record 'p mathlib =
  m_sqrt :: "'p jsnum \<Rightarrow> 'p jsnum"
  m_log :: "'p jsnum \<Rightarrow> 'p jsnum"
  m_exp :: "'p jsnum \<Rightarrow> 'p jsnum"
  m_pow :: "'p jsnum \<Rightarrow> 'p jsnum \<Rightarrow> 'p jsnum"

definition MAX_EXPR_LEN :: nat where "MAX_EXPR_LEN = 2000"
definition MAX_AST_NODES :: nat where "MAX_AST_NODES = 200"
definition MAX_CALL_DEPTH :: nat where "MAX_CALL_DEPTH = 5"

definition allowedBinaryOps :: "string list" where
  "allowedBinaryOps = [''+'', ''-'', ''*'', ''/'', ''%'', ''**'']"

definition allowedCompareOps :: "string list" where
  "allowedCompareOps = [''<'', ''<='', ''>'', ''>='', ''=='', ''==='', ''!='', ''!=='']"

definition allowedUnaryOps :: "string list" where
  "allowedUnaryOps = [''+'', ''-'', ''!'']"

definition bannedNodeTypes :: "string list" where
  "bannedNodeTypes =
     [''MemberExpression'', ''ImportExpression'', ''FunctionExpression'',
      ''ArrowFunctionExpression'', ''NewExpression'', ''ClassExpression'', ''ObjectExpression'',
      ''ArrayExpression'', ''SequenceExpression'', ''AssignmentExpression'', ''UpdateExpression'',
      ''AwaitExpression'', ''YieldExpression'', ''TaggedTemplateExpression'', ''TemplateLiteral'']"

text \<open>
  \<^verbatim>\<open>allowedFunctions[name]\<close> on an object literal finds the object's own entries and, behind
  them, the properties of \<^verbatim>\<open>Object.prototype\<close>.
\<close>

definition own_functions :: "string list" where
  "own_functions = [''min'', ''max'', ''abs'', ''sqrt'', ''log'', ''exp'', ''clip'', ''pow'']"

definition object_prototype :: "string list" where
  "object_prototype =
     [''constructor'', ''hasOwnProperty'', ''isPrototypeOf'', ''propertyIsEnumerable'',
      ''toLocaleString'', ''toString'', ''valueOf'', ''__proto__'', ''__defineGetter__'',
      ''__defineSetter__'', ''__lookupGetter__'', ''__lookupSetter__'']"

definition allowedFunctions :: "string \<Rightarrow> bool" where
  "allowedFunctions name = (name \<in> set own_functions \<or> name \<in> set object_prototype)"

section \<open>Validation\<close>

fun substring_dunder :: "string \<Rightarrow> bool" where
  "substring_dunder (a # b # cs) = ((a = CHR ''_'' \<and> b = CHR ''_'') \<or> substring_dunder (b # cs))"
| "substring_dunder _ = False"

definition private_name :: "string \<Rightarrow> bool" where
  "private_name name = ((name \<noteq> [] \<and> hd name = CHR ''_'') \<or> substring_dunder name)"

definition validateName :: "string \<Rightarrow> 'p ferror + unit" where
  "validateName name = (if private_name name then Inl (PrivateName name) else Inr ())"

definition set_add :: "'a \<Rightarrow> 'a list \<Rightarrow> 'a list" where
  "set_add x xs = (if x \<in> set xs then xs else xs @ [x])"

lemma set_set_add [simp]: "set (set_add x xs) = insert x (set xs)"
  by (auto simp: set_add_def)

text \<open>The set of free variables and the node counter are passed along; the set is a list
  in insertion order.\<close>

type_synonym vstate = "string list \<times> nat"

fun validate :: "'p fnode \<Rightarrow> vstate \<Rightarrow> 'p ferror + vstate"
  and validate_args :: "'p fnode list \<Rightarrow> vstate \<Rightarrow> 'p ferror + vstate" where
  "validate node (freeVars, count) =
     (let count = count + 1 in
      if MAX_AST_NODES < count then Inl (TooComplex count)
      else if node_type node \<in> set bannedNodeTypes then Inl (NodeNotAllowed (node_type node))
      else (case node of
        Literal v \<Rightarrow>
          (case v of OtherV ty \<Rightarrow> Inl (ConstantNotAllowed ty) | _ \<Rightarrow> Inr (freeVars, count))
      | Identifier name \<Rightarrow>
          ebind (validateName name) (\<lambda>_.
            Inr (if allowedFunctions name then freeVars else set_add name freeVars, count))
      | BinaryExpression operator l r \<Rightarrow>
          (if operator \<notin> set allowedBinaryOps \<and> operator \<notin> set allowedCompareOps
           then Inl (BinaryNotAllowed operator)
           else ebind (validate l (freeVars, count)) (\<lambda>st. validate r st))
      | UnaryExpression operator a \<Rightarrow>
          (if operator \<notin> set allowedUnaryOps then Inl (UnaryNotAllowed operator)
           else validate a (freeVars, count))
      | LogicalExpression operator l r \<Rightarrow>
          (if operator \<noteq> ''&&'' \<and> operator \<noteq> ''||'' then Inl (LogicalNotAllowed operator)
           else ebind (validate l (freeVars, count)) (\<lambda>st. validate r st))
      | ConditionalExpression t c a \<Rightarrow>
          ebind (validate t (freeVars, count)) (\<lambda>st. ebind (validate c st) (\<lambda>st. validate a st))
      | CallExpression callee args \<Rightarrow>
          (case callee of
            Identifier name \<Rightarrow>
              ebind (validateName name) (\<lambda>_.
                if \<not> allowedFunctions name then Inl (FunctionNotAllowed name)
                else validate_args args (freeVars, count))
          | _ \<Rightarrow> Inl OnlyDirectCalls)
      | OtherNode ty \<Rightarrow> Inl (NodeNotAllowed ty)))"
| "validate_args [] st = Inr st"
| "validate_args (a # as) st = ebind (validate a st) (\<lambda>st. validate_args as st)"

declare validate.simps [simp del]

section \<open>Evaluation\<close>

definition ensureFinite :: "'p jsnum \<Rightarrow> 'p ferror + 'p jsnum" where
  "ensureFinite v = (if is_fin v then Inr v else Inl ResultNotFinite)"

definition truthy :: "'p jsnum \<Rightarrow> bool" where
  "truthy v = (\<not> js_eq v 0)"

definition of_bool_js :: "bool \<Rightarrow> 'p jsnum" where
  "of_bool_js b = (if b then 1 else 0)"

text \<open>\<^verbatim>\<open>numeric\<close>; the third kind of value does not occur in a namespace of numbers and booleans.\<close>

fun numeric :: "'p fvalue \<Rightarrow> string \<Rightarrow> 'p ferror + 'p jsnum" where
  "numeric (BoolV b) name = Inr (of_bool_js b)"
| "numeric (NumV v) name = (if is_fin v then Inr v else Inl (VariableNotFinite name))"
| "numeric (OtherV _) name = Inl (VariableNotFinite name)"

definition safePow :: "('p::len0) mathlib \<Rightarrow> 'p jsnum \<Rightarrow> 'p jsnum \<Rightarrow> 'p ferror + 'p jsnum" where
  "safePow m base exponent =
     (if lit 10 < \<bar>exponent\<bar> then Inl (PowLimit exponent)
      else ensureFinite (m_pow m base exponent))"

definition js_compare :: "'p jsnum \<Rightarrow> 'p jsnum \<Rightarrow> string \<Rightarrow> 'p ferror + bool" where
  "js_compare left right operator =
     (if operator = ''<'' then Inr (left < right)
      else if operator = ''<='' then Inr (left \<le> right)
      else if operator = ''>'' then Inr (right < left)
      else if operator = ''>='' then Inr (right \<le> left)
      else if operator = ''=='' \<or> operator = ''==='' then Inr (js_eq left right)
      else if operator = ''!='' \<or> operator = ''!=='' then Inr (\<not> js_eq left right)
      else Inl (CompareNotAllowed operator))"

text \<open>A missing argument is \<^verbatim>\<open>undefined\<close>, which the numeric operations treat as \<^verbatim>\<open>NaN\<close>.\<close>

definition arg :: "'p jsnum list \<Rightarrow> nat \<Rightarrow> 'p jsnum" where
  "arg args i = (if i < length args then args ! i else NaN)"

definition call_own :: "('p::len0) mathlib \<Rightarrow> string \<Rightarrow> 'p jsnum list \<Rightarrow> 'p ferror + 'p jsnum" where
  "call_own m name args =
     (let a = arg args 0 in
      if name = ''min'' then Inr (jmins args)
      else if name = ''max'' then Inr (jmaxs args)
      else if name = ''abs'' then Inr \<bar>a\<bar>
      else if name = ''sqrt'' then (if a < 0 then Inl (SqrtDomain a) else Inr (m_sqrt m a))
      else if name = ''log'' then (if a \<le> 0 then Inl (LogDomain a) else Inr (m_log m a))
      else if name = ''exp'' then Inr (m_exp m a)
      else if name = ''clip'' then
        (let lo = arg args 1; hi = arg args 2
         in if hi < lo then Inl (ClipOrder lo hi) else Inr (jmax lo (jmin hi a)))
      else safePow m a (arg args 1))"

text \<open>
  Called as \<^verbatim>\<open>fn(...args)\<close> with no receiver, the functions of \<^verbatim>\<open>Object.prototype\<close> either return
  something that is no finite number (an object, the text \<^verbatim>\<open>[object Undefined]\<close>, \<^verbatim>\<open>false\<close>) or
  throw a \<^verbatim>\<open>TypeError\<close> because \<^verbatim>\<open>undefined\<close> cannot become an object.
\<close>

definition call_inherited :: "string \<Rightarrow> 'p ferror + 'p jsnum" where
  "call_inherited name =
     (if name \<in> {''constructor'', ''toString'', ''isPrototypeOf''} then Inl ResultNotFinite
      else Inl (HostTypeError name))"

definition callFunction :: "('p::len0) mathlib \<Rightarrow> string \<Rightarrow> 'p jsnum list \<Rightarrow> 'p ferror + 'p jsnum" where
  "callFunction m name args =
     (if name \<in> set own_functions then ebind (call_own m name args) ensureFinite
      else call_inherited name)"

definition binaryResult :: "('p::len0) mathlib \<Rightarrow> string \<Rightarrow> 'p jsnum \<Rightarrow> 'p jsnum \<Rightarrow> 'p ferror + 'p jsnum" where
  "binaryResult m operator left right =
     (if operator \<in> set allowedCompareOps
      then ebind (js_compare left right operator) (\<lambda>b. Inr (of_bool_js b))
      else if operator = ''+'' then ensureFinite (left + right)
      else if operator = ''-'' then ensureFinite (left - right)
      else if operator = ''*'' then ensureFinite (left * right)
      else if operator = ''/'' then
        (if js_eq right 0 then Inl DivisionByZero else ensureFinite (left / right))
      else if operator = ''%'' then
        (if js_eq right 0 then Inl DivisionByZero else ensureFinite (jrem left right))
      else if operator = ''**'' then safePow m left right
      else Inl (BinaryNotAllowed operator))"

fun eval_node :: "('p::len0) mathlib \<Rightarrow> 'p fnode \<Rightarrow> 'p namespace \<Rightarrow> nat \<Rightarrow> 'p ferror + 'p jsnum"
  and eval_args :: "('p::len0) mathlib \<Rightarrow> 'p fnode list \<Rightarrow> 'p namespace \<Rightarrow> nat \<Rightarrow> 'p ferror + 'p jsnum list" where
  "eval_node m node ns depth =
     (if MAX_CALL_DEPTH < depth then Inl (CallDepthExceeded depth)
      else (case node of
        Literal v \<Rightarrow>
          (case v of BoolV b \<Rightarrow> Inr (of_bool_js b)
           | NumV x \<Rightarrow> ensureFinite x
           | OtherV ty \<Rightarrow> Inl (ConstantNotAllowed ty))
      | Identifier name \<Rightarrow>
          (if allowedFunctions name then Inl (FunctionAsValue name)
           else (case map_of ns name of
                   None \<Rightarrow> Inl (UnknownVariable name)
                 | Some v \<Rightarrow> numeric v name))
      | BinaryExpression operator l r \<Rightarrow>
          ebind (eval_node m l ns depth) (\<lambda>left.
          ebind (eval_node m r ns depth) (\<lambda>right. binaryResult m operator left right))
      | UnaryExpression operator a \<Rightarrow>
          ebind (eval_node m a ns depth) (\<lambda>v.
            if operator = ''+'' then Inr v
            else if operator = ''-'' then Inr (- v)
            else if operator = ''!'' then Inr (if truthy v then 0 else 1)
            else Inl (UnaryNotAllowed operator))
      | LogicalExpression operator l r \<Rightarrow>
          ebind (eval_node m l ns depth) (\<lambda>left.
            if operator = ''&&'' then (if truthy left then eval_node m r ns depth else Inr 0)
            else if operator = ''||'' then (if truthy left then Inr 1 else eval_node m r ns depth)
            else Inl (LogicalNotAllowed operator))
      | ConditionalExpression t c a \<Rightarrow>
          ebind (eval_node m t ns depth) (\<lambda>v.
            if truthy v then eval_node m c ns depth else eval_node m a ns depth)
      | CallExpression callee args \<Rightarrow>
          (case callee of
            Identifier name \<Rightarrow>
              (if \<not> allowedFunctions name then Inl (FunctionNotAllowed name)
               else ebind (eval_args m args ns (depth + 1)) (callFunction m name))
          | _ \<Rightarrow> Inl OnlyDirectCalls)
      | OtherNode ty \<Rightarrow> Inl (NodeNotAllowed ty)))"
| "eval_args m [] ns depth = Inr []"
| "eval_args m (a # as) ns depth =
     ebind (eval_node m a ns depth) (\<lambda>v. ebind (eval_args m as ns depth) (\<lambda>vs. Inr (v # vs)))"

declare eval_node.simps [simp del]

section \<open>Compilation\<close>

definition is_space :: "char \<Rightarrow> bool" where
  "is_space c = (of_char c \<in> {9, 10, 11, 12, 13, 32, 160 :: nat})"

definition trim :: "string \<Rightarrow> string" where
  "trim s = rev (dropWhile is_space (rev (dropWhile is_space s)))"

record 'p compiledFormula =
  cf_source :: string
  cf_variables :: "string list"
  cf_root :: "'p fnode"

type_synonym 'p parser = "string \<Rightarrow> string + ('p fnode \<times> nat)"

definition compileFormula ::
    "'p parser \<Rightarrow> string \<Rightarrow> string list option \<Rightarrow> 'p ferror + 'p compiledFormula" where
  "compileFormula parseExpressionAt source allowedVars =
     (let trimmed = trim source in
      if trimmed = [] then Inl FormulaEmpty
      else if MAX_EXPR_LEN < length trimmed then Inl (FormulaTooLong (length trimmed))
      else (case parseExpressionAt trimmed of
        Inl message \<Rightarrow> Inl (SyntaxFailure message)
      | Inr (ast, parsedEnd) \<Rightarrow>
          (if trim (drop parsedEnd trimmed) \<noteq> [] then Inl TrailingInput
           else ebind (validate ast ([], 0)) (\<lambda>(freeVars, count).
             (case allowedVars of
               None \<Rightarrow> Inr \<lparr>cf_source = trimmed, cf_variables = freeVars, cf_root = ast\<rparr>
             | Some allowed \<Rightarrow>
                 (let unknown = filter (\<lambda>name. name \<notin> set allowed) freeVars in
                  if unknown \<noteq> [] then Inl (UnknownVariables (sort unknown) (sort (remdups allowed)))
                  else Inr \<lparr>cf_source = trimmed, cf_variables = freeVars, cf_root = ast\<rparr>))))))"

definition evaluate :: "('p::len0) mathlib \<Rightarrow> 'p compiledFormula \<Rightarrow> 'p namespace \<Rightarrow> 'p ferror + 'p jsnum" where
  "evaluate m cf ns = eval_node m (cf_root cf) ns 0"

section \<open>What validation accepts\<close>

text \<open>The nodes validation counts (the callee of a call is not visited), the variables it
  collects, and the shape it accepts.\<close>

fun nodes :: "'p fnode \<Rightarrow> nat" where
  "nodes (BinaryExpression _ l r) = Suc (nodes l + nodes r)"
| "nodes (UnaryExpression _ a) = Suc (nodes a)"
| "nodes (LogicalExpression _ l r) = Suc (nodes l + nodes r)"
| "nodes (ConditionalExpression t c a) = Suc (nodes t + nodes c + nodes a)"
| "nodes (CallExpression _ args) = Suc (\<Sum>a\<leftarrow>args. nodes a)"
| "nodes _ = 1"

fun idents :: "'p fnode \<Rightarrow> string set" where
  "idents (Identifier name) = (if allowedFunctions name then {} else {name})"
| "idents (BinaryExpression _ l r) = idents l \<union> idents r"
| "idents (UnaryExpression _ a) = idents a"
| "idents (LogicalExpression _ l r) = idents l \<union> idents r"
| "idents (ConditionalExpression t c a) = idents t \<union> idents c \<union> idents a"
| "idents (CallExpression _ args) = (\<Union>a \<in> set args. idents a)"
| "idents _ = {}"

fun well_formed :: "'p fnode \<Rightarrow> bool" where
  "well_formed (Literal v) = (case v of OtherV _ \<Rightarrow> False | _ \<Rightarrow> True)"
| "well_formed (Identifier name) = (\<not> private_name name)"
| "well_formed (BinaryExpression operator l r) =
     (operator \<in> set allowedBinaryOps \<union> set allowedCompareOps \<and> well_formed l \<and> well_formed r)"
| "well_formed (UnaryExpression operator a) = (operator \<in> set allowedUnaryOps \<and> well_formed a)"
| "well_formed (LogicalExpression operator l r) =
     (operator \<in> {''&&'', ''||''} \<and> well_formed l \<and> well_formed r)"
| "well_formed (ConditionalExpression t c a) = (well_formed t \<and> well_formed c \<and> well_formed a)"
| "well_formed (CallExpression callee args) =
     ((case callee of Identifier name \<Rightarrow> \<not> private_name name \<and> allowedFunctions name | _ \<Rightarrow> False)
      \<and> (\<forall>a \<in> set args. well_formed a))"
| "well_formed (OtherNode _) = False"

fun call_depth :: "'p fnode \<Rightarrow> nat" where
  "call_depth (BinaryExpression _ l r) = max (call_depth l) (call_depth r)"
| "call_depth (UnaryExpression _ a) = call_depth a"
| "call_depth (LogicalExpression _ l r) = max (call_depth l) (call_depth r)"
| "call_depth (ConditionalExpression t c a) = max (call_depth t) (max (call_depth c) (call_depth a))"
| "call_depth (CallExpression _ args) = Suc (fold max (map call_depth args) 0)"
| "call_depth _ = 0"

lemma fold_max_ge: "n \<le> fold max xs n" for n :: nat
proof (induction xs arbitrary: n)
  case (Cons x xs)
  from Cons.IH [of "max x n"] show ?case by simp
qed simp

lemma fold_max_member: "x \<in> set xs \<Longrightarrow> x \<le> fold max xs n" for n :: nat
proof (induction xs arbitrary: n)
  case (Cons y xs)
  show ?case
  proof (cases "x = y")
    case True
    have "y \<le> fold max xs (max y n)" using fold_max_ge [of "max y n" xs] by simp
    then show ?thesis using True by simp
  next
    case False
    then show ?thesis using Cons by simp
  qed
qed simp

lemma call_depth_arg:
  "a \<in> set args \<Longrightarrow> Suc (call_depth a) \<le> call_depth (CallExpression c args)"
  by (simp add: fold_max_member)

text \<open>One step of \<open>validate\<close>, per node type.\<close>

lemma validate_accepts:
  "validate (Literal v) (fv, c) = Inr st \<longleftrightarrow>
     c < MAX_AST_NODES \<and> well_formed (Literal v :: 'p fnode) \<and> st = (fv, Suc c)"
  "validate (Identifier name :: 'p fnode) (fv, c) = Inr st \<longleftrightarrow>
     c < MAX_AST_NODES \<and> \<not> private_name name \<and>
     st = (if allowedFunctions name then fv else set_add name fv, Suc c)"
  "validate (BinaryExpression op l r) (fv, c) = Inr st \<longleftrightarrow>
     c < MAX_AST_NODES \<and> op \<in> set allowedBinaryOps \<union> set allowedCompareOps \<and>
     (\<exists>fv1 c1. validate l (fv, Suc c) = Inr (fv1, c1) \<and> validate r (fv1, c1) = Inr st)"
  "validate (UnaryExpression op l) (fv, c) = Inr st \<longleftrightarrow>
     c < MAX_AST_NODES \<and> op \<in> set allowedUnaryOps \<and> validate l (fv, Suc c) = Inr st"
  "validate (LogicalExpression op l r) (fv, c) = Inr st \<longleftrightarrow>
     c < MAX_AST_NODES \<and> op \<in> {''&&'', ''||''} \<and>
     (\<exists>fv1 c1. validate l (fv, Suc c) = Inr (fv1, c1) \<and> validate r (fv1, c1) = Inr st)"
  "validate (ConditionalExpression t l r) (fv, c) = Inr st \<longleftrightarrow>
     c < MAX_AST_NODES \<and>
     (\<exists>fv1 c1 fv2 c2. validate t (fv, Suc c) = Inr (fv1, c1) \<and> validate l (fv1, c1) = Inr (fv2, c2)
        \<and> validate r (fv2, c2) = Inr st)"
  "validate (CallExpression callee args) (fv, c) = Inr st \<longleftrightarrow>
     c < MAX_AST_NODES \<and>
     (\<exists>name. callee = Identifier name \<and> \<not> private_name name \<and> allowedFunctions name
        \<and> validate_args args (fv, Suc c) = Inr st)"
  "validate (OtherNode ty) (fv, c) \<noteq> Inr st"
  by (auto simp: validate.simps Let_def validateName_def bannedNodeTypes_def not_less
      split: fvalue.splits fnode.splits)

lemma validate_args_accepts:
  "validate_args (a # as) (fv, c) = Inr st \<longleftrightarrow>
     (\<exists>fv1 c1. validate a (fv, c) = Inr (fv1, c1) \<and> validate_args as (fv1, c1) = Inr st)"
  by (auto simp: ebind_Inr_iff)

lemma validate_args_ok:
  assumes "\<And>a fv c fv' c'. a \<in> set args \<Longrightarrow> validate a (fv, c) = Inr (fv', c') \<Longrightarrow>
      well_formed a \<and> c' = c + nodes a \<and> set fv' = set fv \<union> idents a"
    and "validate_args args (fv, c) = Inr (fv', c')"
  shows "(\<forall>a \<in> set args. well_formed a) \<and> c' = c + (\<Sum>a\<leftarrow>args. nodes a)
      \<and> set fv' = set fv \<union> (\<Union>a \<in> set args. idents a)"
  using assms
proof (induction args arbitrary: fv c)
  case (Cons a args)
  then obtain fv1 c1 where 1: "validate a (fv, c) = Inr (fv1, c1)"
    and 2: "validate_args args (fv1, c1) = Inr (fv', c')" by auto
  from Cons.prems(1) [OF _ 1]
  have a: "well_formed a" "c1 = c + nodes a" "set fv1 = set fv \<union> idents a" by simp_all
  have "(\<forall>a \<in> set args. well_formed a) \<and> c' = c1 + (\<Sum>a\<leftarrow>args. nodes a)
      \<and> set fv' = set fv1 \<union> (\<Union>a \<in> set args. idents a)"
    by (rule Cons.IH [OF Cons.prems(1) 2]) simp_all
  then show ?case using a by auto
qed simp

lemma validate_ok:
  "validate node (fv, c) = Inr (fv', c') \<Longrightarrow>
     well_formed node \<and> c' = c + nodes node \<and> set fv' = set fv \<union> idents node"
proof (induction node arbitrary: fv c fv' c')
  case (CallExpression callee args)
  from CallExpression.prems obtain name where n: "callee = Identifier name" "\<not> private_name name"
      "allowedFunctions name" and v: "validate_args args (fv, Suc c) = Inr (fv', c')"
    by (auto simp: validate_accepts)
  have "(\<forall>a \<in> set args. well_formed a) \<and> c' = Suc c + (\<Sum>a\<leftarrow>args. nodes a)
      \<and> set fv' = set fv \<union> (\<Union>a \<in> set args. idents a)"
    by (rule validate_args_ok [OF _ v]) (rule CallExpression.IH(2))
  then show ?case using n by simp
next
  case (BinaryExpression op l r)
  from BinaryExpression.prems obtain fv1 c1 where v: "validate l (fv, Suc c) = Inr (fv1, c1)"
      "validate r (fv1, c1) = Inr (fv', c')" by (auto simp: validate_accepts)
  from BinaryExpression.IH(1) [OF v(1)] BinaryExpression.IH(2) [OF v(2)] BinaryExpression.prems show ?case
    by (auto simp: validate_accepts)
next
  case (LogicalExpression op l r)
  from LogicalExpression.prems obtain fv1 c1 where v: "validate l (fv, Suc c) = Inr (fv1, c1)"
      "validate r (fv1, c1) = Inr (fv', c')" by (auto simp: validate_accepts)
  from LogicalExpression.IH(1) [OF v(1)] LogicalExpression.IH(2) [OF v(2)] LogicalExpression.prems show ?case
    by (auto simp: validate_accepts)
next
  case (ConditionalExpression t l r)
  from ConditionalExpression.prems obtain fv1 c1 fv2 c2 where v: "validate t (fv, Suc c) = Inr (fv1, c1)"
      "validate l (fv1, c1) = Inr (fv2, c2)" "validate r (fv2, c2) = Inr (fv', c')"
    by (auto simp: validate_accepts)
  from ConditionalExpression.IH(1) [OF v(1)] ConditionalExpression.IH(2) [OF v(2)]
    ConditionalExpression.IH(3) [OF v(3)] show ?case by auto
next
  case (UnaryExpression op l)
  from UnaryExpression.prems have v: "validate l (fv, Suc c) = Inr (fv', c')" "op \<in> set allowedUnaryOps"
    by (auto simp: validate_accepts)
  from UnaryExpression.IH [OF v(1)] v(2) show ?case by simp
qed (auto simp: validate_accepts)

lemma validate_within: "validate node (fv, c) = Inr (fv', c') \<Longrightarrow> c' \<le> MAX_AST_NODES"
proof (induction node arbitrary: fv c fv' c')
  case (CallExpression callee args)
  have args: "c' \<le> MAX_AST_NODES"
    if "validate_args as (fv, c) = Inr (fv', c')" "c \<le> MAX_AST_NODES" "set as \<subseteq> set args" for as fv c
    using that
  proof (induction as arbitrary: fv c)
    case (Cons a as)
    then obtain fv1 c1 where 1: "validate a (fv, c) = Inr (fv1, c1)"
      and 2: "validate_args as (fv1, c1) = Inr (fv', c')" by auto
    have "c1 \<le> MAX_AST_NODES" using CallExpression.IH(2) [OF _ 1] Cons.prems(3) by simp
    then show ?case using Cons.IH [OF 2] Cons.prems(3) by simp
  qed simp
  from CallExpression.prems have "Suc c \<le> MAX_AST_NODES" "validate_args args (fv, Suc c) = Inr (fv', c')"
    by (auto simp: validate_accepts)
  then show ?case using args by blast
qed (auto simp: validate_accepts)

lemma nodes_pos [simp]: "0 < nodes node"
  by (cases node) auto

lemma validate_complete:
  "well_formed node \<Longrightarrow> c + nodes node \<le> MAX_AST_NODES \<Longrightarrow>
     \<exists>fv'. validate node (fv, c) = Inr (fv', c + nodes node)"
proof (induction node arbitrary: fv c)
  case (CallExpression callee args)
  have args: "(\<forall>a \<in> set args. well_formed a) \<Longrightarrow> c + (\<Sum>a\<leftarrow>args. nodes a) \<le> MAX_AST_NODES
      \<Longrightarrow> \<exists>fv'. validate_args args (fv, c) = Inr (fv', c + (\<Sum>a\<leftarrow>args. nodes a))" for fv c
    using CallExpression.IH(2)
  proof (induction args arbitrary: fv c)
    case (Cons a args)
    then obtain fv1 where 1: "validate a (fv, c) = Inr (fv1, c + nodes a)" by fastforce
    have "\<exists>fv'. validate_args args (fv1, c + nodes a) = Inr (fv', c + nodes a + (\<Sum>a\<leftarrow>args. nodes a))"
      using Cons.prems by (intro Cons.IH) auto
    then show ?case using 1 by (auto simp: add.assoc)
  qed simp
  from CallExpression.prems args [of "Suc c" fv] show ?case
    by (auto simp: validate_accepts split: fnode.splits)
next
  case (BinaryExpression op l r)
  from BinaryExpression.IH(1) [of "Suc c" fv] BinaryExpression.prems
  obtain fv1 where 1: "validate l (fv, Suc c) = Inr (fv1, Suc c + nodes l)" by auto
  from BinaryExpression.IH(2) [of "Suc c + nodes l" fv1] BinaryExpression.prems 1
  show ?case by (auto simp: validate_accepts add.assoc)
next
  case (LogicalExpression op l r)
  from LogicalExpression.IH(1) [of "Suc c" fv] LogicalExpression.prems
  obtain fv1 where 1: "validate l (fv, Suc c) = Inr (fv1, Suc c + nodes l)" by auto
  from LogicalExpression.IH(2) [of "Suc c + nodes l" fv1] LogicalExpression.prems 1
  show ?case by (auto simp: validate_accepts add.assoc)
next
  case (ConditionalExpression t l r)
  from ConditionalExpression.IH(1) [of "Suc c" fv] ConditionalExpression.prems
  obtain fv1 where 1: "validate t (fv, Suc c) = Inr (fv1, Suc c + nodes t)" by auto
  from ConditionalExpression.IH(2) [of "Suc c + nodes t" fv1] ConditionalExpression.prems
  obtain fv2 where 2: "validate l (fv1, Suc c + nodes t) = Inr (fv2, Suc c + nodes t + nodes l)" by auto
  from ConditionalExpression.IH(3) [of "Suc c + nodes t + nodes l" fv2] ConditionalExpression.prems
  obtain fv3 where "validate r (fv2, Suc c + nodes t + nodes l)
      = Inr (fv3, Suc c + nodes t + nodes l + nodes r)" by auto
  with 1 2 ConditionalExpression.prems show ?case
    by (simp add: validate_accepts add.assoc)
next
  case (UnaryExpression op a)
  from UnaryExpression.IH [of "Suc c" fv] UnaryExpression.prems
  show ?case by (auto simp: validate_accepts)
qed (auto simp: validate_accepts)

section \<open>What evaluation can answer\<close>

text \<open>The errors left to a validated formula whose variables are bound: those of the arithmetic,
  and three that validation does not exclude.\<close>

fun runtime_error :: "'p ferror \<Rightarrow> bool" where
  "runtime_error (ResultNotFinite) = True"
| "runtime_error (DivisionByZero) = True"
| "runtime_error (SqrtDomain _) = True"
| "runtime_error (LogDomain _) = True"
| "runtime_error (ClipOrder _ _) = True"
| "runtime_error (PowLimit _) = True"
| "runtime_error (FunctionAsValue name) = allowedFunctions name"
| "runtime_error (CallDepthExceeded d) = (d = Suc MAX_CALL_DEPTH)"
| "runtime_error (HostTypeError name) = (name \<in> set object_prototype)"
| "runtime_error _ = False"

fun finite_value :: "'p fvalue \<Rightarrow> bool" where
  "finite_value (NumV v) = is_fin v"
| "finite_value (BoolV _) = True"
| "finite_value (OtherV _) = False"

text \<open>An outcome is safe if it is a finite number or a run-time error.\<close>

fun safe_outcome :: "'p ferror + 'p jsnum \<Rightarrow> bool" where
  "safe_outcome (Inr v) = is_fin v"
| "safe_outcome (Inl e) = runtime_error e"

lemma safe_ebind:
  "safe_outcome r \<Longrightarrow> (\<And>v. r = Inr v \<Longrightarrow> is_fin v \<Longrightarrow> safe_outcome (f v)) \<Longrightarrow> safe_outcome (ebind r f)"
  by (cases r) auto

lemma is_fin_of_bool_js [simp]: "is_fin (of_bool_js b)"
  by (simp add: of_bool_js_def)

lemma is_fin_uminus_fin [simp]: "is_fin v \<Longrightarrow> is_fin (- v :: 'p jsnum)"
  by (cases v) auto

lemma safe_ensureFinite [simp]: "safe_outcome (ensureFinite v)"
  by (simp add: ensureFinite_def)

lemma safe_safePow [simp]: "safe_outcome (safePow m a b)"
  by (simp add: safePow_def)

lemma safe_numeric: "finite_value v \<Longrightarrow> safe_outcome (numeric v name)"
  by (cases v) auto

lemma safe_binaryResult:
  "op \<in> set allowedBinaryOps \<union> set allowedCompareOps \<Longrightarrow> safe_outcome (binaryResult m op l r)"
  by (auto simp: binaryResult_def js_compare_def allowedBinaryOps_def allowedCompareOps_def)

lemma call_own_cases:
  "call_own m name args = Inl e \<Longrightarrow> runtime_error e"
  by (auto simp: call_own_def Let_def safePow_def ensureFinite_def split: if_splits)

lemma safe_callFunction:
  assumes "allowedFunctions name" shows "safe_outcome (callFunction m name args)"
proof (cases "name \<in> set own_functions")
  case True
  then show ?thesis using call_own_cases [of m name args]
    by (cases "call_own m name args") (auto simp: callFunction_def)
next
  case False
  then show ?thesis using assms by (auto simp: callFunction_def call_inherited_def allowedFunctions_def)
qed

text \<open>One step of \<open>eval_node\<close>, per node type.\<close>

lemma eval_deep: "MAX_CALL_DEPTH < d \<Longrightarrow> eval_node m n ns d = Inl (CallDepthExceeded d)"
  by (simp add: eval_node.simps)

lemma eval_steps:
  assumes "d \<le> MAX_CALL_DEPTH"
  shows "eval_node m (Literal v) ns d = (case v of BoolV b \<Rightarrow> Inr (of_bool_js b)
      | NumV x \<Rightarrow> ensureFinite x | OtherV ty \<Rightarrow> Inl (ConstantNotAllowed ty))"
    and "eval_node m (Identifier x) ns d = (if allowedFunctions x then Inl (FunctionAsValue x)
      else case map_of ns x of None \<Rightarrow> Inl (UnknownVariable x) | Some v \<Rightarrow> numeric v x)"
    and "eval_node m (BinaryExpression op l r) ns d =
      ebind (eval_node m l ns d) (\<lambda>left. ebind (eval_node m r ns d) (\<lambda>right. binaryResult m op left right))"
    and "eval_node m (UnaryExpression op l) ns d = ebind (eval_node m l ns d) (\<lambda>v.
            if op = ''+'' then Inr v else if op = ''-'' then Inr (- v)
            else if op = ''!'' then Inr (if truthy v then 0 else 1) else Inl (UnaryNotAllowed op))"
    and "eval_node m (LogicalExpression op l r) ns d = ebind (eval_node m l ns d) (\<lambda>left.
            if op = ''&&'' then (if truthy left then eval_node m r ns d else Inr 0)
            else if op = ''||'' then (if truthy left then Inr 1 else eval_node m r ns d)
            else Inl (LogicalNotAllowed op))"
    and "eval_node m (ConditionalExpression t l r) ns d = ebind (eval_node m t ns d) (\<lambda>v.
            if truthy v then eval_node m l ns d else eval_node m r ns d)"
    and "eval_node m (CallExpression (Identifier x) args) ns d =
           (if \<not> allowedFunctions x then Inl (FunctionNotAllowed x)
            else ebind (eval_args m args ns (Suc d)) (callFunction m x))"
    and "(\<And>x. callee \<noteq> Identifier x) \<Longrightarrow>
           eval_node m (CallExpression callee args) ns d = Inl OnlyDirectCalls"
    and "eval_node m (OtherNode ty) ns d = Inl (NodeNotAllowed ty)"
  using assms by (auto simp: eval_node.simps not_less split: fnode.splits)

text \<open>The evaluation of a well-formed node: every sub-evaluation is at a depth at most one above
  the limit, where it stops.\<close>

lemma safe_args:
  assumes "\<And>a. a \<in> set args \<Longrightarrow> safe_outcome (eval_node m a ns d)"
  shows "eval_args m args ns d = Inl e \<Longrightarrow> runtime_error e"
  using assms
proof (induction args)
  case (Cons a args)
  have "safe_outcome (eval_node m a ns d)" by (rule Cons.prems(2)) simp
  then show ?case using Cons by (cases "eval_node m a ns d") (auto simp: ebind_Inl_iff)
qed simp

lemma eval_safe:
  "well_formed node \<Longrightarrow> (\<And>x. x \<in> idents node \<Longrightarrow> \<exists>v. map_of ns x = Some v \<and> finite_value v) \<Longrightarrow>
     d \<le> Suc MAX_CALL_DEPTH \<Longrightarrow> safe_outcome (eval_node m node ns d)"
proof (induction node arbitrary: d)
  case (CallExpression callee args)
  from CallExpression.prems(1) obtain x where x: "callee = Identifier x" "allowedFunctions x"
    by (auto split: fnode.splits)
  show ?case
  proof (cases "d \<le> MAX_CALL_DEPTH")
    case True
    have "safe_outcome (eval_node m a ns (Suc d))" if "a \<in> set args" for a
      using that CallExpression.prems True by (intro CallExpression.IH(2)) auto
    then have "\<And>e. eval_args m args ns (Suc d) = Inl e \<Longrightarrow> runtime_error e"
      by (rule safe_args)
    then show ?thesis using True x safe_callFunction [OF x(2)]
      by (cases "eval_args m args ns (Suc d)") (auto simp: eval_steps)
  qed (use CallExpression.prems in \<open>auto simp: eval_deep not_le le_Suc_eq\<close>)
next
  case (BinaryExpression op l r)
  then show ?case
    by (cases "d \<le> MAX_CALL_DEPTH")
       (auto simp: eval_steps eval_deep not_le le_Suc_eq safe_binaryResult intro!: safe_ebind)
next
  case (LogicalExpression op l r)
  then show ?case
    by (cases "d \<le> MAX_CALL_DEPTH")
       (auto simp: eval_steps eval_deep not_le le_Suc_eq intro!: safe_ebind)
next
  case (ConditionalExpression t l r)
  then show ?case
    by (cases "d \<le> MAX_CALL_DEPTH")
       (auto simp: eval_steps eval_deep not_le le_Suc_eq intro!: safe_ebind)
next
  case (UnaryExpression op l)
  then show ?case
    by (cases "d \<le> MAX_CALL_DEPTH")
       (auto simp: eval_steps eval_deep not_le le_Suc_eq allowedUnaryOps_def intro!: safe_ebind)
next
  case (Identifier x)
  then show ?case
    by (cases "d \<le> MAX_CALL_DEPTH")
       (auto simp: eval_steps eval_deep not_le le_Suc_eq safe_numeric)
qed (auto simp: eval_node.simps not_le le_Suc_eq split: fvalue.splits)

lemma no_depth_binaryResult: "binaryResult m op l r \<noteq> Inl (CallDepthExceeded k)"
  by (auto simp: binaryResult_def js_compare_def safePow_def ensureFinite_def)

lemma no_depth_callFunction: "callFunction m name args \<noteq> Inl (CallDepthExceeded k)"
  by (auto simp: callFunction_def call_inherited_def call_own_def Let_def safePow_def ensureFinite_def
      ebind_Inl_iff split: if_splits)

lemma no_depth_numeric: "numeric v x \<noteq> Inl (CallDepthExceeded k)"
  by (cases v) auto

lemma eval_within_depth:
  "call_depth node + d \<le> MAX_CALL_DEPTH \<Longrightarrow> eval_node m node ns d \<noteq> Inl (CallDepthExceeded k)"
proof (induction node arbitrary: d)
  case (CallExpression callee args)
  have "eval_node m a ns (Suc d) \<noteq> Inl (CallDepthExceeded k)" if "a \<in> set args" for a
    using that CallExpression.prems call_depth_arg [OF that, of callee] CallExpression.IH(2) [OF that, of "Suc d"]
    by simp
  then have "eval_args m args ns (Suc d) \<noteq> Inl (CallDepthExceeded k)"
    by (induction args) (auto simp: ebind_Inl_iff)
  then show ?case using CallExpression.prems
    by (cases callee) (auto simp: eval_steps ebind_Inl_iff no_depth_callFunction)
qed (auto simp: eval_steps ebind_Inl_iff no_depth_binaryResult no_depth_numeric ensureFinite_def
      split: fvalue.splits option.splits if_splits)

lemma eval_coincidence:
  "(\<And>x. x \<in> idents node \<Longrightarrow> map_of ns x = map_of ns' x) \<Longrightarrow>
     eval_node m node ns d = eval_node m node ns' d"
proof (induction node arbitrary: d)
  case (CallExpression callee args)
  have "eval_node m a ns (Suc d) = eval_node m a ns' (Suc d)" if "a \<in> set args" for a
    using that CallExpression.prems by (intro CallExpression.IH(2)) auto
  then have "eval_args m args ns (Suc d) = eval_args m args ns' (Suc d)"
    by (induction args) auto
  then show ?case
    by (cases "d \<le> MAX_CALL_DEPTH"; cases callee) (simp_all add: eval_steps eval_deep)
next
  case (BinaryExpression op l r)
  then show ?case by (cases "d \<le> MAX_CALL_DEPTH") (simp_all add: eval_steps eval_deep cong: if_cong)
next
  case (LogicalExpression op l r)
  then show ?case by (cases "d \<le> MAX_CALL_DEPTH") (simp_all add: eval_steps eval_deep cong: if_cong)
next
  case (ConditionalExpression t l r)
  then show ?case by (cases "d \<le> MAX_CALL_DEPTH") (simp_all add: eval_steps eval_deep cong: if_cong)
next
  case (UnaryExpression op l)
  then show ?case by (cases "d \<le> MAX_CALL_DEPTH") (simp_all add: eval_steps eval_deep cong: if_cong)
next
  case (Identifier x)
  then show ?case by (cases "d \<le> MAX_CALL_DEPTH") (simp_all add: eval_steps eval_deep cong: if_cong)
qed (simp_all add: eval_node.simps)

text \<open>An answer is always finite, whatever the tree and the namespace.\<close>

lemma ensureFinite_fin: "ensureFinite x = Inr v \<Longrightarrow> is_fin v"
  by (auto simp: ensureFinite_def split: if_splits)

lemma binaryResult_fin: "binaryResult m op l r = Inr v \<Longrightarrow> is_fin v"
  by (auto simp: binaryResult_def safePow_def dest: ensureFinite_fin split: if_splits)

lemma eval_Inr_depth: "eval_node m node ns d = Inr v \<Longrightarrow> d \<le> MAX_CALL_DEPTH"
  using eval_deep [of d m node ns] by (cases "MAX_CALL_DEPTH < d") auto

lemma numeric_fin: "numeric w x = Inr v \<Longrightarrow> is_fin v"
  by (cases w) (auto split: if_splits)

lemma callFunction_fin: "callFunction m x vs = Inr v \<Longrightarrow> is_fin v"
  by (auto simp: callFunction_def call_inherited_def dest: ensureFinite_fin split: if_splits)

lemma eval_finite: "eval_node m node ns d = Inr v \<Longrightarrow> is_fin v"
proof (induction node arbitrary: v)
  case (CallExpression callee args)
  note d = eval_Inr_depth [OF CallExpression.prems]
  from CallExpression.prems show ?case
    by (cases callee) (auto simp: eval_steps [OF d] dest: callFunction_fin split: if_splits)
next
  case (Literal w)
  note d = eval_Inr_depth [OF Literal]
  from Literal show ?case by (auto simp: eval_steps [OF d] dest: ensureFinite_fin split: fvalue.splits)
next
  case (Identifier x)
  note d = eval_Inr_depth [OF Identifier]
  from Identifier show ?case by (auto simp: eval_steps [OF d] dest: numeric_fin split: if_splits option.splits)
next
  case (BinaryExpression op l r)
  note d = eval_Inr_depth [OF BinaryExpression.prems]
  from BinaryExpression show ?case by (auto simp: eval_steps [OF d] dest: binaryResult_fin)
next
  case (UnaryExpression op l)
  note d = eval_Inr_depth [OF UnaryExpression.prems]
  from UnaryExpression show ?case by (auto simp: eval_steps [OF d] split: if_splits)
next
  case (LogicalExpression op l r)
  note d = eval_Inr_depth [OF LogicalExpression.prems]
  from LogicalExpression show ?case by (auto simp: eval_steps [OF d] split: if_splits)
next
  case (ConditionalExpression t l r)
  note d = eval_Inr_depth [OF ConditionalExpression.prems]
  from ConditionalExpression show ?case by (auto simp: eval_steps [OF d] split: if_splits)
next
  case (OtherNode ty)
  note d = eval_Inr_depth [OF OtherNode]
  from OtherNode show ?case by (simp add: eval_steps [OF d])
qed

section \<open>Properties\<close>

text \<open>C6: \<open>validate\<close> accepts exactly the trees built from allowed constructs with at most 200
  nodes, and the set it collects is the set of the variables of the tree.\<close>

theorem validate_characterisation:
  "(\<exists>fv n. validate node ([], 0) = Inr (fv, n) \<and> set fv = V) \<longleftrightarrow>
     well_formed node \<and> nodes node \<le> MAX_AST_NODES \<and> V = idents node"
proof
  assume "\<exists>fv n. validate node ([], 0) = Inr (fv, n) \<and> set fv = V"
  then show "well_formed node \<and> nodes node \<le> MAX_AST_NODES \<and> V = idents node"
    using validate_ok validate_within by fastforce
next
  assume "well_formed node \<and> nodes node \<le> MAX_AST_NODES \<and> V = idents node"
  then show "\<exists>fv n. validate node ([], 0) = Inr (fv, n) \<and> set fv = V"
    using validate_complete [of node 0 "[]"] validate_ok [of node "[]" 0] by fastforce
qed

lemma compileFormula_Inr:
  assumes "compileFormula p src allowed = Inr cf"
  shows "\<exists>n. validate (cf_root cf) ([], 0) = Inr (cf_variables cf, n)"
    and "\<And>names. allowed = Some names \<Longrightarrow> set (cf_variables cf) \<subseteq> set names"
    and "cf_source cf = trim src \<and> cf_source cf \<noteq> [] \<and> length (cf_source cf) \<le> MAX_EXPR_LEN"
  using assms
  by (cases allowed; fastforce simp: compileFormula_def Let_def ebind_Inr_iff filter_empty_conv
      split: if_splits sum.splits prod.splits)+

lemma formula_safe:
  assumes "compileFormula p src (Some allowed) = Inr cf"
    and "\<forall>x \<in> set allowed. \<exists>v. map_of ns x = Some v \<and> finite_value v"
  shows "safe_outcome (evaluate m cf ns)"
proof -
  obtain n where v: "validate (cf_root cf) ([], 0) = Inr (cf_variables cf, n)"
    using compileFormula_Inr(1) [OF assms(1)] by blast
  have "well_formed (cf_root cf)" "idents (cf_root cf) = set (cf_variables cf)"
    using validate_ok [OF v] by simp_all
  moreover have "set (cf_variables cf) \<subseteq> set allowed"
    by (rule compileFormula_Inr(2) [OF assms(1) refl])
  ultimately show ?thesis
    unfolding evaluate_def using assms(2) by (intro eval_safe) auto
qed

text \<open>C5: A formula compiled against a list of allowed variables, evaluated where each of them is
  bound to a boolean or a finite number, gives a finite number or one of the run-time errors;
  it never meets a construct or an unknown variable, whatever the parser and the mathematical
  functions of the host return.\<close>

theorem compiled_formula_safe:
  assumes "compileFormula p src (Some allowed) = Inr cf"
    and "\<forall>x \<in> set allowed. \<exists>v. map_of ns x = Some v \<and> finite_value v"
  shows "safe_outcome (evaluate m cf ns)"
  using formula_safe [OF assms] .

definition demo_ast :: "53 fnode" where
  "demo_ast = CallExpression (Identifier ''sqrt'') [BinaryExpression ''-'' (Identifier ''x'') (Literal (NumV 1))]"

definition demo_math :: "53 mathlib" where
  "demo_math = \<lparr>m_sqrt = (\<lambda>x. x), m_log = (\<lambda>x. x), m_exp = (\<lambda>x. x), m_pow = (\<lambda>x y. x)\<rparr>"

definition demo_cf :: "53 compiledFormula" where
  "demo_cf = \<lparr>cf_source = ''sqrt(x - 1)'', cf_variables = [''x''], cf_root = demo_ast\<rparr>"

lemma demo_compiles: "compileFormula (\<lambda>_. Inr (demo_ast, 11)) ''sqrt(x - 1)'' (Some [''x'']) = Inr demo_cf"
  by code_simp

theorem compiled_formula_safe_witness:
  "safe_outcome (evaluate demo_math demo_cf [(''x'', NumV 0)])"
  by (rule compiled_formula_safe [OF demo_compiles]) simp

text \<open>A compiled formula uses only allowed variables: two namespaces that agree on the allowed
  names give the same outcome.\<close>

lemma compiled_formula_reads_allowed:
  assumes "compileFormula p src (Some allowed) = Inr cf"
    and "\<forall>x \<in> set allowed. map_of ns x = map_of ns' x"
  shows "evaluate m cf ns = evaluate m cf ns'"
proof -
  obtain n where v: "validate (cf_root cf) ([], 0) = Inr (cf_variables cf, n)"
    using compileFormula_Inr(1) [OF assms(1)] by blast
  have "idents (cf_root cf) \<subseteq> set allowed"
    using validate_ok [OF v] compileFormula_Inr(2) [OF assms(1) refl] by simp
  then show ?thesis unfolding evaluate_def using assms(2) by (intro eval_coincidence) auto
qed

theorem compiled_formula_reads_allowed_witness:
  "evaluate demo_math demo_cf [(''x'', NumV 0)] = evaluate demo_math demo_cf [(''y'', NumV 1), (''x'', NumV 0)]"
  by (rule compiled_formula_reads_allowed [OF demo_compiles]) simp

text \<open>The whitelist of functions has a hole: it is looked up in an object literal, so the names
  of \<^verbatim>\<open>Object.prototype\<close> pass for functions. If the parser returns the call it stands for,
  \<^verbatim>\<open>valueOf()\<close> compiles whatever the allowed variables, and its evaluation leaves the
  \<^verbatim>\<open>FormulaError\<close>s with a \<^verbatim>\<open>TypeError\<close> of the host.\<close>

lemma inherited_function_accepted:
  fixes p :: "('p::len0) parser"
  assumes "p ''valueOf()'' = Inr (CallExpression (Identifier ''valueOf'') [], 9)"
  shows "\<exists>cf. compileFormula p ''valueOf()'' allowed = Inr cf
    \<and> (\<forall>m ns. evaluate m cf ns = Inl (HostTypeError ''valueOf''))"
proof -
  define node :: "'p fnode" where "node = CallExpression (Identifier ''valueOf'') []"
  have t: "trim ''valueOf()'' = ''valueOf()''" "trim (drop 9 ''valueOf()'') = []"
    "length ''valueOf()'' \<le> MAX_EXPR_LEN"
    by code_simp+
  have v: "validate node ([], 0) = Inr ([], 1)"
    by (simp add: node_def validate.simps validateName_def private_name_def bannedNodeTypes_def
        MAX_AST_NODES_def allowedFunctions_def object_prototype_def)
  have e: "eval_node m node ns 0 = Inl (HostTypeError ''valueOf'')" for m ns
    by (simp add: node_def eval_steps callFunction_def call_inherited_def allowedFunctions_def
        own_functions_def object_prototype_def)
  have "compileFormula p ''valueOf()'' allowed
      = Inr \<lparr>cf_source = ''valueOf()'', cf_variables = [], cf_root = node\<rparr>"
    unfolding compileFormula_def Let_def t(1) assms node_def [symmetric]
    using t(2,3) v by (simp add: not_less split: option.splits)
  then show ?thesis by (auto simp: evaluate_def e)
qed

theorem inherited_function_accepted_witness:
  "\<exists>cf. compileFormula (\<lambda>_. Inr (CallExpression (Identifier ''valueOf'') [], 9)) ''valueOf()'' (Some [])
      = Inr (cf :: 53 compiledFormula)
    \<and> (\<forall>m ns. evaluate m cf ns = Inl (HostTypeError ''valueOf''))"
  by (rule inherited_function_accepted) (rule refl)

end
