(* ===== verification/Types.thy ===== *)
theory Types
  imports JsNumber
begin

text \<open>
  The shared data of \<^verbatim>\<open>packages/engine/src/model/types.ts\<close>: unions of string literals are
  datatypes, interfaces are records, an optional field is an \<open>option\<close>. The records are
  parameterised by the precision \<^typ>\<open>'p\<close> of their numbers.
\<close>

section \<open>Unions\<close>

datatype surface = SurfaceArc | SurfacePlay | SurfaceLab | SurfaceStudy

datatype infoMode = InfoPrivate | RiskOnly | CapacityBand | CostBand | ForecastBand | FullOracle

datatype mechanismId =
    JitBaseline | CentralizedOracle | CppAdmm | CppVcg | MenuContracts
  | AlternatingBestResponse | PriceOnly | ConsensusAveraging

datatype participantRole = Buyer | Supplier | Packager | Logistics | Distributor | Coordinator

datatype agentSide = Side participantRole | Either

datatype splitRule = Proportional | EqualSplit | ShapleySplit

datatype provenanceSource = Synthetic | ChipMap | SupplierRiskRag | UserImported | CsvImported

datatype convergenceState = Converged | Oscillating | Stalled | Benchmark

datatype quality = BestBenchmark | Strong | Mixed | Weak

datatype party = BuyerParty | SupplierParty

section \<open>The story game\<close>

record 'p choice =
  ch_id :: string
  ch_label :: string
  ch_say :: string
  ch_upside :: string
  ch_risk :: string
  quantityMultiplier :: "'p jsnum"
  ch_infoMode :: infoMode
  relationshipDelta :: "'p jsnum"
  coverageRiskDelta :: "'p jsnum"
  budgetPressureDelta :: "'p jsnum"
  privacyDelta :: "'p jsnum"

record 'p beat =
  beat_id :: string
  week :: "'p jsnum"
  beat_title :: string
  briefing :: string
  decisionPrompt :: string
  supplierPrivate :: string
  lesson :: string
  choices :: "'p choice list"
  beat_terms :: "string list"

record 'p scoreState =
  relationship :: "'p jsnum"
  coverageRisk :: "'p jsnum"
  budgetPressure :: "'p jsnum"
  privacyShared :: "'p jsnum"

record 'p roundResult =
  rr_beat :: "'p beat"
  rr_choice :: "'p choice"
  buyerAsk :: "'p jsnum"
  supplierComfort :: "'p jsnum"
  settledQuantity :: "'p jsnum"
  rr_residual :: "'p jsnum"
  buyerUtility :: "'p jsnum"
  supplierUtility :: "'p jsnum"
  rr_globalUtility :: "'p jsnum"
  rr_oracleGap :: "'p jsnum"
  rr_surplus :: "'p jsnum"
  transferFeasible :: bool
  cinderResponse_text :: string
  plainEnglish_text :: string
  nextScores :: "'p scoreState"

section \<open>Participants and agents\<close>

record 'p agentParameters =
  urgency :: "'p jsnum"
  flexibility :: "'p jsnum"
  truthfulness :: "'p jsnum"
  privacyPreference :: "'p jsnum"
  riskAversion :: "'p jsnum"

record 'p agentArchetype =
  agent_id :: string
  side :: agentSide
  agent_parameters :: "'p agentParameters"

record 'p participant =
  p_id :: string
  p_role :: participantRole
  p_name :: string
  strategyId :: string
  reliability :: "'p jsnum"
  capacity :: "'p jsnum option"
  outsideOption :: "'p jsnum option"
  parameters :: "'p agentParameters"

record citation =
  cite_source :: string
  cite_sourceId :: "string option"
  cite_span :: "string option"
  cite_url :: "string option"

record dataProvenance =
  prov_source :: provenanceSource
  prov_sourceId :: "string option"
  fetchedAt :: "string option"
  citations :: "citation list"
  prov_notes :: "string option"

section \<open>Scenarios and results\<close>

record 'p labScenario =
  presetId :: string
  demand :: "'p jsnum"
  volatility :: "'p jsnum"
  capacityTightness :: "'p jsnum"
  leadTimeWeeks :: "'p jsnum"
  fulfillmentCenterCount :: "'p jsnum"
  participantCount :: "'p jsnum"
  productCount :: "'p jsnum"
  periodCount :: "'p jsnum"
  infoMode :: infoMode
  buyerAgentId :: string
  supplierAgentId :: string
  customBuyerUrgency :: "'p jsnum"
  customSupplierFlexibility :: "'p jsnum"
  customTruthfulness :: "'p jsnum"
  customPrivacyPreference :: "'p jsnum"
  customRiskAversion :: "'p jsnum"
  alpha :: "'p jsnum"
  buyerReliability :: "'p jsnum"
  supplierReliability :: "'p jsnum"
  epsilon :: "'p jsnum"
  participants :: "'p participant list option"
  splitRule :: "splitRule option"
  provenance :: "dataProvenance option"
  schemaVersion :: "string option"

record 'p algorithmResult =
  ar_id :: mechanismId
  ar_name :: string
  ar_plainEnglish :: string
  convergence :: convergenceState
  iterations :: "'p jsnum"
  residual :: "'p jsnum"
  runtimeMs :: "'p jsnum"
  globalUtility :: "'p jsnum"
  oracleGap :: "'p jsnum"
  ar_privacyExposure :: "'p jsnum"
  incentiveStory :: string
  informationRequired :: string
  feasible :: bool
  ar_quality :: quality
  transferMagnitude :: "'p jsnum"
  buyerEffectiveCapacity :: "'p jsnum"
  supplierEffectiveCapacity :: "'p jsnum"

record 'p capacityView =
  cv_party :: party
  stated :: "'p jsnum"
  cv_reliability :: "'p jsnum"
  effective :: "'p jsnum"

record 'p transferRow =
  row_party :: string
  utilityBeforeTransfer :: "'p jsnum"
  row_outsideOption :: "'p jsnum"
  transfer :: "'p jsnum"
  utilityAfterTransfer :: "'p jsnum"
  noWorseOff :: bool

record 'p multiPartyTransferRow = "'p transferRow" +
  participantId :: string
  row_role :: participantRole
  share :: "'p jsnum"

record 'p frontierPlan =
  fp_id :: string
  fp_label :: string
  fp_mechanismId :: mechanismId
  mechanismName :: string
  fp_globalUtility :: "'p jsnum"
  fp_buyerUtility :: "'p jsnum"
  fp_supplierUtility :: "'p jsnum"
  fp_surplus :: "'p jsnum"
  fp_residual :: "'p jsnum"
  fp_oracleGap :: "'p jsnum"
  robustnessNote :: string
  transferRows :: "'p transferRow list"

record 'p frontierResult =
  plans :: "'p frontierPlan list"
  f_epsilon :: "'p jsnum"
  f_K :: nat
  optimalUtility :: "'p jsnum"

record decoyAuditResult =
  decoyId :: string
  decoy_title :: string
  decoy_match :: bool
  expectedPattern :: string
  actualPattern :: string
  catchesMisreportKind :: string
  decoy_explanation :: string

section \<open>Absent values\<close>

text \<open>\<^verbatim>\<open>x ?? d\<close> on an optional field, and \<^verbatim>\<open>x || d\<close> on a number.\<close>

fun nullish :: "'a option \<Rightarrow> 'a \<Rightarrow> 'a" where
  "nullish (Some x) d = x"
| "nullish None d = d"

definition falsy_or :: "'p jsnum \<Rightarrow> 'p jsnum \<Rightarrow> 'p jsnum" where
  "falsy_or x d = (if x = NaN \<or> x = 0 then d else x)"

lemma falsy_or_Fin [simp]: "falsy_or (Fin a) d = (if a = 0 then d else Fin a)"
  by (simp add: falsy_or_def)

text \<open>A count as a number.\<close>

definition of_count :: "nat \<Rightarrow> ('p::len0) jsnum" where
  "of_count n = lit (of_nat n)"

lemma of_count_exact [simp, js_exact]: "(of_count n :: exact) = Fin (of_nat n)"
  by (simp add: of_count_def)

end
