(* ===== verification/ShapleyTransfer.thy ===== *)
theory ShapleyTransfer
  imports Types Prelude "HOL-Library.Word"
begin

text \<open>
  \<^verbatim>\<open>packages/engine/src/model/shapleyTransfer.ts\<close>: Shapley values by enumeration of bit masks, and
  the ledger that splits a surplus by one of three rules. The definitions are stated for
  numbers of any precision; the identities about sums are proved for exact numbers.
\<close>

unbundle bit_operations_syntax

section \<open>Shapley values\<close>

text \<open>\<^verbatim>\<open>for (let i = 2; i <= k; i += 1) acc *= i\<close>\<close>

definition factorial :: "nat \<Rightarrow> ('p::len0) jsnum" where
  "factorial k = foldl (\<lambda>acc i. acc * of_count i) 1 [2..<Suc k]"

definition others :: "nat \<Rightarrow> nat \<Rightarrow> nat list" where
  "others n i = filter (\<lambda>j. j \<noteq> i) [0..<n]"

text \<open>Shifts and masks work on 32 bits, and a shift count is taken modulo 32.\<close>

definition shl_one :: "nat \<Rightarrow> 32 word" where
  "shl_one k = push_bit (k mod 32) 1"

definition totalSubsets :: "nat list \<Rightarrow> nat" where
  "totalSubsets os = nat (sint (shl_one (length os)))"

definition mask_subset :: "nat list \<Rightarrow> nat \<Rightarrow> nat list" where
  "mask_subset os m =
     map (\<lambda>b. os ! b) (filter (\<lambda>b. (word_of_nat m AND shl_one b) \<noteq> 0) [0..<length os])"

definition shapley_weight :: "nat \<Rightarrow> nat \<Rightarrow> ('p::len0) jsnum" where
  "shapley_weight n s = (factorial s * factorial (n - s - 1)) / factorial n"

definition shapley_phi :: "nat \<Rightarrow> (nat list \<Rightarrow> ('p::len0) jsnum) \<Rightarrow> nat \<Rightarrow> 'p jsnum" where
  "shapley_phi n value_of i =
     foldl (\<lambda>phi m.
         let sub = mask_subset (others n i) m;
             marginal = value_of (sub @ [i]) - value_of sub
         in phi + shapley_weight n (length sub) * marginal)
       0 [0..<totalSubsets (others n i)]"

definition shapleyValues :: "nat \<Rightarrow> (nat list \<Rightarrow> ('p::len0) jsnum) \<Rightarrow> 'p jsnum list" where
  "shapleyValues n value_of = map (shapley_phi n value_of) [0..<n]"

section \<open>The values as sums over coalitions\<close>

lemma foldl_plus_jsum: "foldl (\<lambda>acc x. acc + h x) (Fin 0) xs = jsum (map h xs)"
  by (simp add: jsum_def foldl_map)

lemma factorial_Suc: "factorial (Suc k) = (if k = 0 then 1 else factorial k * of_count (Suc k))"
  by (simp add: factorial_def)

lemma factorial_exact [js_exact]: "(factorial k :: exact) = Fin (fact k)"
proof (induction k)
  case 0
  then show ?case by (simp add: factorial_def one_jsnum_def)
next
  case (Suc k)
  then show ?case by (simp add: factorial_Suc one_jsnum_def algebra_simps)
qed

lemma length_others [simp]: "i < n \<Longrightarrow> length (others n i) = n - 1"
proof -
  assume i: "i < n"
  have "card (set (others n i)) = card ({..<n} - {i})"
    by (rule arg_cong [where f = card]) (auto simp: others_def)
  moreover have "length (others n i) = card (set (others n i))"
    by (rule distinct_card [symmetric]) (simp add: others_def)
  ultimately show ?thesis using i by simp
qed

lemma set_others [simp]: "set (others n i) = {..<n} - {i}"
  by (auto simp: others_def)

lemma distinct_others [simp]: "distinct (others n i)"
  by (simp add: others_def)

lemma totalSubsets_power: "length os \<le> 30 \<Longrightarrow> totalSubsets os = 2 ^ length os"
proof -
  assume k: "length os \<le> 30"
  have "\<forall>k \<in> set [0..<31]. sint (push_bit k 1 :: 32 word) = 2 ^ k"
    by code_simp
  then have "sint (push_bit (length os) 1 :: 32 word) = 2 ^ length os"
    using k by simp
  then show ?thesis using k by (simp add: totalSubsets_def shl_one_def nat_power_eq)
qed

text \<open>The subset a mask selects, with the bits of a natural number.\<close>

definition bit_subset :: "nat list \<Rightarrow> nat \<Rightarrow> nat list" where
  "bit_subset os m = map (\<lambda>b. os ! b) (filter (bit m) [0..<length os])"

lemma mask_bit: "b < 32 \<Longrightarrow> (word_of_nat m AND shl_one b) \<noteq> 0 \<longleftrightarrow> bit m b"
  by (simp add: shl_one_def and_exp_eq_0_iff_not_bit push_bit_eq_mult bit_of_nat_iff)

lemma mask_subset_bits: "length os \<le> 32 \<Longrightarrow> mask_subset os m = bit_subset os m"
  unfolding mask_subset_def bit_subset_def
  by (rule arg_cong [where f = "map _"], rule filter_cong) (auto simp: mask_bit)

lemma bit_subset_snoc:
  "bit_subset (os @ [x]) m = bit_subset os m @ (if bit m (length os) then [x] else [])"
  by (auto simp: bit_subset_def nth_append)

lemma bit_add_power: "b < k \<Longrightarrow> bit (m + 2 ^ k) b = bit m b" for m :: nat
proof -
  assume "b < k"
  then obtain d where "k = b + Suc d" using less_imp_Suc_add by auto
  then have k: "m + 2 ^ k = m + 2 ^ b * (2 * 2 ^ d)"
    by (simp only: power_add power_Suc)
  have "(m + 2 ^ k) div 2 ^ b = m div 2 ^ b + 2 * 2 ^ d"
    unfolding k by (rule trans [OF div_mult_self2]) simp_all
  then show ?thesis by (simp add: bit_iff_odd)
qed

lemma bit_subset_add: "bit_subset os (m + 2 ^ length os) = bit_subset os m"
  unfolding bit_subset_def
  by (rule arg_cong [where f = "map _"], rule filter_cong) (auto simp: bit_add_power)

lemma bit_high: "m < 2 ^ k \<Longrightarrow> \<not> bit m k" "m < 2 ^ k \<Longrightarrow> bit (m + 2 ^ k) k" for m :: nat
  by (simp_all add: bit_iff_odd)

lemma set_bit_subset: "set (bit_subset os m) \<subseteq> set os"
  by (auto simp: bit_subset_def)

lemma distinct_bit_subset: "distinct os \<Longrightarrow> distinct (bit_subset os m)"
  by (simp add: bit_subset_def distinct_map inj_on_nth)

lemma sum_Pow_insert:
  "finite A \<Longrightarrow> x \<notin> A \<Longrightarrow> (\<Sum>S \<in> Pow (insert x A). F S) = (\<Sum>S \<in> Pow A. F S) + (\<Sum>S \<in> Pow A. F (insert x S))"
proof -
  assume A: "finite A" "x \<notin> A"
  have "(\<Sum>S \<in> Pow (insert x A). F S) = (\<Sum>S \<in> Pow A. F S) + (\<Sum>S \<in> insert x ` Pow A. F S)"
    unfolding Pow_insert using A by (intro sum.union_disjoint) auto
  also have "(\<Sum>S \<in> insert x ` Pow A. F S) = (\<Sum>S \<in> Pow A. F (insert x S))"
  proof -
    have "inj_on (insert x) (Pow A)"
    proof (rule inj_onI)
      fix S T assume "S \<in> Pow A" "T \<in> Pow A" "insert x S = insert x T"
      then show "S = T" using A insert_ident [of x S T] by blast
    qed
    then show ?thesis by (simp only: sum.reindex comp_def)
  qed
  finally show ?thesis .
qed

lemma bit_subset_sum:
  "distinct os \<Longrightarrow> (\<Sum>m < 2 ^ length os. F (set (bit_subset os m))) = (\<Sum>S \<in> Pow (set os). F S)"
proof (induction os arbitrary: F rule: rev_induct)
  case Nil
  then show ?case by (simp add: bit_subset_def)
next
  case (snoc x os)
  let ?k = "length os"
  have low: "set (bit_subset (os @ [x]) m) = set (bit_subset os m)" if "m < 2 ^ ?k" for m
    using that by (simp add: bit_subset_snoc bit_high)
  have high: "set (bit_subset (os @ [x]) (m + 2 ^ ?k)) = insert x (set (bit_subset os m))"
    if "m < 2 ^ ?k" for m
    using that by (simp add: bit_subset_snoc bit_high bit_subset_add)
  have "(\<Sum>m < 2 ^ length (os @ [x]). F (set (bit_subset (os @ [x]) m)))
      = (\<Sum>m < 2 ^ ?k. F (set (bit_subset (os @ [x]) m)))
        + (\<Sum>m < 2 ^ ?k. F (set (bit_subset (os @ [x]) (m + 2 ^ ?k))))"
    using sum.nat_group [of "\<lambda>m. F (set (bit_subset (os @ [x]) m))" "2 ^ ?k" 2]
    by (simp add: numeral_2_eq_2 atLeast0LessThan sum.atLeastLessThan_shift_0 add.commute)
  also have "\<dots> = (\<Sum>m < 2 ^ ?k. F (set (bit_subset os m)))
        + (\<Sum>m < 2 ^ ?k. F (insert x (set (bit_subset os m))))"
    using low high by (intro arg_cong2 [where f = "(+)"] sum.cong) auto
  also have "\<dots> = (\<Sum>S \<in> Pow (set os). F S) + (\<Sum>S \<in> Pow (set os). F (insert x S))"
    using snoc.IH [of F] snoc.IH [of "\<lambda>S. F (insert x S)"] snoc.prems by simp
  also have "\<dots> = (\<Sum>S \<in> Pow (set (os @ [x])). F S)"
    using sum_Pow_insert [of "set os" x F] snoc.prems by simp
  finally show ?case .
qed

text \<open>Shapley's formula, on games that are functions of sets.\<close>

definition sw :: "nat \<Rightarrow> nat \<Rightarrow> rat" where
  "sw n s = fact s * fact (n - s - 1) / fact n"

definition shap :: "nat \<Rightarrow> (nat set \<Rightarrow> rat) \<Rightarrow> nat \<Rightarrow> rat" where
  "shap n V i = (\<Sum>S \<in> Pow ({..<n} - {i}). sw n (card S) * (V (insert i S) - V S))"

text \<open>A game given to the code as a function of lists represents \<open>V\<close> if it depends on the set of
  its players only.\<close>

definition represents :: "nat \<Rightarrow> (nat list \<Rightarrow> exact) \<Rightarrow> (nat set \<Rightarrow> rat) \<Rightarrow> bool" where
  "represents n v V = (\<forall>xs. distinct xs \<and> set xs \<subseteq> {..<n} \<longrightarrow> v xs = Fin (V (set xs)))"

lemma shapley_phi_exact:
  assumes n: "n \<le> 31" and i: "i < n" and v: "represents n v V"
  shows "shapley_phi n v i = Fin (shap n V i)"
proof -
  let ?os = "others n i"
  define F where "F S = sw n (card S) * (V (insert i S) - V S)" for S
  have len: "length ?os \<le> 30" using n i by simp
  have sub: "mask_subset ?os m = bit_subset ?os m" for m
    using len by (simp add: mask_subset_bits)
  have "shapley_weight n (length (bit_subset ?os m)) * (v (bit_subset ?os m @ [i]) - v (bit_subset ?os m))
      = Fin (F (set (bit_subset ?os m)))" for m
  proof -
    let ?s = "bit_subset ?os m"
    have d: "distinct ?s" "set ?s \<subseteq> {..<n} - {i}"
      using distinct_bit_subset [of ?os m] set_bit_subset [of ?os m] by simp_all
    then have "distinct (?s @ [i])" "set (?s @ [i]) \<subseteq> {..<n}" "set ?s \<subseteq> {..<n}" using i by auto
    then have "v ?s = Fin (V (set ?s))" "v (?s @ [i]) = Fin (V (insert i (set ?s)))"
      using v d unfolding represents_def by (blast, metis insert_is_Un list.simps(15) set_append sup_commute empty_set)
    then show ?thesis using d
      by (simp add: shapley_weight_def js_exact F_def sw_def distinct_card)
  qed
  then have "shapley_phi n v i = jsum (map (\<lambda>m. Fin (F (set (bit_subset ?os m)))) [0..<2 ^ (n - 1)])"
    using len i by (simp add: shapley_phi_def Let_def sub foldl_plus_jsum totalSubsets_power)
  also have "\<dots> = Fin (\<Sum>m < 2 ^ (n - 1). F (set (bit_subset ?os m)))"
    by (simp add: jsum_exact_map interv_sum_list_conv_sum_set_nat atLeast0LessThan)
  also have "\<dots> = Fin (shap n V i)"
    using bit_subset_sum [of ?os F] i by (simp add: shap_def F_def)
  finally show ?thesis .
qed

lemma shap_with_player:
  "(\<Sum>i < n. \<Sum>S \<in> Pow ({..<n} - {i}). sw n (card S) * V (insert i S))
     = (\<Sum>T \<in> Pow {..<n}. of_nat (card T) * sw n (card T - 1) * V T)"
proof -
  let ?D = "SIGMA i : {..<n}. Pow ({..<n} - {i})" and ?R = "SIGMA T : Pow {..<n}. T"
  have "(\<Sum>i < n. \<Sum>S \<in> Pow ({..<n} - {i}). sw n (card S) * V (insert i S))
      = (\<Sum>(i, S) \<in> ?D. sw n (card S) * V (insert i S))"
    by (simp add: sum.Sigma)
  also have "\<dots> = (\<Sum>(T, i) \<in> ?R. sw n (card T - 1) * V T)"
  proof (rule sum.reindex_bij_witness [where i = "\<lambda>(T, i). (i, T - {i})" and j = "\<lambda>(i, S). (insert i S, i)"])
    fix a assume a: "a \<in> ?D"
    then obtain i S where as: "a = (i, S)" "i < n" "S \<subseteq> {..<n} - {i}" by auto
    then have "finite S" "i \<notin> S" by (auto intro: finite_subset)
    then show "(\<lambda>(T, i). (i, T - {i})) ((\<lambda>(i, S). (insert i S, i)) a) = a"
      and "(\<lambda>(T, i). sw n (card T - 1) * V T) ((\<lambda>(i, S). (insert i S, i)) a)
         = (\<lambda>(i, S). sw n (card S) * V (insert i S)) a"
      and "(\<lambda>(i, S). (insert i S, i)) a \<in> ?R"
      using as by auto
  next
    fix b assume "b \<in> ?R"
    then show "(\<lambda>(i, S). (insert i S, i)) ((\<lambda>(T, i). (i, T - {i})) b) = b"
      and "(\<lambda>(T, i). (i, T - {i})) b \<in> ?D"
      by auto
  qed
  also have "\<dots> = (\<Sum>T \<in> Pow {..<n}. \<Sum>i \<in> T. sw n (card T - 1) * V T)"
    by (subst sum.Sigma) (auto intro: finite_subset)
  finally show ?thesis by (simp add: mult.assoc)
qed

lemma shap_without_player:
  "(\<Sum>i < n. \<Sum>S \<in> Pow ({..<n} - {i}). sw n (card S) * V S)
     = (\<Sum>T \<in> Pow {..<n}. of_nat (n - card T) * sw n (card T) * V T)"
proof -
  let ?D = "SIGMA i : {..<n}. Pow ({..<n} - {i})" and ?R = "SIGMA T : Pow {..<n}. {..<n} - T"
  have "(\<Sum>i < n. \<Sum>S \<in> Pow ({..<n} - {i}). sw n (card S) * V S)
      = (\<Sum>(i, S) \<in> ?D. sw n (card S) * V S)"
    by (simp add: sum.Sigma)
  also have "\<dots> = (\<Sum>(T, i) \<in> ?R. sw n (card T) * V T)"
    by (rule sum.reindex_bij_witness [where i = "\<lambda>(T, i). (i, T)" and j = "\<lambda>(i, S). (S, i)"]) auto
  also have "\<dots> = (\<Sum>T \<in> Pow {..<n}. \<Sum>i \<in> {..<n} - T. sw n (card T) * V T)"
    by (subst sum.Sigma) auto
  also have "\<dots> = (\<Sum>T \<in> Pow {..<n}. of_nat (n - card T) * sw n (card T) * V T)"
  proof (rule sum.cong [OF refl])
    fix T assume "T \<in> Pow {..<n}"
    then have "card ({..<n} - T) = n - card T"
      by (subst card_Diff_subset) (auto intro: finite_subset)
    then show "(\<Sum>i \<in> {..<n} - T. sw n (card T) * V T) = of_nat (n - card T) * sw n (card T) * V T"
      by (simp add: mult.assoc)
  qed
  finally show ?thesis .
qed

lemma sw_balance:
  assumes "t \<le> n" "0 < n"
  shows "of_nat t * sw n (t - 1) - of_nat (n - t) * sw n t
       = (if t = n then 1 else 0) - (if t = 0 then 1 else 0)"
proof -
  have up: "of_nat t * sw n (t - 1) = fact t * fact (n - t) / fact n" if t: "0 < t"
  proof -
    obtain k where "t = Suc k" using t gr0_conv_Suc by blast
    then show ?thesis using assms by (simp add: sw_def Suc_diff_Suc)
  qed
  have down: "of_nat (n - t) * sw n t = fact t * fact (n - t) / fact n" if "t < n"
  proof -
    obtain k where "n - t = Suc k" using \<open>t < n\<close> by (metis Suc_diff_Suc)
    then show ?thesis by (simp add: sw_def)
  qed
  consider "t = 0" | "0 < t" "t = n" | "0 < t" "t < n" using assms by linarith
  then show ?thesis
  proof cases
    case 1
    then show ?thesis using down assms by (simp del: of_nat_diff)
  next
    case 2
    then show ?thesis using up by simp
  next
    case 3
    then show ?thesis unfolding up [OF 3(1)] down [OF 3(2)] by simp
  qed
qed

lemma shap_efficiency: "(\<Sum>i < n. shap n V i) = V {..<n} - V {}"
proof (cases "n = 0")
  case False
  have "(\<Sum>i < n. shap n V i)
      = (\<Sum>T \<in> Pow {..<n}. (of_nat (card T) * sw n (card T - 1) - of_nat (n - card T) * sw n (card T)) * V T)"
    by (simp add: shap_def right_diff_distrib left_diff_distrib sum_subtractf
        shap_with_player shap_without_player)
  also have "\<dots> = (\<Sum>T \<in> Pow {..<n}. (if T = {..<n} then V T else 0) - (if T = {} then V T else 0))"
  proof (rule sum.cong [OF refl])
    fix T assume "T \<in> Pow {..<n}"
    then have T: "finite T" "card T \<le> n" "card T = n \<longleftrightarrow> T = {..<n}"
      using card_subset_eq [of "{..<n}" T] card_mono [of "{..<n}" T] by (auto intro: finite_subset)
    show "(of_nat (card T) * sw n (card T - 1) - of_nat (n - card T) * sw n (card T)) * V T
        = (if T = {..<n} then V T else 0) - (if T = {} then V T else 0)"
      using T sw_balance [of "card T" n] False by simp
  qed
  also have "\<dots> = V {..<n} - V {}"
    by (simp add: sum_subtractf sum.delta)
  finally show ?thesis .
qed simp

lemma shap_symmetry:
  assumes i: "i < n" and j: "j < n" and ij: "i \<noteq> j"
    and sym: "\<And>S. S \<subseteq> {..<n} - {i, j} \<Longrightarrow> V (insert i S) = V (insert j S)"
  shows "shap n V i = shap n V j"
proof -
  let ?W = "{..<n} - {i, j}"
  have split_sum: "shap n V a = (\<Sum>S \<in> Pow ?W. sw n (card S) * (V (insert a S) - V S))
      + (\<Sum>S \<in> Pow ?W. sw n (Suc (card S)) * (V (insert a (insert b S)) - V (insert b S)))"
    if "(a, b) = (i, j) \<or> (a, b) = (j, i)" for a b
  proof -
    have W: "{..<n} - {a} = insert b ?W" "b \<notin> ?W" using that i j ij by auto
    have "card (insert b S) = Suc (card S)" if "S \<in> Pow ?W" for S
      using that W(2) finite_subset [of S ?W] by (subst card_insert_disjoint) auto
    then show ?thesis unfolding shap_def W(1)
      using W(2) by (subst sum_Pow_insert) simp_all
  qed
  show ?thesis
    using split_sum [of i j] split_sum [of j i] sym by (simp add: insert_commute)
qed

section \<open>The ledger\<close>

definition outside_of :: "'p participant \<Rightarrow> 'p jsnum" where
  "outside_of p = nullish (outsideOption p) 0"

definition is_buyer :: "'p participant \<Rightarrow> bool" where
  "is_buyer p = (p_role p = Buyer)"

definition DEFAULT_BUYER_SHARE :: "('p::len0) jsnum" where
  "DEFAULT_BUYER_SHARE = lit 0.5"

definition defaultBaselineShare :: "('p::len0) participant \<Rightarrow> nat \<Rightarrow> nat \<Rightarrow> 'p jsnum" where
  "defaultBaselineShare participant index tot =
     (if tot \<le> 1 then 1
      else let buyers = (if 1 < tot then 1 else 0 :: nat) in
        if is_buyer participant then DEFAULT_BUYER_SHARE
        else let supplierLikeCount = tot - buyers in
          if supplierLikeCount \<le> 0 then 1 / of_count tot
          else (1 - DEFAULT_BUYER_SHARE) / of_count supplierLikeCount)"

definition equalSplit :: "('p::len0) participant list \<Rightarrow> 'p jsnum \<Rightarrow> 'p jsnum \<Rightarrow> 'p jsnum list" where
  "equalSplit ps al surplus =
     (if length ps = 0 then []
      else let buyers = length (filter is_buyer ps);
               others = length ps - buyers;
               buyerTransfer = (if 0 < surplus then - surplus * lit 0.12 * al else 0);
               perOther = (if 0 < others then (- buyerTransfer) / of_count others else 0)
           in map (\<lambda>p. if is_buyer p then buyerTransfer else perOther) ps)"

definition proportionalSplit ::
    "('p::len0) participant list \<Rightarrow> 'p jsnum list \<Rightarrow> 'p jsnum \<Rightarrow> 'p jsnum \<Rightarrow> nat \<Rightarrow> 'p jsnum list" where
  "proportionalSplit ps beforeTransfers al surplus buyerCount =
     (let transferPool = surplus * lit 0.12 * al;
          buyerSlice = transferPool * lit 0.5;
          buyerSliceTotal = (if 0 < buyerCount then - buyerSlice else 0);
          buyerSlicePerBuyer = (if 0 < buyerCount then buyerSliceTotal / of_count buyerCount else 0);
          deficits = map2 (\<lambda>p before. jmax 0 (outside_of p - before)) ps beforeTransfers;
          deficitTotal = jsum deficits;
          otherPoolReceived = transferPool + \<bar>buyerSliceTotal\<bar>
      in map2 (\<lambda>p deficit.
           if is_buyer p then buyerSlicePerBuyer
           else if 0 < deficitTotal then otherPoolReceived * (deficit / deficitTotal)
           else let others = length ps - buyerCount
                in if 0 < others then otherPoolReceived / of_count others else 0) ps deficits)"

definition coalitionValue :: "nat list \<Rightarrow> ('p::len0) participant list \<Rightarrow> 'p jsnum \<Rightarrow> 'p jsnum" where
  "coalitionValue sub ps utility =
     (if length sub = 0 then 0
      else let hasBuyer = (\<exists>idx \<in> set sub. is_buyer (ps ! idx));
               hasSupplyLike = (\<exists>idx \<in> set sub.
                  p_role (ps ! idx) \<in> {Supplier, Packager, Logistics, Distributor})
           in if \<not> hasBuyer \<or> \<not> hasSupplyLike
              then foldl (\<lambda>sum idx. sum + outside_of (ps ! idx)) 0 sub
              else let fraction = of_count (length sub) / of_count (length ps)
                   in utility * fraction)"

definition shapleySplit :: "('p::len0) participant list \<Rightarrow> 'p jsnum \<Rightarrow> 'p jsnum \<Rightarrow> 'p jsnum list" where
  "shapleySplit ps al utility =
     (if 6 < length ps then map (\<lambda>_. 0) ps
      else let phi = shapleyValues (length ps) (\<lambda>sub. coalitionValue sub ps utility);
               totalOutside = jsum (map outside_of ps);
               surplus = jmax 0 (utility - totalOutside);
               transferPool = surplus * lit 0.12 * al;
               phiSum = falsy_or (jsum phi) 1;
               shares = map (\<lambda>v. v / phiSum) phi
           in map2 (\<lambda>p s. if is_buyer p then - transferPool * s else transferPool * s) ps shares)"

definition computeTransfers ::
    "('p::len0) participant list \<Rightarrow> 'p jsnum list \<Rightarrow> 'p jsnum \<Rightarrow> splitRule \<Rightarrow> 'p jsnum \<Rightarrow> 'p jsnum \<Rightarrow> 'p jsnum list" where
  "computeTransfers ps beforeTransfers surplus rule al utility =
     (if surplus \<le> 0 then map (\<lambda>_. 0) ps
      else let buyerCount = length (filter is_buyer ps) in
        case rule of
          EqualSplit \<Rightarrow> equalSplit ps al surplus
        | Proportional \<Rightarrow> proportionalSplit ps beforeTransfers al surplus buyerCount
        | ShapleySplit \<Rightarrow> shapleySplit ps al utility)"

record 'p multiPartyTransferInput =
  in_participants :: "'p participant list"
  in_globalUtility :: "'p jsnum"
  in_alpha :: "'p jsnum option"
  in_splitRule :: "splitRule option"
  baselineShare :: "('p participant \<Rightarrow> nat \<Rightarrow> nat \<Rightarrow> 'p jsnum) option"

definition normalizedShares :: "('p::len0) multiPartyTransferInput \<Rightarrow> 'p jsnum list" where
  "normalizedShares input =
     (let ps = in_participants input; tot = length ps;
          baseline = nullish (baselineShare input) defaultBaselineShare;
          shares = map (\<lambda>(i, p). baseline p i tot) (enumerate 0 ps);
          shareSum = falsy_or (jsum shares) 1
      in map (\<lambda>s. s / shareSum) shares)"

definition multiPartyTransferLedger ::
    "('p::len0) multiPartyTransferInput \<Rightarrow> 'p multiPartyTransferRow list" where
  "multiPartyTransferLedger input =
     (let ps = in_participants input; utility = in_globalUtility input;
          al = clamp (nullish (in_alpha input) 1) 0 1;
          rule = nullish (in_splitRule input) Proportional;
          norm = normalizedShares input;
          beforeTransfers = map (\<lambda>s. utility * s) norm;
          totalOutside = jsum (map outside_of ps);
          surplus = utility - totalOutside;
          transfers = computeTransfers ps beforeTransfers surplus rule al utility
      in map (\<lambda>(idx, p).
           let after = beforeTransfers ! idx + transfers ! idx in
           \<lparr>row_party = p_name p, utilityBeforeTransfer = beforeTransfers ! idx,
            row_outsideOption = outside_of p, transfer = transfers ! idx,
            utilityAfterTransfer = after, noWorseOff = (outside_of p \<le> after),
            participantId = p_id p, row_role = p_role p, share = norm ! idx\<rparr>)
         (enumerate 0 ps))"

section \<open>Sums over the rows\<close>

lemma length_normalizedShares [simp]: "length (normalizedShares input) = length (in_participants input)"
  by (simp add: normalizedShares_def Let_def)

lemma length_shapleyValues [simp]: "length (shapleyValues n v) = n"
  by (simp add: shapleyValues_def)

lemma length_computeTransfers [simp]:
  "length bs = length ps \<Longrightarrow> length (computeTransfers ps bs surplus rule al u) = length ps"
  by (simp add: computeTransfers_def equalSplit_def proportionalSplit_def shapleySplit_def Let_def
      split: splitRule.splits)

definition ledger_surplus :: "('p::len0) multiPartyTransferInput \<Rightarrow> 'p jsnum" where
  "ledger_surplus input = in_globalUtility input - jsum (map outside_of (in_participants input))"

lemma ledger_columns:
  "map share (multiPartyTransferLedger input) = normalizedShares input"
  "map utilityBeforeTransfer (multiPartyTransferLedger input)
     = map (\<lambda>s. in_globalUtility input * s) (normalizedShares input)"
  "map transfer (multiPartyTransferLedger input)
     = computeTransfers (in_participants input) (map (\<lambda>s. in_globalUtility input * s) (normalizedShares input))
         (ledger_surplus input) (nullish (in_splitRule input) Proportional)
         (clamp (nullish (in_alpha input) 1) 0 1) (in_globalUtility input)"
  by (rule nth_equalityI;
      simp add: multiPartyTransferLedger_def ledger_surplus_def Let_def nth_enumerate_eq)+

lemma sum_list_by_role:
  "(\<Sum>p\<leftarrow>ps. if is_buyer p then x else y)
     = of_nat (length (filter is_buyer ps)) * x + of_nat (length ps - length (filter is_buyer ps)) * y"
  for x y :: rat
proof (induction ps)
  case (Cons p ps)
  have "length (filter is_buyer ps) \<le> length ps" by (rule length_filter_le)
  then show ?case using Cons by (simp add: Suc_diff_le algebra_simps)
qed simp

section \<open>Exact ledgers\<close>

fun rat_of :: "'p jsnum \<Rightarrow> rat" where
  "rat_of (Fin q) = q"
| "rat_of _ = 0"

lemma Fin_rat_of [simp]: "is_fin x \<Longrightarrow> Fin (rat_of x) = x"
  by (cases x) auto

definition base_share :: "nat \<Rightarrow> 'p participant \<Rightarrow> rat" where
  "base_share n p = (if n \<le> 1 then 1 else if is_buyer p then 1/2 else (1/2) / of_nat (n - 1))"

lemma default_share_exact: "defaultBaselineShare p i n = (Fin (base_share n p) :: exact)"
  by (cases "n \<le> 1") (simp_all add: defaultBaselineShare_def base_share_def DEFAULT_BUYER_SHARE_def Let_def of_nat_diff)

definition share_q :: "0 participant list \<Rightarrow> 0 participant \<Rightarrow> rat" where
  "share_q ps p = base_share (length ps) p / (\<Sum>p\<leftarrow>ps. base_share (length ps) p)"

lemma base_share_pos: "0 < base_share n p"
  by (auto simp: base_share_def)

lemma sum_base_share_pos: "ps \<noteq> [] \<Longrightarrow> 0 < (\<Sum>p\<leftarrow>ps. base_share n p)"
  by (induction ps) (auto simp: base_share_pos intro!: add_pos_nonneg sum_list_nonneg less_imp_le [OF base_share_pos])

lemma normalizedShares_exact:
  assumes "in_participants input \<noteq> []" "baselineShare input = None"
  shows "normalizedShares input = map (\<lambda>p. Fin (share_q (in_participants input) p) :: exact) (in_participants input)"
proof -
  let ?ps = "in_participants input"
  have "map (\<lambda>(i, p). defaultBaselineShare p i (length ?ps)) (enumerate 0 ?ps)
      = map (\<lambda>p. Fin (base_share (length ?ps) p) :: exact) ?ps"
    by (simp add: default_share_exact map_enumerate_snd)
  moreover have "(\<Sum>p\<leftarrow>?ps. base_share (length ?ps) p) \<noteq> 0"
    using sum_base_share_pos [OF assms(1), of "length ?ps"] by simp
  ultimately show ?thesis
    unfolding normalizedShares_def Let_def assms(2) nullish.simps
    by (simp only:) (simp add: share_q_def jsum_exact_map [OF refl])
qed

lemma sum_share_q: "ps \<noteq> [] \<Longrightarrow> (\<Sum>p\<leftarrow>ps. share_q ps p) = 1"
  using sum_base_share_pos [of ps "length ps"]
  by (simp add: share_q_def divide_inverse sum_list_mult_const)

text \<open>Whatever the roles, the default shares of a ledger add up to 1, and the utilities before
  transfers add up to the utility that is split.\<close>

lemma ledger_shares_sum:
  assumes "in_participants input \<noteq> []" "baselineShare input = None" "in_globalUtility input = (Fin u :: exact)"
  shows "jsum (map share (multiPartyTransferLedger input)) = 1
    \<and> jsum (map utilityBeforeTransfer (multiPartyTransferLedger input)) = Fin u"
  using assms sum_share_q [OF assms(1)]
  by (simp_all add: ledger_columns normalizedShares_exact jsum_exact_map [OF refl] sum_list_const_mult comp_def)

definition buyers :: "'p participant list \<Rightarrow> nat" where
  "buyers ps = length (filter is_buyer ps)"

lemma buyers_le: "buyers ps \<le> length ps"
  by (simp add: buyers_def)

lemma sum_by_role_others:
  "buyers ps < length ps \<Longrightarrow>
     (\<Sum>p\<leftarrow>ps. if is_buyer p then x else y / of_nat (length ps - buyers ps)) = of_nat (buyers ps) * x + y"
  for x y :: rat
  using sum_list_by_role [of x "y / of_nat (length ps - buyers ps)" ps]
  by (simp add: buyers_def del: of_nat_diff)

lemma sum_by_role_buyers:
  "0 < buyers ps \<Longrightarrow> (\<Sum>p\<leftarrow>ps. if is_buyer p then x / of_nat (buyers ps) else 0) = x" for x :: rat
  using sum_list_by_role [of "x / of_nat (buyers ps)" 0 ps]
  by (simp add: buyers_def)

text \<open>The share of the surplus a transfer moves: \<open>0.12\<close> of it, scaled by \<open>al\<close>.\<close>

definition pool :: "rat \<Rightarrow> rat \<Rightarrow> rat" where
  "pool al s = s * 0.12 * al"

lemma equalSplit_exact:
  assumes "0 < s" "buyers ps < length ps"
  shows "equalSplit ps (Fin al) (Fin s)
    = map (\<lambda>p. Fin (if is_buyer p then - pool al s else pool al s / of_nat (length ps - buyers ps)) :: exact) ps"
  using assms by (auto simp: equalSplit_def pool_def buyers_def Let_def)

lemma equalSplit_sum:
  assumes "0 < s" "buyers ps < length ps"
  shows "jsum (equalSplit ps (Fin al) (Fin s) :: exact list) = Fin ((1 - of_nat (buyers ps)) * pool al s)"
  using assms
  by (simp add: equalSplit_exact jsum_exact_map [OF refl] sum_by_role_others algebra_simps del: of_nat_diff)

lemma map2_map_same: "map2 f xs (map g xs) = map (\<lambda>x. f x (g x)) xs"
  by (induction xs) auto

lemma proportionalSplit_exact:
  fixes before :: "0 participant \<Rightarrow> rat"
  defines "deficit p \<equiv> max 0 (rat_of (outside_of p) - before p)"
  assumes "0 < buyers ps" "buyers ps < length ps" "\<forall>p \<in> set ps. is_fin (outside_of p)" "0 \<le> pool al s"
  shows "proportionalSplit ps (map (\<lambda>p. Fin (before p)) ps) (Fin al) (Fin s) (buyers ps)
    = map (\<lambda>p. Fin (if is_buyer p then - (pool al s / 2) / of_nat (buyers ps)
         else if 0 < (\<Sum>p\<leftarrow>ps. deficit p) then 3/2 * pool al s * (deficit p / (\<Sum>p\<leftarrow>ps. deficit p))
         else 3/2 * pool al s / of_nat (length ps - buyers ps))) ps"
proof -
  have d: "map2 (\<lambda>p before. jmax 0 (outside_of p - before)) ps (map (\<lambda>p. Fin (before p)) ps)
      = map (\<lambda>p. Fin (deficit p)) ps"
    using assms(4) by (auto simp: map2_map_same deficit_def elim!: is_finE dest!: bspec)
  show ?thesis
    unfolding proportionalSplit_def Let_def d
    unfolding map2_map_same jsum_exact_map [OF refl]
    using assms(2,3,5)
    by (auto simp: pool_def abs_of_nonneg field_simps)
qed

lemma proportionalSplit_sum:
  assumes "0 < buyers ps" "buyers ps < length ps" "\<forall>p \<in> set ps. is_fin (outside_of p)" "0 \<le> pool al s"
    and solvent: "\<forall>p \<in> set ps. is_buyer p \<longrightarrow> rat_of (outside_of p) \<le> before p"
  shows "jsum (proportionalSplit ps (map (\<lambda>p. Fin (before p)) ps) (Fin al) (Fin s) (buyers ps) :: exact list)
    = Fin (pool al s)"
proof -
  let ?d = "\<lambda>p. max 0 (rat_of (outside_of p) - before p)"
  let ?D = "\<Sum>p\<leftarrow>ps. ?d p" and ?B = "- (pool al s / 2) / of_nat (buyers ps)"
  have sum_role: "(\<Sum>p\<leftarrow>ps. if is_buyer p then ?B else f p)
      = - (pool al s / 2) + (\<Sum>p\<leftarrow>ps. if is_buyer p then 0 else f p)" for f
  proof -
    have "(\<Sum>p\<leftarrow>ps. if is_buyer p then ?B else f p)
        = (\<Sum>p\<leftarrow>ps. (if is_buyer p then ?B else 0) + (if is_buyer p then 0 else f p))"
      by (rule arg_cong [where f = sum_list]) auto
    also have "\<dots> = (\<Sum>p\<leftarrow>ps. if is_buyer p then ?B else 0) + (\<Sum>p\<leftarrow>ps. if is_buyer p then 0 else f p)"
      by (rule sum_list_addf)
    finally show ?thesis unfolding sum_by_role_buyers [OF assms(1)] .
  qed
  have deficits: "(\<Sum>p\<leftarrow>ps. if is_buyer p then 0 else 3/2 * pool al s * (?d p / ?D)) = 3/2 * pool al s"
    if D: "0 < ?D"
  proof -
    have "(\<Sum>p\<leftarrow>ps. if is_buyer p then 0 else 3/2 * pool al s * (?d p / ?D))
        = (\<Sum>p\<leftarrow>ps. 3/2 * pool al s / ?D * ?d p)"
      using solvent by (intro arg_cong [where f = sum_list] map_cong) auto
    also have "\<dots> = 3/2 * pool al s / ?D * ?D" by (rule sum_list_const_mult)
    finally show ?thesis using D by simp
  qed
  have equal: "(\<Sum>p\<leftarrow>ps. if is_buyer p then 0 else 3/2 * pool al s / of_nat (length ps - buyers ps))
      = 3/2 * pool al s"
    using sum_by_role_others [OF assms(2), of 0 "3/2 * pool al s"] by simp
  have "(\<Sum>p\<leftarrow>ps. if is_buyer p then ?B
        else if 0 < ?D then 3/2 * pool al s * (?d p / ?D)
        else 3/2 * pool al s / of_nat (length ps - buyers ps)) = pool al s"
  proof (cases "0 < ?D")
    case True
    show ?thesis unfolding sum_role by (simp only: True if_True deficits [OF True])
  next
    case False
    show ?thesis unfolding sum_role by (simp only: False if_False equal)
  qed
  then show ?thesis
    by (simp only: proportionalSplit_exact [OF assms(1-4)] jsum_exact_map [OF refl])
qed

lemma outside_total:
  "\<forall>p \<in> set ps. is_fin (outside_of p) \<Longrightarrow>
     jsum (map outside_of ps) = (Fin (\<Sum>p\<leftarrow>ps. rat_of (outside_of p)) :: exact)"
  by (rule jsum_exact_map) simp

text \<open>What the hypotheses of the two theorems below share: an exact ledger over at least one buyer
  and one other party, with a positive surplus \<open>q\<close>.\<close>

definition exact_ledger :: "0 multiPartyTransferInput \<Rightarrow> rat \<Rightarrow> rat \<Rightarrow> rat \<Rightarrow> bool" where
  "exact_ledger input u al q =
     (in_globalUtility input = Fin u \<and> baselineShare input = None
      \<and> in_alpha input = Some (Fin al) \<and> 0 \<le> al \<and> al \<le> 1
      \<and> 0 < buyers (in_participants input) \<and> buyers (in_participants input) < length (in_participants input)
      \<and> (\<forall>p \<in> set (in_participants input). is_fin (outside_of p))
      \<and> q = u - (\<Sum>p\<leftarrow>in_participants input. rat_of (outside_of p)) \<and> 0 < q)"

lemma exact_ledgerD:
  assumes "exact_ledger input u al q"
  shows "0 < q" "0 \<le> al" "0 < buyers (in_participants input)"
    "buyers (in_participants input) < length (in_participants input)"
    "\<forall>p \<in> set (in_participants input). is_fin (outside_of p)"
  using assms by (auto simp: exact_ledger_def)

lemma exact_ledger_transfers:
  assumes "exact_ledger input u al q"
  shows "map transfer (multiPartyTransferLedger input)
    = (case nullish (in_splitRule input) Proportional of
         EqualSplit \<Rightarrow> equalSplit (in_participants input) (Fin al) (Fin q)
       | Proportional \<Rightarrow> proportionalSplit (in_participants input)
            (map (\<lambda>p. Fin (u * share_q (in_participants input) p)) (in_participants input))
            (Fin al) (Fin q) (buyers (in_participants input))
       | ShapleySplit \<Rightarrow> shapleySplit (in_participants input) (Fin al) (Fin u))"
proof -
  have ne: "in_participants input \<noteq> []" using assms by (auto simp: exact_ledger_def buyers_def)
  have "ledger_surplus input = Fin q" "\<not> q \<le> 0"
    using assms by (simp_all add: ledger_surplus_def exact_ledger_def outside_total)
  moreover have "clamp (nullish (in_alpha input) 1) 0 1 = Fin al" "in_globalUtility input = Fin u"
      "baselineShare input = None"
    using assms by (simp_all add: exact_ledger_def)
  ultimately show ?thesis
    by (simp add: ledger_columns normalizedShares_exact [OF ne] computeTransfers_def comp_def
        flip: buyers_def split: splitRule.split)
qed

text \<open>The default rule is not a transfer between the parties: when the buyers are solvent, the
  transfers of the proportional ledger do not add up to 0 but to the whole pool, 12\% of the
  surplus scaled by \<open>alpha\<close>. The buyers pay half of the pool and the others receive one and a
  half times the pool.\<close>

lemma proportional_ledger_total:
  assumes "exact_ledger input u al q" "nullish (in_splitRule input) Proportional = Proportional"
    and "\<forall>p \<in> set (in_participants input). is_buyer p \<longrightarrow>
           rat_of (outside_of p) \<le> u * share_q (in_participants input) p"
  shows "jsum (map transfer (multiPartyTransferLedger input)) = Fin (q * 0.12 * al)"
proof -
  note l = exact_ledgerD [OF assms(1)]
  have "0 \<le> pool al q" using l by (simp add: pool_def)
  from proportionalSplit_sum [OF l(3-5) this assms(3)] show ?thesis
    unfolding exact_ledger_transfers [OF assms(1)] assms(2) splitRule.case by (simp add: pool_def)
qed

definition demo_params :: "0 agentParameters" where
  "demo_params = \<lparr>urgency = Fin 0, flexibility = Fin 0, truthfulness = Fin 0,
     privacyPreference = Fin 0, riskAversion = Fin 0\<rparr>"

definition demo_buyer :: "0 participant" where
  "demo_buyer = \<lparr>p_id = ''buyer'', p_role = Buyer, p_name = ''Northstar buyer'', strategyId = ''launch-protector'',
     reliability = Fin 1, capacity = None, outsideOption = Some (Fin 8400), parameters = demo_params\<rparr>"

definition demo_supplier :: "0 participant" where
  "demo_supplier = \<lparr>p_id = ''supplier-1'', p_role = Supplier, p_name = ''Cinder supplier'', strategyId = ''capacity-guard'',
     reliability = Fin 1, capacity = None, outsideOption = Some (Fin 5200), parameters = demo_params\<rparr>"

definition demo_input :: "splitRule \<Rightarrow> 0 participant list \<Rightarrow> 0 multiPartyTransferInput" where
  "demo_input r ps = \<lparr>in_participants = ps, in_globalUtility = Fin 30000, in_alpha = Some (Fin 1),
     in_splitRule = Some r, baselineShare = None\<rparr>"

lemmas demo_defs = demo_input_def demo_buyer_def demo_supplier_def

theorem proportional_ledger_total_witness:
  "jsum (map transfer (multiPartyTransferLedger (demo_input Proportional [demo_buyer, demo_supplier]))) = Fin 1968"
proof -
  have "jsum (map transfer (multiPartyTransferLedger (demo_input Proportional [demo_buyer, demo_supplier])))
      = Fin (16400 * 0.12 * 1)"
    by (rule proportional_ledger_total [where u = 30000 and q = 16400 and al = 1])
       (simp_all add: exact_ledger_def demo_defs buyers_def is_buyer_def outside_of_def share_q_def base_share_def)
  then show ?thesis by simp
qed

text \<open>The transfers of the equal split cancel exactly if there is one buyer; each further buyer
  pays the pool a second time, while the others still share a single pool.\<close>

lemma equal_ledger_total:
  assumes "exact_ledger input u al q" "in_splitRule input = Some EqualSplit"
  shows "jsum (map transfer (multiPartyTransferLedger input))
    = Fin ((1 - of_nat (buyers (in_participants input))) * (q * 0.12 * al))"
  using equalSplit_sum [OF exact_ledgerD(1,4) [OF assms(1)], of al]
  unfolding exact_ledger_transfers [OF assms(1)] assms(2) nullish.simps splitRule.case by (simp add: pool_def)

theorem equal_ledger_total_witness:
  "jsum (map transfer (multiPartyTransferLedger (demo_input EqualSplit [demo_buyer, demo_supplier]))) = Fin 0"
proof -
  have "jsum (map transfer (multiPartyTransferLedger (demo_input EqualSplit [demo_buyer, demo_supplier])))
      = Fin ((1 - of_nat (buyers (in_participants (demo_input EqualSplit [demo_buyer, demo_supplier])))) * (16400 * 0.12 * 1))"
    by (rule equal_ledger_total [where u = 30000 and q = 16400 and al = 1])
       (simp_all add: exact_ledger_def demo_defs buyers_def is_buyer_def outside_of_def)
  then show ?thesis by (simp add: demo_defs buyers_def is_buyer_def)
qed

theorem ledger_shares_sum_witness:
  "jsum (map share (multiPartyTransferLedger (demo_input Proportional [demo_buyer, demo_supplier]))) = 1
    \<and> jsum (map utilityBeforeTransfer (multiPartyTransferLedger (demo_input Proportional [demo_buyer, demo_supplier]))) = Fin 30000"
  by (rule ledger_shares_sum) (simp_all add: demo_defs)



text \<open>Beyond six participants the Shapley rule transfers nothing, whatever the surplus, where
  its comment announces the proportional rule.\<close>

lemma shapley_rule_large:
  assumes "6 < length (in_participants input)" "in_splitRule input = Some ShapleySplit"
  shows "map transfer (multiPartyTransferLedger input) = map (\<lambda>_. 0) (in_participants input)"
  using assms by (simp add: ledger_columns computeTransfers_def shapleySplit_def)

theorem shapley_rule_large_witness:
  "map transfer (multiPartyTransferLedger (demo_input ShapleySplit (demo_buyer # replicate 6 demo_supplier)))
     = replicate 7 0"
  using shapley_rule_large [of "demo_input ShapleySplit (demo_buyer # replicate 6 demo_supplier)"]
  by (simp add: demo_input_def map_replicate_const)

end
