(* ===== verification/Sha256.thy ===== *)
theory Sha256
  imports "HOL-Library.Word" Prelude
begin

text \<open>
  \<^verbatim>\<open>computeSha256\<close> and \<^verbatim>\<open>rotr\<close> of \<^verbatim>\<open>packages/engine/src/model/weightedNash.ts\<close>.
  The bitwise operators of JavaScript work on 32 bits, and a sum that is cut with \<^verbatim>\<open>>>> 0\<close> is the
  sum of words, so every number of the algorithm is a \<^typ>\<open>32 word\<close>. Texts are Latin-1.
\<close>

unbundle bit_operations_syntax

definition SHA256_K :: "32 word list" where
  "SHA256_K =
     [1116352408, 1899447441, 3049323471, 3921009573, 961987163, 1508970993,
      2453635748, 2870763221, 3624381080, 310598401, 607225278, 1426881987,
      1925078388, 2162078206, 2614888103, 3248222580, 3835390401, 4022224774,
      264347078, 604807628, 770255983, 1249150122, 1555081692, 1996064986,
      2554220882, 2821834349, 2952996808, 3210313671, 3336571891, 3584528711,
      113926993, 338241895, 666307205, 773529912, 1294757372, 1396182291,
      1695183700, 1986661051, 2177026350, 2456956037, 2730485921, 2820302411,
      3259730800, 3345764771, 3516065817, 3600352804, 4094571909, 275423344,
      430227734, 506948616, 659060556, 883997877, 958139571, 1322822218,
      1537002063, 1747873779, 1955562222, 2024104815, 2227730452, 2361852424,
      2428436474, 2756734187, 3204031479, 3329325298]"

definition rotr :: "32 word \<Rightarrow> nat \<Rightarrow> 32 word" where
  "rotr value bits = drop_bit bits value OR push_bit (32 - bits) value"

text \<open>\<^verbatim>\<open>TextEncoder.encode\<close>: UTF-8.\<close>

definition utf8_char :: "char \<Rightarrow> 8 word list" where
  "utf8_char c =
     (let n = of_char c :: nat in
      if n < 128 then [word_of_nat n]
      else [word_of_nat (192 + n div 64), word_of_nat (128 + n mod 64)])"

definition utf8_encode :: "string \<Rightarrow> 8 word list" where
  "utf8_encode s = concat (map utf8_char s)"

definition paddedLength :: "nat \<Rightarrow> nat" where
  "paddedLength len = push_bit 6 (drop_bit 6 (len + 9 + 63))"

text \<open>\<^verbatim>\<open>DataView.setUint32\<close> writes a number in big-endian order.\<close>

definition setUint32 :: "nat \<Rightarrow> 32 word \<Rightarrow> 8 word list \<Rightarrow> 8 word list" where
  "setUint32 pos v bytes =
     bytes[pos := ucast (drop_bit 24 v), pos + 1 := ucast (drop_bit 16 v),
           pos + 2 := ucast (drop_bit 8 v), pos + 3 := ucast v]"

definition getUint32 :: "8 word list \<Rightarrow> nat \<Rightarrow> 32 word" where
  "getUint32 bytes pos =
     push_bit 24 (ucast (bytes ! pos)) OR push_bit 16 (ucast (bytes ! (pos + 1)))
     OR push_bit 8 (ucast (bytes ! (pos + 2))) OR ucast (bytes ! (pos + 3))"

definition pad :: "8 word list \<Rightarrow> 8 word list" where
  "pad bytes =
     (let bitLength = length bytes * 8;
          plen = paddedLength (length bytes);
          padded = (bytes @ replicate (plen - length bytes) 0)[length bytes := 128];
          high = word_of_int (int bitLength div 4294967296);
          low = word_of_nat bitLength
      in setUint32 (plen - 4) low (setUint32 (plen - 8) high padded))"

definition schedule :: "8 word list \<Rightarrow> nat \<Rightarrow> 32 word list" where
  "schedule padded offset =
     foldl (\<lambda>w i.
         let s0 = xor (xor (rotr (w ! (i - 15)) 7) (rotr (w ! (i - 15)) 18)) (drop_bit 3 (w ! (i - 15)));
             s1 = xor (xor (rotr (w ! (i - 2)) 17) (rotr (w ! (i - 2)) 19)) (drop_bit 10 (w ! (i - 2)))
         in w @ [w ! (i - 16) + s0 + w ! (i - 7) + s1])
       (map (\<lambda>i. getUint32 padded (offset + i * 4)) [0..<16]) [16..<64]"

type_synonym sha_state =
  "32 word \<times> 32 word \<times> 32 word \<times> 32 word \<times> 32 word \<times> 32 word \<times> 32 word \<times> 32 word"

fun sha_round :: "32 word list \<Rightarrow> sha_state \<Rightarrow> nat \<Rightarrow> sha_state" where
  "sha_round w (a, b, c, d, e, f, g, h) i =
     (let s1 = xor (xor (rotr e 6) (rotr e 11)) (rotr e 25);
          ch = xor (e AND f) (not e AND g);
          temp1 = h + s1 + ch + SHA256_K ! i + w ! i;
          s0 = xor (xor (rotr a 2) (rotr a 13)) (rotr a 22);
          maj = xor (xor (a AND b) (a AND c)) (b AND c);
          temp2 = s0 + maj
      in (temp1 + temp2, a, b, c, d + temp1, e, f, g))"

fun sha_add :: "sha_state \<Rightarrow> sha_state \<Rightarrow> sha_state" where
  "sha_add (h0, h1, h2, h3, h4, h5, h6, h7) (a, b, c, d, e, f, g, h) =
     (h0 + a, h1 + b, h2 + c, h3 + d, h4 + e, h5 + f, h6 + g, h7 + h)"

definition sha_block :: "8 word list \<Rightarrow> sha_state \<Rightarrow> nat \<Rightarrow> sha_state" where
  "sha_block padded st offset =
     sha_add st (foldl (sha_round (schedule padded offset)) st [0..<64])"

definition sha_init :: sha_state where
  "sha_init = (1779033703, 3144134277, 1013904242, 2773480762,
     1359893119, 2600822924, 528734635, 1541459225)"

definition hex_alphabet :: string where
  "hex_alphabet = ''0123456789abcdef''"

definition hex_digit :: "nat \<Rightarrow> char" where
  "hex_digit n = hex_alphabet ! n"

text \<open>\<^verbatim>\<open>x.toString(16).padStart(8, "0")\<close>\<close>

definition hex8 :: "32 word \<Rightarrow> string" where
  "hex8 x = map (\<lambda>i. hex_digit (unat (drop_bit (4 * (7 - i)) x AND 15))) [0..<8]"

fun sha_hex :: "sha_state \<Rightarrow> string" where
  "sha_hex (h0, h1, h2, h3, h4, h5, h6, h7) = concat (map hex8 [h0, h1, h2, h3, h4, h5, h6, h7])"

definition computeSha256 :: "string \<Rightarrow> string" where
  "computeSha256 input =
     (let padded = pad (utf8_encode input)
      in sha_hex (foldl (sha_block padded) sha_init
           (map (\<lambda>k. 64 * k) [0..<length padded div 64])))"

section \<open>Rotations and the schedule\<close>

lemma word_rotr_shifts:
  fixes x :: "'a::len word"
  assumes "0 < b" "b < LENGTH('a)"
  shows "drop_bit b x OR push_bit (LENGTH('a) - b) x = word_rotr b x"
proof (rule bit_word_eqI)
  fix n assume n: "n < LENGTH('a)"
  show "bit (drop_bit b x OR push_bit (LENGTH('a) - b) x) n = bit (word_rotr b x) n"
  proof (cases "n + b < LENGTH('a)")
    case True
    then show ?thesis using n by (auto simp: bit_simps bit_word_rotr_iff add.commute)
  next
    case False
    then have "(n + b) mod LENGTH('a) = n + b - LENGTH('a)" using n assms by (simp add: mod_if)
    moreover have "n - (LENGTH('a) - b) = n + b - LENGTH('a)" using assms by simp
    moreover have "\<not> bit x (b + n)" using False by (auto dest: bit_imp_le_length)
    ultimately show ?thesis using n False assms by (auto simp: bit_simps bit_word_rotr_iff)
  qed
qed

lemma rotr_word_rotr: "0 < b \<Longrightarrow> b < 32 \<Longrightarrow> rotr x b = word_rotr b x"
  using word_rotr_shifts [where 'a = 32] by (simp add: rotr_def)

lemma rotr_amounts:
  "rotr x 2 = word_rotr 2 x" "rotr x 6 = word_rotr 6 x" "rotr x 7 = word_rotr 7 x"
  "rotr x 11 = word_rotr 11 x" "rotr x 13 = word_rotr 13 x" "rotr x 17 = word_rotr 17 x"
  "rotr x 18 = word_rotr 18 x" "rotr x 19 = word_rotr 19 x" "rotr x 22 = word_rotr 22 x"
  "rotr x 25 = word_rotr 25 x"
  by (simp_all add: rotr_word_rotr)

text \<open>The schedule of the standard: sixteen words of the block, then a recurrence.\<close>

definition sigma0 :: "32 word \<Rightarrow> 32 word" where
  "sigma0 x = xor (xor (word_rotr 7 x) (word_rotr 18 x)) (drop_bit 3 x)"

definition sigma1 :: "32 word \<Rightarrow> 32 word" where
  "sigma1 x = xor (xor (word_rotr 17 x) (word_rotr 19 x)) (drop_bit 10 x)"

lemma foldl_snoc_length:
  "length (foldl (\<lambda>w i. w @ [g w i]) w is) = length w + length is"
  by (induction "is" arbitrary: w) simp_all

lemma foldl_snoc_take:
  "take (length w) (foldl (\<lambda>w i. w @ [g w i]) w is) = w"
  by (induction "is" rule: rev_induct) (simp_all add: foldl_snoc_length)

lemma foldl_snoc_nth:
  assumes i: "length w \<le> i" "i < n"
  shows "foldl (\<lambda>w i. w @ [g w i]) w [length w..<n] ! i
       = g (take i (foldl (\<lambda>w i. w @ [g w i]) w [length w..<n])) i"
proof -
  let ?f = "\<lambda>w i. w @ [g w i]" and ?F = "\<lambda>n. foldl (\<lambda>w i. w @ [g w i]) w [length w..<n]"
  have len: "length (?F i) = i" using i by (simp add: foldl_snoc_length)
  have "[length w..<n] = [length w..<i] @ [i..<n]"
    using i upt_add_eq_append [of "length w" i "n - i"] by simp
  then have n: "?F n = foldl ?f (?F i) [i..<n]" by simp
  have t: "take i (?F n) = ?F i" unfolding n using foldl_snoc_take [of "?F i" g] len by simp
  have "[i..<n] = i # [Suc i..<n]" using i by (simp add: upt_conv_Cons)
  then have "?F n = foldl ?f (?F i @ [g (?F i) i]) [Suc i..<n]" unfolding n by simp
  then have "take (Suc i) (?F n) = ?F i @ [g (?F i) i]"
    using foldl_snoc_take [of "?F i @ [g (?F i) i]" g "[Suc i..<n]"] len by simp
  moreover have "?F n ! i = take (Suc i) (?F n) ! i" by simp
  ultimately have "?F n ! i = (?F i @ [g (?F i) i]) ! i" by simp
  then show ?thesis unfolding t using len by (simp add: nth_append)
qed

lemma schedule_recurrence_aux:
  assumes "t < 64"
  shows "length (schedule p off) = 64"
    and "t < 16 \<Longrightarrow> schedule p off ! t = getUint32 p (off + t * 4)"
    and "16 \<le> t \<Longrightarrow> schedule p off ! t
      = schedule p off ! (t - 16) + sigma0 (schedule p off ! (t - 15))
        + schedule p off ! (t - 7) + sigma1 (schedule p off ! (t - 2))"
proof -
  define w0 where "w0 = map (\<lambda>i. getUint32 p (off + i * 4)) [0..<16]"
  define g where "g w i = w ! (i - 16) + sigma0 (w ! (i - 15)) + w ! (i - 7) + sigma1 (w ! (i - 2))" for w i
  have l: "length w0 = 16" by (simp add: w0_def)
  have s: "schedule p off = foldl (\<lambda>w i. w @ [g w i]) w0 [length w0..<64]"
    unfolding schedule_def Let_def w0_def [symmetric] l g_def sigma0_def sigma1_def rotr_amounts
    by (simp only: add.assoc)
  show "length (schedule p off) = 64"
    unfolding s by (simp add: foldl_snoc_length l del: upt_rec_numeral)
  have "take 16 (schedule p off) = w0"
    unfolding s using foldl_snoc_take [of w0 g "[length w0..<64]"] by (simp only: l)
  then show "t < 16 \<Longrightarrow> schedule p off ! t = getUint32 p (off + t * 4)"
    using nth_take [of t 16 "schedule p off"] by (simp add: w0_def del: upt_rec_numeral)
  assume t: "16 \<le> t"
  then have "schedule p off ! t = g (take t (schedule p off)) t"
    unfolding s using assms l by (intro foldl_snoc_nth) simp_all
  also have "\<dots> = g (schedule p off) t" using t by (simp add: g_def)
  finally show "schedule p off ! t = schedule p off ! (t - 16) + sigma0 (schedule p off ! (t - 15))
        + schedule p off ! (t - 7) + sigma1 (schedule p off ! (t - 2))" by (simp add: g_def)
qed

section \<open>Padding\<close>

lemma paddedLength_eq: "paddedLength n = 64 * ((n + 72) div 64)"
  by (simp add: paddedLength_def push_bit_eq_mult drop_bit_eq_div)

lemma paddedLength_ge: "n + 9 \<le> paddedLength n"
  unfolding paddedLength_eq by presburger

lemma length_setUint32 [simp]: "length (setUint32 pos v bs) = length bs"
  by (simp add: setUint32_def)

lemma nth_setUint32_before: "i < pos \<Longrightarrow> setUint32 pos v bs ! i = bs ! i"
  by (simp add: setUint32_def)

lemma length_pad: "length (pad bs) = paddedLength (length bs)"
  using paddedLength_ge [of "length bs"] by (simp add: pad_def Let_def)

lemma pad_prefix: "i < length bs \<Longrightarrow> pad bs ! i = bs ! i"
  using paddedLength_ge [of "length bs"]
  by (simp add: pad_def Let_def nth_setUint32_before nth_append)

lemma pad_marker: "pad bs ! length bs = 128"
  using paddedLength_ge [of "length bs"]
  by (simp add: pad_def Let_def nth_setUint32_before nth_append)

lemma pad_zeros: "length bs < i \<Longrightarrow> i < paddedLength (length bs) - 8 \<Longrightarrow> pad bs ! i = 0"
  using paddedLength_ge [of "length bs"]
  by (simp add: pad_def Let_def nth_setUint32_before nth_append)

lemma get_set_Uint32: "pos + 3 < length bs \<Longrightarrow> getUint32 (setUint32 pos v bs) pos = v"
proof (rule bit_word_eqI)
  fix n assume n: "pos + 3 < length bs" "n < LENGTH(32)"
  consider "n < 8" | "8 \<le> n" "n < 16" | "16 \<le> n" "n < 24" | "24 \<le> n" by linarith
  then show "bit (getUint32 (setUint32 pos v bs) pos) n = bit v n"
    using n by cases (auto simp: getUint32_def setUint32_def nth_list_update bit_simps less_diff_conv2)
qed

lemma get_set_Uint32_other:
  "pos + 3 < length bs \<Longrightarrow> p + 3 < pos \<or> pos + 3 < p \<Longrightarrow> getUint32 (setUint32 pos v bs) p = getUint32 bs p"
  by (auto simp: getUint32_def setUint32_def nth_list_update)

lemma take_length_pad: "take (length bs) (pad bs) = bs"
  using paddedLength_ge [of "length bs"]
  by (intro nth_equalityI) (simp_all add: length_pad pad_prefix)

text \<open>The last eight bytes hold the length in bits.\<close>

lemma pad_length_field:
  assumes "length bs < 2 ^ 61"
  shows "uint (getUint32 (pad bs) (length (pad bs) - 8)) * 4294967296
         + uint (getUint32 (pad bs) (length (pad bs) - 4)) = int (length bs * 8)"
proof -
  define L where "L = int (length bs * 8)"
  have L: "0 \<le> L" "L < 18446744073709551616" using assms by (simp_all add: L_def)
  have g: "length bs + 9 \<le> paddedLength (length bs)" by (rule paddedLength_ge)
  then have "getUint32 (pad bs) (length (pad bs) - 4) = word_of_int L"
    unfolding length_pad by (simp add: pad_def Let_def get_set_Uint32 L_def)
  moreover have "paddedLength (length bs) - 8 + 3 < paddedLength (length bs) - 4" using g by arith
  then have "getUint32 (pad bs) (length (pad bs) - 8) = word_of_int (L div 4294967296)"
    using g unfolding length_pad by (simp add: pad_def Let_def get_set_Uint32 get_set_Uint32_other L_def)
  ultimately show ?thesis
    using L by (simp add: uint_word_of_int) (simp add: L_def)
qed

section \<open>Properties\<close>

lemma nibble_less: "unat (x AND 15 :: 32 word) < 16"
proof -
  have "x AND 15 \<le> 15" by (rule word_and_le1)
  then show ?thesis by (simp add: word_le_nat_alt)
qed

lemma set_hex8: "set (hex8 x) \<subseteq> set hex_alphabet"
proof
  fix c assume "c \<in> set (hex8 x)"
  then obtain i where c: "c = hex_digit (unat (drop_bit (4 * (7 - i)) x AND 15))"
    by (auto simp: hex8_def simp del: upt_rec_numeral)
  have "unat (drop_bit (4 * (7 - i)) x AND 15) < length hex_alphabet"
    using nibble_less [of "drop_bit (4 * (7 - i)) x"] by (simp add: hex_alphabet_def)
  then show "c \<in> set hex_alphabet" unfolding c hex_digit_def by (rule nth_mem)
qed

lemma length_hex8 [simp]: "length (hex8 x) = 8"
  by (simp add: hex8_def)

lemma sha_hex_format: "length (sha_hex st) = 64 \<and> set (sha_hex st) \<subseteq> set hex_alphabet"
  by (cases st) (auto dest: set_hex8 [THEN subsetD])

lemma length_sha256 [simp]: "length (computeSha256 s) = 64"
  using sha_hex_format by (simp add: computeSha256_def Let_def)


text \<open>The message schedule is the one of the standard: the first sixteen words are the block in
  big-endian order, and every later word is the sum of four earlier ones, with the shifts of the
  code, rotations written with two shifts, equal to true rotations.\<close>

lemma schedule_standard:
  "length (schedule p off) = 64
   \<and> (\<forall>t < 16. schedule p off ! t = getUint32 p (off + t * 4))
   \<and> (\<forall>t. 16 \<le> t \<and> t < 64 \<longrightarrow> schedule p off ! t
        = schedule p off ! (t - 16) + sigma0 (schedule p off ! (t - 15))
          + schedule p off ! (t - 7) + sigma1 (schedule p off ! (t - 2)))"
proof (intro conjI allI impI)
  show "length (schedule p off) = 64" by (rule schedule_recurrence_aux(1) [of 0]) simp
next
  fix t :: nat assume "t < 16"
  then show "schedule p off ! t = getUint32 p (off + t * 4)"
    by (intro schedule_recurrence_aux(2)) simp_all
next
  fix t :: nat assume "16 \<le> t \<and> t < 64"
  then show "schedule p off ! t = schedule p off ! (t - 16) + sigma0 (schedule p off ! (t - 15))
      + schedule p off ! (t - 7) + sigma1 (schedule p off ! (t - 2))"
    by (intro schedule_recurrence_aux(3)) simp_all
qed

theorem schedule_standard_witness:
  "schedule [] 0 ! 20 = schedule [] 0 ! 4 + sigma0 (schedule [] 0 ! 5) + schedule [] 0 ! 13
     + sigma1 (schedule [] 0 ! 18)"
  by (rule schedule_standard [of "[]" 0, THEN conjunct2, THEN conjunct2, THEN spec, THEN mp, of 20, simplified])

text \<open>Padding gives whole blocks and keeps the message: the bytes come first, then \<^verbatim>\<open>0x80\<close>,
  then zeros, and it never maps two messages to the same blocks.\<close>

lemma pad_injective:
  "64 dvd length (pad bs) \<and> take (length bs) (pad bs) = bs \<and> pad bs ! length bs = 128
   \<and> (\<forall>i. length bs < i \<and> i < length (pad bs) - 8 \<longrightarrow> pad bs ! i = 0)
   \<and> (length bs < 2 ^ 61 \<and> length cs < 2 ^ 61 \<and> pad bs = pad cs \<longrightarrow> bs = cs)"
proof (intro conjI allI impI)
  show "64 dvd length (pad bs)" by (simp add: length_pad paddedLength_eq)
  show "take (length bs) (pad bs) = bs" by (rule take_length_pad)
  show "pad bs ! length bs = 128" by (rule pad_marker)
  show "pad bs ! i = 0" if "length bs < i \<and> i < length (pad bs) - 8" for i
    using that by (simp add: length_pad pad_zeros)
  assume *: "length bs < 2 ^ 61 \<and> length cs < 2 ^ 61 \<and> pad bs = pad cs"
  then have len: "length bs < 2 ^ 61" "length cs < 2 ^ 61" and eq: "pad bs = pad cs" by blast+
  have "int (length bs * 8) = int (length cs * 8)"
    unfolding pad_length_field [OF len(1), symmetric] pad_length_field [OF len(2), symmetric] eq ..
  then have "length bs = length cs" by linarith
  then have "take (length bs) (pad bs) = take (length cs) (pad cs)" by (simp only: eq)
  then show "bs = cs" by (simp only: take_length_pad)
qed

theorem pad_injective_witness: "length (pad [1, 2]) div 64 * 64 = length (pad [1, 2])"
  using pad_injective [of "[1, 2]" "[]", THEN conjunct1] by (rule dvd_div_mult_self)

end
