(* ===== verification/NumText.thy ===== *)
theory NumText
  imports JsNumber
begin

text \<open>
  How JavaScript writes numbers and texts: \<^verbatim>\<open>String(x)\<close> (the shortest decimal that reads back as
  the number), \<^verbatim>\<open>x.toFixed(d)\<close>, and \<^verbatim>\<open>JSON.stringify\<close> of a Latin-1 text.
\<close>

section \<open>Natural numbers\<close>

definition digit_char :: "nat \<Rightarrow> char" where
  "digit_char d = char_of (48 + d)"

fun nat_text :: "nat \<Rightarrow> string" where
  "nat_text n = (if n < 10 then [digit_char n] else nat_text (n div 10) @ [digit_char (n mod 10)])"

declare nat_text.simps [simp del]

definition int_text :: "int \<Rightarrow> string" where
  "int_text i = (if i < 0 then CHR ''-'' # nat_text (nat (- i)) else nat_text (nat i))"

section \<open>Numbers\<close>

definition ten_pow :: "int \<Rightarrow> rat" where
  "ten_pow e = (if 0 \<le> e then 10 ^ nat e else 1 / 10 ^ nat (- e))"

text \<open>The number of decimal digits before the point; for a value below 1, minus the number of
  zeros behind the point. The fuel covers every positive double.\<close>

fun leading_zeros :: "nat \<Rightarrow> rat \<Rightarrow> nat" where
  "leading_zeros 0 v = 0"
| "leading_zeros (Suc k) v = (if 1 \<le> v * 10 then 0 else Suc (leading_zeros k (v * 10)))"

definition dec_exp :: "rat \<Rightarrow> int" where
  "dec_exp v = (if 1 \<le> v then int (length (nat_text (nat \<lfloor>v\<rfloor>))) else - int (leading_zeros 400 v))"

text \<open>The nearest, then the other of the two \<open>k\<close>-digit decimals around \<open>v\<close>, if it reads back as \<open>v\<close>.\<close>

definition digits_at :: "nat \<Rightarrow> rat \<Rightarrow> int \<Rightarrow> nat \<Rightarrow> int option" where
  "digits_at p v n k =
     (let w = v / ten_pow (n - int k); lo = \<lfloor>w\<rfloor>; hi = \<lceil>w\<rceil>;
          (a, b) = (if w - of_int lo \<le> of_int hi - w then (lo, hi) else (hi, lo));
          ok = (\<lambda>s. 0 < s \<and> rnd p (of_int s * ten_pow (n - int k)) = v)
      in if ok a then Some a else if ok b then Some b else None)"

fun shortest :: "nat \<Rightarrow> rat \<Rightarrow> int \<Rightarrow> nat list \<Rightarrow> int \<times> nat" where
  "shortest p v n [] = (\<lfloor>v / ten_pow (n - 17) + 1/2\<rfloor>, 17)"
| "shortest p v n (k # ks) = (case digits_at p v n k of Some s \<Rightarrow> (s, k) | None \<Rightarrow> shortest p v n ks)"

definition layout_digits :: "string \<Rightarrow> int \<Rightarrow> string" where
  "layout_digits ds n =
     (let k = int (length ds) in
      if k \<le> n \<and> n \<le> 21 then ds @ replicate (nat (n - k)) (CHR ''0'')
      else if 0 < n \<and> n \<le> 21 then take (nat n) ds @ ''.'' @ drop (nat n) ds
      else if -6 < n \<and> n \<le> 0 then ''0.'' @ replicate (nat (- n)) (CHR ''0'') @ ds
      else hd ds # (if k = 1 then '''' else ''.'' @ tl ds) @ ''e''
           @ (if 0 < n - 1 then ''+'' else '''') @ int_text (n - 1))"

definition positive_text :: "nat \<Rightarrow> rat \<Rightarrow> string" where
  "positive_text p v =
     (let n = dec_exp v; (s, k) = shortest p v n [1..<18]
      in if s = 10 ^ k then layout_digits ''1'' (n + 1) else layout_digits (int_text s) n)"

fun num_text :: "('p::len0) jsnum \<Rightarrow> string" where
  "num_text (Fin v) = (if v = 0 then ''0'' else if v < 0 then CHR ''-'' # positive_text LENGTH('p) (- v)
                       else positive_text LENGTH('p) v)"
| "num_text PInf = ''Infinity''"
| "num_text NInf = ''-Infinity''"
| "num_text NaN = ''NaN''"

text \<open>\<^verbatim>\<open>x.toFixed(d)\<close>: the nearest multiple of \<^verbatim>\<open>10^-d\<close>, the larger one of two.\<close>

definition fixed_text :: "rat \<Rightarrow> nat \<Rightarrow> string" where
  "fixed_text v d =
     (let m = nat_text (nat \<lfloor>v * 10 ^ d + 1/2\<rfloor>);
          m = (if length m \<le> d then replicate (d + 1 - length m) (CHR ''0'') @ m else m)
      in if d = 0 then m else take (length m - d) m @ ''.'' @ drop (length m - d) m)"

fun toFixed :: "('p::len0) jsnum \<Rightarrow> nat \<Rightarrow> string" where
  "toFixed (Fin v) d =
     (if 10 ^ 21 \<le> \<bar>v\<bar> then num_text (Fin v :: 'p jsnum)
      else if v < 0 then CHR ''-'' # fixed_text (- v) d else fixed_text v d)"
| "toFixed x d = num_text x"

section \<open>Texts\<close>

definition json_char :: "char \<Rightarrow> string" where
  "json_char c =
     (let n = of_char c :: nat in
      if n = 34 then [CHR 0x5C, c] else if n = 92 then [c, c]
      else if n = 8 then CHR 0x5C # ''b'' else if n = 12 then CHR 0x5C # ''f''
      else if n = 10 then CHR 0x5C # ''n'' else if n = 13 then CHR 0x5C # ''r''
      else if n = 9 then CHR 0x5C # ''t''
      else if n < 32 then CHR 0x5C # ''u00'' @ [digit_char (n div 16), ''0123456789abcdef'' ! (n mod 16)]
      else [c])"

definition json_quote :: "string \<Rightarrow> string" where
  "json_quote s = CHR 0x22 # concat (map json_char s) @ [CHR 0x22]"

section \<open>Decimals determine their number\<close>

lemma of_char_digit: "d < 10 \<Longrightarrow> (of_char (digit_char d) :: nat) = 48 + d"
  unfolding digit_char_def of_char_of by simp

lemma digit_char_inj: "d < 10 \<Longrightarrow> e < 10 \<Longrightarrow> digit_char d = digit_char e \<longleftrightarrow> d = e"
  by (metis add_left_imp_eq of_char_digit)

lemma nat_text_not_Nil [simp]: "nat_text n \<noteq> []"
  by (subst nat_text.simps) simp

text \<open>Different numbers have different decimals.\<close>

lemma nat_text_inj: "nat_text m = nat_text n \<longleftrightarrow> m = n"
proof
  show "nat_text m = nat_text n \<Longrightarrow> m = n"
  proof (induction m arbitrary: n rule: nat_text.induct)
    case (1 m)
    show ?case
    proof (cases "m < 10")
      case True
      then show ?thesis using "1.prems"
        by (subst (asm) (1 2) nat_text.simps)
           (auto simp: digit_char_inj Cons_eq_append_conv dest: sym split: if_splits)
    next
      case False
      then have n: "\<not> n < 10" using "1.prems"
        by (subst (asm) (1 2) nat_text.simps) (auto split: if_splits)
      have "nat_text (m div 10) = nat_text (n div 10) \<and> digit_char (m mod 10) = digit_char (n mod 10)"
        using "1.prems" False n by (subst (asm) (1 2) nat_text.simps) simp
      then have "m div 10 = n div 10" "m mod 10 = n mod 10"
        using "1.IH" [OF False] by (simp_all add: digit_char_inj)
      then show ?thesis by (metis div_mult_mod_eq)
    qed
  qed
qed simp

end
