(* ===== verification/WeightedNash.thy ===== *)
theory WeightedNash
  imports Formula Sha256 NumText Types
begin

text \<open>
  The bargaining solver of \<^verbatim>\<open>packages/engine/src/model/weightedNash.ts\<close> with the constants of
  \<^verbatim>\<open>weighted_nash_params.json\<close>: the utility of a participant, the ledger, the grid search for the
  weighted Nash product, and the message protocol with its exposure report.

  Objects indexed by ids are association lists in insertion order; ids are assumed to be neither
  integer texts nor property names of \<^verbatim>\<open>Object.prototype\<close>. The parser of formulas, the
  mathematical functions of the host and the clock are parameters.
\<close>

section \<open>Data\<close>

datatype nashRole = NashBuyer | NashSupplier | NashPackager | NashLogistics | NashDistributor | NashCustom

datatype nashConvergence = NashConverged | NashOscillating | NashNotConverged | NashNoDeal

datatype nashInformationMode =
  NashPrivate | NashRiskOnly | NashCapacityBand | NashCostBand | NashForecastBand | NashFullOracle

datatype mechanismFailureReason =
  NoFeasibleAllocation | BatnaFloorUnreachable | CapacityExceeded | DealbreakerConflict | PrivateModeUnsupported

record 'p nashProduct =
  prod_id :: string
  prod_name :: string
  demand_mean :: "'p jsnum"
  demand_std :: "'p jsnum"
  unit_value :: "'p jsnum"

record 'p nashParticipant =
  np_id :: string
  np_name :: string
  np_role :: nashRole
  utility_formula :: string
  np_parameters :: "(string \<times> 'p jsnum) list"
  outside_option :: "'p jsnum"

record 'p nashScenario =
  ns_id :: string
  ns_title :: string
  n_periods :: nat
  ns_products :: "'p nashProduct list"
  ns_participants :: "'p nashParticipant list"
  ns_capacity :: "(string \<times> 'p jsnum) list"
  risk_score :: "'p jsnum"
  evidence_ids :: "string list option"

record 'p iterationRecord =
  iteration :: nat
  it_quantities :: "(string \<times> 'p jsnum list) list"
  consensus :: "'p jsnum list"
  it_residual :: "'p jsnum"
  price_signal :: "'p jsnum"

record 'p utilityLedger =
  local :: "(string \<times> 'p jsnum) list"
  outside_options :: "(string \<times> 'p jsnum) list"
  global_utility :: "'p jsnum"
  ledger_feasible :: bool

record 'p partyLeakage =
  party_id :: string
  epsilon_bound :: "'p jsnum"
  epsilon_measured :: "'p jsnum"
  pl_round_count :: nat
  message_log_hash :: string
  sufficiency_note :: string

record 'p aggregateLeakage =
  max_epsilon_measured :: "'p jsnum"
  max_epsilon_bound :: "'p jsnum"
  all_within_bound :: bool

record 'p leakageReport =
  lr_protocol_version :: string
  run_id :: string
  seed :: nat
  lr_round_count :: nat
  per_party :: "'p partyLeakage list"
  aggregate :: "'p aggregateLeakage"

record 'p nashRun =
  scenario_id :: string
  algorithm :: string
  information_mode :: nashInformationMode
  nr_convergence :: nashConvergence
  nr_iterations :: "'p iterationRecord list"
  nr_ledger :: "'p utilityLedger"
  runtime_ms :: "'p jsnum"
  final_residual :: "'p jsnum"
  leakage_report :: "'p leakageReport option"
  failure :: "(mechanismFailureReason \<times> string) option"

record 'p nashSolution =
  allocation :: "'p jsnum list"
  nash_product :: "'p jsnum"
  sol_feasible :: bool
  sol_reason :: "mechanismFailureReason option"

record 'p protocolMessage =
  round_seq :: nat
  msg_party_id :: string
  direction :: "'p jsnum list"
  step_proposal :: "'p jsnum"
  msg_protocol_version :: string

record 'p protocolOutcome =
  final_allocation :: "'p jsnum list"
  rounds_used :: nat
  converged :: bool
  po_leakage_report :: "'p leakageReport"
  po_final_residual :: "'p jsnum"

datatype 'p nashError =
    QuantityLength nat nat
  | NoProduct
  | MissingQuantity string
  | FormulaFailed "'p ferror"
  | NonFiniteFloat

text \<open>The host: the parser, \<^verbatim>\<open>Math.log2\<close> beside the other functions of \<^verbatim>\<open>Math\<close>, and the time a
  run takes.\<close>

record 'p host =
  h_math :: "'p mathlib"
  h_log2 :: "'p jsnum \<Rightarrow> 'p jsnum"
  h_acorn :: "'p parser"
  h_elapsed :: "'p jsnum"

section \<open>Constants\<close>

definition NASH_QUANTIZATION_LEVELS :: nat where "NASH_QUANTIZATION_LEVELS = 64"
definition TIE_BREAK_TOLERANCE :: "('p::len0) jsnum" where "TIE_BREAK_TOLERANCE = lit (1 / 10 ^ 9)"
definition step_eta_0 :: "('p::len0) jsnum" where "step_eta_0 = lit 0.5"
definition step_beta :: "('p::len0) jsnum" where "step_beta = lit 0.5"
definition step_scale_fraction :: "('p::len0) jsnum" where "step_scale_fraction = lit 0.05"
definition step_quantization_levels :: nat where "step_quantization_levels = 32"
definition max_rounds :: nat where "max_rounds = 200"
definition convergence_tolerance :: "('p::len0) jsnum" where "convergence_tolerance = lit (1 / 10 ^ 3)"
definition PROTOCOL_VERSION :: string where "PROTOCOL_VERSION = ''transcript-exposure/v1''"
definition PLAINTEXT_ID :: string where "PLAINTEXT_ID = ''weighted_nash_plaintext''"
definition BOUNDED_ID :: string where "BOUNDED_ID = ''weighted_nash_bounded''"
definition LEAKAGE_SUFFICIENCY_NOTE :: string where
  "LEAKAGE_SUFFICIENCY_NOTE = ''transcript-exposure bit upper bound; not a differential-privacy guarantee''"
definition MAX_SAFE_INTEGER :: "('p::len0) jsnum" where "MAX_SAFE_INTEGER = lit 9007199254740991"

section \<open>Utilities and the ledger\<close>

definition first_product :: "'p nashScenario \<Rightarrow> 'p nashProduct option" where
  "first_product s = (case ns_products s of [] \<Rightarrow> None | product # _ \<Rightarrow> Some product)"

definition capacity_of :: "'p nashScenario \<Rightarrow> 'p nashProduct \<Rightarrow> 'p jsnum \<Rightarrow> 'p jsnum" where
  "capacity_of s product d = nullish (map_of (ns_capacity s) (prod_id product)) d"

text \<open>The last entry of an object literal wins, the first one of an association list.\<close>

definition baseNamespace ::
    "('p::len0) nashParticipant \<Rightarrow> 'p nashScenario \<Rightarrow> 'p nashProduct \<Rightarrow> 'p namespace" where
  "baseNamespace participant scenario product =
     map (\<lambda>(k, v). (k, NumV v)) (np_parameters participant) @
     [(''demand'', NumV (demand_mean product)), (''demand_mean'', NumV (demand_mean product)),
      (''demand_std'', NumV (demand_std product)), (''unit_value'', NumV (unit_value product)),
      (''risk_score'', NumV (risk_score scenario)),
      (''capacity'', NumV (capacity_of scenario product MAX_SAFE_INTEGER)),
      (''n_periods'', NumV (of_count (n_periods scenario)))]"

fun lift_formula :: "'p ferror + 'a \<Rightarrow> 'p nashError + 'a" where
  "lift_formula (Inl e) = Inl (FormulaFailed e)"
| "lift_formula (Inr x) = Inr x"

definition evaluateParticipantUtility ::
    "('p::len0) host \<Rightarrow> 'p nashParticipant \<Rightarrow> 'p nashScenario \<Rightarrow> 'p jsnum list \<Rightarrow> 'p nashError + 'p jsnum" where
  "evaluateParticipantUtility h participant scenario quantityVector =
     (if length quantityVector \<noteq> n_periods scenario
      then Inl (QuantityLength (length quantityVector) (n_periods scenario))
      else (case first_product scenario of
        None \<Rightarrow> Inl NoProduct
      | Some product \<Rightarrow>
          (let base = baseNamespace participant scenario product in
           ebind (lift_formula (compileFormula (h_acorn h) (utility_formula participant) None)) (\<lambda>compiled.
             if n_periods scenario = 1
             then lift_formula (evaluate (h_math h) compiled ((''q'', NumV (quantityVector ! 0)) # base))
             else efold (\<lambda>sum t.
                 ebind (lift_formula (evaluate (h_math h) compiled
                   ((''t'', NumV (of_count t)) # (''q'', NumV (quantityVector ! t)) # base)))
                   (\<lambda>u. Inr (sum + u))) 0 [0..<n_periods scenario]))))"

definition ledger_locals ::
    "('p::len0) host \<Rightarrow> 'p nashScenario \<Rightarrow> (string \<times> 'p jsnum list) list \<Rightarrow> 'p nashError + (string \<times> 'p jsnum) list" where
  "ledger_locals h scenario quantities =
     efold (\<lambda>acc participant.
         (case map_of quantities (np_id participant) of
            None \<Rightarrow> Inl (MissingQuantity (np_id participant))
          | Some qVec \<Rightarrow>
              ebind (evaluateParticipantUtility h participant scenario qVec)
                (\<lambda>u. Inr (aput (np_id participant) u acc))))
       [] (ns_participants scenario)"

definition within_capacity ::
    "('p::len0) nashScenario \<Rightarrow> (string \<times> 'p jsnum list) list \<Rightarrow> bool" where
  "within_capacity scenario quantities =
     (let cap = (case first_product scenario of
                   None \<Rightarrow> MAX_SAFE_INTEGER
                 | Some product \<Rightarrow> capacity_of scenario product MAX_SAFE_INTEGER)
      in \<not> (\<exists>participant \<in> set (ns_participants scenario). np_role participant = NashSupplier
            \<and> (\<exists>q \<in> set (nullish (map_of quantities (np_id participant)) []). cap + lit (1 / 10 ^ 6) < q)))"

definition buildWeightedNashLedger ::
    "('p::len0) host \<Rightarrow> 'p nashScenario \<Rightarrow> (string \<times> 'p jsnum list) list \<Rightarrow> 'p nashError + 'p utilityLedger" where
  "buildWeightedNashLedger h scenario quantities =
     ebind (ledger_locals h scenario quantities) (\<lambda>loc. Inr
       \<lparr>local = loc,
        outside_options = from_entries (map (\<lambda>p. (np_id p, outside_option p)) (ns_participants scenario)),
        global_utility = jsum (map snd loc),
        ledger_feasible = within_capacity scenario quantities\<rparr>)"

section \<open>The grid search\<close>

definition defaultWeights :: "('p::len0) nashScenario \<Rightarrow> (string \<times> 'p jsnum) list" where
  "defaultWeights scenario = from_entries (map (\<lambda>p. (np_id p, 1)) (ns_participants scenario))"

definition upperBoundForScenario :: "('p::len0) nashScenario \<Rightarrow> 'p jsnum" where
  "upperBoundForScenario scenario =
     (case first_product scenario of
        None \<Rightarrow> 0
      | Some product \<Rightarrow>
          (let cap = capacity_of scenario product (demand_mean product * lit 2)
           in jmax cap (demand_mean product * lit 1.5)))"

fun nash_loop ::
    "('p::len0) host \<Rightarrow> 'p nashScenario \<Rightarrow> 'p jsnum list \<Rightarrow> (string \<times> 'p jsnum) list \<Rightarrow> 'p nashParticipant list \<Rightarrow> 'p jsnum
     \<Rightarrow> 'p nashError + 'p jsnum" where
  "nash_loop h scenario alloc weights [] product = Inr product"
| "nash_loop h scenario alloc weights (p # ps) product =
     ebind (evaluateParticipantUtility h p scenario alloc) (\<lambda>utility.
       let gain = jmax 0 (utility - outside_option p);
           al = nullish (map_of weights (np_id p)) 1
       in if js_eq gain 0 \<and> 0 < al then Inr 0
          else nash_loop h scenario alloc weights ps (product * m_pow (h_math h) gain al))"

definition computeNashProduct ::
    "('p::len0) host \<Rightarrow> 'p nashScenario \<Rightarrow> 'p jsnum list \<Rightarrow> (string \<times> 'p jsnum) list \<Rightarrow> 'p nashError + 'p jsnum" where
  "computeNashProduct h scenario alloc weights = nash_loop h scenario alloc weights (ns_participants scenario) 1"

definition grid :: "('p::len0) jsnum \<Rightarrow> 'p jsnum list" where
  "grid upperBound =
     map (\<lambda>i. upperBound * of_count i / of_count (NASH_QUANTIZATION_LEVELS - 1)) [0..<NASH_QUANTIZATION_LEVELS]"

type_synonym 'p argmax_state = "'p jsnum \<times> 'p jsnum list option \<times> bool"

definition argmax_step ::
    "('p::len0) host \<Rightarrow> 'p nashScenario \<Rightarrow> (string \<times> 'p jsnum) list \<Rightarrow> 'p argmax_state \<Rightarrow> 'p jsnum
     \<Rightarrow> 'p nashError + 'p argmax_state" where
  "argmax_step h scenario weights st q =
     (case st of (bestProduct, bestAllocation, anyFeasible) \<Rightarrow>
       ebind (computeNashProduct h scenario [q] weights) (\<lambda>nashProduct.
         let anyFeasible = (anyFeasible \<or> 0 < nashProduct)
         in Inr (if bestProduct + TIE_BREAK_TOLERANCE < nashProduct
                 then (nashProduct, Some [q], anyFeasible)
                 else (bestProduct, bestAllocation, anyFeasible))))"

definition infeasible :: "'p jsnum list \<Rightarrow> mechanismFailureReason \<Rightarrow> 'p nashSolution" where
  "infeasible alloc reason = \<lparr>allocation = alloc, nash_product = 0, sol_feasible = False, sol_reason = Some reason\<rparr>"

definition plaintextArgmax ::
    "('p::len0) host \<Rightarrow> 'p nashScenario \<Rightarrow> (string \<times> 'p jsnum) list option \<Rightarrow> 'p jsnum option
     \<Rightarrow> 'p nashError + 'p nashSolution" where
  "plaintextArgmax h scenario weights_opt upperBound_opt =
     (let weights = nullish weights_opt (defaultWeights scenario);
          upperBound = nullish upperBound_opt (upperBoundForScenario scenario) in
      if n_periods scenario \<noteq> 1 then Inr (infeasible [0] NoFeasibleAllocation)
      else if upperBound \<le> 0 then Inr (infeasible [0] CapacityExceeded)
      else ebind (efold (argmax_step h scenario weights) (- 1, None, False) (grid upperBound))
        (\<lambda>(bestProduct, bestAllocation, anyFeasible).
          (case bestAllocation of
             Some alloc \<Rightarrow>
               (if anyFeasible
                then Inr \<lparr>allocation = alloc, nash_product = bestProduct, sol_feasible = True, sol_reason = None\<rparr>
                else Inr (infeasible [grid upperBound ! 0] BatnaFloorUnreachable))
           | None \<Rightarrow> Inr (infeasible [grid upperBound ! 0] BatnaFloorUnreachable))))"

section \<open>Runs\<close>

definition failureRun ::
    "('p::len0) host \<Rightarrow> 'p nashScenario \<Rightarrow> string \<Rightarrow> nashInformationMode \<Rightarrow> mechanismFailureReason \<Rightarrow> string
     \<Rightarrow> 'p leakageReport option \<Rightarrow> 'p nashError + 'p nashRun" where
  "failureRun h scenario name mode reason note report =
     (let zeroQuantities = from_entries (map (\<lambda>p. (np_id p, replicate (n_periods scenario) 0)) (ns_participants scenario))
      in ebind (buildWeightedNashLedger h scenario zeroQuantities) (\<lambda>ledger. Inr
        \<lparr>scenario_id = ns_id scenario, algorithm = name, information_mode = mode, nr_convergence = NashNoDeal,
         nr_iterations = [\<lparr>iteration = 0, it_quantities = zeroQuantities,
           consensus = replicate (n_periods scenario) 0, it_residual = 0, price_signal = 0\<rparr>],
         nr_ledger = ledger, runtime_ms = h_elapsed h, final_residual = 0, leakage_report = report,
         failure = Some (reason, note)\<rparr>))"

definition quantities_for :: "'p nashScenario \<Rightarrow> 'p jsnum list \<Rightarrow> (string \<times> 'p jsnum list) list" where
  "quantities_for scenario alloc = from_entries (map (\<lambda>p. (np_id p, alloc)) (ns_participants scenario))"

definition runWeightedNashPlaintext ::
    "('p::len0) host \<Rightarrow> 'p nashScenario \<Rightarrow> nashInformationMode option \<Rightarrow> 'p nashError + 'p nashRun" where
  "runWeightedNashPlaintext h scenario mode_opt =
     (let mode = nullish mode_opt NashFullOracle in
      if n_periods scenario \<noteq> 1
      then failureRun h scenario PLAINTEXT_ID mode NoFeasibleAllocation
             ''weighted_nash v1 supports n_periods=1 only'' None
      else if 2 < length (ns_participants scenario)
      then failureRun h scenario PLAINTEXT_ID mode NoFeasibleAllocation
             ''weighted_nash v1 supports 2 participants only; N>=3 lands in W4'' None
      else ebind (plaintextArgmax h scenario None None) (\<lambda>solution.
        if \<not> sol_feasible solution
        then failureRun h scenario PLAINTEXT_ID mode (nullish (sol_reason solution) NoFeasibleAllocation)
               ''no allocation puts every party above their BATNA'' None
        else let quantities = quantities_for scenario (allocation solution)
          in ebind (buildWeightedNashLedger h scenario quantities) (\<lambda>ledger. Inr
            \<lparr>scenario_id = ns_id scenario, algorithm = PLAINTEXT_ID, information_mode = mode,
             nr_convergence = NashConverged,
             nr_iterations = [\<lparr>iteration = 0, it_quantities = quantities, consensus = allocation solution,
               it_residual = 0, price_signal = 0\<rparr>],
             nr_ledger = ledger, runtime_ms = h_elapsed h, final_residual = 0, leakage_report = None,
             failure = None\<rparr>)))"

section \<open>The message protocol\<close>

definition stepSize :: "('p::len0) host \<Rightarrow> nat \<Rightarrow> 'p jsnum \<Rightarrow> 'p jsnum" where
  "stepSize h roundSeq upperBound =
     step_eta_0 * step_scale_fraction * upperBound / m_pow (h_math h) (1 + of_count roundSeq) step_beta"

definition quantizeStep :: "('p::len0) jsnum \<Rightarrow> 'p jsnum \<Rightarrow> 'p jsnum" where
  "quantizeStep raw etaMax =
     (if etaMax \<le> 0 then 0
      else let clipped = jmax (- etaMax) (jmin etaMax raw);
               nIntervals = of_count (step_quantization_levels - 1);
               binIndex = jround ((clipped + etaMax) / (lit 2 * etaMax) * nIntervals)
           in binIndex / nIntervals * lit 2 * etaMax - etaMax)"

definition declaredExposureBitBound :: "('p::len0) host \<Rightarrow> nat \<Rightarrow> nat \<Rightarrow> 'p jsnum" where
  "declaredExposureBitBound h roundCount nCoords =
     of_count roundCount * (of_count nCoords * h_log2 h (lit 3) + h_log2 h (of_count step_quantization_levels))"

definition partyGradientDirection ::
    "('p::len0) host \<Rightarrow> 'p nashParticipant \<Rightarrow> 'p nashScenario \<Rightarrow> 'p jsnum list \<Rightarrow> 'p jsnum
     \<Rightarrow> 'p nashError + 'p jsnum list" where
  "partyGradientDirection h participant scenario candidate eps =
     emap (\<lambda>index.
         let plus = candidate[index := jmax 0 (candidate ! index + eps)];
             minus = candidate[index := jmax 0 (candidate ! index - eps)]
         in ebind (evaluateParticipantUtility h participant scenario plus) (\<lambda>up.
            ebind (evaluateParticipantUtility h participant scenario minus) (\<lambda>um.
              let diff = up - um in
              Inr (if convergence_tolerance < diff then 1
                   else if diff < - convergence_tolerance then - 1 else 0))))
       [0..<length candidate]"

definition partyStepProposal :: "('p::len0) host \<Rightarrow> nat \<Rightarrow> 'p jsnum \<Rightarrow> 'p jsnum" where
  "partyStepProposal h roundSeq upperBound =
     (let eta = stepSize h roundSeq upperBound in quantizeStep eta eta)"

definition aggregateNextCandidate ::
    "('p::len0) protocolMessage list \<Rightarrow> 'p jsnum list \<Rightarrow> (string \<times> 'p jsnum) list \<Rightarrow> 'p jsnum \<Rightarrow> 'p jsnum list" where
  "aggregateNextCandidate messages candidate weights upperBound =
     (let delta = foldl (\<lambda>delta m.
            let weight = nullish (map_of weights (msg_party_id m)) 1
            in map (\<lambda>i. delta ! i + weight * (direction m ! i) * step_proposal m) [0..<length candidate])
          (replicate (length candidate) 0) messages
      in map (\<lambda>i. jmax 0 (jmin upperBound (candidate ! i + delta ! i))) [0..<length candidate])"

fun is_integer :: "'p jsnum \<Rightarrow> bool" where
  "is_integer (Fin v) = (of_int \<lfloor>v\<rfloor> = v)"
| "is_integer _ = False"

definition pythonFloatJson :: "('p::len0) jsnum \<Rightarrow> 'p nashError + string" where
  "pythonFloatJson v =
     (if \<not> is_fin v then Inl NonFiniteFloat
      else if is_integer v then Inr (toFixed v 1) else Inr (num_text v))"

definition protocolMessageCanonicalJson :: "('p::len0) protocolMessage \<Rightarrow> 'p nashError + string" where
  "protocolMessageCanonicalJson m =
     ebind (pythonFloatJson (step_proposal m)) (\<lambda>step. Inr
       (''{'' @ json_quote ''direction'' @ '':['' @ join_with '','' (map num_text (direction m)) @ ''],'' @
        json_quote ''party_id'' @ '':'' @ json_quote (msg_party_id m) @ '','' @
        json_quote ''protocol_version'' @ '':'' @ json_quote (msg_protocol_version m) @ '','' @
        json_quote ''round_seq'' @ '':'' @ nat_text (round_seq m) @ '','' @
        json_quote ''step_proposal'' @ '':'' @ step @ ''}''))"

type_synonym 'p message_logs = "(string \<times> 'p protocolMessage list) list"

record 'p protocolState =
  candidate :: "'p jsnum list"
  perPartyLogs :: "'p message_logs"
  ps_converged :: bool
  roundsUsed :: nat
  ps_finalResidual :: "'p jsnum"

definition round_messages ::
    "('p::len0) host \<Rightarrow> 'p nashScenario \<Rightarrow> 'p jsnum \<Rightarrow> nat \<Rightarrow> 'p jsnum list \<Rightarrow> 'p nashError + 'p protocolMessage list" where
  "round_messages h scenario upperBound roundSeq cand =
     emap (\<lambda>participant.
         ebind (partyGradientDirection h participant scenario cand 1) (\<lambda>dir. Inr
           \<lparr>round_seq = roundSeq, msg_party_id = np_id participant, direction = dir,
            step_proposal = partyStepProposal h roundSeq upperBound, msg_protocol_version = PROTOCOL_VERSION\<rparr>))
       (ns_participants scenario)"

text \<open>\<^verbatim>\<open>perPartyLogs[id]?.push(message)\<close>\<close>

definition push_log :: "'p message_logs \<Rightarrow> 'p protocolMessage \<Rightarrow> 'p message_logs" where
  "push_log logs m =
     (case map_of logs (msg_party_id m) of
        None \<Rightarrow> logs | Some entries \<Rightarrow> aput (msg_party_id m) (entries @ [m]) logs)"

text \<open>One turn of the loop: the new state, and whether the loop breaks.\<close>

definition protocol_round ::
    "('p::len0) host \<Rightarrow> 'p nashScenario \<Rightarrow> (string \<times> 'p jsnum) list \<Rightarrow> 'p jsnum \<Rightarrow> nat \<Rightarrow> 'p protocolState
     \<Rightarrow> 'p nashError + ('p protocolState \<times> bool)" where
  "protocol_round h scenario weights upperBound roundSeq st =
     ebind (round_messages h scenario upperBound roundSeq (candidate st)) (\<lambda>messages.
       let st = st\<lparr>roundsUsed := roundSeq + 1, perPartyLogs := foldl push_log (perPartyLogs st) messages\<rparr> in
       if \<forall>m \<in> set messages. \<forall>d \<in> set (direction m). js_eq d 0
       then Inr (st\<lparr>ps_converged := True, ps_finalResidual := 0\<rparr>, True)
       else let nextCandidate = aggregateNextCandidate messages (candidate st) weights upperBound;
                residual = m_sqrt (h_math h) (foldl (\<lambda>sum i.
                  sum + m_pow (h_math h) (nextCandidate ! i - candidate st ! i) (lit 2)) 0 [0..<length nextCandidate]);
                st = st\<lparr>candidate := nextCandidate, ps_finalResidual := residual\<rparr>
            in if residual < convergence_tolerance then Inr (st\<lparr>ps_converged := True\<rparr>, True)
               else Inr (st, False))"

fun protocol_loop ::
    "('p::len0) host \<Rightarrow> 'p nashScenario \<Rightarrow> (string \<times> 'p jsnum) list \<Rightarrow> 'p jsnum \<Rightarrow> nat list \<Rightarrow> 'p protocolState
     \<Rightarrow> 'p nashError + 'p protocolState" where
  "protocol_loop h scenario weights upperBound [] st = Inr st"
| "protocol_loop h scenario weights upperBound (roundSeq # rs) st =
     ebind (protocol_round h scenario weights upperBound roundSeq st) (\<lambda>(st, stop).
       if stop then Inr st else protocol_loop h scenario weights upperBound rs st)"

definition party_report ::
    "('p::len0) jsnum \<Rightarrow> 'p protocolState \<Rightarrow> 'p nashParticipant \<Rightarrow> 'p nashError + 'p partyLeakage" where
  "party_report epsilonBound st participant =
     ebind (emap protocolMessageCanonicalJson (nullish (map_of (perPartyLogs st) (np_id participant)) []))
       (\<lambda>texts. Inr
         \<lparr>party_id = np_id participant, epsilon_bound = epsilonBound, epsilon_measured = epsilonBound,
          pl_round_count = roundsUsed st, message_log_hash = computeSha256 (''['' @ join_with '','' texts @ '']''),
          sufficiency_note = LEAKAGE_SUFFICIENCY_NOTE\<rparr>)"

definition runTranscriptExposureProtocol ::
    "('p::len0) host \<Rightarrow> 'p nashScenario \<Rightarrow> (string \<times> 'p jsnum) list \<Rightarrow> 'p jsnum list \<Rightarrow> 'p jsnum \<Rightarrow> string \<Rightarrow> nat option
     \<Rightarrow> 'p nashError + 'p protocolOutcome" where
  "runTranscriptExposureProtocol h scenario weights initialAllocation upperBound runId seed_opt =
     (let logs = from_entries (map (\<lambda>p. (np_id p, [])) (ns_participants scenario)) in
      ebind (protocol_loop h scenario weights upperBound [0..<max_rounds]
        \<lparr>candidate = initialAllocation, perPartyLogs = logs, ps_converged = False, roundsUsed = 0,
         ps_finalResidual = 0\<rparr>) (\<lambda>st.
      let epsilonBound = declaredExposureBitBound h (roundsUsed st) (length initialAllocation) in
      ebind (emap (party_report epsilonBound st) (ns_participants scenario)) (\<lambda>perParty. Inr
        \<lparr>final_allocation = candidate st, rounds_used = roundsUsed st, converged = ps_converged st,
         po_leakage_report =
          \<lparr>lr_protocol_version = PROTOCOL_VERSION, run_id = runId, seed = nullish seed_opt 0,
           lr_round_count = roundsUsed st, per_party = perParty,
           aggregate = \<lparr>max_epsilon_measured = jmaxs (map epsilon_measured perParty),
             max_epsilon_bound = jmaxs (map epsilon_bound perParty),
             all_within_bound = (\<forall>p \<in> set perParty. epsilon_measured p \<le> epsilon_bound p)\<rparr>\<rparr>,
         po_final_residual = ps_finalResidual st\<rparr>)))"

definition runWeightedNashBounded ::
    "('p::len0) host \<Rightarrow> 'p nashScenario \<Rightarrow> nashInformationMode option \<Rightarrow> string option \<Rightarrow> 'p nashError + 'p nashRun" where
  "runWeightedNashBounded h scenario mode_opt runId_opt =
     (let mode = nullish mode_opt NashPrivate in
      if n_periods scenario \<noteq> 1
      then failureRun h scenario BOUNDED_ID mode NoFeasibleAllocation
             ''weighted_nash_bounded v1 supports n_periods=1 only'' None
      else if 2 < length (ns_participants scenario)
      then failureRun h scenario BOUNDED_ID mode NoFeasibleAllocation
             ''weighted_nash_bounded v1 supports 2 participants only; N>=3 lands in W4'' None
      else if mode \<noteq> NashPrivate
      then ebind (runWeightedNashPlaintext h scenario (Some mode)) (\<lambda>run. Inr (run\<lparr>algorithm := BOUNDED_ID\<rparr>))
      else let upperBound = upperBoundForScenario scenario in
        ebind (runTranscriptExposureProtocol h scenario (defaultWeights scenario) [upperBound / lit 2] upperBound
          (nullish runId_opt ''run-wnash-ts'') None) (\<lambda>outcome.
        let quantities = quantities_for scenario (final_allocation outcome) in
        ebind (buildWeightedNashLedger h scenario quantities) (\<lambda>ledger.
        let anyBelowBatna = (\<exists>p \<in> set (ns_participants scenario).
              nullish (map_of (local ledger) (np_id p)) NaN < outside_option p - lit (1 / 10 ^ 6)) in
        if anyBelowBatna
        then failureRun h scenario BOUNDED_ID mode BatnaFloorUnreachable
               ''transcript-exposure protocol converged but at least one party falls below outside_option in the final allocation''
               (Some (po_leakage_report outcome))
        else Inr
          \<lparr>scenario_id = ns_id scenario, algorithm = BOUNDED_ID, information_mode = mode,
           nr_convergence = (if converged outcome then NashConverged else NashNotConverged),
           nr_iterations = [\<lparr>iteration = rounds_used outcome, it_quantities = quantities,
             consensus = final_allocation outcome, it_residual = po_final_residual outcome, price_signal = 0\<rparr>],
           nr_ledger = ledger, runtime_ms = h_elapsed h, final_residual = po_final_residual outcome,
           leakage_report = Some (po_leakage_report outcome), failure = None\<rparr>)))"

end
