(* ===== verification/NashLaws.thy ===== *)
theory NashLaws
  imports WeightedNash
begin

text \<open>
  What the bargaining solver guarantees: the grid search finds a maximum up to its tolerance, a
  positive product puts every party above its outside option, the protocol stops and stays in
  the box, and the exposure report. The results about order hold for numbers of every precision.
\<close>

section \<open>The Nash product\<close>

text \<open>The product of the gains never leaves the representable numbers.\<close>

lemma nash_loop_representable:
  "nash_loop h s alloc w ps x = Inr p \<Longrightarrow> representable x \<Longrightarrow> representable p"
  by (induction ps arbitrary: x) (auto simp: Let_def zero_jsnum_def split: if_splits)

lemma product_representable: "computeNashProduct h s alloc w = Inr p \<Longrightarrow> representable p"
  using nash_loop_representable [of h s alloc w "ns_participants s" 1 p] by (simp add: computeNashProduct_def)

text \<open>A positive product leaves no party without a gain, as long as the weights are positive.\<close>

lemma nash_loop_positive:
  assumes "nash_loop h s alloc w ps x = Inr p" "0 < p" "p0 \<in> set ps"
    and "0 < nullish (map_of w (np_id p0)) 1"
  shows "\<exists>u. evaluateParticipantUtility h p0 s alloc = Inr u \<and> (outside_option p0 < u \<or> outside_option p0 = NaN \<or> u - outside_option p0 = NaN)"
  using assms(1,3)
proof (induction ps arbitrary: x)
  case (Cons q ps)
  from Cons.prems(1) obtain u where u: "evaluateParticipantUtility h q s alloc = Inr u" by auto
  show ?case
  proof (cases "p0 = q")
    case False
    then show ?thesis using Cons u assms(2) by (auto simp: Let_def zero_jsnum_def less_jsnum_def split: if_splits)
  next
    case True
    have "\<not> js_eq (jmax 0 (u - outside_option q)) 0"
      using Cons.prems(1) u assms(2,4) True by (auto simp: Let_def zero_jsnum_def less_jsnum_def split: if_splits)
    then have "u - outside_option q = NaN \<or> 0 < u - outside_option q"
      by (cases "u - outside_option q") (auto simp: js_eq_def jmax_def split: if_splits)
    then show ?thesis using u True num_diff_pos_imp_less [of u "outside_option q"]
      by (auto simp: zero_jsnum_def)
  qed
qed simp

section \<open>The grid search\<close>

text \<open>The state of the search after the points \<open>qs\<close>.\<close>

definition search_invariant ::
    "('p::len0) host \<Rightarrow> 'p nashScenario \<Rightarrow> (string \<times> 'p jsnum) list \<Rightarrow> 'p jsnum list \<Rightarrow> 'p argmax_state \<Rightarrow> bool" where
  "search_invariant h s w qs st =
     (case st of (b, a, f) \<Rightarrow>
        b \<noteq> NaN \<and> representable b
        \<and> (a = None \<longrightarrow> b = - 1)
        \<and> (\<forall>al. a = Some al \<longrightarrow> (\<exists>q \<in> set qs. al = [q] \<and> computeNashProduct h s [q] w = Inr b))
        \<and> (\<forall>q \<in> set qs. \<exists>p. computeNashProduct h s [q] w = Inr p \<and> \<not> b + TIE_BREAK_TOLERANCE < p)
        \<and> (f \<longleftrightarrow> (\<exists>q \<in> set qs. \<exists>p. computeNashProduct h s [q] w = Inr p \<and> 0 < p)))"

lemma tolerance_nonneg: "Fin 0 \<le> (TIE_BREAK_TOLERANCE :: ('p::len0) jsnum)"
  unfolding TIE_BREAK_TOLERANCE_def by (rule lit_nonneg) simp

lemma tolerance_fin: "is_fin (TIE_BREAK_TOLERANCE :: ('p::len0) jsnum)"
proof -
  have "\<bar>1 / 10 ^ 9 :: rat\<bar> \<le> 2 ^ 1000"
    by (rule order_trans [of _ 1]) simp_all
  then show ?thesis by (simp add: TIE_BREAK_TOLERANCE_def lit_is_fin)
qed

lemma tolerance_plus: "x \<noteq> NaN \<Longrightarrow> x + TIE_BREAK_TOLERANCE \<noteq> (NaN :: ('p::len0) jsnum)"
proof -
  obtain r where r: "(TIE_BREAK_TOLERANCE :: 'p jsnum) = Fin r" by (rule is_finE [OF tolerance_fin])
  show "x \<noteq> NaN \<Longrightarrow> x + TIE_BREAK_TOLERANCE \<noteq> NaN" unfolding r by (cases x) simp_all
qed

lemma improvement:
  fixes b p p' :: "('p::len0) jsnum"
  assumes "b \<noteq> NaN" "representable b" "b + TIE_BREAK_TOLERANCE < p" "\<not> b + TIE_BREAK_TOLERANCE < p'"
  shows "\<not> p + TIE_BREAK_TOLERANCE < p'"
proof
  assume *: "p + TIE_BREAK_TOLERANCE < p'"
  have "b \<le> b + TIE_BREAK_TOLERANCE"
    using assms by (intro num_le_add tolerance_nonneg tolerance_plus)
  then have "b \<le> p" using assms(3) num_less_imp_le num_trans by blast
  have "p \<noteq> NaN" using assms(3) by auto
  from \<open>b \<le> p\<close> have "b + TIE_BREAK_TOLERANCE \<le> p + TIE_BREAK_TOLERANCE"
  proof (rule num_add_mono)
    show "TIE_BREAK_TOLERANCE \<le> (TIE_BREAK_TOLERANCE :: 'p jsnum)"
      using num_le_not_NaN [OF tolerance_nonneg] by simp
  qed (use assms(1) \<open>p \<noteq> NaN\<close> in \<open>simp_all add: tolerance_plus\<close>)
  then show False using * assms(4) num_le_less_trans by blast
qed

lemma search_step:
  assumes "search_invariant h s w qs st" "argmax_step h s w st q = Inr st'"
  shows "search_invariant h s w (qs @ [q]) st'"
proof -
  obtain b a f where st: "st = (b, a, f)" by (cases st)
  from assms(2) obtain p where p: "computeNashProduct h s [q] w = Inr p"
    and st': "st' = (if b + TIE_BREAK_TOLERANCE < p then (p, Some [q], f \<or> 0 < p) else (b, a, f \<or> 0 < p))"
    by (auto simp: argmax_step_def st Let_def)
  note inv = assms(1) [unfolded search_invariant_def st prod.case]
  show ?thesis
  proof (cases "b + TIE_BREAK_TOLERANCE < p")
    case True
    have "\<not> p + TIE_BREAK_TOLERANCE < p'" if "\<not> b + TIE_BREAK_TOLERANCE < p'" for p'
      using inv True that by (intro improvement [of b p]) auto
    moreover have "\<not> p + TIE_BREAK_TOLERANCE < p"
    proof -
      have "p \<le> p + TIE_BREAK_TOLERANCE"
        using product_representable [OF p] True by (intro num_le_add tolerance_nonneg tolerance_plus) auto
      then show ?thesis by (rule num_leD)
    qed
    moreover have "p \<noteq> NaN" "representable p" using True product_representable [OF p] by auto
    moreover have "\<exists>p'. computeNashProduct h s [q'] w = Inr p' \<and> \<not> b + TIE_BREAK_TOLERANCE < p'"
      if "q' \<in> set qs" for q' using inv that by blast
    ultimately have "\<forall>q' \<in> set (qs @ [q]). \<exists>p'. computeNashProduct h s [q'] w = Inr p' \<and> \<not> p + TIE_BREAK_TOLERANCE < p'"
      using p by (metis Un_iff empty_iff insert_iff list.set set_append)
    then show ?thesis
      using inv p True \<open>p \<noteq> NaN\<close> \<open>representable p\<close> unfolding search_invariant_def st' by auto
  next
    case False
    then show ?thesis using inv p unfolding search_invariant_def st' by auto
  qed
qed

lemma search_result:
  "efold (argmax_step h s w) (- 1, None, False) qs = Inr st \<Longrightarrow> search_invariant h s w qs st"
proof (induction qs arbitrary: st rule: rev_induct)
  case Nil
  then show ?case by (auto simp: search_invariant_def one_jsnum_def)
next
  case (snoc q qs)
  then show ?case by (auto simp: efold_append intro: search_step)
qed

lemma grid_not_Nil [simp]: "grid ub \<noteq> []"
  by (simp add: grid_def NASH_QUANTIZATION_LEVELS_def)

lemma argmax_feasible:
  assumes "plaintextArgmax h s w_opt ub_opt = Inr sol" "sol_feasible sol"
  shows "\<exists>al. search_invariant h s (nullish w_opt (defaultWeights s)) (grid (nullish ub_opt (upperBoundForScenario s)))
      (nash_product sol, Some al, True) \<and> allocation sol = al \<and> n_periods s = 1"
  using assms search_result [of h s "nullish w_opt (defaultWeights s)" "grid (nullish ub_opt (upperBoundForScenario s))"]
  by (auto simp: plaintextArgmax_def Let_def infeasible_def split: if_splits option.splits)

section \<open>A family of scenarios\<close>

text \<open>Two suppliers whose utility is the quantity itself, with the outside option \<open>fl\<close>, a mean demand
  \<open>d\<close> and the capacities \<open>caps\<close>; numbers are exact.\<close>

definition id_host :: "0 host" where
  "id_host = \<lparr>h_math = \<lparr>m_sqrt = (\<lambda>x. x), m_log = (\<lambda>x. x), m_exp = (\<lambda>x. x),
       m_pow = (\<lambda>x y. if y = Fin 2 then x * x else x)\<rparr>,
     h_log2 = (\<lambda>x. x), h_acorn = (\<lambda>_. Inr (Identifier ''q'', 1)), h_elapsed = 0\<rparr>"

definition id_party :: "string \<Rightarrow> rat \<Rightarrow> 0 nashParticipant" where
  "id_party name fl = \<lparr>np_id = name, np_name = name, np_role = NashSupplier, utility_formula = ''q'',
     np_parameters = [], outside_option = Fin fl\<rparr>"

definition id_scenario :: "rat \<Rightarrow> rat \<Rightarrow> (string \<times> 0 jsnum) list \<Rightarrow> 0 nashScenario" where
  "id_scenario d fl caps = \<lparr>ns_id = ''s'', ns_title = ''s'', n_periods = 1,
     ns_products = [\<lparr>prod_id = ''p'', prod_name = ''p'', demand_mean = Fin d, demand_std = Fin 0, unit_value = Fin 1\<rparr>],
     ns_participants = [id_party ''a'' fl, id_party ''b'' fl], ns_capacity = caps, risk_score = Fin 0,
     evidence_ids = None\<rparr>"

lemma id_compile:
  "compileFormula (h_acorn id_host) ''q'' None
     = Inr \<lparr>cf_source = ''q'', cf_variables = [''q''], cf_root = Identifier ''q''\<rparr>"
proof -
  have t: "trim ''q'' = ''q''" "trim (drop 1 ''q'') = []" by code_simp+
  have "validate (Identifier ''q'' :: 0 fnode) ([], 0) = Inr ([''q''], 1)"
    by (simp add: validate_accepts MAX_AST_NODES_def private_name_def allowedFunctions_def
        own_functions_def object_prototype_def set_add_def)
  then show ?thesis using t(2)
    by (simp add: compileFormula_def t(1) id_host_def MAX_EXPR_LEN_def Let_def)
qed

lemma id_utility:
  "p = id_party name fl' \<Longrightarrow> evaluateParticipantUtility id_host p (id_scenario d fl caps) [Fin q] = Inr (Fin q)"
  by (simp add: evaluateParticipantUtility_def id_party_def id_scenario_def first_product_def
      id_compile [simplified] evaluate_def eval_steps allowedFunctions_def own_functions_def
      object_prototype_def numeric.simps)

lemma id_product:
  "computeNashProduct id_host (id_scenario d fl caps) [Fin q] (defaultWeights (id_scenario d fl caps))
     = Inr (Fin ((max 0 (q - fl))\<^sup>2))"
proof -
  have w: "map_of (defaultWeights (id_scenario d fl caps)) ''a'' = Some (Fin 1)"
    "map_of (defaultWeights (id_scenario d fl caps)) ''b'' = Some (Fin 1)"
    by (simp_all add: defaultWeights_def from_entries_def id_scenario_def id_party_def)
  have u: "evaluateParticipantUtility id_host (id_party name fl) (id_scenario d fl caps) [Fin q] = Inr (Fin q)" for name
    by (rule id_utility [OF refl])
  have ps: "ns_participants (id_scenario d fl caps) = [id_party ''a'' fl, id_party ''b'' fl]"
    and pa: "np_id (id_party name fl) = name" "outside_option (id_party name fl) = Fin fl" for name
    by (simp_all add: id_scenario_def id_party_def)
  have pow: "m_pow (h_math id_host) x (Fin 1) = x" for x by (simp add: id_host_def)
  show ?thesis
    by (simp add: computeNashProduct_def ps u pa w pow js_eq_def power2_eq_square Let_def)
qed

lemma grid_exact: "grid (Fin ub :: exact) = map (\<lambda>i. Fin (ub * of_nat i / 63)) [0..<64]"
  by (simp add: grid_def NASH_QUANTIZATION_LEVELS_def del: upt_rec_numeral)

lemma id_upper: "upperBoundForScenario (id_scenario d fl caps)
    = jmax (nullish (map_of caps ''p'') (Fin (d * 2))) (Fin (d * 1.5))"
  by (simp add: upperBoundForScenario_def id_scenario_def first_product_def capacity_of_def)

section \<open>Properties of the plaintext solver\<close>

text \<open>C26: A feasible answer of the grid search is a point of the grid whose Nash product no other
  point of the grid exceeds by more than the tie tolerance, in the rounding of the machine.\<close>

theorem plaintextArgmax_optimal:
  assumes "plaintextArgmax h s w_opt ub_opt = Inr sol" "sol_feasible sol"
  shows "\<exists>q \<in> set (grid (nullish ub_opt (upperBoundForScenario s))).
      allocation sol = [q]
      \<and> computeNashProduct h s [q] (nullish w_opt (defaultWeights s)) = Inr (nash_product sol)
      \<and> (\<forall>q' \<in> set (grid (nullish ub_opt (upperBoundForScenario s))).
           \<exists>p. computeNashProduct h s [q'] (nullish w_opt (defaultWeights s)) = Inr p
             \<and> \<not> nash_product sol + TIE_BREAK_TOLERANCE < p)"
  using argmax_feasible [OF assms] by (auto simp: search_invariant_def)

lemma evaluate_finite:
  assumes "n_periods s = 1" "evaluateParticipantUtility h p s v = Inr u" shows "is_fin u"
proof -
  have lift: "lift_formula r = Inr x \<longleftrightarrow> r = Inr x" for r :: "'a ferror + 'b" and x by (cases r) auto
  show ?thesis using assms
    by (auto simp: evaluateParticipantUtility_def Let_def lift evaluate_def dest: eval_finite
        split: if_splits option.splits)
qed

lemma default_weight:
  "p \<in> set (ns_participants s) \<Longrightarrow> nullish (map_of (defaultWeights s) (np_id p)) (Fin 1) = Fin 1"
  by (auto simp: defaultWeights_def map_of_from_entries_fun)

lemma id_search:
  assumes "Fin ub = upperBoundForScenario (id_scenario d fl caps)" "0 < ub" "fl < ub" "ub * 62 / 63 \<le> fl" "1 \<le> ub - fl"
  shows "\<exists>sol. plaintextArgmax id_host (id_scenario d fl caps) None None = Inr sol
    \<and> allocation sol = [Fin ub] \<and> sol_feasible sol \<and> 0 < nash_product sol"
proof -
  let ?s = "id_scenario d fl caps" and ?g = "grid (Fin ub :: exact)"
  let ?w = "defaultWeights ?s"
  have g: "set ?g = (\<lambda>i. Fin (ub * of_nat i / 63)) ` {..<64}"
    by (simp add: grid_exact atLeast0LessThan del: upt_rec_numeral)
  have total: "\<exists>st. efold (argmax_step id_host ?s ?w) st0 qs = Inr st" if "set qs \<subseteq> set ?g" for qs st0
    using that
  proof (induction qs arbitrary: st0)
    case (Cons q qs)
    then obtain r where "q = Fin r" unfolding g by auto
    then obtain st1 where "argmax_step id_host ?s ?w st0 q = Inr st1"
      by (cases st0) (auto simp: argmax_step_def id_product Let_def)
    then show ?case using Cons by auto
  next
    case Nil
    show ?case by (rule exI) (rule efold.simps(1))
  qed
  then obtain b a f where run: "efold (argmax_step id_host ?s ?w) (- 1, None, False) ?g = Inr (b, a, f)"
    using prod_cases3 by (metis subset_refl)
  note inv = search_result [OF run, unfolded search_invariant_def prod.case]
  have top: "Fin ub \<in> set ?g"
    unfolding g using image_eqI [of "Fin ub" "\<lambda>i. Fin (ub * of_nat i / 63)" 63 "{..<64}"] by simp
  have sq: "1 \<le> (max 0 (ub - fl))\<^sup>2" using assms(5) by simp
  from top inv id_product [of d fl caps ub] have "\<not> b + TIE_BREAK_TOLERANCE < Fin ((max 0 (ub - fl))\<^sup>2)"
    by fastforce
  then have b: "\<not> b + Fin (1 / 10 ^ 9) < Fin ((max 0 (ub - fl))\<^sup>2)" by (simp add: TIE_BREAK_TOLERANCE_def)
  have "a \<noteq> None" using b inv sq by (auto simp: one_jsnum_def)
  then obtain q where q: "q \<in> set ?g" "a = Some [q]" "computeNashProduct id_host ?s [q] ?w = Inr b"
    using inv by auto
  obtain i where i: "i < 64" "q = Fin (ub * of_nat i / 63)" using q(1) g by auto
  have bq: "b = Fin ((max 0 (ub * of_nat i / 63 - fl))\<^sup>2)" using q(3) i(2) id_product by simp
  then have "\<not> (max 0 (ub * of_nat i / 63 - fl))\<^sup>2 + 1 / 1000000000 < (max 0 (ub - fl))\<^sup>2" using b by simp
  then have pos: "0 < (max 0 (ub * of_nat i / 63 - fl))\<^sup>2" using sq by linarith
  then have "fl < ub * of_nat i / 63" by (auto simp: max_def split: if_splits)
  then have "ub * 62 < ub * of_nat i" using assms(4) by simp
  then have "(62 :: rat) < of_nat i" using assms(2) by simp
  then have "i = 63" using i(1) by linarith
  moreover have "0 < b" using pos by (simp add: bq zero_jsnum_def)
  then have "f" using inv q(1,3) by blast
  moreover have "n_periods ?s = 1" by (simp add: id_scenario_def)
  ultimately show ?thesis
    using run q(2) i(2) bq pos assms(1) [symmetric] assms(2)
    by (simp add: plaintextArgmax_def Let_def)
qed


text \<open>The first point of the grid that improves on the start keeps its place until a product
  beats it by the tie tolerance. So if the first product is 0 and every product is at most the
  tolerance, one of them positive, the search answers \<open>feasible\<close> with the first point, whose
  product is 0.\<close>

lemma plaintext_feasible_without_gain:
  assumes "n_periods s = 1" "\<not> nullish ub_opt (upperBoundForScenario s) \<le> 0"
    and "(- 1) + TIE_BREAK_TOLERANCE < (0 :: ('p::len0) jsnum)"
    and "computeNashProduct h s [hd (grid (nullish ub_opt (upperBoundForScenario s)))] (defaultWeights s) = Inr 0"
    and "\<forall>q \<in> set (grid (nullish ub_opt (upperBoundForScenario s))).
           \<exists>p. computeNashProduct h s [q] (defaultWeights s) = Inr p \<and> \<not> 0 + TIE_BREAK_TOLERANCE < p"
    and "\<exists>q \<in> set (grid (nullish ub_opt (upperBoundForScenario s))).
           \<exists>p > 0. computeNashProduct h s [q] (defaultWeights s) = Inr p"
  shows "plaintextArgmax h s None ub_opt = Inr
    (\<lparr>allocation = [hd (grid (nullish ub_opt (upperBoundForScenario s)))], nash_product = 0,
      sol_feasible = True, sol_reason = None\<rparr> :: 'p nashSolution)"
proof -
  let ?ub = "nullish ub_opt (upperBoundForScenario s)" and ?w = "defaultWeights s"
  let ?g0 = "hd (grid ?ub)"
  have stay: "\<exists>f'. efold (argmax_step h s ?w) (0, Some [?g0], f) qs = Inr (0, Some [?g0], f')
      \<and> (f' \<longleftrightarrow> f \<or> (\<exists>q \<in> set qs. \<exists>p > 0. computeNashProduct h s [q] ?w = Inr p))"
    if "set qs \<subseteq> set (grid ?ub)" for qs f
    using that
  proof (induction qs arbitrary: f)
    case (Cons q qs)
    then obtain p where p: "computeNashProduct h s [q] ?w = Inr p" "\<not> 0 + TIE_BREAK_TOLERANCE < p"
      using assms(5) by auto
    from Cons.IH [of "f \<or> 0 < p"] Cons.prems p show ?case
      by (auto simp: argmax_step_def)
  qed simp
  have g: "grid ?ub = ?g0 # tl (grid ?ub)" by simp
  have first: "argmax_step h s ?w (- 1, None, False) ?g0 = Inr (0, Some [?g0], False)"
    using assms(3,4) by (simp add: argmax_step_def less_jsnum_def)
  have "set (tl (grid ?ub)) \<subseteq> set (grid ?ub)" by (simp add: list.set_sel(2) subsetI)
  from stay [OF this] obtain f' where
    rest: "efold (argmax_step h s ?w) (0, Some [?g0], False) (tl (grid ?ub)) = Inr (0, Some [?g0], f')"
    and f': "f' \<longleftrightarrow> (\<exists>q \<in> set (tl (grid ?ub)). \<exists>p > 0. computeNashProduct h s [q] ?w = Inr p)"
    by blast
  have run: "efold (argmax_step h s ?w) (- 1, None, False) (grid ?ub) = Inr (0, Some [?g0], f')"
    by (subst g) (simp only: efold.simps first ebind_simps rest)
  have "f'"
  proof -
    obtain q p where q: "q \<in> set (grid ?ub)" "0 < p" "computeNashProduct h s [q] ?w = Inr p"
      using assms(6) by blast
    have "q \<noteq> ?g0" using q assms(4) by (auto simp: less_jsnum_def)
    then have "q \<in> set (tl (grid ?ub))" using q(1) g by (metis set_ConsD)
    then show ?thesis unfolding f' using q by blast
  qed
  then show ?thesis
    using assms(1,2) run by (simp add: plaintextArgmax_def Let_def)
qed

lemma failureRun_D:
  "failureRun h s n m r t rep = Inr run \<Longrightarrow> failure run = Some (r, t) \<and> nr_convergence run = NashNoDeal"
  by (auto simp: failureRun_def Let_def)

text \<open>The grid reaches up to one and a half times the mean demand, whatever the capacity, and
  nothing rejects an answer beyond it: a run whose quantity exceeds the capacity by more than the
  tolerance reports convergence and no failure, while its ledger says that the plan is infeasible.\<close>

lemma plaintext_ignores_capacity:
  assumes "runWeightedNashPlaintext h s mode = Inr run" "failure run = None"
    and "consensus (hd (nr_iterations run)) = [q]"
    and "first_product s = Some product" "capacity_of s product MAX_SAFE_INTEGER + lit (1 / 10 ^ 6) < q"
    and "p \<in> set (ns_participants s)" "np_role p = NashSupplier"
  shows "nr_convergence run = NashConverged \<and> \<not> ledger_feasible (nr_ledger run)"
proof -
  have small: "n_periods s = 1" "\<not> 2 < length (ns_participants s)"
    using assms(1,2) by (auto simp: runWeightedNashPlaintext_def Let_def dest: failureRun_D split: if_splits)
  then obtain sol where sol: "plaintextArgmax h s None None = Inr sol"
    using assms(1) by (auto simp: runWeightedNashPlaintext_def Let_def)
  then have "sol_feasible sol"
    using assms(1,2) small by (auto simp: runWeightedNashPlaintext_def Let_def dest: failureRun_D split: if_splits)
  then obtain ledger where ledger: "buildWeightedNashLedger h s (quantities_for s (allocation sol)) = Inr ledger"
    and run: "nr_convergence run = NashConverged" "nr_ledger run = ledger"
      "consensus (hd (nr_iterations run)) = allocation sol"
    using assms(1) small sol by (auto simp: runWeightedNashPlaintext_def Let_def)
  have "map_of (quantities_for s (allocation sol)) (np_id p) = Some [q]"
    using assms(3,6) run by (auto simp: quantities_for_def map_of_from_entries_fun)
  then have "\<not> within_capacity s (quantities_for s (allocation sol))"
    using assms(4-7) by (auto simp: within_capacity_def intro!: bexI [of _ p])
  moreover have "ledger_feasible ledger = within_capacity s (quantities_for s (allocation sol))"
    using ledger by (auto simp: buildWeightedNashLedger_def)
  ultimately show ?thesis using run by simp
qed

section \<open>Witnesses\<close>

lemma id_grid_top: "hd (grid (Fin ub :: exact)) = Fin 0"
  by (simp add: grid_exact upt_rec)

theorem plaintextArgmax_optimal_witness:
  "\<exists>sol. plaintextArgmax id_host (id_scenario 100 149 [(''p'', Fin 10)]) None None = Inr sol \<and>
     (\<exists>q \<in> set (grid (Fin 150)). allocation sol = [q]
       \<and> computeNashProduct id_host (id_scenario 100 149 [(''p'', Fin 10)]) [q]
           (defaultWeights (id_scenario 100 149 [(''p'', Fin 10)])) = Inr (nash_product sol))"
proof -
  have ub: "upperBoundForScenario (id_scenario 100 149 [(''p'', Fin 10)]) = Fin 150" by (simp add: id_upper)
  obtain sol where sol: "plaintextArgmax id_host (id_scenario 100 149 [(''p'', Fin 10)]) None None = Inr sol"
    "sol_feasible sol"
    using id_search [of 150 100 149 "[(''p'', Fin 10)]"] ub by auto
  from plaintextArgmax_optimal [OF sol] sol(1) ub show ?thesis by auto
qed


theorem plaintext_feasible_without_gain_witness:
  "plaintextArgmax id_host (id_scenario (1 / 10 ^ 6) (1 / 10 ^ 6) []) None None
    = Inr \<lparr>allocation = [Fin 0], nash_product = 0, sol_feasible = True, sol_reason = None\<rparr>"
proof -
  let ?s = "id_scenario (1 / 10 ^ 6) (1 / 10 ^ 6) []" and ?ub = "2 / 10 ^ 6 :: rat"
  have ub: "nullish None (upperBoundForScenario ?s) = Fin ?ub" by (simp add: id_upper)
  have small: "(max 0 (?ub * of_nat i / 63 - 1 / 10 ^ 6))\<^sup>2 \<le> 1 / 10 ^ 9" if "i < 64" for i
  proof -
    have "of_nat i \<le> (63 :: rat)" using that by (simp add: of_nat_le_iff [of i 63, where 'a = rat, simplified])
    then have "?ub * of_nat i / 63 - 1 / 10 ^ 6 \<le> 1 / 10 ^ 6" by simp
    then have "max 0 (?ub * of_nat i / 63 - 1 / 10 ^ 6) \<le> 1 / 10 ^ 6" by (rule max.boundedI [rotated]) simp
    then have "(max 0 (?ub * of_nat i / 63 - 1 / 10 ^ 6))\<^sup>2 \<le> (1 / 10 ^ 6)\<^sup>2"
      by (intro power_mono) simp_all
    then show ?thesis by (rule order_trans) (simp add: power2_eq_square)
  qed
  have g: "q \<in> set (grid (Fin ?ub :: exact)) \<longleftrightarrow> (\<exists>i < 64. q = Fin (?ub * of_nat i / 63))" for q
    by (auto simp: grid_exact simp del: upt_rec_numeral)
  have "plaintextArgmax id_host ?s None None
    = Inr \<lparr>allocation = [hd (grid (nullish None (upperBoundForScenario ?s)))], nash_product = 0,
        sol_feasible = True, sol_reason = None\<rparr>"
  proof (rule plaintext_feasible_without_gain)
    show "n_periods ?s = 1" by (simp add: id_scenario_def)
    show "\<not> nullish None (upperBoundForScenario ?s) \<le> 0" unfolding ub by simp
    show "- 1 + TIE_BREAK_TOLERANCE < (0 :: exact)" by (simp add: TIE_BREAK_TOLERANCE_def)
    show "computeNashProduct id_host ?s [hd (grid (nullish None (upperBoundForScenario ?s)))] (defaultWeights ?s) = Inr 0"
      unfolding ub id_grid_top id_product by simp
    show "\<forall>q \<in> set (grid (nullish None (upperBoundForScenario ?s))).
      \<exists>p. computeNashProduct id_host ?s [q] (defaultWeights ?s) = Inr p \<and> \<not> 0 + TIE_BREAK_TOLERANCE < p"
      unfolding ub g Ball_def using small by (auto simp: id_product TIE_BREAK_TOLERANCE_def not_less)
    have "Fin ?ub \<in> set (grid (Fin ?ub :: exact))" unfolding g by (rule exI [of _ 63]) simp
    moreover have "computeNashProduct id_host ?s [Fin ?ub] (defaultWeights ?s) = Inr (Fin (1 / 10 ^ 12))"
      unfolding id_product by (simp add: power2_eq_square)
    ultimately show "\<exists>q \<in> set (grid (nullish None (upperBoundForScenario ?s))).
      \<exists>p > 0. computeNashProduct id_host ?s [q] (defaultWeights ?s) = Inr p"
      unfolding ub by (intro bexI [of _ "Fin ?ub"] exI [of _ "Fin (1 / 10 ^ 12)"]) simp_all
  qed
  then show ?thesis unfolding ub id_grid_top .
qed

theorem plaintext_ignores_capacity_witness:
  "\<exists>run. runWeightedNashPlaintext id_host (id_scenario 100 149 [(''p'', Fin 10)]) None = Inr run
     \<and> failure run = None \<and> nr_convergence run = NashConverged \<and> \<not> ledger_feasible (nr_ledger run)"
proof -
  let ?s = "id_scenario 100 149 [(''p'', Fin 10)]"
  have ub: "upperBoundForScenario ?s = Fin 150" by (simp add: id_upper)
  obtain sol where sol: "plaintextArgmax id_host ?s None None = Inr sol" "allocation sol = [Fin 150]" "sol_feasible sol"
    using id_search [of 150 100 149 "[(''p'', Fin 10)]"] ub by auto
  have q: "map_of (quantities_for ?s [Fin 150]) ''a'' = Some [Fin 150]"
      "map_of (quantities_for ?s [Fin 150]) ''b'' = Some [Fin 150]"
    by (simp_all add: quantities_for_def from_entries_def id_scenario_def id_party_def)
  have ps: "ns_participants ?s = [id_party ''a'' 149, id_party ''b'' 149]" "n_periods ?s = 1"
    and ids: "np_id (id_party name fl) = name" "np_role (id_party name fl) = NashSupplier" for name fl
    by (simp_all add: id_scenario_def id_party_def)
  have "\<exists>l. ledger_locals id_host ?s (quantities_for ?s [Fin 150]) = Inr l"
    using id_utility [OF refl, of _ 149 100 149 "[(''p'', Fin 10)]" 150] by (simp add: ledger_locals_def ps ids q)
  then obtain run where run: "runWeightedNashPlaintext id_host ?s None = Inr run" "failure run = None"
      "consensus (hd (nr_iterations run)) = [Fin 150]"
    using sol by (auto simp: runWeightedNashPlaintext_def Let_def ps buildWeightedNashLedger_def)
  have p: "first_product ?s = Some \<lparr>prod_id = ''p'', prod_name = ''p'', demand_mean = Fin 100, demand_std = Fin 0, unit_value = Fin 1\<rparr>"
    by (simp add: id_scenario_def first_product_def)
  have "nr_convergence run = NashConverged \<and> \<not> ledger_feasible (nr_ledger run)"
    by (rule plaintext_ignores_capacity [OF run p, where p = "id_party ''a'' 149"])
       (simp_all add: capacity_of_def id_scenario_def id_party_def)
  then show ?thesis using run by blast
qed

end
