(* ===== verification/NashProtocol.thy ===== *)
theory NashProtocol
  imports NashLaws
begin

text \<open>
  The message protocol of the bargaining solver: it stops within the round limit and stays in the
  box, and what its exposure report can and cannot say; the quantised step.
\<close>

section \<open>Rounds\<close>

definition in_box :: "'p jsnum \<Rightarrow> 'p jsnum \<Rightarrow> bool" where
  "in_box ub q = (q = NaN \<or> (0 \<le> q \<and> q \<le> ub))"

lemma in_box_clamped: "Fin 0 \<le> ub \<Longrightarrow> in_box ub (jmax (Fin 0) (jmin ub x))"
  by (cases x; cases ub) (auto simp: in_box_def zero_jsnum_def jmax_def jmin_def)

lemma aggregate_box:
  "Fin 0 \<le> ub \<Longrightarrow> q \<in> set (aggregateNextCandidate ms cand w ub) \<Longrightarrow> in_box ub q"
  by (auto simp: aggregateNextCandidate_def Let_def intro: in_box_clamped)

lemma length_aggregate [simp]: "length (aggregateNextCandidate ms cand w ub) = length cand"
  by (simp add: aggregateNextCandidate_def Let_def)

text \<open>What a round keeps of the state.\<close>

lemma protocol_roundD:
  assumes "protocol_round h s w ub r st = Inr (st', stop)"
  shows "roundsUsed st' = Suc r" "stop \<Longrightarrow> ps_converged st'" "\<not> stop \<Longrightarrow> ps_converged st' = ps_converged st"
    and "length (candidate st') = length (candidate st)"
    and "0 \<le> ub \<Longrightarrow> \<forall>q \<in> set (candidate st). in_box ub q \<Longrightarrow> \<forall>q \<in> set (candidate st'). in_box ub q"
  using assms by (auto simp: protocol_round_def Let_def dest: aggregate_box split: if_splits)

lemma protocol_loopD:
  assumes "protocol_loop h s w ub rs st = Inr st'"
  shows "rs \<noteq> [] \<Longrightarrow> \<exists>r \<in> set rs. roundsUsed st' = Suc r"
    and "rs \<noteq> [] \<Longrightarrow> \<not> ps_converged st' \<Longrightarrow> roundsUsed st' = Suc (last rs)"
    and "length (candidate st') = length (candidate st)"
    and "0 \<le> ub \<Longrightarrow> \<forall>q \<in> set (candidate st). in_box ub q \<Longrightarrow> \<forall>q \<in> set (candidate st'). in_box ub q"
proof -
  have "(rs \<noteq> [] \<longrightarrow> (\<exists>r \<in> set rs. roundsUsed st' = Suc r))
      \<and> (rs \<noteq> [] \<longrightarrow> \<not> ps_converged st' \<longrightarrow> roundsUsed st' = Suc (last rs))
      \<and> length (candidate st') = length (candidate st)
      \<and> (0 \<le> ub \<longrightarrow> (\<forall>q \<in> set (candidate st). in_box ub q) \<longrightarrow> (\<forall>q \<in> set (candidate st'). in_box ub q))"
    using assms
  proof (induction rs arbitrary: st)
    case (Cons r rs)
    then obtain st1 stop where 1: "protocol_round h s w ub r st = Inr (st1, stop)"
      and 2: "(if stop then Inr st1 else protocol_loop h s w ub rs st1) = Inr st'" by auto
    note r = protocol_roundD [OF 1]
    show ?case
    proof (cases "stop \<or> rs = []")
      case True
      then have "st' = st1" using 2 by (auto split: if_splits)
      then show ?thesis using r True by auto
    next
      case False
      then have 3: "protocol_loop h s w ub rs st1 = Inr st'" and ne: "rs \<noteq> []" using 2 by auto
      note ih = Cons.IH [OF 3]
      have "\<exists>r' \<in> set (r # rs). roundsUsed st' = Suc r'" using ih ne by (meson list.set_intros(2))
      moreover have "\<not> ps_converged st' \<longrightarrow> roundsUsed st' = Suc (last (r # rs))" using ih ne by simp
      moreover have "length (candidate st') = length (candidate st)" using ih r(4) by simp
      moreover have "0 \<le> ub \<longrightarrow> (\<forall>q \<in> set (candidate st). in_box ub q) \<longrightarrow> (\<forall>q \<in> set (candidate st'). in_box ub q)"
        using ih r(5) by blast
      ultimately show ?thesis by blast
    qed
  qed simp
  then show "rs \<noteq> [] \<Longrightarrow> \<exists>r \<in> set rs. roundsUsed st' = Suc r"
    "rs \<noteq> [] \<Longrightarrow> \<not> ps_converged st' \<Longrightarrow> roundsUsed st' = Suc (last rs)"
    "length (candidate st') = length (candidate st)"
    "0 \<le> ub \<Longrightarrow> \<forall>q \<in> set (candidate st). in_box ub q \<Longrightarrow> \<forall>q \<in> set (candidate st'). in_box ub q"
    by blast+
qed

lemma protocolD:
  assumes "runTranscriptExposureProtocol h s w init ub rid sd = Inr out"
  obtains st parties where "protocol_loop h s w ub [0..<max_rounds]
      \<lparr>candidate = init, perPartyLogs = from_entries (map (\<lambda>p. (np_id p, [])) (ns_participants s)),
       ps_converged = False, roundsUsed = 0, ps_finalResidual = 0\<rparr> = Inr st"
    and "emap (party_report (declaredExposureBitBound h (roundsUsed st) (length init)) st) (ns_participants s) = Inr parties"
    and "final_allocation out = candidate st" "rounds_used out = roundsUsed st" "converged out = ps_converged st"
    and "per_party (po_leakage_report out) = parties"
    and "all_within_bound (aggregate (po_leakage_report out)) = (\<forall>p \<in> set parties. epsilon_measured p \<le> epsilon_bound p)"
  using assms by (auto simp: runTranscriptExposureProtocol_def Let_def)

section \<open>Properties\<close>

text \<open>The protocol returns after at least one and at most 200 rounds, exactly 200 if it did not
  converge, and its allocation has as many coordinates as the initial one and stays in the box
  from 0 to the upper bound.\<close>

lemma protocol_bounds:
  assumes "runTranscriptExposureProtocol h s w init ub rid sd = Inr out" "0 \<le> ub" "\<forall>q \<in> set init. in_box ub q"
  shows "1 \<le> rounds_used out \<and> rounds_used out \<le> max_rounds
    \<and> (\<not> converged out \<longrightarrow> rounds_used out = max_rounds)
    \<and> length (final_allocation out) = length init
    \<and> (\<forall>q \<in> set (final_allocation out). in_box ub q)"
proof -
  obtain st where loop: "protocol_loop h s w ub [0..<max_rounds]
      \<lparr>candidate = init, perPartyLogs = from_entries (map (\<lambda>p. (np_id p, [])) (ns_participants s)),
       ps_converged = False, roundsUsed = 0, ps_finalResidual = 0\<rparr> = Inr st"
    and out: "final_allocation out = candidate st" "rounds_used out = roundsUsed st" "converged out = ps_converged st"
    by (rule protocolD [OF assms(1)])
  have ne: "[0..<max_rounds] \<noteq> []" "last [0..<max_rounds] = max_rounds - 1" "0 < max_rounds"
    by (simp_all add: max_rounds_def del: upt_rec_numeral)
  note l = protocol_loopD [OF loop]
  from l(1) [OF ne(1)] have "1 \<le> roundsUsed st \<and> roundsUsed st \<le> max_rounds" by auto
  moreover have "\<not> ps_converged st \<Longrightarrow> roundsUsed st = max_rounds" using l(2) [OF ne(1)] ne by simp
  ultimately show ?thesis using l(3,4) assms(2,3) out by simp
qed

text \<open>The exposure report measures nothing: the measured exposure of every party is its declared
  bound, one and the same number, so the flag that every party is within its bound is true
  whenever the bound is a number. Each party's messages are committed by a digest of 64
  hexadecimal digits.\<close>

lemma exposure_report_always_within:
  assumes "runTranscriptExposureProtocol h s w init ub rid sd = Inr out"
  shows "length (per_party (po_leakage_report out)) = length (ns_participants s)
    \<and> (\<forall>p \<in> set (per_party (po_leakage_report out)).
         epsilon_measured p = declaredExposureBitBound h (rounds_used out) (length init)
         \<and> epsilon_bound p = epsilon_measured p \<and> length (message_log_hash p) = 64)
    \<and> (declaredExposureBitBound h (rounds_used out) (length init) \<noteq> NaN \<longrightarrow>
         all_within_bound (aggregate (po_leakage_report out)))"
proof -
  obtain st parties where reports:
      "emap (party_report (declaredExposureBitBound h (roundsUsed st) (length init)) st) (ns_participants s) = Inr parties"
    and out: "rounds_used out = roundsUsed st" "per_party (po_leakage_report out) = parties"
      "all_within_bound (aggregate (po_leakage_report out)) = (\<forall>p \<in> set parties. epsilon_measured p \<le> epsilon_bound p)"
    by (rule protocolD [OF assms])
  have "epsilon_measured p = declaredExposureBitBound h (roundsUsed st) (length init)
      \<and> epsilon_bound p = epsilon_measured p \<and> length (message_log_hash p) = 64" if "p \<in> set parties" for p
    using emap_Inr_set [OF reports that] by (auto simp: party_report_def length_sha256)
  then show ?thesis using out emap_Inr_length [OF reports] by simp
qed

text \<open>A quantised step stays within the largest step, is off the clipped raw step by at most half
  a bin, and the largest step itself is reproduced, so that every party always proposes it.\<close>

lemma quantizeStep_exact:
  assumes "0 < eta"
  shows "\<exists>q. quantizeStep (Fin raw) (Fin eta) = (Fin q :: exact) \<and> \<bar>q\<bar> \<le> eta
      \<and> \<bar>q - max (- eta) (min eta raw)\<bar> \<le> eta / 31 \<and> (raw = eta \<longrightarrow> q = eta)"
proof -
  define c where "c = max (- eta) (min eta raw)"
  define b where "b = \<lfloor>(c + eta) / (2 * eta) * 31 + 1/2\<rfloor>"
  define q where "q = of_int b / 31 * 2 * eta - eta"
  have "quantizeStep (Fin raw) (Fin eta) = (Fin q :: exact)"
    using assms by (simp add: quantizeStep_def Let_def step_quantization_levels_def q_def b_def c_def not_le zero_jsnum_def)
  moreover have c: "- eta \<le> c" "c \<le> eta" using assms by (simp_all add: c_def)
  have x: "0 \<le> (c + eta) / (2 * eta) * 31" "(c + eta) / (2 * eta) * 31 \<le> 31"
    using c assms by (simp_all add: field_simps)
  have b: "0 \<le> b" "b \<le> 31" "of_int b \<le> (c + eta) / (2 * eta) * 31 + 1/2" "(c + eta) / (2 * eta) * 31 < of_int b + 1/2"
    unfolding b_def using x by linarith+
  then have "\<bar>q\<bar> \<le> eta" using assms by (simp add: q_def abs_le_iff field_simps)
  moreover have "\<bar>q - c\<bar> \<le> eta / 31"
    using b(3,4) assms by (simp add: q_def abs_le_iff field_simps)
  moreover have "raw = eta \<Longrightarrow> q = eta"
    using assms by (simp add: q_def b_def c_def) (simp add: floor_eq_iff)
  ultimately show ?thesis unfolding c_def by blast
qed

theorem quantizeStep_exact_witness: "quantizeStep (Fin 3) (Fin 3) = (Fin 3 :: exact)"
  using quantizeStep_exact [of 3 3] by auto

section \<open>Witnesses\<close>

text \<open>Two parties that both want more, already at the upper bound.\<close>

abbreviation top_run :: "0 nashError + 0 protocolOutcome" where
  "top_run \<equiv> runTranscriptExposureProtocol id_host (id_scenario 100 149 []) [] [Fin 150] (Fin 150) ''run'' None"

lemma top_direction:
  "partyGradientDirection id_host (id_party name fl) (id_scenario 100 149 []) [Fin 150] (Fin 1) = Inr [Fin 1]"
  by (simp add: partyGradientDirection_def id_utility [OF refl] convergence_tolerance_def Let_def)

lemma floor_half_bins: "\<lfloor>63 / 2 :: rat\<rfloor> = 31"
  by (simp add: floor_eq_iff)

lemma json_finite: "\<exists>t. protocolMessageCanonicalJson m = Inr t" if "step_proposal m = Fin q"
  using that by (simp add: protocolMessageCanonicalJson_def pythonFloatJson_def)

lemma top_outcome: "\<exists>out. top_run = Inr out"
proof -
  have ps: "ns_participants (id_scenario 100 149 []) = [id_party ''a'' 149, id_party ''b'' 149]"
    and ids: "np_id (id_party name fl) = name" for name fl
    by (simp_all add: id_scenario_def id_party_def)
  have step: "\<exists>q. 0 \<le> q \<and> partyStepProposal id_host 0 (Fin 150) = Fin q"
    by (simp add: partyStepProposal_def stepSize_def id_host_def step_eta_0_def step_scale_fraction_def
        step_beta_def quantizeStep_def step_quantization_levels_def Let_def floor_half_bins)
       (rule exI [of _ "15 / 4"], simp)
  then obtain q where q: "0 \<le> q" "partyStepProposal id_host 0 (Fin 150) = Fin q" by blast
  have pow: "m_pow (h_math id_host) x (Fin 2) = x * x" "m_sqrt (h_math id_host) x = x" for x
    by (simp_all add: id_host_def)
  have rounds: "[0..<max_rounds] = 0 # [1..<max_rounds]" by (simp add: max_rounds_def upt_rec)
  define msg :: "string \<Rightarrow> 0 protocolMessage" where
    "msg name = \<lparr>round_seq = 0, msg_party_id = name, direction = [Fin 1], step_proposal = Fin q,
       msg_protocol_version = PROTOCOL_VERSION\<rparr>" for name
  have messages: "round_messages id_host (id_scenario 100 149 []) (Fin 150) 0 [Fin 150] = Inr [msg ''a'', msg ''b'']"
    by (simp add: round_messages_def ps top_direction q ids msg_def)
  have nxt: "aggregateNextCandidate [msg ''a'', msg ''b''] [Fin 150] [] (Fin 150) = [Fin 150]"
    using q(1) by (simp add: aggregateNextCandidate_def msg_def)
  have logs: "push_log (push_log (from_entries [(''a'', []), (''b'', [])]) (msg ''a'')) (msg ''b'')
      = [(''a'', [msg ''a'']), (''b'', [msg ''b''])]"
    by (simp add: from_entries_def push_log_def msg_def)
  have json: "\<exists>t. protocolMessageCanonicalJson (msg name) = Inr t" for name
    by (rule json_finite) (simp add: msg_def)
  have dir: "direction (msg name) = [Fin 1]" for name by (simp add: msg_def)
  obtain ta tb where t: "protocolMessageCanonicalJson (msg ''a'') = Inr ta" "protocolMessageCanonicalJson (msg ''b'') = Inr tb"
    using json by blast
  show ?thesis
    by (simp add: runTranscriptExposureProtocol_def rounds protocol_round_def messages nxt logs dir js_eq_def
        convergence_tolerance_def pow ps ids party_report_def t Let_def)
qed

theorem protocol_bounds_witness:
  "\<exists>out. top_run = Inr out \<and> rounds_used out \<le> max_rounds \<and> (\<forall>q \<in> set (final_allocation out). in_box (Fin 150) q)"
proof -
  obtain out where out: "top_run = Inr out" using top_outcome by blast
  have "1 \<le> rounds_used out \<and> rounds_used out \<le> max_rounds
    \<and> (\<not> converged out \<longrightarrow> rounds_used out = max_rounds)
    \<and> length (final_allocation out) = length [Fin 150 :: exact]
    \<and> (\<forall>q \<in> set (final_allocation out). in_box (Fin 150) q)"
    by (rule protocol_bounds [OF out]) (simp_all add: in_box_def)
  then show ?thesis using out by blast
qed

theorem exposure_report_always_within_witness:
  "\<exists>out. top_run = Inr out \<and> all_within_bound (aggregate (po_leakage_report out))"
proof -
  obtain out where out: "top_run = Inr out" using top_outcome by blast
  have "declaredExposureBitBound id_host n k = Fin (of_nat n * (of_nat k * 3 + 32))" for n k
    by (simp add: declaredExposureBitBound_def id_host_def step_quantization_levels_def)
  then show ?thesis using exposure_report_always_within [OF out] out by auto
qed

end
