(* ===== verification/Catalog.thy ===== *)
theory Catalog
  imports Types
begin

text \<open>
  The data of \<^verbatim>\<open>packages/engine/src/data\<close>: scenario presets, agent archetypes and strategies
  with their lookups. Prose that no code reads is left out. A \<^verbatim>\<open>Partial<LabScenario>\<close> is a record
  of options, and spreading it over a scenario replaces the fields it has.
\<close>

section \<open>Partial scenarios\<close>

record 'p scenarioPatch =
  q_presetId :: "string option"
  q_demand :: "'p jsnum option"
  q_volatility :: "'p jsnum option"
  q_capacityTightness :: "'p jsnum option"
  q_leadTimeWeeks :: "'p jsnum option"
  q_fulfillmentCenterCount :: "'p jsnum option"
  q_participantCount :: "'p jsnum option"
  q_productCount :: "'p jsnum option"
  q_periodCount :: "'p jsnum option"
  q_infoMode :: "infoMode option"
  q_buyerAgentId :: "string option"
  q_supplierAgentId :: "string option"
  q_customBuyerUrgency :: "'p jsnum option"
  q_customSupplierFlexibility :: "'p jsnum option"
  q_customTruthfulness :: "'p jsnum option"
  q_customPrivacyPreference :: "'p jsnum option"
  q_customRiskAversion :: "'p jsnum option"
  q_alpha :: "'p jsnum option"
  q_buyerReliability :: "'p jsnum option"
  q_supplierReliability :: "'p jsnum option"
  q_epsilon :: "'p jsnum option"
  q_participants :: "'p participant list option"
  q_splitRule :: "splitRule option"
  q_provenance :: "dataProvenance option"
  q_schemaVersion :: "string option"

definition no_patch :: "'p scenarioPatch" where
  "no_patch = \<lparr>q_presetId = None, q_demand = None, q_volatility = None, q_capacityTightness = None,
     q_leadTimeWeeks = None, q_fulfillmentCenterCount = None, q_participantCount = None, q_productCount = None,
     q_periodCount = None, q_infoMode = None, q_buyerAgentId = None, q_supplierAgentId = None,
     q_customBuyerUrgency = None, q_customSupplierFlexibility = None, q_customTruthfulness = None, q_customPrivacyPreference = None,
     q_customRiskAversion = None, q_alpha = None, q_buyerReliability = None, q_supplierReliability = None,
     q_epsilon = None, q_participants = None, q_splitRule = None, q_provenance = None,
     q_schemaVersion = None\<rparr>"

definition apply_patch :: "'p labScenario \<Rightarrow> 'p scenarioPatch \<Rightarrow> 'p labScenario" where
  "apply_patch s q = \<lparr>
     presetId = nullish (q_presetId q) (presetId s),
     demand = nullish (q_demand q) (demand s),
     volatility = nullish (q_volatility q) (volatility s),
     capacityTightness = nullish (q_capacityTightness q) (capacityTightness s),
     leadTimeWeeks = nullish (q_leadTimeWeeks q) (leadTimeWeeks s),
     fulfillmentCenterCount = nullish (q_fulfillmentCenterCount q) (fulfillmentCenterCount s),
     participantCount = nullish (q_participantCount q) (participantCount s),
     productCount = nullish (q_productCount q) (productCount s),
     periodCount = nullish (q_periodCount q) (periodCount s),
     infoMode = nullish (q_infoMode q) (infoMode s),
     buyerAgentId = nullish (q_buyerAgentId q) (buyerAgentId s),
     supplierAgentId = nullish (q_supplierAgentId q) (supplierAgentId s),
     customBuyerUrgency = nullish (q_customBuyerUrgency q) (customBuyerUrgency s),
     customSupplierFlexibility = nullish (q_customSupplierFlexibility q) (customSupplierFlexibility s),
     customTruthfulness = nullish (q_customTruthfulness q) (customTruthfulness s),
     customPrivacyPreference = nullish (q_customPrivacyPreference q) (customPrivacyPreference s),
     customRiskAversion = nullish (q_customRiskAversion q) (customRiskAversion s),
     alpha = nullish (q_alpha q) (alpha s),
     buyerReliability = nullish (q_buyerReliability q) (buyerReliability s),
     supplierReliability = nullish (q_supplierReliability q) (supplierReliability s),
     epsilon = nullish (q_epsilon q) (epsilon s),
     participants = (case q_participants q of None \<Rightarrow> participants s | Some v \<Rightarrow> Some v),
     splitRule = (case q_splitRule q of None \<Rightarrow> splitRule s | Some v \<Rightarrow> Some v),
     provenance = (case q_provenance q of None \<Rightarrow> provenance s | Some v \<Rightarrow> Some v),
     schemaVersion = (case q_schemaVersion q of None \<Rightarrow> schemaVersion s | Some v \<Rightarrow> Some v)\<rparr>"

text \<open>A whole scenario, spread as overrides.\<close>

definition patch_of :: "'p labScenario \<Rightarrow> 'p scenarioPatch" where
  "patch_of s = \<lparr>
     q_presetId = Some (presetId s),
     q_demand = Some (demand s),
     q_volatility = Some (volatility s),
     q_capacityTightness = Some (capacityTightness s),
     q_leadTimeWeeks = Some (leadTimeWeeks s),
     q_fulfillmentCenterCount = Some (fulfillmentCenterCount s),
     q_participantCount = Some (participantCount s),
     q_productCount = Some (productCount s),
     q_periodCount = Some (periodCount s),
     q_infoMode = Some (infoMode s),
     q_buyerAgentId = Some (buyerAgentId s),
     q_supplierAgentId = Some (supplierAgentId s),
     q_customBuyerUrgency = Some (customBuyerUrgency s),
     q_customSupplierFlexibility = Some (customSupplierFlexibility s),
     q_customTruthfulness = Some (customTruthfulness s),
     q_customPrivacyPreference = Some (customPrivacyPreference s),
     q_customRiskAversion = Some (customRiskAversion s),
     q_alpha = Some (alpha s),
     q_buyerReliability = Some (buyerReliability s),
     q_supplierReliability = Some (supplierReliability s),
     q_epsilon = Some (epsilon s),
     q_participants = participants s,
     q_splitRule = splitRule s,
     q_provenance = provenance s,
     q_schemaVersion = schemaVersion s\<rparr>"

lemma apply_no_patch [simp]: "apply_patch s no_patch = s"
  by (simp add: apply_patch_def no_patch_def)

lemma apply_patch_of:
  "participants s = None \<Longrightarrow> splitRule s = None \<Longrightarrow> provenance s = None \<Longrightarrow> schemaVersion s = None \<Longrightarrow>
     apply_patch s (patch_of t) = t"
  by (cases t) (auto simp: apply_patch_def patch_of_def split: option.splits)

section \<open>Presets\<close>

record 'p scenarioPreset =
  preset_id :: string
  preset_name :: string
  defaults :: "'p scenarioPatch"

definition preset_substrate_crunch :: "('p::len0) scenarioPreset" where
  "preset_substrate_crunch = \<lparr>preset_id = ''substrate-crunch'', preset_name = ''Substrate crunch'', defaults = no_patch\<lparr>
      q_demand := Some (lit 500), q_volatility := Some (lit 0.26),
      q_capacityTightness := Some (lit 0.72), q_leadTimeWeeks := Some (lit 12),
      q_fulfillmentCenterCount := Some (lit 3), q_participantCount := Some (lit 2),
      q_productCount := Some (1), q_periodCount := Some (1), q_infoMode := Some ForecastBand,
      q_buyerAgentId := Some ''launch-protector'', q_supplierAgentId := Some ''capacity-guard''\<rparr>\<rparr>"

definition preset_regional_shipping_asymmetry :: "('p::len0) scenarioPreset" where
  "preset_regional_shipping_asymmetry = \<lparr>preset_id = ''regional-shipping-asymmetry'', preset_name = ''Regional shipping asymmetry'', defaults = no_patch\<lparr>
      q_demand := Some (lit 760), q_volatility := Some (lit 0.18),
      q_capacityTightness := Some (lit 0.55), q_leadTimeWeeks := Some (lit 6),
      q_fulfillmentCenterCount := Some (lit 5), q_participantCount := Some (lit 2),
      q_productCount := Some (lit 2), q_periodCount := Some (lit 3), q_infoMode := Some CostBand,
      q_buyerAgentId := Some ''jit-buyer'', q_supplierAgentId := Some ''relationship-supplier''\<rparr>\<rparr>"

definition preset_multi_vendor_shortage :: "('p::len0) scenarioPreset" where
  "preset_multi_vendor_shortage = \<lparr>preset_id = ''multi-vendor-shortage'', preset_name = ''Multi-vendor shortage'', defaults = no_patch\<lparr>
      q_demand := Some (lit 980), q_volatility := Some (lit 0.34),
      q_capacityTightness := Some (lit 0.86), q_leadTimeWeeks := Some (lit 16),
      q_fulfillmentCenterCount := Some (lit 4), q_participantCount := Some (lit 4),
      q_productCount := Some (lit 3), q_periodCount := Some (lit 5),
      q_infoMode := Some CapacityBand, q_buyerAgentId := Some ''launch-protector'',
      q_supplierAgentId := Some ''hard-bargainer''\<rparr>\<rparr>"

definition preset_joint_exists_admm_converges :: "('p::len0) scenarioPreset" where
  "preset_joint_exists_admm_converges = \<lparr>preset_id = ''joint-exists-admm-converges'', preset_name = ''Joint optimum: ADMM converges'', defaults = no_patch\<lparr>
      q_demand := Some (lit 520), q_volatility := Some (lit 0.16),
      q_capacityTightness := Some (lit 0.48), q_leadTimeWeeks := Some (lit 8),
      q_fulfillmentCenterCount := Some (lit 3), q_participantCount := Some (lit 2),
      q_productCount := Some (1), q_periodCount := Some (lit 2), q_infoMode := Some ForecastBand,
      q_buyerAgentId := Some ''launch-protector'',
      q_supplierAgentId := Some ''relationship-supplier'',
      q_customTruthfulness := Some (lit 0.88), q_customSupplierFlexibility := Some (lit 0.72),
      q_customPrivacyPreference := Some (lit 0.42)\<rparr>\<rparr>"

definition preset_joint_exists_admm_oscillates :: "('p::len0) scenarioPreset" where
  "preset_joint_exists_admm_oscillates = \<lparr>preset_id = ''joint-exists-admm-oscillates'', preset_name = ''Joint optimum: ADMM oscillates'', defaults = no_patch\<lparr>
      q_demand := Some (lit 640), q_volatility := Some (lit 0.42),
      q_capacityTightness := Some (lit 0.88), q_leadTimeWeeks := Some (lit 16),
      q_fulfillmentCenterCount := Some (lit 4), q_participantCount := Some (lit 2),
      q_productCount := Some (lit 2), q_periodCount := Some (lit 4),
      q_infoMode := Some CapacityBand, q_buyerAgentId := Some ''launch-protector'',
      q_supplierAgentId := Some ''hard-bargainer'', q_customTruthfulness := Some (lit 0.64),
      q_customSupplierFlexibility := Some (lit 0.36),
      q_customPrivacyPreference := Some (lit 0.78)\<rparr>\<rparr>"

definition preset_joint_does_not_exist :: "('p::len0) scenarioPreset" where
  "preset_joint_does_not_exist = \<lparr>preset_id = ''joint-does-not-exist'', preset_name = ''No feasible surplus'', defaults = no_patch\<lparr>
      q_demand := Some (lit 220), q_volatility := Some (lit 0.52),
      q_capacityTightness := Some (lit 0.97), q_leadTimeWeeks := Some (lit 18),
      q_fulfillmentCenterCount := Some (lit 2), q_participantCount := Some (lit 2),
      q_productCount := Some (1), q_periodCount := Some (lit 3), q_infoMode := Some RiskOnly,
      q_buyerAgentId := Some ''jit-buyer'', q_supplierAgentId := Some ''capacity-guard'',
      q_customTruthfulness := Some (lit 0.7), q_customSupplierFlexibility := Some (lit 0.22),
      q_customPrivacyPreference := Some (lit 0.76), q_customRiskAversion := Some (lit 0.92)\<rparr>\<rparr>"

definition preset_advanced_packaging_bottleneck :: "('p::len0) scenarioPreset" where
  "preset_advanced_packaging_bottleneck = \<lparr>preset_id = ''advanced-packaging-bottleneck'', preset_name = ''Advanced packaging bottleneck'', defaults = no_patch\<lparr>
      q_demand := Some (lit 380), q_volatility := Some (lit 0.32),
      q_capacityTightness := Some (lit 0.92), q_leadTimeWeeks := Some (lit 18),
      q_fulfillmentCenterCount := Some (lit 3), q_participantCount := Some (lit 3),
      q_productCount := Some (1), q_periodCount := Some (lit 2), q_infoMode := Some CapacityBand,
      q_buyerAgentId := Some ''launch-protector'', q_supplierAgentId := Some ''capacity-guard'',
      q_customTruthfulness := Some (lit 0.72), q_customSupplierFlexibility := Some (lit 0.4),
      q_customPrivacyPreference := Some (lit 0.7), q_customRiskAversion := Some (lit 0.74)\<rparr>\<rparr>"

definition preset_export_control_shock :: "('p::len0) scenarioPreset" where
  "preset_export_control_shock = \<lparr>preset_id = ''export-control-shock'', preset_name = ''Export-control shock'', defaults = no_patch\<lparr>
      q_demand := Some (lit 540), q_volatility := Some (lit 0.41),
      q_capacityTightness := Some (lit 0.83), q_leadTimeWeeks := Some (lit 22),
      q_fulfillmentCenterCount := Some (lit 4), q_participantCount := Some (lit 4),
      q_productCount := Some (lit 2), q_periodCount := Some (lit 4), q_infoMode := Some RiskOnly,
      q_buyerAgentId := Some ''launch-protector'', q_supplierAgentId := Some ''hard-bargainer'',
      q_customTruthfulness := Some (lit 0.55), q_customSupplierFlexibility := Some (lit 0.32),
      q_customPrivacyPreference := Some (lit 0.84), q_customRiskAversion := Some (lit 0.82)\<rparr>\<rparr>"

definition preset_hyperscaler_surge :: "('p::len0) scenarioPreset" where
  "preset_hyperscaler_surge = \<lparr>preset_id = ''hyperscaler-surge'', preset_name = ''Hyperscaler AI-accelerator surge'', defaults = no_patch\<lparr>
      q_demand := Some (lit 980), q_volatility := Some (lit 0.5),
      q_capacityTightness := Some (lit 0.94), q_leadTimeWeeks := Some (lit 20),
      q_fulfillmentCenterCount := Some (lit 5), q_participantCount := Some (lit 4),
      q_productCount := Some (1), q_periodCount := Some (lit 6), q_infoMode := Some ForecastBand,
      q_buyerAgentId := Some ''launch-protector'', q_supplierAgentId := Some ''capacity-guard'',
      q_customTruthfulness := Some (lit 0.7), q_customSupplierFlexibility := Some (lit 0.48),
      q_customPrivacyPreference := Some (lit 0.6), q_customRiskAversion := Some (lit 0.7)\<rparr>\<rparr>"

definition preset_distributor_floats_inventory :: "('p::len0) scenarioPreset" where
  "preset_distributor_floats_inventory = \<lparr>preset_id = ''distributor-floats-inventory'', preset_name = ''Distributor absorbs variance'', defaults = no_patch\<lparr>
      q_demand := Some (lit 720), q_volatility := Some (lit 0.22),
      q_capacityTightness := Some (lit 0.66), q_leadTimeWeeks := Some (lit 9),
      q_fulfillmentCenterCount := Some (lit 4), q_participantCount := Some (lit 3),
      q_productCount := Some (lit 2), q_periodCount := Some (lit 3), q_infoMode := Some CostBand,
      q_buyerAgentId := Some ''jit-buyer'', q_supplierAgentId := Some ''relationship-supplier'',
      q_customTruthfulness := Some (lit 0.78), q_customSupplierFlexibility := Some (lit 0.7),
      q_customPrivacyPreference := Some (lit 0.5), q_customRiskAversion := Some (lit 0.5)\<rparr>\<rparr>"

definition preset_audit_catches_misreport :: "('p::len0) scenarioPreset" where
  "preset_audit_catches_misreport = \<lparr>preset_id = ''audit-catches-misreport'', preset_name = ''Audit catches misreport'', defaults = no_patch\<lparr>
      q_demand := Some (lit 480), q_volatility := Some (lit 0.28),
      q_capacityTightness := Some (lit 0.78), q_leadTimeWeeks := Some (lit 14),
      q_fulfillmentCenterCount := Some (lit 3), q_participantCount := Some (lit 2),
      q_productCount := Some (1), q_periodCount := Some (lit 2), q_infoMode := Some CostBand,
      q_buyerAgentId := Some ''launch-protector'', q_supplierAgentId := Some ''hard-bargainer'',
      q_customTruthfulness := Some (lit 0.42), q_customSupplierFlexibility := Some (lit 0.3),
      q_customPrivacyPreference := Some (lit 0.88), q_customRiskAversion := Some (lit 0.66)\<rparr>\<rparr>"

definition scenarioPresets :: "('p::len0) scenarioPreset list" where
  "scenarioPresets =
    [preset_substrate_crunch,
     preset_regional_shipping_asymmetry,
     preset_multi_vendor_shortage,
     preset_joint_exists_admm_converges,
     preset_joint_exists_admm_oscillates,
     preset_joint_does_not_exist,
     preset_advanced_packaging_bottleneck,
     preset_export_control_shock,
     preset_hyperscaler_surge,
     preset_distributor_floats_inventory,
     preset_audit_catches_misreport]"

definition presetById :: "string \<Rightarrow> ('p::len0) scenarioPreset" where
  "presetById i = nullish (List.find (\<lambda>preset. preset_id preset = i) scenarioPresets) (scenarioPresets ! 0)"

section \<open>Agents\<close>

definition agent_jit_buyer :: "('p::len0) agentArchetype" where
  "agent_jit_buyer = \<lparr>agent_id = ''jit-buyer'', side = Side Buyer, agent_parameters =
     \<lparr>urgency = lit 0.45, flexibility = lit 0.35, truthfulness = lit 0.55, privacyPreference = lit 0.8, riskAversion = lit 0.55\<rparr>\<rparr>"

definition agent_launch_protector :: "('p::len0) agentArchetype" where
  "agent_launch_protector = \<lparr>agent_id = ''launch-protector'', side = Side Buyer, agent_parameters =
     \<lparr>urgency = lit 0.88, flexibility = lit 0.52, truthfulness = lit 0.72, privacyPreference = lit 0.55, riskAversion = lit 0.75\<rparr>\<rparr>"

definition agent_truthful_cpp_agent :: "('p::len0) agentArchetype" where
  "agent_truthful_cpp_agent = \<lparr>agent_id = ''truthful-cpp-agent'', side = Either, agent_parameters =
     \<lparr>urgency = lit 0.6, flexibility = lit 0.66, truthfulness = lit 0.95, privacyPreference = lit 0.68, riskAversion = lit 0.5\<rparr>\<rparr>"

definition agent_capacity_guard :: "('p::len0) agentArchetype" where
  "agent_capacity_guard = \<lparr>agent_id = ''capacity-guard'', side = Side Supplier, agent_parameters =
     \<lparr>urgency = lit 0.38, flexibility = lit 0.42, truthfulness = lit 0.7, privacyPreference = lit 0.82, riskAversion = lit 0.8\<rparr>\<rparr>"

definition agent_relationship_supplier :: "('p::len0) agentArchetype" where
  "agent_relationship_supplier = \<lparr>agent_id = ''relationship-supplier'', side = Side Supplier, agent_parameters =
     \<lparr>urgency = lit 0.52, flexibility = lit 0.78, truthfulness = lit 0.82, privacyPreference = lit 0.52, riskAversion = lit 0.45\<rparr>\<rparr>"

definition agent_hard_bargainer :: "('p::len0) agentArchetype" where
  "agent_hard_bargainer = \<lparr>agent_id = ''hard-bargainer'', side = Either, agent_parameters =
     \<lparr>urgency = lit 0.62, flexibility = lit 0.24, truthfulness = lit 0.38, privacyPreference = lit 0.9, riskAversion = lit 0.62\<rparr>\<rparr>"

definition agentArchetypes :: "('p::len0) agentArchetype list" where
  "agentArchetypes =
    [agent_jit_buyer,
     agent_launch_protector,
     agent_truthful_cpp_agent,
     agent_capacity_guard,
     agent_relationship_supplier,
     agent_hard_bargainer]"

definition agentById :: "string \<Rightarrow> ('p::len0) agentArchetype" where
  "agentById i = nullish (List.find (\<lambda>agent. agent_id agent = i) agentArchetypes) (agentArchetypes ! 0)"

definition agentsForSide :: "participantRole \<Rightarrow> ('p::len0) agentArchetype list" where
  "agentsForSide sd = filter (\<lambda>agent. side agent = Side sd \<or> side agent = Either) agentArchetypes"

section \<open>Strategies\<close>

record 'p strategy =
  strategy_id :: string
  strategy_role :: participantRole
  strategy_name :: string
  strategy_shortName :: string
  description :: string
  defaultUtilityFormula :: string
  defaultParameters :: "'p agentParameters"
  defaultReliability :: "'p jsnum"
  defaultCapacity :: "'p jsnum option"
  defaultOutsideOption :: "'p jsnum option"

definition strategy_launch_protector_buyer :: "('p::len0) strategy" where
  "strategy_launch_protector_buyer = \<lparr>strategy_id = ''launch-protector-buyer'', strategy_role = Buyer, strategy_name = ''Launch protector'',
     strategy_shortName = ''Launch buyer'',
     description = ''Pays to reserve capacity when a launch miss is expensive.'',
     defaultUtilityFormula = ''service_value * min(q, demand) - unit_cost * q - shortage_penalty * max(demand - q, 0) - excess_penalty * max(q - demand, 0)'',
     defaultParameters =
       \<lparr>urgency = lit 0.88, flexibility = lit 0.52, truthfulness = lit 0.72, privacyPreference = lit 0.55, riskAversion = lit 0.75\<rparr>,
     defaultReliability = lit 0.95, defaultCapacity = None, defaultOutsideOption = Some (lit 8400)\<rparr>"

definition strategy_jit_buyer :: "('p::len0) strategy" where
  "strategy_jit_buyer = \<lparr>strategy_id = ''jit-buyer'', strategy_role = Buyer, strategy_name = ''JIT planner'',
     strategy_shortName = ''JIT buyer'',
     description = ''Minimizes inventory and waits for demand certainty.'',
     defaultUtilityFormula = ''service_value * min(q, demand) - unit_cost * q - holding * max(q - demand, 0)'',
     defaultParameters =
       \<lparr>urgency = lit 0.45, flexibility = lit 0.35, truthfulness = lit 0.55, privacyPreference = lit 0.8, riskAversion = lit 0.55\<rparr>,
     defaultReliability = lit 0.9, defaultCapacity = None, defaultOutsideOption = Some (lit 7600)\<rparr>"

definition strategy_capacity_guard_supplier :: "('p::len0) strategy" where
  "strategy_capacity_guard_supplier = \<lparr>strategy_id = ''capacity-guard-supplier'', strategy_role = Supplier, strategy_name = ''Capacity guard'',
     strategy_shortName = ''Capacity guard'',
     description = ''Protects scarce production slots and resists vague optionality.'',
     defaultUtilityFormula = ''revenue_per_unit * q - production_cost * q - holding_cost * max(q - forecast, 0) - risk_premium * risk_score * q'',
     defaultParameters =
       \<lparr>urgency = lit 0.38, flexibility = lit 0.42, truthfulness = lit 0.7, privacyPreference = lit 0.82, riskAversion = lit 0.8\<rparr>,
     defaultReliability = lit 0.88, defaultCapacity = Some (lit 620), defaultOutsideOption = Some (lit 5200)\<rparr>"

definition strategy_relationship_supplier :: "('p::len0) strategy" where
  "strategy_relationship_supplier = \<lparr>strategy_id = ''relationship-supplier'', strategy_role = Supplier, strategy_name = ''Relationship builder'',
     strategy_shortName = ''Relationship supplier'',
     description = ''Accepts some short-term burden to preserve a strategic account.'',
     defaultUtilityFormula = ''revenue_per_unit * q - production_cost * q - holding_cost * max(q - forecast, 0) + loyalty_bonus * relationship_score'',
     defaultParameters =
       \<lparr>urgency = lit 0.52, flexibility = lit 0.78, truthfulness = lit 0.82, privacyPreference = lit 0.52, riskAversion = lit 0.45\<rparr>,
     defaultReliability = lit 0.93, defaultCapacity = Some (lit 700), defaultOutsideOption = Some (lit 4600)\<rparr>"

definition strategy_yield_optimizer_supplier :: "('p::len0) strategy" where
  "strategy_yield_optimizer_supplier = \<lparr>strategy_id = ''yield-optimizer-supplier'', strategy_role = Supplier, strategy_name = ''Yield optimizer'',
     strategy_shortName = ''Yield optimizer'',
     description = ''Maximizes wafer yield by pushing back when buyer asks force suboptimal binning or rework.'',
     defaultUtilityFormula = ''yield_value * effective_q - production_cost * q - rework_cost * max(0, q - capacity * yield_rate)'',
     defaultParameters =
       \<lparr>urgency = lit 0.4, flexibility = lit 0.6, truthfulness = lit 0.78, privacyPreference = lit 0.72, riskAversion = lit 0.62\<rparr>,
     defaultReliability = lit 0.91, defaultCapacity = Some (lit 560), defaultOutsideOption = Some (lit 4900)\<rparr>"

definition strategy_packager_cowos :: "('p::len0) strategy" where
  "strategy_packager_cowos = \<lparr>strategy_id = ''packager-cowos'', strategy_role = Packager, strategy_name = ''Advanced packager'',
     strategy_shortName = ''Advanced packager'',
     description = ''Owns the CoWoS / advanced-packaging bottleneck. Allocates substrate-bonded slots to whichever fabless customer commits cleanest.'',
     defaultUtilityFormula = ''package_margin * q - bonding_cost * q - substrate_carry * max(0, q - substrate_pool)'',
     defaultParameters =
       \<lparr>urgency = lit 0.5, flexibility = lit 0.38, truthfulness = lit 0.72, privacyPreference = lit 0.78, riskAversion = lit 0.68\<rparr>,
     defaultReliability = lit 0.85, defaultCapacity = Some (lit 420), defaultOutsideOption = Some (lit 3800)\<rparr>"

definition strategy_logistics_customs :: "('p::len0) strategy" where
  "strategy_logistics_customs = \<lparr>strategy_id = ''logistics-customs'', strategy_role = Logistics, strategy_name = ''Logistics + customs lane'',
     strategy_shortName = ''Logistics lane'',
     description = ''Brokers lane capacity, customs clearance, and lane-level reliability into the contract; pads when lanes are export-controlled.'',
     defaultUtilityFormula = ''lane_margin * q - lane_cost * q - export_penalty * export_flag * q - delay_penalty * lead_time_days'',
     defaultParameters =
       \<lparr>urgency = lit 0.55, flexibility = lit 0.65, truthfulness = lit 0.7, privacyPreference = lit 0.6, riskAversion = lit 0.7\<rparr>,
     defaultReliability = lit 0.82, defaultCapacity = Some (lit 900), defaultOutsideOption = Some (lit 2200)\<rparr>"

definition strategy_distributor_channel :: "('p::len0) strategy" where
  "strategy_distributor_channel = \<lparr>strategy_id = ''distributor-channel'', strategy_role = Distributor, strategy_name = ''Channel distributor'',
     strategy_shortName = ''Channel distributor'',
     description = ''Aggregates smaller buyers and floats inventory to dampen demand variance. Useful for showing how a third party absorbs risk.'',
     defaultUtilityFormula = ''channel_margin * q - holding_cost * max(0, q - committed_demand) - shortage_penalty * max(committed_demand - q, 0)'',
     defaultParameters =
       \<lparr>urgency = lit 0.5, flexibility = lit 0.7, truthfulness = lit 0.66, privacyPreference = lit 0.5, riskAversion = lit 0.55\<rparr>,
     defaultReliability = lit 0.87, defaultCapacity = Some (lit 600), defaultOutsideOption = Some (lit 2900)\<rparr>"

definition strategy_neutral_coordinator :: "('p::len0) strategy" where
  "strategy_neutral_coordinator = \<lparr>strategy_id = ''neutral-coordinator'', strategy_role = Coordinator, strategy_name = ''Neutral coordinator'',
     strategy_shortName = ''Coordinator'',
     description = ''Runs CPP / ADMM iterations, prices externalities (VCG), and applies the configured split rule. Holds no private utility of its own.'',
     defaultUtilityFormula = ''0 (coordinator has no private utility; runs mechanism only)'',
     defaultParameters =
       \<lparr>urgency = lit 0.5, flexibility = lit 0.9, truthfulness = 1, privacyPreference = lit 0.95, riskAversion = lit 0.4\<rparr>,
     defaultReliability = 1, defaultCapacity = None, defaultOutsideOption = None\<rparr>"

definition strategy_custom_bargainer :: "('p::len0) strategy" where
  "strategy_custom_bargainer = \<lparr>strategy_id = ''custom-bargainer'', strategy_role = Buyer, strategy_name = ''Hard bargainer (custom)'',
     strategy_shortName = ''Hard bargainer'',
     description = ''Custom slot for visitors to edit. Default: optimizes local payoff and reveals as little as possible.'',
     defaultUtilityFormula = ''user-editable; default = service_value * min(q, demand) - unit_cost * q'',
     defaultParameters =
       \<lparr>urgency = lit 0.62, flexibility = lit 0.24, truthfulness = lit 0.38, privacyPreference = lit 0.9, riskAversion = lit 0.62\<rparr>,
     defaultReliability = lit 0.85, defaultCapacity = None, defaultOutsideOption = Some (lit 7000)\<rparr>"

definition strategies :: "('p::len0) strategy list" where
  "strategies =
    [strategy_launch_protector_buyer,
     strategy_jit_buyer,
     strategy_capacity_guard_supplier,
     strategy_relationship_supplier,
     strategy_yield_optimizer_supplier,
     strategy_packager_cowos,
     strategy_logistics_customs,
     strategy_distributor_channel,
     strategy_neutral_coordinator,
     strategy_custom_bargainer]"

definition strategyById :: "string \<Rightarrow> ('p::len0) strategy option" where
  "strategyById i = List.find (\<lambda>strategy. strategy_id strategy = i) strategies"

end
