(* ===== verification/Participants.thy ===== *)
theory Participants
  imports Catalog ShapleyTransfer NumText
begin

text \<open>
  \<^verbatim>\<open>packages/engine/src/model/participants.ts\<close>: the parties of a scenario. Preset ids are assumed
  not to be property names of \<^verbatim>\<open>Object.prototype\<close>.
\<close>

definition SUPPLIER_NAMES :: "string list" where
  "SUPPLIER_NAMES = [''Cinder supplier'', ''Northstar supplier'', ''Horizon supplier'', ''Vela supplier'',
     ''Quartz supplier'', ''Apex supplier'', ''Orion supplier'']"

definition PACKAGER_NAMES :: "string list" where
  "PACKAGER_NAMES = [''Ibiden packager'', ''Unimicron packager'']"

definition LOGISTICS_NAMES :: "string list" where
  "LOGISTICS_NAMES = [''Customs + lane broker'', ''Forward-lane broker'']"

definition DISTRIBUTOR_NAMES :: "string list" where
  "DISTRIBUTOR_NAMES = [''Channel distributor'', ''Aggregator distributor'']"

definition ROLE_ROTATION_BY_PRESET :: "(string \<times> participantRole list) list" where
  "ROLE_ROTATION_BY_PRESET =
     [(''advanced-packaging-bottleneck'', [Packager, Supplier, Logistics]),
      (''export-control-shock'', [Logistics, Coordinator, Supplier]),
      (''hyperscaler-surge'', [Buyer, Supplier, Supplier]),
      (''distributor-floats-inventory'', [Distributor, Supplier, Supplier])]"

definition rolesForPreset :: "string \<Rightarrow> participantRole list" where
  "rolesForPreset preset =
     nullish (map_of ROLE_ROTATION_BY_PRESET preset)
       [Supplier, Packager, Logistics, Distributor, Supplier, Supplier]"

fun nameForRole :: "participantRole \<Rightarrow> nat \<Rightarrow> string" where
  "nameForRole Packager index = PACKAGER_NAMES ! (index mod length PACKAGER_NAMES)"
| "nameForRole Logistics index = LOGISTICS_NAMES ! (index mod length LOGISTICS_NAMES)"
| "nameForRole Distributor index = DISTRIBUTOR_NAMES ! (index mod length DISTRIBUTOR_NAMES)"
| "nameForRole Buyer index = ''Secondary buyer '' @ nat_text (index + 1)"
| "nameForRole Coordinator index = ''Neutral coordinator''"
| "nameForRole Supplier index = SUPPLIER_NAMES ! ((index + 1) mod length SUPPLIER_NAMES)"

definition strategyForRole :: "participantRole \<Rightarrow> string \<Rightarrow> string" where
  "strategyForRole role supplierAgent =
     (case List.find (\<lambda>s. strategy_role s = role \<and> strategy_id s \<noteq> supplierAgent) (strategies :: 53 strategy list) of
        Some match \<Rightarrow> strategy_id match
      | None \<Rightarrow>
          (case List.find (\<lambda>s. strategy_role s = role) (strategies :: 53 strategy list) of
             Some match \<Rightarrow> strategy_id match
           | None \<Rightarrow> ''capacity-guard-supplier''))"

fun outsideForRole :: "participantRole \<Rightarrow> nat \<Rightarrow> ('p::len0) jsnum" where
  "outsideForRole Buyer idx = lit 7600 - of_count idx * lit 200"
| "outsideForRole Packager idx = lit 3800 - of_count idx * lit 200"
| "outsideForRole Logistics idx = lit 2200 - of_count idx * lit 200"
| "outsideForRole Distributor idx = lit 2900 - of_count idx * lit 200"
| "outsideForRole Coordinator idx = 0"
| "outsideForRole Supplier idx = lit 4800 - of_count idx * lit 200"

fun role_text :: "participantRole \<Rightarrow> string" where
  "role_text Buyer = ''buyer''"
| "role_text Supplier = ''supplier''"
| "role_text Packager = ''packager''"
| "role_text Logistics = ''logistics''"
| "role_text Distributor = ''distributor''"
| "role_text Coordinator = ''coordinator''"

definition paramsFromScenario :: "'p labScenario \<Rightarrow> 'p agentParameters" where
  "paramsFromScenario scenario =
     \<lparr>urgency = customBuyerUrgency scenario, flexibility = customSupplierFlexibility scenario,
      truthfulness = customTruthfulness scenario, privacyPreference = customPrivacyPreference scenario,
      riskAversion = customRiskAversion scenario\<rparr>"

text \<open>How often \<^verbatim>\<open>for (let i = 0; i < x; i += 1)\<close> runs its body, for a finite bound.\<close>

fun loop_count :: "'p jsnum \<Rightarrow> nat" where
  "loop_count (Fin r) = nat \<lceil>r\<rceil>"
| "loop_count _ = 0"

text \<open>The parameters spread last replace every field of the agent's or strategy's own.\<close>

definition base_buyer :: "('p::len0) labScenario \<Rightarrow> 'p participant" where
  "base_buyer scenario =
     \<lparr>p_id = ''buyer'', p_role = Buyer, p_name = ''Northstar buyer'',
      strategyId = agent_id (agentById (buyerAgentId scenario) :: 'p agentArchetype),
      reliability = buyerReliability scenario, capacity = None, outsideOption = Some (lit 8400),
      parameters = paramsFromScenario scenario\<lparr>urgency := customBuyerUrgency scenario\<rparr>\<rparr>"

definition base_supplier :: "('p::len0) labScenario \<Rightarrow> 'p participant" where
  "base_supplier scenario =
     \<lparr>p_id = ''supplier-1'', p_role = Supplier, p_name = SUPPLIER_NAMES ! 0,
      strategyId = agent_id (agentById (supplierAgentId scenario) :: 'p agentArchetype),
      reliability = supplierReliability scenario, capacity = None, outsideOption = Some (lit 5200),
      parameters = paramsFromScenario scenario\<lparr>flexibility := customSupplierFlexibility scenario\<rparr>\<rparr>"

definition extra_participant :: "('p::len0) labScenario \<Rightarrow> nat \<Rightarrow> 'p participant" where
  "extra_participant scenario i =
     (let roleRotation = rolesForPreset (presetId scenario);
          role = roleRotation ! (i mod length roleRotation);
          strategy_of = strategyForRole role (agent_id (agentById (supplierAgentId scenario) :: 'p agentArchetype));
          strategy = nullish (strategyById strategy_of) (strategies ! 0)
      in \<lparr>p_id = role_text role @ ''-'' @ nat_text (i + 2), p_role = role, p_name = nameForRole role i,
          strategyId = strategy_of,
          reliability = jmax (lit 0.7) (supplierReliability scenario - lit 0.04 * of_count (i + 1)),
          capacity = defaultCapacity strategy, outsideOption = Some (outsideForRole role i),
          parameters = paramsFromScenario scenario\<lparr>flexibility := customSupplierFlexibility scenario * lit 0.96\<rparr>\<rparr>)"

definition deriveParticipants :: "('p::len0) labScenario \<Rightarrow> 'p participant list" where
  "deriveParticipants scenario =
     (case participants scenario of
        Some ps \<Rightarrow> if 2 \<le> length ps then ps else
          [base_buyer scenario, base_supplier scenario] @
            map (extra_participant scenario) [0..<loop_count (jmax 0 (participantCount scenario - lit 2))]
      | None \<Rightarrow>
          [base_buyer scenario, base_supplier scenario] @
            map (extra_participant scenario) [0..<loop_count (jmax 0 (participantCount scenario - lit 2))])"

definition participantsByRole :: "'p participant list \<Rightarrow> participantRole \<Rightarrow> 'p participant list" where
  "participantsByRole ps role = filter (\<lambda>p. p_role p = role) ps"

definition isPrivateField :: "string \<Rightarrow> bool" where
  "isPrivateField field = (field \<in> set [''production_cost'', ''holding_cost'', ''rework_cost'', ''outsideOption'',
     ''reservation_value'', ''private_capacity''])"

definition describeStrategyForParticipant :: "('p::len0) participant \<Rightarrow> string" where
  "describeStrategyForParticipant p =
     (case strategyById (strategyId p) :: 'p strategy option of
        Some strategy \<Rightarrow> description strategy | None \<Rightarrow> role_text (p_role p))"

section \<open>Derived lists\<close>

lemma deriveParticipants_length: "2 \<le> length (deriveParticipants s)"
  by (simp add: deriveParticipants_def split: option.splits)

text \<open>Ids of derived participants differ: the number after the role is its position.\<close>

lemma role_text_no_digit: "d \<in> set (role_text r) \<Longrightarrow> d \<noteq> CHR ''-''"
  by (cases r) auto

lemma id_suffix:
  assumes "a @ ''-'' @ x = b @ ''-'' @ y" "CHR ''-'' \<notin> set a" "CHR ''-'' \<notin> set b"
  shows "a = b \<and> x = y"
  using assms
proof (induction a arbitrary: b)
  case Nil
  then show ?case by (cases b) auto
next
  case (Cons c a)
  then show ?case by (cases b) auto
qed

lemma extra_id_inj: "p_id (extra_participant s i) = p_id (extra_participant s j) \<Longrightarrow> i = j"
proof -
  assume "p_id (extra_participant s i) = p_id (extra_participant s j)"
  then obtain r r' where "role_text r @ ''-'' @ nat_text (i + 2) = role_text r' @ ''-'' @ nat_text (j + 2)"
    by (auto simp: extra_participant_def Let_def)
  from id_suffix [OF this] have "nat_text (i + 2) = nat_text (j + 2)"
    using role_text_no_digit by blast
  then show "i = j" by (simp only: nat_text_inj)
qed

lemma base_ids:
  "p_id (base_buyer s) = ''buyer''" "p_id (base_supplier s) = ''supplier-1''"
  by (simp_all add: base_buyer_def base_supplier_def)

lemma extra_id: "\<exists>r. p_id (extra_participant s i) = role_text r @ ''-'' @ nat_text (i + 2)"
  by (auto simp: extra_participant_def Let_def)

lemma nat_text_1: "nat_text (Suc 0) = ''1''"
  by code_simp

lemma extra_id_base: "p_id (extra_participant s i) \<noteq> ''buyer''" "p_id (extra_participant s i) \<noteq> ''supplier-1''"
proof -
  obtain r where r: "p_id (extra_participant s i) = role_text r @ ''-'' @ nat_text (i + 2)" using extra_id by blast
  have "CHR ''-'' \<in> set (p_id (extra_participant s i))" by (simp add: r)
  then show "p_id (extra_participant s i) \<noteq> ''buyer''" by auto
  show "p_id (extra_participant s i) \<noteq> ''supplier-1''"
  proof
    assume "p_id (extra_participant s i) = ''supplier-1''"
    then have "role_text r @ ''-'' @ nat_text (i + 2) = role_text Supplier @ ''-'' @ nat_text (Suc 0)" by (simp add: r nat_text_1)
    from id_suffix [OF this] have "nat_text (i + 2) = nat_text (Suc 0)" using role_text_no_digit by blast
    then show False by (simp only: nat_text_inj)
  qed
qed

text \<open>When a scenario lists fewer than two participants, its parties are derived: the buyer and the
  supplier followed by one party for every further unit of \<^verbatim>\<open>participantCount\<close>, all with different
  ids, so that the ledgers keyed by id never merge two rows.\<close>

lemma derived_participants:
  assumes "length (nullish (participants s) []) < 2"
  shows "distinct (map p_id (deriveParticipants s))
    \<and> length (deriveParticipants s) = 2 + loop_count (jmax 0 (participantCount s - lit 2))"
proof -
  have d: "deriveParticipants s = [base_buyer s, base_supplier s] @
      map (extra_participant s) [0..<loop_count (jmax 0 (participantCount s - lit 2))]"
    using assms by (auto simp: deriveParticipants_def split: option.splits)
  have "inj (\<lambda>i. p_id (extra_participant s i))" by (rule injI) (rule extra_id_inj)
  then have "distinct (map (\<lambda>i. p_id (extra_participant s i)) xs)" if "distinct xs" for xs
    using that by (auto simp: distinct_map inj_on_def)
  then show ?thesis
    unfolding d using extra_id_base [of s, symmetric] by (auto simp: base_ids comp_def)
qed

end
