(* ===== verification/JsSort.thy ===== *)
theory JsSort
  imports Types "HOL-Library.Multiset"
begin

text \<open>
  \<^verbatim>\<open>Array.prototype.sort\<close> with a comparator: a stable sort, where a negative result puts the
  first argument before the second and \<^verbatim>\<open>NaN\<close> counts as zero. ECMAScript fixes the result
  for consistent comparators only; the locale \<open>comparator\<close> says what that means, and the laws of
  the sort are proved inside it.
\<close>

section \<open>The sort\<close>

definition cmp_le :: "('a \<Rightarrow> 'a \<Rightarrow> 'p jsnum) \<Rightarrow> 'a \<Rightarrow> 'a \<Rightarrow> bool" where
  "cmp_le c a b = (\<not> Fin 0 < c a b)"

fun js_insert :: "('a \<Rightarrow> 'a \<Rightarrow> 'p jsnum) \<Rightarrow> 'a \<Rightarrow> 'a list \<Rightarrow> 'a list" where
  "js_insert c x [] = [x]"
| "js_insert c x (y # ys) = (if cmp_le c x y then x # y # ys else y # js_insert c x ys)"

definition js_sort :: "('a \<Rightarrow> 'a \<Rightarrow> 'p jsnum) \<Rightarrow> 'a list \<Rightarrow> 'a list" where
  "js_sort c xs = foldr (js_insert c) xs []"

lemma js_sort_simps [simp]: "js_sort c [] = []" "js_sort c (x # xs) = js_insert c x (js_sort c xs)"
  by (simp_all add: js_sort_def)

lemma mset_js_insert [simp]: "mset (js_insert c x ys) = add_mset x (mset ys)"
  by (induction ys) auto

lemma mset_js_sort [simp]: "mset (js_sort c xs) = mset xs"
  by (induction xs) auto

lemma set_js_sort [simp]: "set (js_sort c xs) = set xs"
  by (metis mset_js_sort set_mset_mset)

lemma length_js_sort [simp]: "length (js_sort c xs) = length xs"
  by (metis mset_js_sort size_mset)

lemma js_sort_Nil_iff [simp]: "js_sort c xs = [] \<longleftrightarrow> xs = []"
  by (metis length_0_conv length_js_sort)

lemma distinct_js_sort [simp]: "distinct (js_sort c xs) = distinct xs"
  by (metis mset_eq_imp_distinct_iff mset_js_sort)

section \<open>Consistent comparators\<close>

locale comparator =
  fixes c :: "'a \<Rightarrow> 'a \<Rightarrow> 'p jsnum"
    and ok :: "'a \<Rightarrow> bool"
  assumes le_total: "ok x \<Longrightarrow> ok y \<Longrightarrow> cmp_le c x y \<or> cmp_le c y x"
    and le_trans: "ok x \<Longrightarrow> ok y \<Longrightarrow> ok z \<Longrightarrow> cmp_le c x y \<Longrightarrow> cmp_le c y z \<Longrightarrow> cmp_le c x z"
begin

lemma insert_sorted:
  assumes "sorted_wrt (cmp_le c) ys" "\<forall>y \<in> set (x # ys). ok y"
  shows "sorted_wrt (cmp_le c) (js_insert c x ys)"
  using assms
proof (induction ys)
  case (Cons y ys)
  have set_ins: "set (js_insert c x ys) = insert x (set ys)"
    by (metis mset_js_insert set_mset_add_mset_insert set_mset_mset)
  have sy: "\<forall>z \<in> set ys. cmp_le c y z" "sorted_wrt (cmp_le c) ys" using Cons.prems by simp_all
  have okx: "ok x" "ok y" "\<forall>z \<in> set ys. ok z" using Cons.prems by simp_all
  show ?case
  proof (cases "cmp_le c x y")
    case True
    then have "\<forall>z \<in> set ys. cmp_le c x z" using le_trans [OF okx(1) okx(2)] okx(3) sy(1) by blast
    then show ?thesis using True sy by simp
  next
    case False
    then have "cmp_le c y x" using le_total [OF okx(1,2)] by blast
    moreover have "sorted_wrt (cmp_le c) (js_insert c x ys)" using Cons.IH sy(2) okx by simp
    ultimately show ?thesis using False sy(1) by (simp add: set_ins)
  qed
qed simp

lemma sort_sorted: "\<forall>x \<in> set xs. ok x \<Longrightarrow> sorted_wrt (cmp_le c) (js_sort c xs)"
  by (induction xs) (auto intro!: insert_sorted)

text \<open>The first element of the sorted array is a least one, and the first such of the array.\<close>

lemma sort_hd_least:
  assumes "\<forall>x \<in> set xs. ok x" "y \<in> set xs"
  shows "cmp_le c (hd (js_sort c xs)) y"
proof -
  obtain z zs where z: "js_sort c xs = z # zs" using assms(2) by (cases "js_sort c xs") auto
  have "y = z \<or> y \<in> set zs" using assms(2) z set_js_sort [of c xs] by auto
  moreover have "cmp_le c z z" using le_total [of z z] assms(1) z set_js_sort [of c xs] by force
  ultimately show ?thesis using sort_sorted [OF assms(1)] z by auto
qed

lemma sort_hd_in: "xs \<noteq> [] \<Longrightarrow> hd (js_sort c xs) \<in> set xs"
  by (metis hd_in_set js_sort_Nil_iff set_js_sort)

text \<open>A sorted array stays as it is: the sort is stable and idempotent.\<close>

lemma sort_id:
  assumes "sorted_wrt (cmp_le c) xs"
  shows "js_sort c xs = xs"
  using assms
proof (induction xs)
  case (Cons x xs)
  then show ?case by (cases xs) auto
qed simp

lemma sort_idem: "\<forall>x \<in> set xs. ok x \<Longrightarrow> js_sort c (js_sort c xs) = js_sort c xs"
  by (rule sort_id) (rule sort_sorted)

end

section \<open>Comparing by the difference of two numbers\<close>

lemma representable_grid:
  assumes "representable (Fin a :: ('p::len0) jsnum)" "LENGTH('p) \<noteq> 0"
  shows "\<exists>m. a = of_int m * pow2 (- 1074)"
proof -
  have l: "(lit a :: 'p jsnum) = Fin a" using assms(1) by (simp add: representable_def)
  have r: "rnd LENGTH('p) a = a"
    by (rule lit_cases [where r = a and 'p = 'p]) (simp_all only: l jsnum.inject jsnum.distinct)
  have "\<exists>m e. - 1074 \<le> e \<and> \<bar>m\<bar> \<le> 2 ^ LENGTH('p) \<and> rnd LENGTH('p) a = of_int m * pow2 e"
    by (rule rnd_on_grid) (use assms(2) in simp)
  then obtain m e where e: "- 1074 \<le> e" "a = of_int m * pow2 e" unfolding r by blast
  from e(1) obtain k where k: "e = - 1074 + int k" using zle_iff_zadd by blast
  have "pow2 e = pow2 (- 1074) * 2 ^ k" unfolding k pow2_add pow2_int ..
  then have "a = of_int (m * 2 ^ k) * pow2 (- 1074)" unfolding e(2) by (simp only: of_int_mult of_int_power of_int_numeral mult_ac)
  then show ?thesis by blast
qed

lemma diff_pos_iff:
  fixes u v :: "('p::len0) jsnum"
  assumes "representable u" "representable v" "is_fin u" "is_fin v"
  shows "Fin 0 < u - v \<longleftrightarrow> v < u"
proof
  assume "v < u"
  obtain a b where uv: "u = Fin a" "v = Fin b" using assms by (auto elim!: is_finE)
  then have ab: "b < a" using \<open>v < u\<close> by simp
  show "Fin 0 < u - v"
  proof (cases "LENGTH('p) = 0")
    case True
    then show ?thesis using ab uv by (simp add: lit_def)
  next
    case False
    obtain m n where mn: "a = of_int m * pow2 (- 1074)" "b = of_int n * pow2 (- 1074)"
      using representable_grid [OF _ False, of a] representable_grid [OF _ False, of b] assms uv by auto
    then have "n < m" using ab by (simp add: mult_less_cancel_right_pos)
    then have "(1::rat) \<le> of_int (m - n)" by simp
    then have "1 * pow2 (- 1074) \<le> of_int (m - n) * pow2 (- 1074)" by (rule mult_right_mono) (simp add: less_imp_le)
    then have "pow2 (- 1074) \<le> a - b" by (simp add: mn algebra_simps)
    then have "lit (pow2 (- 1074)) \<le> (lit (a - b) :: 'p jsnum)" by (rule lit_mono)
    moreover have "Fin 0 < (lit (pow2 (- 1074)) :: 'p jsnum)"
    proof -
      have "\<bar>pow2 (- 1074)\<bar> \<le> 2 ^ 1000" using pow2_mono [of "- 1074" 0] by simp
      then show ?thesis using lit_is_fin [of "pow2 (- 1074)", where 'p = 'p] rnd_pow2 [of "- 1074"] by simp
    qed
    ultimately show ?thesis using uv num_less_le_trans by simp
  qed
qed (rule num_diff_pos_imp_less)

definition by_key :: "('a \<Rightarrow> ('p::len0) jsnum) \<Rightarrow> 'a \<Rightarrow> 'a \<Rightarrow> 'p jsnum" where
  "by_key f a b = f a - f b"

definition key_ok :: "('a \<Rightarrow> ('p::len0) jsnum) \<Rightarrow> 'a \<Rightarrow> bool" where
  "key_ok f a = (is_fin (f a) \<and> representable (f a))"

lemma cmp_le_by_key: "key_ok f a \<Longrightarrow> key_ok f b \<Longrightarrow> cmp_le (by_key f) a b \<longleftrightarrow> f a \<le> f b"
  unfolding cmp_le_def by_key_def key_ok_def
  by (subst diff_pos_iff) (auto simp: num_not_less elim!: is_finE)

lemma by_key_comparator: "comparator (by_key f) (key_ok f)"
proof
  fix x y z
  assume ok: "key_ok f x" "key_ok f y"
  then show "cmp_le (by_key f) x y \<or> cmp_le (by_key f) y x"
    using num_total [of "f x" "f y"] by (simp add: cmp_le_by_key) (auto simp: key_ok_def elim!: is_finE)
  assume "key_ok f z" "cmp_le (by_key f) x y" "cmp_le (by_key f) y z"
  then show "cmp_le (by_key f) x z" using ok num_trans by (auto simp: cmp_le_by_key)
qed

end
