(* ===== verification/Simulation.thy ===== *)
theory Simulation
  imports Participants JsSort
begin

text \<open>
  \<^verbatim>\<open>packages/engine/src/model/simulation.ts\<close>: the rounds of the story game, the scores of the
  eight coordination mechanisms of a scenario, the transfer ledger of the lab and the frontier of
  near-optimal plans. \<^verbatim>\<open>toLocaleString\<close> is the host's and a parameter.
\<close>

section \<open>The story game\<close>

definition initialScores :: "('p::len0) scoreState" where
  "initialScores = \<lparr>relationship = 0, coverageRisk = lit 1.8, budgetPressure = 1, privacyShared = lit 0.05\<rparr>"

fun infoQuality :: "infoMode \<Rightarrow> ('p::len0) jsnum" where
  "infoQuality InfoPrivate = lit 0.12"
| "infoQuality RiskOnly = lit 0.28"
| "infoQuality CapacityBand = lit 0.44"
| "infoQuality CostBand = lit 0.54"
| "infoQuality ForecastBand = lit 0.68"
| "infoQuality FullOracle = 1"

fun privacyExposure :: "infoMode \<Rightarrow> ('p::len0) jsnum" where
  "privacyExposure InfoPrivate = lit 0.04"
| "privacyExposure RiskOnly = lit 0.14"
| "privacyExposure CapacityBand = lit 0.28"
| "privacyExposure CostBand = lit 0.36"
| "privacyExposure ForecastBand = lit 0.48"
| "privacyExposure FullOracle = lit 0.86"

fun infoModeLabel :: "infoMode \<Rightarrow> string" where
  "infoModeLabel InfoPrivate = ''private''"
| "infoModeLabel RiskOnly = ''risk only''"
| "infoModeLabel CapacityBand = ''capacity band''"
| "infoModeLabel CostBand = ''cost band''"
| "infoModeLabel ForecastBand = ''forecast band''"
| "infoModeLabel FullOracle = ''full oracle''"

definition scoreAfterChoice :: "('p::len0) scoreState \<Rightarrow> 'p choice \<Rightarrow> 'p scoreState" where
  "scoreAfterChoice scores ch =
     \<lparr>relationship = clamp (relationship scores + relationshipDelta ch) (lit (- 6)) (lit 8),
      coverageRisk = clamp (coverageRisk scores + coverageRiskDelta ch) 0 (lit 4.5),
      budgetPressure = clamp (budgetPressure scores + budgetPressureDelta ch) 0 (lit 5),
      privacyShared =
        clamp (privacyShared scores + privacyDelta ch + privacyExposure (ch_infoMode ch) * lit 0.1) 0 1\<rparr>"

definition supplierComfortQuantity :: "('p::len0) choice \<Rightarrow> 'p scoreState \<Rightarrow> 'p jsnum" where
  "supplierComfortQuantity ch scores =
     (let informationLift = infoQuality (ch_infoMode ch) * lit 115;
          relationshipLift = relationship scores * lit 13;
          riskDrag = coverageRisk scores * lit 42;
          budgetDrag = jmax 0 (budgetPressure scores - lit 2) * lit 18
      in jround (clamp (lit 430 + informationLift + relationshipLift - riskDrag - budgetDrag) (lit 280) (lit 680)))"

definition buyerUtilityFor :: "('p::len0) jsnum \<Rightarrow> 'p scoreState \<Rightarrow> 'p jsnum" where
  "buyerUtilityFor quantity scores =
     (let shortage = jmax 0 (lit 500 - quantity); excess = jmax 0 (quantity - lit 500)
      in lit 125 * jmin quantity (lit 500) - lit 55 * quantity - lit 92 * shortage - lit 7 * excess
         - coverageRisk scores * lit 460 - budgetPressure scores * lit 320)"

definition supplierUtilityFor :: "('p::len0) jsnum \<Rightarrow> 'p scoreState \<Rightarrow> 'p jsnum" where
  "supplierUtilityFor quantity scores =
     (let overCapacity = jmax 0 (quantity - lit 610)
      in (lit 55 - lit 34) * quantity - lit 5 * jmax 0 (lit 500 - quantity)
         - overCapacity * overCapacity * lit 0.07 - coverageRisk scores * lit 280 + relationship scores * lit 120)"

definition oracleUtilityFor :: "('p::len0) scoreState \<Rightarrow> infoMode \<Rightarrow> 'p jsnum" where
  "oracleUtilityFor scores mode =
     lit 23900 + infoQuality mode * lit 1400 - coverageRisk scores * lit 360 - budgetPressure scores * lit 180"

definition cinderResponse :: "('p::len0) choice \<Rightarrow> 'p jsnum \<Rightarrow> 'p scoreState \<Rightarrow> string" where
  "cinderResponse ch resid scores =
     (if relationship scores \<le> lit (- 2)
      then ''Cinder says the ask is too one-sided and starts protecting capacity for other customers.''
      else if lit 170 < resid
      then ''Cinder does not reject you, but their quantity is far below your ask. The negotiation is still wide open.''
      else if ch_infoMode ch = ForecastBand \<or> ch_infoMode ch = CostBand
      then ''Cinder responds constructively because the shared band gives them enough signal to plan around.''
      else ''Cinder keeps negotiating. They can work with the direction, but they still want more certainty.'')"

definition plainEnglishConsequence ::
    "('p::len0) choice \<Rightarrow> 'p jsnum \<Rightarrow> 'p jsnum \<Rightarrow> 'p jsnum \<Rightarrow> string" where
  "plainEnglishConsequence ch resid gap surplus =
     (if surplus < 0
      then ''This move hurts joint value. A transfer cannot fix a plan that destroys value before the money is split.''
      else if lit 170 < resid
      then ''You and Cinder are still far apart. Narrow the gap by choosing the information or commitment that would pull the two numbers together.''
      else if lit 3000 < gap
      then ''The deal is moving, but the all-knowing benchmark says the parties are still leaving value on the table.''
      else if ch_infoMode ch = InfoPrivate
      then ''You protected private information, but that privacy has a cost: the supplier has to guess what risk it is being asked to carry.''
      else ''This move improves coordination because it gives the supplier a clearer planning signal without requiring perfect certainty.'')"

definition evaluateRound ::
    "('p::len0) beat \<Rightarrow> 'p choice \<Rightarrow> 'p scoreState \<Rightarrow> 'p roundResult" where
  "evaluateRound bt ch previousScores =
     (let after = scoreAfterChoice previousScores ch;
          ask = jround (lit 500 * quantityMultiplier ch);
          comfort = supplierComfortQuantity ch previousScores;
          settled = jround ((ask * lit 0.52 + comfort * lit 0.48) / lit 5) * lit 5;
          resid = \<bar>ask - comfort\<bar>;
          bu = buyerUtilityFor settled after;
          su = supplierUtilityFor settled after;
          gu = bu + su;
          ou = oracleUtilityFor after (ch_infoMode ch);
          gap = jmax 0 (ou - gu);
          surplus = gu - lit 8400 - lit 5200
      in \<lparr>rr_beat = bt, rr_choice = ch, buyerAsk = ask, supplierComfort = comfort, settledQuantity = settled,
          rr_residual = resid, buyerUtility = bu, supplierUtility = su, rr_globalUtility = gu,
          rr_oracleGap = gap, rr_surplus = surplus,
          transferFeasible = (0 < surplus \<and> lit 8400 \<le> bu + surplus * lit 0.42
             \<and> lit 5200 \<le> su + surplus * lit 0.58),
          cinderResponse_text = cinderResponse ch resid after,
          plainEnglish_text = plainEnglishConsequence ch resid gap surplus,
          nextScores = after\<rparr>)"

record ending =
  end_title :: string
  summary :: string
  end_lesson :: string

definition detectEnding :: "('p::len0) roundResult list \<Rightarrow> 'p scoreState \<Rightarrow> ending" where
  "detectEnding results scores =
     (case at_last results of
        None \<Rightarrow> \<lparr>end_title = ''No run yet'', summary = ''Make decisions to create an outcome.'',
                 end_lesson = ''The simulator teaches through consequences.''\<rparr>
      | Some final \<Rightarrow>
          if relationship scores \<le> lit (- 3) \<or> \<not> transferFeasible final \<or> rr_surplus final < 0
          then \<lparr>end_title = ''Walk-away'',
                summary = ''The operational plan may protect one side locally, but it does not create enough joint value to prove both parties should sign.'',
                end_lesson = ''A hard local optimum can still fail as a mechanism if the other party is worse off than walking away.''\<rparr>
          else if lit 2.3 < coverageRisk scores \<or> lit 3500 < rr_oracleGap final
          then \<lparr>end_title = ''Convergent but one-sided'',
                summary = ''You reached a deal, but the plan leaves visible value on the table or pushes too much risk onto one side.'',
                end_lesson = ''Convergence alone is not enough. You also need welfare and participation checks.''\<rparr>
          else \<lparr>end_title = ''Convergent settlement'',
                summary = ''The parties settle on a credible capacity plan, the transfer ledger can keep both sides no worse off, and the launch has a defensible supply story.'',
                end_lesson = ''A shippable outcome looks like enough shared information plus a fair split of the surplus, with both sides above their outside options.''\<rparr>)"

section \<open>Scenarios\<close>

definition makeScenario :: "('p::len0) scenarioPatch \<Rightarrow> 'p labScenario" where
  "makeScenario overrides =
     (let presetId' = nullish (q_presetId overrides) ''substrate-crunch'';
          preset = presetById presetId';
          base = \<lparr>presetId = presetId', demand = lit 500, volatility = lit 0.26, capacityTightness = lit 0.72,
            leadTimeWeeks = lit 12, fulfillmentCenterCount = lit 3, participantCount = lit 2, productCount = 1,
            periodCount = 1, infoMode = ForecastBand, buyerAgentId = ''launch-protector'',
            supplierAgentId = ''capacity-guard'', customBuyerUrgency = lit 0.75,
            customSupplierFlexibility = lit 0.45, customTruthfulness = lit 0.78,
            customPrivacyPreference = lit 0.68, customRiskAversion = lit 0.68, alpha = 1,
            buyerReliability = 1, supplierReliability = 1, epsilon = 0, participants = None,
            splitRule = None, provenance = None, schemaVersion = None\<rparr>
      in apply_patch (apply_patch base (defaults preset)) overrides)"

definition statedCapacity :: "party \<Rightarrow> ('p::len0) labScenario \<Rightarrow> 'p jsnum" where
  "statedCapacity who s =
     (if who = BuyerParty then jround (demand s * (lit 1.04 + customBuyerUrgency s * lit 0.22))
      else jround (demand s *
        (lit 1.34 - capacityTightness s * lit 0.42 + customSupplierFlexibility s * lit 0.28)))"

definition effectiveCapacity :: "party \<Rightarrow> ('p::len0) labScenario \<Rightarrow> 'p capacityView" where
  "effectiveCapacity who s =
     (let rel = clamp (if who = BuyerParty then buyerReliability s else supplierReliability s) 0 1;
          st = statedCapacity who s
      in \<lparr>cv_party = who, stated = st, cv_reliability = rel, effective = jround (st * rel)\<rparr>)"

section \<open>Mechanisms\<close>

record 'p mechanismSpec =
  spec_name :: string
  spec_residual :: "'p jsnum"
  spec_loss :: "'p jsnum"
  spec_iters :: "'p jsnum"
  spec_runtime :: "'p jsnum"
  spec_privacy :: "'p jsnum"
  spec_plain :: string
  spec_incentive :: string
  spec_infoRequired :: string

definition reliabilityPenalty :: "('p::len0) labScenario \<Rightarrow> 'p jsnum" where
  "reliabilityPenalty s =
     (let buyerCapacity = effectiveCapacity BuyerParty s; supplierCapacity = effectiveCapacity SupplierParty s
      in (1 - cv_reliability buyerCapacity) * lit 0.11 + (1 - cv_reliability supplierCapacity) * lit 0.28
         + jmax 0 (demand s - effective supplierCapacity) / jmax 1 (demand s) * lit 0.2)"

definition complexity :: "('p::len0) labScenario \<Rightarrow> 'p jsnum" where
  "complexity s =
     (participantCount s - lit 2) * lit 0.07 + (productCount s - 1) * lit 0.06 + (periodCount s - 1) * lit 0.04
     + (fulfillmentCenterCount s - lit 3) * lit 0.025 + (leadTimeWeeks s - lit 6) * lit 0.012
     + volatility s * lit 0.3 + capacityTightness s * lit 0.22 + reliabilityPenalty s"

definition agentDiscipline :: "('p::len0) labScenario \<Rightarrow> 'p jsnum" where
  "agentDiscipline s =
     customTruthfulness s * lit 0.44 + customSupplierFlexibility s * lit 0.24
     + (1 - customPrivacyPreference s) * lit 0.16 + customBuyerUrgency s * lit 0.08
     + (1 - customRiskAversion s) * lit 0.08"

definition baseUtility :: "('p::len0) labScenario \<Rightarrow> 'p jsnum" where
  "baseUtility s =
     lit 18800 + demand s * lit 16 + fulfillmentCenterCount s * lit 260 + productCount s * lit 520
     - complexity s * lit 3900 + infoQuality (infoMode s) * lit 2600 + agentDiscipline s * lit 1800
     - reliabilityPenalty s * lit 5200 - (if presetId s = ''joint-does-not-exist'' then lit 9600 else 0)"

definition mechanismTable ::
    "('p::len0) labScenario \<Rightarrow> 'p jsnum \<Rightarrow> 'p jsnum \<Rightarrow> 'p jsnum \<Rightarrow> mechanismId \<Rightarrow> 'p mechanismSpec" where
  "mechanismTable s info cx ad i =
     (case i of
        JitBaseline \<Rightarrow>
        \<lparr>spec_name = ''JIT baseline'',
         spec_residual = lit 250 * (1 - info * lit 0.25) + cx * lit 180,
         spec_loss = lit 4100 + lit 2400 * cx + lit 1100 * (1 - ad),
         spec_iters = 1, spec_runtime = lit 3, spec_privacy = privacyExposure (infoMode s) * lit 0.25,
         spec_plain = ''Buyer issues its local best order; supplier reacts later. Simple, private, and often jointly wasteful.'',
         spec_incentive = ''No mechanism: each side can act locally and push cost to the other side.'',
         spec_infoRequired = ''Buyer order only; supplier economics stay hidden and unused.''\<rparr>
      | CentralizedOracle \<Rightarrow>
        \<lparr>spec_name = ''Centralized oracle'',
         spec_residual = 0,
         spec_loss = 0,
         spec_iters = 1, spec_runtime = lit 4, spec_privacy = 1,
         spec_plain = ''All information is pooled and one planner chooses the best joint plan. Useful benchmark, unrealistic governance.'',
         spec_incentive = ''Efficient if everyone reveals truthfully, but it assumes away strategic privacy.'',
         spec_infoRequired = ''Full buyer demand, inventory, transport, supplier cost, capacity, and production curves.''\<rparr>
      | CppVcg \<Rightarrow>
        \<lparr>spec_name = ''CPP + VCG/CBT'',
         spec_residual = lit 52 * (1 - info) + cx * lit 58 + (1 - customTruthfulness s) * lit 44,
         spec_loss = lit 420 * (1 - info) + cx * lit 760 + (1 - customTruthfulness s) * lit 430,
         spec_iters = jround (lit 20 + cx * lit 34 - info * lit 6), spec_runtime = lit 42 + cx * lit 72, spec_privacy = privacyExposure (infoMode s) * lit 0.74 + lit 0.11,
         spec_plain = ''Agents respond to coordination queries, then a VCG-style transfer prices the externality each side imposes.'',
         spec_incentive = ''Designed to make truthful local optimization the attractive strategy when agents respond honestly.'',
         spec_infoRequired = ''Iterative best responses plus a counterfactual run for transfer calculation; not full cost disclosure.''\<rparr>
      | CppAdmm \<Rightarrow>
        \<lparr>spec_name = ''CPP / ADMM'',
         spec_residual = lit 130 * (1 - info) + cx * lit 90 + (1 - ad) * lit 30,
         spec_loss = lit 900 * (1 - info) + cx * lit 1200 + (1 - ad) * lit 620,
         spec_iters = jround (lit 14 + cx * lit 30 - info * lit 5), spec_runtime = lit 24 + cx * lit 55, spec_privacy = privacyExposure (infoMode s) * lit 0.62 + lit 0.08,
         spec_plain = ''Parties keep local objectives, exchange coordination signals, and iterate toward agreement.'',
         spec_incentive = ''Good coordination protocol, but without VCG pricing it does not by itself solve incentive compatibility.'',
         spec_infoRequired = ''Local best responses to prices or consensus quantities.''\<rparr>
      | MenuContracts \<Rightarrow>
        \<lparr>spec_name = ''Menu of contracts'',
         spec_residual = lit 78 * (1 - info) + cx * lit 86 + jmax 0 (productCount s - lit 2) * lit 36,
         spec_loss = lit 520 * (1 - info) + cx * lit 930 + jmax 0 (productCount s - lit 2) * lit 460,
         spec_iters = lit 2, spec_runtime = lit 12 + cx * lit 28, spec_privacy = privacyExposure (infoMode s) * lit 0.42 + lit 0.18,
         spec_plain = ''Buyer offers priced plan options; supplier chooses the plan that maximizes its own utility.'',
         spec_incentive = ''Transparent and strong in low-dimensional cases; menus become hard to design as choices explode.'',
         spec_infoRequired = ''A finite menu of candidate plans and prices.''\<rparr>
      | AlternatingBestResponse \<Rightarrow>
        \<lparr>spec_name = ''Alternating best response'',
         spec_residual = lit 180 * (1 - info) + cx * lit 120 + (1 - customSupplierFlexibility s) * lit 34,
         spec_loss = lit 1400 * (1 - info) + cx * lit 1800 + (1 - ad) * lit 700,
         spec_iters = jround (lit 9 + cx * lit 18), spec_runtime = lit 18 + cx * lit 35, spec_privacy = privacyExposure (infoMode s) * lit 0.36,
         spec_plain = ''Each side responds to the last move. Simple and legible, but can bounce when incentives diverge.'',
         spec_incentive = ''Legible negotiation heuristic, not incentive compatible.'',
         spec_infoRequired = ''Last offer and local response.''\<rparr>
      | PriceOnly \<Rightarrow>
        \<lparr>spec_name = ''Price-only coordination'',
         spec_residual = lit 160 * (1 - info) + cx * lit 150,
         spec_loss = lit 1200 * (1 - info) + cx * lit 2100,
         spec_iters = jround (lit 11 + cx * lit 22), spec_runtime = lit 16 + cx * lit 42, spec_privacy = privacyExposure (infoMode s) * lit 0.32 + lit 0.04,
         spec_plain = ''Only price-like signals move. Useful when privacy matters, weak when quantity constraints dominate.'',
         spec_incentive = ''Protects private details, but prices may not encode binding capacity or timing constraints.'',
         spec_infoRequired = ''Price or penalty signal, not full planning state.''\<rparr>
      | ConsensusAveraging \<Rightarrow>
        \<lparr>spec_name = ''Consensus averaging'',
         spec_residual = lit 210 * (1 - info) + cx * lit 170,
         spec_loss = lit 1700 * (1 - info) + cx * lit 2500,
         spec_iters = jround (lit 5 + cx * lit 8), spec_runtime = lit 9 + cx * lit 20, spec_privacy = privacyExposure (infoMode s) * lit 0.22,
         spec_plain = ''Average the plans. Fast and easy, but it can average away the actual constraint.'',
         spec_incentive = ''No strategic protection; averaging can reward inflated asks or understated capacity.'',
         spec_infoRequired = ''Plan proposals only.''\<rparr>)"

record 'p mechanismPatch =
  o_residual :: "'p jsnum option"
  o_loss :: "'p jsnum option"
  o_iters :: "'p jsnum option"
  o_runtime :: "'p jsnum option"
  o_convergence :: "convergenceState option"

definition mechanismOverride :: "mechanismId \<Rightarrow> ('p::len0) labScenario \<Rightarrow> 'p mechanismPatch" where
  "mechanismOverride i s =
     (let patch = (\<lambda>r l n t k. \<lparr>o_residual = Some (lit r), o_loss = Some (lit l), o_iters = Some (lit n),
            o_runtime = Some (lit t), o_convergence = Some k\<rparr>)
      in if presetId s = ''joint-exists-admm-converges'' \<and> i = CppAdmm then patch 38 540 24 39 Converged
         else if presetId s = ''joint-exists-admm-oscillates'' \<and> i = CppAdmm then patch 420 2600 64 118 Oscillating
         else if presetId s = ''joint-exists-admm-oscillates'' \<and> i = AlternatingBestResponse
         then patch 82 880 22 53 Converged
         else if presetId s = ''joint-does-not-exist'' \<and> i \<noteq> CentralizedOracle then patch 310 4200 34 66 Stalled
         else \<lparr>o_residual = None, o_loss = None, o_iters = None, o_runtime = None, o_convergence = None\<rparr>)"

definition specOf :: "mechanismId \<Rightarrow> ('p::len0) labScenario \<Rightarrow> 'p mechanismSpec" where
  "specOf i s = mechanismTable s (infoQuality (infoMode s)) (complexity s) (agentDiscipline s) i"

definition residualOf :: "mechanismId \<Rightarrow> ('p::len0) labScenario \<Rightarrow> 'p jsnum" where
  "residualOf i s = nullish (o_residual (mechanismOverride i s)) (spec_residual (specOf i s))"

definition lossOf :: "mechanismId \<Rightarrow> ('p::len0) labScenario \<Rightarrow> 'p jsnum" where
  "lossOf i s = nullish (o_loss (mechanismOverride i s)) (spec_loss (specOf i s))"

definition utilityOf :: "mechanismId \<Rightarrow> ('p::len0) labScenario \<Rightarrow> 'p jsnum" where
  "utilityOf i s = (if i = CentralizedOracle then baseUtility s else baseUtility s - lossOf i s)"

text \<open>The score of \<^verbatim>\<open>cpp-vcg\<close> asks for its transfer, which scores the two benchmarks: the
  recursion is one level deep.\<close>

function mechanismScore :: "mechanismId \<Rightarrow> ('p::len0) labScenario \<Rightarrow> 'p jsnum option \<Rightarrow> 'p algorithmResult"
  and vcgTransfer :: "'p labScenario \<Rightarrow> party \<Rightarrow> 'p jsnum \<Rightarrow> 'p jsnum" where
  "mechanismScore i s oracleUtility =
     (let buyerCapacity = effectiveCapacity BuyerParty s; supplierCapacity = effectiveCapacity SupplierParty s;
          spec = specOf i s; override = mechanismOverride i s;
          resid = residualOf i s;
          iters = nullish (o_iters override) (spec_iters spec);
          runtime = nullish (o_runtime override) (spec_runtime spec);
          utility = utilityOf i s;
          benchmark = nullish oracleUtility (baseUtility s);
          gap = jmax 0 (benchmark - utility);
          capacityFeasible = (0 < effective buyerCapacity \<and> 0 < effective supplierCapacity
            \<and> demand s * lit 0.25 \<le> effective supplierCapacity)
      in \<lparr>ar_id = i, ar_name = spec_name spec, ar_plainEnglish = spec_plain spec,
          convergence = nullish (o_convergence override)
            (if i = CentralizedOracle then Benchmark
             else if lit 260 < resid then Stalled
             else if lit 145 < resid then Oscillating else Converged),
          iterations = jround iters, residual = jround resid, runtimeMs = jround runtime,
          globalUtility = jround utility, oracleGap = jround gap,
          ar_privacyExposure = clamp (spec_privacy spec) 0 1,
          incentiveStory = spec_incentive spec, informationRequired = spec_infoRequired spec,
          feasible = (capacityFeasible \<and> resid < lit 260 \<and> lit 13600 < utility),
          ar_quality = (if i = CentralizedOracle then BestBenchmark
            else if gap < lit 1200 then Strong else if gap < lit 2800 then Mixed else Weak),
          transferMagnitude = (if i = CppVcg then vcgTransfer s SupplierParty (alpha s) else 0),
          buyerEffectiveCapacity = effective buyerCapacity,
          supplierEffectiveCapacity = effective supplierCapacity\<rparr>)"
| "vcgTransfer s who al =
     (let oracle = mechanismScore CentralizedOracle s None;
          jit = mechanismScore JitBaseline s (Some (globalUtility oracle));
          externalityShare = (if who = BuyerParty then lit 0.42 else lit 0.58)
      in jround (clamp al 0 1 * jmax 0 (globalUtility oracle - globalUtility jit) * externalityShare))"
  by pat_completeness auto

termination
  by (relation "measure (case_sum (\<lambda>(i, _). if i = CppVcg then 2 else 0) (\<lambda>_. 1))") auto

declare mechanismScore.simps [simp del] vcgTransfer.simps [simp del]

section \<open>The lab\<close>

fun mechanism_text :: "mechanismId \<Rightarrow> string" where
  "mechanism_text JitBaseline = ''jit-baseline''"
| "mechanism_text CentralizedOracle = ''centralized-oracle''"
| "mechanism_text CppAdmm = ''cpp-admm''"
| "mechanism_text CppVcg = ''cpp-vcg''"
| "mechanism_text MenuContracts = ''menu-contracts''"
| "mechanism_text AlternatingBestResponse = ''alternating-best-response''"
| "mechanism_text PriceOnly = ''price-only''"
| "mechanism_text ConsensusAveraging = ''consensus-averaging''"

definition algorithmResults :: "('p::len0) labScenario \<Rightarrow> 'p algorithmResult list" where
  "algorithmResults s =
     (let oracle = mechanismScore CentralizedOracle s None;
          score = (\<lambda>i. mechanismScore i s (Some (globalUtility oracle)))
      in [score JitBaseline, oracle, score CppVcg, score CppAdmm, score MenuContracts,
          score AlternatingBestResponse, score PriceOnly, score ConsensusAveraging])"

definition money :: "('p jsnum \<Rightarrow> string) \<Rightarrow> ('p::len0) jsnum \<Rightarrow> string" where
  "money toLocaleString v = ''$'' @ toLocaleString (jround \<bar>v\<bar>)"

record 'p takeaway =
  tk_title :: string
  soWhat :: string
  coordinationGap :: "'p jsnum"
  bestMechanism :: "'p algorithmResult"
  informationValue :: "'p jsnum"

definition implementable :: "('p::len0) algorithmResult list \<Rightarrow> 'p algorithmResult list" where
  "implementable runs =
     filter (\<lambda>run. ar_id run \<noteq> CentralizedOracle \<and> ar_id run \<noteq> JitBaseline) runs"

definition best_implementable :: "('p::len0) labScenario \<Rightarrow> 'p algorithmResult" where
  "best_implementable s = js_sort (by_key oracleGap) (implementable (algorithmResults s)) ! 0"

definition labTakeaway :: "('p jsnum \<Rightarrow> string) \<Rightarrow> ('p::len0) labScenario \<Rightarrow> 'p takeaway" where
  "labTakeaway toLocaleString s =
     (let runs = algorithmResults s;
          jit = nullish (List.find (\<lambda>run. ar_id run = JitBaseline) runs) (runs ! 0);
          oracle = nullish (List.find (\<lambda>run. ar_id run = CentralizedOracle) runs) (runs ! 0);
          best = best_implementable s;
          privateScenario = makeScenario (patch_of s\<lparr>q_infoMode := Some InfoPrivate\<rparr>);
          fullScenario = makeScenario (patch_of s\<lparr>q_infoMode := Some FullOracle\<rparr>)
      in \<lparr>tk_title = ''The so-what'',
          soWhat = ''Local planning leaves about '' @ money toLocaleString (oracleGap jit) @
            '' on the table in this setup. '' @ ar_name best @
            '' recovers most of that gap while exposing less private data than the oracle.'',
          coordinationGap = globalUtility oracle - globalUtility jit,
          bestMechanism = best,
          informationValue = globalUtility (mechanismScore CppVcg fullScenario None)
            - globalUtility (mechanismScore CppVcg privateScenario None)\<rparr>)"

lemma bestMechanism_labTakeaway [simp]: "bestMechanism (labTakeaway loc s) = best_implementable s"
  by (simp add: labTakeaway_def Let_def)

record 'p sweepRow =
  sw_mode :: infoMode
  sw_label :: string
  sw_globalUtility :: "'p jsnum"
  sw_privacy :: "'p jsnum"
  sw_residual :: "'p jsnum"

definition infoModes :: "infoMode list" where
  "infoModes = [InfoPrivate, RiskOnly, CapacityBand, CostBand, ForecastBand, FullOracle]"

definition informationSweep :: "('p::len0) labScenario \<Rightarrow> 'p sweepRow list" where
  "informationSweep base =
     map (\<lambda>mode. let admm = mechanismScore CppVcg (base\<lparr>infoMode := mode\<rparr>) None
        in \<lparr>sw_mode = mode, sw_label = infoModeLabel mode, sw_globalUtility = globalUtility admm,
            sw_privacy = privacyExposure mode, sw_residual = residual admm\<rparr>) infoModes"

section \<open>The transfer ledger of the lab\<close>

datatype 'p ledgerInput = OfUtility "'p jsnum" | OfScenario "'p labScenario"

record 'p ledgerOptions =
  lo_alpha :: "'p jsnum option"
  planUtility :: "'p jsnum option"
  lo_splitRule :: "splitRule option"

definition no_options :: "'p ledgerOptions" where
  "no_options = \<lparr>lo_alpha = None, planUtility = None, lo_splitRule = None\<rparr>"

definition twoPartyRows :: "('p::len0) jsnum \<Rightarrow> 'p jsnum \<Rightarrow> 'p transferRow list" where
  "twoPartyRows gu al =
     (let buyerBefore = gu * lit 0.56;
          supplierBefore = gu * lit 0.44;
          surplus = gu - lit 8400 - lit 5200;
          buyerTransfer = (if 0 < surplus then - surplus * lit 0.12 * al else 0);
          supplierTransfer = (if 0 < surplus then surplus * lit 0.12 * al else 0)
      in [\<lparr>row_party = ''Northstar buyer'', utilityBeforeTransfer = buyerBefore,
           row_outsideOption = lit 8400, transfer = buyerTransfer,
           utilityAfterTransfer = buyerBefore + buyerTransfer,
           noWorseOff = (lit 8400 \<le> buyerBefore + buyerTransfer)\<rparr>,
          \<lparr>row_party = ''Cinder supplier'', utilityBeforeTransfer = supplierBefore,
           row_outsideOption = lit 5200, transfer = supplierTransfer,
           utilityAfterTransfer = supplierBefore + supplierTransfer,
           noWorseOff = (lit 5200 \<le> supplierBefore + supplierTransfer)\<rparr>])"

definition transferLedger :: "('p::len0) ledgerInput \<Rightarrow> 'p ledgerOptions \<Rightarrow> 'p transferRow list" where
  "transferLedger input options =
     (case input of
        OfUtility gu \<Rightarrow> twoPartyRows gu (clamp (nullish (lo_alpha options) 1) 0 1)
      | OfScenario s \<Rightarrow>
          (let gu = (case planUtility options of Some u \<Rightarrow> u | None \<Rightarrow> globalUtility (best_implementable s));
               al = clamp (nullish (lo_alpha options) (alpha s)) 0 1
           in if participants s \<noteq> None \<or> lo_splitRule options \<noteq> None
                \<or> (splitRule s \<noteq> None \<and> splitRule s \<noteq> Some Proportional)
              then map transferRow.truncate (multiPartyTransferLedger
                \<lparr>in_participants = deriveParticipants s, in_globalUtility = gu, in_alpha = Some al,
                 in_splitRule = Some (nullish (lo_splitRule options) (nullish (splitRule s) Proportional)),
                 baselineShare = None\<rparr>)
              else twoPartyRows gu al))"

definition multiPartyLedger ::
    "('p::len0) labScenario \<Rightarrow> 'p ledgerOptions \<Rightarrow> 'p multiPartyTransferRow list" where
  "multiPartyLedger s options =
     multiPartyTransferLedger
       \<lparr>in_participants = deriveParticipants s,
        in_globalUtility = (case planUtility options of Some u \<Rightarrow> u | None \<Rightarrow> globalUtility (best_implementable s)),
        in_alpha = Some (clamp (nullish (lo_alpha options) (alpha s)) 0 1),
        in_splitRule = Some (nullish (lo_splitRule options) (nullish (splitRule s) Proportional)),
        baselineShare = None\<rparr>"

record 'p welfare =
  w_participants :: "'p participant list"
  totalOutside :: "'p jsnum"
  w_globalUtility :: "'p jsnum"
  w_surplus :: "'p jsnum"

definition multiPartyWelfare :: "('p::len0) labScenario \<Rightarrow> 'p welfare" where
  "multiPartyWelfare s =
     (let ps = deriveParticipants s; out = jsum (map outside_of ps);
          gu = globalUtility (best_implementable s)
      in \<lparr>w_participants = ps, totalOutside = out, w_globalUtility = gu, w_surplus = gu - out\<rparr>)"

section \<open>The frontier\<close>

definition lossPercents :: "('p::len0) jsnum list" where
  "lossPercents = [0, lit 0.012, lit 0.026, lit 0.041, lit 0.058, lit 0.075, lit 0.095, lit 0.12]"

definition frontier_plan ::
    "('p::len0) labScenario \<Rightarrow> 'p algorithmResult \<Rightarrow> nat \<Rightarrow> 'p jsnum \<Rightarrow> 'p frontierPlan" where
  "frontier_plan s run index lossPercent =
     (let opt = globalUtility run;
          gu = jround (opt * (1 - lossPercent));
          bu = jround (gu * (lit 0.55 + of_count index * lit 0.006));
          su = gu - bu;
          resid = jmax 0 (jround (residual run + of_count index * lit 18 - customSupplierFlexibility s * lit 8))
      in \<lparr>fp_id = mechanism_text (ar_id run) @ ''-frontier-'' @ nat_text (index + 1),
          fp_label = (if index = 0 then ''best utility'' else ''robust variant '' @ nat_text index),
          fp_mechanismId = ar_id run, mechanismName = ar_name run, fp_globalUtility = gu,
          fp_buyerUtility = bu, fp_supplierUtility = su, fp_surplus = gu - lit 8400 - lit 5200,
          fp_residual = resid,
          fp_oracleGap = jmax 0 (oracleGap run + jround (opt * lossPercent)),
          robustnessNote = (if index = 0 then ''Highest synthetic welfare, least slack.''
            else ''Gives up a little utility to create more operational slack.''),
          transferRows = transferLedger (OfScenario s) (no_options\<lparr>planUtility := Some gu\<rparr>)\<rparr>)"

definition near_optimal :: "('p::len0) jsnum \<Rightarrow> 'p jsnum \<Rightarrow> 'p frontierPlan \<Rightarrow> bool" where
  "near_optimal opt eps plan =
     (if opt \<le> 0 then True else (opt - fp_globalUtility plan) / opt \<le> eps + lit (1 / 10 ^ 9))"

definition frontier ::
    "('p::len0) labScenario \<Rightarrow> mechanismId \<Rightarrow> 'p jsnum \<Rightarrow> nat \<Rightarrow> 'p frontierResult" where
  "frontier s algorithm eps K =
     (let run = nullish (List.find (\<lambda>candidate. ar_id candidate = algorithm) (algorithmResults s))
            (algorithmResults s ! 0);
          opt = globalUtility run;
          boundedEpsilon = jmax 0 eps
      in \<lparr>plans = take K (filter (near_optimal opt boundedEpsilon)
            (map (\<lambda>(index, lossPercent). frontier_plan s run index lossPercent) (enumerate 0 lossPercents))),
          f_epsilon = boundedEpsilon, f_K = K, optimalUtility = opt\<rparr>)"

end
