(* ===== verification/JsBounds.thy ===== *)
theory JsBounds
  imports JsSort
begin

text \<open>
  Magnitudes: \<open>mag k x\<close> says that a number is finite and at most \<open>2 ^ k\<close> in absolute value. The
  rules compute backwards through a formula, at every precision, so that no sum or product of a
  formula overflows or is \<^verbatim>\<open>NaN\<close>. Monotonicity and integrality of rounded arithmetic follow.
\<close>

named_theorems js_mag \<open>magnitudes of the operations\<close>

definition mag :: "nat \<Rightarrow> 'p jsnum \<Rightarrow> bool" where
  "mag k x = (case x of Fin a \<Rightarrow> \<bar>a\<bar> \<le> 2 ^ k | _ \<Rightarrow> False)"

lemma mag_simps [simp]: "mag k (Fin a) \<longleftrightarrow> \<bar>a\<bar> \<le> 2 ^ k" "\<not> mag k NaN" "\<not> mag k PInf" "\<not> mag k NInf"
  by (simp_all add: mag_def)

lemma magE: "mag k x \<Longrightarrow> (\<And>a. x = Fin a \<Longrightarrow> \<bar>a\<bar> \<le> 2 ^ k \<Longrightarrow> P) \<Longrightarrow> P"
  by (cases x) auto

lemma mag_is_fin: "mag k x \<Longrightarrow> is_fin x"
  by (cases x) auto

lemma mag_not_NaN: "mag k x \<Longrightarrow> x \<noteq> NaN"
  by auto

lemma mag_mono: "mag j x \<Longrightarrow> j \<le> k \<Longrightarrow> mag k x"
  by (cases x) (auto intro: order_trans power_increasing)

lemma mag_field [js_mag]: "20 < k \<Longrightarrow> mag 20 x \<Longrightarrow> mag k x"
  by (erule mag_mono) simp

lemma rnd_abs_le:
  assumes "\<bar>r\<bar> \<le> 2 ^ k" shows "\<bar>rnd p r\<bar> \<le> 2 ^ k"
proof -
  have e: "rnd p (2 ^ k) = 2 ^ k" using rnd_pow2 [of "int k" p] by (simp add: pow2_int)
  have "rnd p r \<le> 2 ^ k" "rnd p (- r) \<le> 2 ^ k"
    using rnd_mono [of r "2 ^ k" p] rnd_mono [of "- r" "2 ^ k" p] assms by (simp_all add: e abs_le_iff)
  then show ?thesis by (simp add: rnd_minus abs_le_iff)
qed

lemma mag_lit [js_mag]:
  assumes "\<bar>r\<bar> \<le> 2 ^ k" "k \<le> 1000" shows "mag k (lit r :: ('p::len0) jsnum)"
proof -
  have "\<bar>r\<bar> \<le> 2 ^ 1000" using assms power_increasing [of k 1000 "2::rat"] by linarith
  then show ?thesis using rnd_abs_le [OF assms(1)] by (simp add: lit_is_fin)
qed

lemma pow_pred: "0 < k \<Longrightarrow> (2::rat) ^ k = 2 * 2 ^ (k - 1)"
  by (cases k) simp_all

lemma mag_add [js_mag]:
  "0 < k \<Longrightarrow> k \<le> 1000 \<Longrightarrow> mag (k - 1) x \<Longrightarrow> mag (k - 1) y \<Longrightarrow> mag k (x + y)" for x :: "('p::len0) jsnum"
  by (auto elim!: magE intro!: mag_lit simp: pow_pred [of k])

lemma mag_uminus [js_mag]: "mag k (- x) = mag k x" for x :: "'p jsnum"
  by (cases x) simp_all

lemma mag_abs [js_mag]: "mag k \<bar>x\<bar> = mag k x" for x :: "'p jsnum"
  by (cases x) simp_all

lemma mag_diff [js_mag]:
  "0 < k \<Longrightarrow> k \<le> 1000 \<Longrightarrow> mag (k - 1) x \<Longrightarrow> mag (k - 1) y \<Longrightarrow> mag k (x - y)" for x :: "('p::len0) jsnum"
  unfolding minus_jsnum_def by (rule mag_add) (simp_all add: mag_uminus)

lemma mag_mult [js_mag]:
  fixes x :: "('p::len0) jsnum"
  assumes "k \<le> 1000" "mag (k div 2) x" "mag (k div 2) y"
  shows "mag k (x * y)"
proof -
  obtain a b where ab: "x = Fin a" "y = Fin b" "\<bar>a\<bar> \<le> 2 ^ (k div 2)" "\<bar>b\<bar> \<le> 2 ^ (k div 2)"
    using assms by (auto elim!: magE)
  have "\<bar>a * b\<bar> \<le> 2 ^ (k div 2) * 2 ^ (k div 2)"
    using ab by (simp add: abs_mult mult_mono)
  also have "\<dots> = 2 ^ (k div 2 + k div 2)" by (simp add: power_add)
  also have "\<dots> \<le> 2 ^ k" by (rule power_increasing) simp_all
  finally show ?thesis using assms(1) by (simp add: ab mag_lit)
qed

lemma mag_jmax [js_mag]: "mag k x \<Longrightarrow> mag k y \<Longrightarrow> mag k (jmax x y)"
  by (auto elim!: magE simp: max_def)

lemma mag_jmin [js_mag]: "mag k x \<Longrightarrow> mag k y \<Longrightarrow> mag k (jmin x y)"
  by (auto elim!: magE simp: min_def)

lemma mag_clamp [js_mag]: "mag k x \<Longrightarrow> mag k lo \<Longrightarrow> mag k hi \<Longrightarrow> mag k (clamp x lo hi)"
  by (simp add: clamp_def mag_jmax mag_jmin)

lemma mag_jround [js_mag]:
  "0 < k \<Longrightarrow> k \<le> 1000 \<Longrightarrow> mag (k - 1) x \<Longrightarrow> mag k (jround x)" for x :: "('p::len0) jsnum"
proof -
  assume k: "0 < k" "k \<le> 1000" "mag (k - 1) x"
  then obtain a where a: "x = Fin a" "\<bar>a\<bar> \<le> 2 ^ (k - 1)" by (auto elim: magE)
  have f: "of_int \<lfloor>a + 1 / 2\<rfloor> \<le> a + 1 / 2" "a - 1 / 2 < of_int \<lfloor>a + 1 / 2\<rfloor>"
    using floor_correct [of "a + 1 / 2"] by linarith+
  have "(1::rat) \<le> 2 ^ (k - 1)" by simp
  then have "\<bar>of_int \<lfloor>a + 1 / 2\<rfloor>\<bar> \<le> (2::rat) ^ k"
    unfolding pow_pred [OF k(1)] using f a(2) by (simp only: abs_le_iff) linarith
  then show ?thesis using k by (simp add: a mag_lit)
qed

lemma mag_divide [js_mag]:
  "k \<le> 1000 \<Longrightarrow> mag k x \<Longrightarrow> mag 20 y \<Longrightarrow> mag k (x / jmax (Fin 1) y)" for x :: "('p::len0) jsnum"
proof -
  assume h: "k \<le> 1000" "mag k x" "mag 20 y"
  then obtain a b where ab: "x = Fin a" "y = Fin b" "\<bar>a\<bar> \<le> 2 ^ k" by (auto elim!: magE)
  have m: "1 \<le> max 1 b" by simp
  then have "\<bar>a / max 1 b\<bar> \<le> \<bar>a\<bar>"
    by (simp add: abs_divide divide_le_eq mult_left_le mult_le_cancel_left1) (use m in linarith)
  then have "\<bar>a / max 1 b\<bar> \<le> 2 ^ k" using ab(3) by linarith
  moreover have "max 1 b \<noteq> 0" using m by linarith
  ultimately show ?thesis using h(1) by (simp add: ab mag_lit)
qed

section \<open>Monotonicity and integers\<close>

lemma num_mult_right_mono [js_order]:
  "x \<le> y \<Longrightarrow> Fin 0 \<le> z \<Longrightarrow> x * z \<noteq> NaN \<Longrightarrow> y * z \<noteq> NaN \<Longrightarrow> x * z \<le> y * z" for x :: "('p::len0) jsnum"
  by (cases x; cases y; cases z) (auto simp: lit_mono mult_right_mono less_jsnum_def split: if_splits)

lemma num_mult_commute: "x * y = y * x" for x :: "('p::len0) jsnum"
  by (cases x; cases y) (auto simp: mult.commute)

lemma num_mult_left_mono [js_order]:
  "x \<le> y \<Longrightarrow> Fin 0 \<le> z \<Longrightarrow> z * x \<noteq> NaN \<Longrightarrow> z * y \<noteq> NaN \<Longrightarrow> z * x \<le> z * y" for x :: "('p::len0) jsnum"
  using num_mult_right_mono [of x y z] by (simp add: num_mult_commute)

lemma num_mult_uminus: "(- x) * y = - (x * y)" for x :: "('p::len0) jsnum"
  by (cases x; cases y) (auto simp: lit_uminus less_jsnum_def)

lemma num_mult_le_self:
  assumes "representable x" "Fin 0 \<le> x" "is_fin x" "Fin 0 \<le> r" "r \<le> Fin 1"
  shows "x * r \<le> x"
proof -
  obtain a where a: "x = Fin a" using assms by (auto elim: is_finE)
  obtain b where b: "r = Fin b" using assms(4,5) by (cases r) auto
  have "a * b \<le> a" using assms(2,5) by (simp add: a b mult_left_le)
  then show ?thesis
    using lit_mono [of "a * b" a, where 'p = 'a] assms(1) by (simp add: a b representable_def)
qed

lemma num_diff_le_self:
  assumes "representable x" "is_fin x" "is_fin y" "Fin 0 \<le> y"
  shows "x - y \<le> x"
proof -
  obtain a b where ab: "x = Fin a" "y = Fin b" using assms by (auto elim!: is_finE)
  then have "lit (a - b) \<le> (lit a :: 'a jsnum)" using assms(4) by (intro lit_mono) simp
  then show ?thesis using assms(1) by (simp add: ab representable_def)
qed

lemma representable_diff [simp]: "representable (x - y)"
  by (simp add: minus_jsnum_def)

lemma representable_jround [simp]: "representable (jround x)"
  by (cases x) simp_all

lemma rnd_int_int: "\<exists>m. rnd p (of_int n) = of_int m"
proof (cases "p = 0 \<or> n = 0")
  case False
  define e where "e = max (- 1074) (ilog2 \<bar>of_int n\<bar> - int p + 1)"
  have eq: "rnd p (of_int n) = of_int (round_even (of_int n / pow2 e)) * pow2 e"
    using False by (simp add: rnd_def e_def Let_def)
  show ?thesis
  proof (cases "0 \<le> e")
    case True
    then obtain k where "e = int k" using zero_le_imp_eq_int by blast
    then show ?thesis using eq by (intro exI [of _ "round_even (of_int n / pow2 e) * 2 ^ k"]) (simp add: pow2_int)
  next
    case neg: False
    then obtain k where k: "e = - int k" by (metis neg_0_less_iff_less nat_0_le linorder_not_le less_imp_le minus_minus)
    have "pow2 e * 2 ^ k = pow2 (e + int k)" by (simp only: pow2_add pow2_int)
    then have one: "pow2 e * 2 ^ k = 1" by (simp add: k)
    then have "of_int n / pow2 e = of_int (n * 2 ^ k)" by (simp add: divide_eq_eq field_simps)
    then have "round_even (of_int n / pow2 e) = n * 2 ^ k" by (simp only: round_even_int)
    then have "rnd p (of_int n) = of_int n * (pow2 e * 2 ^ k)" by (simp add: eq)
    then show ?thesis using one by auto
  qed
qed auto

lemma jround_jround [simp]: "jround (jround x) = jround x"
proof (cases x)
  case (Fin a)
  obtain m where m: "rnd LENGTH('a) (of_int \<lfloor>a + 1 / 2\<rfloor>) = of_int m" using rnd_int_int by blast
  have fl: "\<lfloor>of_int m + 1 / 2 :: rat\<rfloor> = m" by (simp add: floor_unique)
  show ?thesis
    by (rule lit_cases [where r = "of_int \<lfloor>a + 1 / 2\<rfloor>" and 'p = 'a])
       (use representable_jround [of x] in \<open>simp_all add: Fin m fl representable_def\<close>)
qed simp_all

section \<open>Bounds in binary64\<close>

text \<open>A number between two rationals. Rounding a result keeps it between integers.\<close>

fun bounded_by :: "rat \<Rightarrow> rat \<Rightarrow> js \<Rightarrow> bool" where
  "bounded_by a b (Fin r) = (a \<le> r \<and> r \<le> b)"
| "bounded_by _ _ _ = False"

lemma bounded_lit:
  assumes "of_int m \<le> r" "r \<le> of_int n" "\<bar>m\<bar> \<le> 2 ^ 53" "\<bar>n\<bar> \<le> 2 ^ 53"
  shows "bounded_by (of_int m) (of_int n) (lit r)"
proof -
  have "r \<le> 2 ^ 53" "- (2 ^ 53) \<le> r"
    using assms of_int_le_iff [where 'a = rat, of n "2 ^ 53"] of_int_le_iff [where 'a = rat, of "- (2 ^ 53)" m] by auto
  then have "(lit r :: js) = Fin (rnd 53 r)" using lit_is_fin [of r, where 'p = 53] by auto
  then show ?thesis
    using rnd_mono [OF assms(1), of 53] rnd_mono [OF assms(2), of 53] rnd_int [of m 53] rnd_int [of n 53] assms(3,4)
    by simp
qed

lemma bounded_byE: "bounded_by a b x \<Longrightarrow> (\<And>r. x = Fin r \<Longrightarrow> a \<le> r \<Longrightarrow> r \<le> b \<Longrightarrow> P) \<Longrightarrow> P"
  by (cases x) auto

lemma bounded_weaken: "bounded_by a b x \<Longrightarrow> a' \<le> a \<Longrightarrow> b \<le> b' \<Longrightarrow> bounded_by a' b' x"
  by (cases x) auto

lemma bounded_add:
  "bounded_by a b x \<Longrightarrow> bounded_by c d y \<Longrightarrow> of_int m \<le> a + c \<Longrightarrow> b + d \<le> of_int n \<Longrightarrow> \<bar>m\<bar> \<le> 2 ^ 53 \<Longrightarrow> \<bar>n\<bar> \<le> 2 ^ 53 \<Longrightarrow>
     bounded_by (of_int m) (of_int n) (x + y)"
  by (elim bounded_byE) (auto intro!: bounded_lit)

lemma bounded_diff:
  "bounded_by a b x \<Longrightarrow> bounded_by c d y \<Longrightarrow> of_int m \<le> a - d \<Longrightarrow> b - c \<le> of_int n \<Longrightarrow> \<bar>m\<bar> \<le> 2 ^ 53 \<Longrightarrow> \<bar>n\<bar> \<le> 2 ^ 53 \<Longrightarrow>
     bounded_by (of_int m) (of_int n) (x - y)"
  by (elim bounded_byE) (auto intro!: bounded_lit)

lemma bounded_scale:
  assumes "bounded_by a b x" "bounded_by c d y" "0 \<le> a" "0 \<le> c"
    "of_int m \<le> a * c" "b * d \<le> of_int n" "\<bar>m\<bar> \<le> 2 ^ 53" "\<bar>n\<bar> \<le> 2 ^ 53"
  shows "bounded_by (of_int m) (of_int n) (x * y)" "bounded_by (of_int m) (of_int n) (y * x)"
proof -
  obtain r s where e: "x = Fin r" "y = Fin s" "a \<le> r" "r \<le> b" "c \<le> s" "s \<le> d" using assms(1,2) by (auto elim!: bounded_byE)
  have "a * c \<le> r * s" "r * s \<le> b * d" using e assms(3,4) by (auto intro!: mult_mono)
  then show "bounded_by (of_int m) (of_int n) (x * y)" "bounded_by (of_int m) (of_int n) (y * x)"
    using e assms(5-8) by (auto intro!: bounded_lit simp: mult.commute)
qed

lemma bounded_times:
  assumes "bounded_by a b x" "0 \<le> c" "of_int m \<le> a * c" "b * c \<le> of_int n" "\<bar>m\<bar> \<le> 2 ^ 53" "\<bar>n\<bar> \<le> 2 ^ 53"
  shows "bounded_by (of_int m) (of_int n) (x * Fin c)" "bounded_by (of_int m) (of_int n) (Fin c * x)"
proof -
  obtain r where e: "x = Fin r" "a \<le> r" "r \<le> b" using assms(1) by (auto elim!: bounded_byE)
  have "a * c \<le> r * c" "r * c \<le> b * c" using e assms(2) by (auto intro!: mult_right_mono)
  then show "bounded_by (of_int m) (of_int n) (x * Fin c)" "bounded_by (of_int m) (of_int n) (Fin c * x)"
    using e assms(3-6) by (auto intro!: bounded_lit simp: mult.commute)
qed

lemma bounded_fifth:
  "bounded_by a b x \<Longrightarrow> of_int m \<le> a / 5 \<Longrightarrow> b / 5 \<le> of_int n \<Longrightarrow> \<bar>m\<bar> \<le> 2 ^ 53 \<Longrightarrow> \<bar>n\<bar> \<le> 2 ^ 53 \<Longrightarrow>
     bounded_by (of_int m) (of_int n) (x / Fin 5)"
  by (elim bounded_byE) (auto intro!: bounded_lit)

lemma lit_integer:
  assumes "\<bar>n\<bar> \<le> 2 ^ 53" shows "(lit (of_int n) :: js) = Fin (of_int n)"
proof (rule lit_int)
  have "(2 :: int) ^ 53 \<le> 2 ^ 1000" by (rule power_increasing) simp_all
  then show "\<bar>n\<bar> \<le> 2 ^ 1000" using assms by (rule order_trans [rotated])
qed (use assms in simp)

lemma bounded_jround:
  assumes "bounded_by (of_int m) (of_int n) x" "\<bar>m\<bar> \<le> 2 ^ 53" "\<bar>n\<bar> \<le> 2 ^ 53"
  shows "\<exists>k. jround x = Fin (of_int k) \<and> m \<le> k \<and> k \<le> n"
proof -
  obtain r where e: "x = Fin r" "of_int m \<le> r" "r \<le> of_int n" using assms(1) by (auto elim!: bounded_byE)
  define k where "k = \<lfloor>r + 1 / 2\<rfloor>"
  have k: "m \<le> k" "k \<le> n" using e(2,3) unfolding k_def by linarith+
  then have "\<bar>k\<bar> \<le> 2 ^ 53" using assms(2,3) by linarith
  then have "(lit (of_int k) :: js) = Fin (of_int k)" by (rule lit_integer)
  then show ?thesis using e k by (auto simp: k_def)
qed

lemma lit_numeral: "numeral k \<le> (2 ^ 53 :: int) \<Longrightarrow> (lit (numeral k) :: js) = Fin (numeral k)"
  using lit_integer [of "numeral k"] by (simp only: of_int_numeral abs_numeral)

text \<open>Arithmetic on integers does not round.\<close>

lemma whole_ops:
  "\<bar>i * j\<bar> \<le> 2 ^ 53 \<Longrightarrow> (Fin (of_int i) * Fin (of_int j) :: js) = Fin (of_int (i * j))"
  "\<bar>i + j\<bar> \<le> 2 ^ 53 \<Longrightarrow> (Fin (of_int i) + Fin (of_int j) :: js) = Fin (of_int (i + j))"
  "\<bar>i - j\<bar> \<le> 2 ^ 53 \<Longrightarrow> (Fin (of_int i) - Fin (of_int j) :: js) = Fin (of_int (i - j))"
  using lit_integer [of "i * j"] lit_integer [of "i + j"] lit_integer [of "i - j"] by simp_all

lemmas whole_unfold = of_int_mult of_int_add of_int_diff of_int_minus of_int_numeral of_int_0 of_int_max of_int_min
  Fin_minus times_jsnum.simps plus_jsnum.simps

lemma whole_max: "jmax (Fin (of_int i)) (Fin (of_int j)) = (Fin (of_int (max i j)) :: js)"
  "jmin (Fin (of_int i)) (Fin (of_int j)) = (Fin (of_int (min i j)) :: js)"
  by (simp_all add: of_int_max of_int_min)

end
