(* ===== verification/ScenarioSchema.thy ===== *)
theory ScenarioSchema
  imports JsBounds
begin

text \<open>
  \<^verbatim>\<open>packages/engine/src/model/scenarioSchema.ts\<close>: which scenarios the schema accepts, and the
  defaults it fills in. The schema is written in the language of the package zod; its documented
  checks are stated here on records whose fields have the declared types. The messages of a
  rejection are zod's and are left out, except the two the file words itself.
\<close>

definition SCHEMA_VERSION :: string where
  "SCHEMA_VERSION = ''0.5.0''"

text \<open>\<^verbatim>\<open>z.number().min(a).max(b)\<close>, where zod's numbers are finite, and \<^verbatim>\<open>.int()\<close>, where they
  are safe integers.\<close>

definition z_min :: "rat \<Rightarrow> ('p::len0) jsnum \<Rightarrow> bool" where
  "z_min a x = (is_fin x \<and> lit a \<le> x)"

definition z_range :: "rat \<Rightarrow> rat \<Rightarrow> ('p::len0) jsnum \<Rightarrow> bool" where
  "z_range a b x = (is_fin x \<and> lit a \<le> x \<and> x \<le> lit b)"

fun z_int :: "('p::len0) jsnum \<Rightarrow> bool" where
  "z_int (Fin r) = (of_int \<lfloor>r\<rfloor> = r \<and> \<bar>r\<bar> < 2 ^ 53)"
| "z_int _ = False"

definition agentParametersSchema :: "('p::len0) agentParameters \<Rightarrow> bool" where
  "agentParametersSchema a =
     (z_range 0 1 (urgency a) \<and> z_range 0 1 (flexibility a) \<and> z_range 0 1 (truthfulness a)
      \<and> z_range 0 1 (privacyPreference a) \<and> z_range 0 1 (riskAversion a))"

definition participantSchema :: "('p::len0) participant \<Rightarrow> bool" where
  "participantSchema p =
     (p_id p \<noteq> [] \<and> p_name p \<noteq> [] \<and> strategyId p \<noteq> [] \<and> z_range 0 1 (reliability p)
      \<and> (case capacity p of None \<Rightarrow> True | Some c \<Rightarrow> z_min 0 c)
      \<and> (case outsideOption p of None \<Rightarrow> True | Some c \<Rightarrow> z_min 0 c)
      \<and> agentParametersSchema (parameters p))"

definition citationSchema :: "citation \<Rightarrow> bool" where
  "citationSchema c = (cite_source c \<noteq> [])"

definition provenanceSchema :: "dataProvenance \<Rightarrow> bool" where
  "provenanceSchema d = list_all citationSchema (citations d)"

definition scenario_fields_ok :: "('p::len0) labScenario \<Rightarrow> bool" where
  "scenario_fields_ok s =
     ((case schemaVersion s of None \<Rightarrow> True | Some v \<Rightarrow> v = SCHEMA_VERSION)
      \<and> presetId s \<noteq> []
      \<and> (case participants s of None \<Rightarrow> True
         | Some ps \<Rightarrow> list_all participantSchema ps \<and> 2 \<le> length ps \<and> length ps \<le> 8)
      \<and> z_min 0 (demand s) \<and> z_range 0 2 (volatility s) \<and> z_range 0 1 (capacityTightness s)
      \<and> z_range 1 52 (leadTimeWeeks s)
      \<and> z_int (fulfillmentCenterCount s) \<and> z_range 1 20 (fulfillmentCenterCount s)
      \<and> z_int (participantCount s) \<and> z_range 2 8 (participantCount s)
      \<and> z_int (productCount s) \<and> z_range 1 10 (productCount s)
      \<and> z_int (periodCount s) \<and> z_range 1 12 (periodCount s)
      \<and> buyerAgentId s \<noteq> [] \<and> supplierAgentId s \<noteq> []
      \<and> z_range 0 1 (customBuyerUrgency s) \<and> z_range 0 1 (customSupplierFlexibility s)
      \<and> z_range 0 1 (customTruthfulness s) \<and> z_range 0 1 (customPrivacyPreference s)
      \<and> z_range 0 1 (customRiskAversion s) \<and> z_range 0 1 (alpha s)
      \<and> z_range 0 1 (buyerReliability s) \<and> z_range 0 1 (supplierReliability s)
      \<and> z_range 0 0.5 (epsilon s)
      \<and> (case provenance s of None \<Rightarrow> True | Some d \<Rightarrow> provenanceSchema d))"

text \<open>The checks across fields, with the messages the file words.\<close>

definition superRefine :: "('p::len0 jsnum \<Rightarrow> string) \<Rightarrow> 'p labScenario \<Rightarrow> string list" where
  "superRefine num_string s =
     (case participants s of None \<Rightarrow> []
      | Some ps \<Rightarrow>
          (if \<not> js_eq (of_count (length ps)) (participantCount s)
           then [''participants length ('' @ num_string (of_count (length ps)) @
             '') must equal participantCount ('' @ num_string (participantCount s) @ '')''] else [])
          @ (if length (filter (\<lambda>p. p_role p = Buyer) ps) < 1 then [''at least one buyer is required''] else []))"

definition scenario_accepted :: "('p::len0) labScenario \<Rightarrow> bool" where
  "scenario_accepted s = (scenario_fields_ok s \<and> superRefine (\<lambda>_. []) s = [])"

definition fill_defaults :: "'p labScenario \<Rightarrow> 'p labScenario" where
  "fill_defaults s =
     s\<lparr>schemaVersion := Some (nullish (schemaVersion s) SCHEMA_VERSION),
       splitRule := Some (nullish (splitRule s) Proportional),
       provenance := Some (nullish (provenance s)
         \<lparr>prov_source = Synthetic, prov_sourceId = None, fetchedAt = None, citations = [], prov_notes = None\<rparr>)\<rparr>"

definition parseScenario :: "('p::len0) labScenario \<Rightarrow> 'p labScenario option" where
  "parseScenario s = (if scenario_accepted s then Some (fill_defaults s) else None)"

definition parseScenarioOrThrow :: "('p::len0) labScenario \<Rightarrow> unit + 'p labScenario" where
  "parseScenarioOrThrow s = (case parseScenario s of Some d \<Rightarrow> Inr d | None \<Rightarrow> Inl ())"

section \<open>Laws\<close>

lemma z_rangeD [dest]:
  assumes "z_range a b x" shows "is_fin x \<and> lit a \<le> x \<and> x \<le> lit b"
  using assms by (simp add: z_range_def)

lemma z_range_mag: "z_range a b x \<Longrightarrow> \<bar>a\<bar> \<le> 2 ^ k \<Longrightarrow> \<bar>b\<bar> \<le> 2 ^ k \<Longrightarrow> k \<le> 1000 \<Longrightarrow> mag k x"
  for x :: "('p::len0) jsnum"
proof -
  assume h: "z_range a b x" "\<bar>a\<bar> \<le> 2 ^ k" "\<bar>b\<bar> \<le> 2 ^ k" "k \<le> 1000"
  then obtain r where r: "x = Fin r" by (auto simp: z_range_def elim: is_finE)
  have "mag k (lit a :: 'p jsnum)" "mag k (lit b :: 'p jsnum)" using h by (simp_all add: mag_lit)
  then obtain u v where "(lit a :: 'p jsnum) = Fin u" "\<bar>u\<bar> \<le> 2 ^ k" "(lit b :: 'p jsnum) = Fin v" "\<bar>v\<bar> \<le> 2 ^ k"
    by (auto elim!: magE)
  then show ?thesis using h(1) by (auto simp: r z_range_def)
qed

lemma superRefine_names: "superRefine f s = [] \<longleftrightarrow> superRefine g s = []"
  by (auto simp: superRefine_def split: option.splits)

lemma fill_defaults_fields [simp]:
  "presetId (fill_defaults s) = presetId s"
  "demand (fill_defaults s) = demand s"
  "volatility (fill_defaults s) = volatility s"
  "capacityTightness (fill_defaults s) = capacityTightness s"
  "leadTimeWeeks (fill_defaults s) = leadTimeWeeks s"
  "fulfillmentCenterCount (fill_defaults s) = fulfillmentCenterCount s"
  "participantCount (fill_defaults s) = participantCount s"
  "productCount (fill_defaults s) = productCount s"
  "periodCount (fill_defaults s) = periodCount s"
  "infoMode (fill_defaults s) = infoMode s"
  "buyerAgentId (fill_defaults s) = buyerAgentId s"
  "supplierAgentId (fill_defaults s) = supplierAgentId s"
  "customBuyerUrgency (fill_defaults s) = customBuyerUrgency s"
  "customSupplierFlexibility (fill_defaults s) = customSupplierFlexibility s"
  "customTruthfulness (fill_defaults s) = customTruthfulness s"
  "customPrivacyPreference (fill_defaults s) = customPrivacyPreference s"
  "customRiskAversion (fill_defaults s) = customRiskAversion s"
  "alpha (fill_defaults s) = alpha s"
  "buyerReliability (fill_defaults s) = buyerReliability s"
  "supplierReliability (fill_defaults s) = supplierReliability s"
  "epsilon (fill_defaults s) = epsilon s"
  "participants (fill_defaults s) = participants s"
  "schemaVersion (fill_defaults s) = Some (nullish (schemaVersion s) SCHEMA_VERSION)"
  "splitRule (fill_defaults s) = Some (nullish (splitRule s) Proportional)"
  "provenance (fill_defaults s) = Some (nullish (provenance s)
     \<lparr>prov_source = Synthetic, prov_sourceId = None, fetchedAt = None, citations = [], prov_notes = None\<rparr>)"
  by (simp_all add: fill_defaults_def)

lemma fill_defaults_idem [simp]: "fill_defaults (fill_defaults s) = fill_defaults s"
  by (simp add: fill_defaults_def)

lemma superRefine_fill_defaults [simp]: "superRefine f (fill_defaults s) = superRefine f s"
  by (cases "participants s") (simp_all add: superRefine_def)

lemma scenario_accepted_fill_defaults: "scenario_accepted s \<Longrightarrow> scenario_accepted (fill_defaults s)"
proof -
  assume "scenario_accepted s"
  then show ?thesis
    unfolding scenario_accepted_def scenario_fields_ok_def superRefine_fill_defaults
    by (cases "schemaVersion s"; cases "provenance s") (simp_all add: provenanceSchema_def)
qed

lemma parseScenario_idem: "parseScenario s = Some d \<Longrightarrow> parseScenario d = Some d"
  by (auto simp: parseScenario_def scenario_accepted_fill_defaults split: if_splits)

end
