(* ===== verification/SimulationLaws.thy ===== *)
theory SimulationLaws
  imports Simulation ScenarioSchema
begin

text \<open>
  Laws of \<^verbatim>\<open>simulation.ts\<close>. Statements about order (bounds, monotonicity, the best mechanism)
  hold at every precision, so of binary64; those about sums are exact.
\<close>

declare num_trans [trans]

section \<open>The game\<close>

lemma is_fin_plus: "is_fin x \<Longrightarrow> y \<noteq> NaN \<Longrightarrow> x + y \<noteq> NaN" "is_fin x \<Longrightarrow> y \<noteq> NaN \<Longrightarrow> y + x \<noteq> NaN"
  for x :: "('p::len0) jsnum"
  by (cases x; cases y; simp)+

lemma mag_1000 [js_fin]: "mag 1000 x \<Longrightarrow> x \<noteq> NaN"
  by (rule mag_not_NaN)

definition inrange :: "rat \<Rightarrow> rat \<Rightarrow> ('p::len0) jsnum \<Rightarrow> bool" where
  "inrange a b x = (lit a \<le> x \<and> x \<le> lit b)"

lemma inrange_mag: "inrange a b x \<Longrightarrow> \<bar>a\<bar> \<le> 2 ^ k \<Longrightarrow> \<bar>b\<bar> \<le> 2 ^ k \<Longrightarrow> k \<le> 1000 \<Longrightarrow> mag k x"
  for x :: "('p::len0) jsnum"
proof -
  assume h: "inrange a b x" "\<bar>a\<bar> \<le> 2 ^ k" "\<bar>b\<bar> \<le> 2 ^ k" "k \<le> 1000"
  obtain u v where "(lit a :: 'p jsnum) = Fin u" "(lit b :: 'p jsnum) = Fin v"
    using mag_lit [OF h(2,4), where 'p = 'p] mag_lit [OF h(3,4), where 'p = 'p] by (auto elim!: magE)
  then have "is_fin x" using h(1) by (cases x) (auto simp: inrange_def)
  then show ?thesis using h z_range_mag [of a b x k] by (simp add: inrange_def z_range_def)
qed

definition scores_ok :: "('p::len0) scoreState \<Rightarrow> bool" where
  "scores_ok sc = (inrange (- 6) 8 (relationship sc) \<and> inrange 0 4.5 (coverageRisk sc)
     \<and> inrange 0 5 (budgetPressure sc) \<and> inrange 0 1 (privacyShared sc))"

definition numeric_choice :: "('p::len0) choice \<Rightarrow> bool" where
  "numeric_choice ch = (relationshipDelta ch \<noteq> NaN \<and> coverageRiskDelta ch \<noteq> NaN
     \<and> budgetPressureDelta ch \<noteq> NaN \<and> privacyDelta ch \<noteq> NaN)"

lemma lit_1 [simp]: "(lit 1 :: ('p::len0) jsnum) = Fin 1"
  using representable_Fin_1 by (simp add: representable_def)

lemma clamp_inrange:
  "a \<le> b \<Longrightarrow> x \<noteq> NaN \<Longrightarrow> inrange a b (clamp x (lit a) (lit b))"
  unfolding inrange_def using clamp_bounds [OF lit_mono] by blast

lemma scores_mag:
  assumes "scores_ok sc"
  shows "mag 20 (relationship sc)" "mag 20 (coverageRisk sc)" "mag 20 (budgetPressure sc)" "mag 20 (privacyShared sc)"
proof -
  show "mag 20 (relationship sc)"
    by (rule inrange_mag [of "- 6" 8]) (use assms in \<open>simp_all add: scores_ok_def\<close>)
  show "mag 20 (coverageRisk sc)"
    by (rule inrange_mag [of 0 "4.5"]) (use assms in \<open>simp_all add: scores_ok_def\<close>)
  show "mag 20 (budgetPressure sc)"
    by (rule inrange_mag [of 0 5]) (use assms in \<open>simp_all add: scores_ok_def\<close>)
  show "mag 20 (privacyShared sc)"
    by (rule inrange_mag [of 0 1]) (use assms in \<open>simp_all add: scores_ok_def\<close>)
qed

lemma scores_ok_initial: "scores_ok (initialScores :: ('p::len0) scoreState)"
proof -
  have "inrange (- 6) 8 (0 :: 'p jsnum)" "inrange 0 4.5 (lit 1.8 :: 'p jsnum)"
    "inrange 0 5 (1 :: 'p jsnum)" "inrange 0 1 (lit 0.05 :: 'p jsnum)"
    using lit_mono [of "- 6" 0, where 'p = 'p] lit_mono [of 1 5, where 'p = 'p] lit_mono [of "0.05" 1, where 'p = 'p]
      lit_mono [of 0 8, where 'p = 'p]
    by (auto simp: inrange_def simp del: mult_numeral_1 intro!: lit_mono lit_nonneg)
  then show ?thesis by (simp add: scores_ok_def initialScores_def)
qed

lemma privacyExposure_mag [js_mag]: "5 \<le> k \<Longrightarrow> k \<le> 1000 \<Longrightarrow> mag k (privacyExposure m :: ('p::len0) jsnum)"
proof -
  have "mag 5 (privacyExposure m :: 'p jsnum)" by (cases m) (auto intro!: mag_lit)
  then show "5 \<le> k \<Longrightarrow> mag k (privacyExposure m :: 'p jsnum)" by (rule mag_mono)
qed

lemma infoQuality_mag [js_mag]: "5 \<le> k \<Longrightarrow> k \<le> 1000 \<Longrightarrow> mag k (infoQuality m :: ('p::len0) jsnum)"
proof -
  have "mag 5 (infoQuality m :: 'p jsnum)" by (cases m) (auto intro!: mag_lit)
  then show "5 \<le> k \<Longrightarrow> mag k (infoQuality m :: 'p jsnum)" by (rule mag_mono)
qed

lemma scoreAfterChoice_ok:
  assumes "scores_ok sc" "numeric_choice ch"
  shows "scores_ok (scoreAfterChoice sc ch)"
proof -
  have f: "relationship sc + relationshipDelta ch \<noteq> NaN" "coverageRisk sc + coverageRiskDelta ch \<noteq> NaN"
    "budgetPressure sc + budgetPressureDelta ch \<noteq> NaN" "privacyShared sc + privacyDelta ch \<noteq> NaN"
    using scores_mag [OF assms(1), THEN mag_is_fin, THEN is_fin_plus(1)] assms(2)
    by (simp_all add: numeric_choice_def)
  have "mag 20 (privacyExposure (ch_infoMode ch) * lit 0.1)" by (simp add: js_mag)
  from is_fin_plus(2) [OF this [THEN mag_is_fin] f(4)]
  have "privacyShared sc + privacyDelta ch + privacyExposure (ch_infoMode ch) * lit 0.1 \<noteq> NaN" .
  then show ?thesis
    unfolding scores_ok_def scoreAfterChoice_def scoreState.simps zero_jsnum_def one_jsnum_def
    using clamp_inrange [OF _ f(1), of "- 6" 8] clamp_inrange [OF _ f(2), of 0 "4.5"]
      clamp_inrange [OF _ f(3), of 0 5] clamp_inrange [of 0 1] by simp
qed

lemma play_ok:
  assumes "scores_ok sc" "\<forall>ch \<in> set cs. numeric_choice ch"
  shows "scores_ok (foldl scoreAfterChoice sc cs)"
  using assms by (induction cs arbitrary: sc) (simp_all add: scoreAfterChoice_ok)

lemma jround_lit_int [simp]: "jround (lit (of_int n)) = (lit (of_int n) :: ('p::len0) jsnum)"
proof -
  have "\<lfloor>of_int n + 1 / 2 :: rat\<rfloor> = n" by (simp add: floor_unique)
  then have e: "(lit (of_int n) :: 'p jsnum) = jround (Fin (of_int n))" by simp
  show ?thesis unfolding e jround_jround ..
qed

lemma comfort_range:
  fixes sc :: "('p::len0) scoreState"
  assumes "scores_ok sc"
  shows "inrange 280 680 (supplierComfortQuantity ch sc)"
proof -
  note m = scores_mag [OF assms]
  have "mag 1000 (lit 430 + infoQuality (ch_infoMode ch) * lit 115 + relationship sc * lit 13
      - coverageRisk sc * lit 42 - jmax (Fin 0) (budgetPressure sc - lit 2) * lit 18)" (is "mag 1000 ?x")
    by (simp add: js_mag m)
  then have n: "?x \<noteq> NaN" by (rule mag_1000)
  have "lit 280 \<le> clamp ?x (lit 280) (lit 680)" "clamp ?x (lit 280) (lit 680) \<le> lit 680"
    using clamp_inrange [OF _ n, of 280 680] by (simp_all add: inrange_def)
  from this [THEN jround_mono] show ?thesis
    using jround_lit_int [of 280, where 'p = 'p] jround_lit_int [of 680, where 'p = 'p]
    by (simp add: inrange_def supplierComfortQuantity_def Let_def)
qed

text \<open>However the game is played, as long as no choice carries a \<^verbatim>\<open>NaN\<close>, the four scores
  stay in the ranges the clamps announce (so no \<^verbatim>\<open>NaN\<close> or infinity ever enters the state), and the
  quantity the supplier is comfortable with stays between 280 and 680 units.\<close>

lemma play_keeps_bounds:
  assumes "\<forall>ch \<in> set cs. numeric_choice ch"
  shows "scores_ok (foldl scoreAfterChoice initialScores cs)
    \<and> inrange 280 680 (supplierComfortQuantity ch (foldl scoreAfterChoice initialScores cs))"
  using play_ok [OF scores_ok_initial assms] comfort_range by blast

definition demo_choice :: "0 choice" where
  "demo_choice = \<lparr>ch_id = ''share-band'', ch_label = [], ch_say = [], ch_upside = [], ch_risk = [],
     quantityMultiplier = lit 1.1, ch_infoMode = ForecastBand, relationshipDelta = lit 9,
     coverageRiskDelta = lit (- 3), budgetPressureDelta = lit 0.2, privacyDelta = lit 0.1\<rparr>"

theorem play_keeps_bounds_witness:
  "scores_ok (foldl scoreAfterChoice initialScores [demo_choice, demo_choice])
    \<and> inrange 280 680 (supplierComfortQuantity demo_choice (foldl scoreAfterChoice initialScores [demo_choice, demo_choice]))"
  by (rule play_keeps_bounds) (simp add: demo_choice_def numeric_choice_def)

section \<open>The two-party ledger\<close>

text \<open>In the ledger of a utility the buyer's transfer is the negation of the supplier's, also
  in rounded arithmetic: what one side pays, to the last bit, the other receives.\<close>

lemma two_party_transfers_cancel:
  "transfer (transferLedger (OfUtility gu) options ! 0) = - transfer (transferLedger (OfUtility gu) options ! 1)"
  by (simp add: transferLedger_def twoPartyRows_def Let_def num_mult_uminus)

lemma clamp_unit:
  "x \<noteq> NaN \<Longrightarrow> \<exists>a. clamp x (Fin 0) (Fin 1) = Fin a \<and> 0 \<le> a \<and> a \<le> 1"
  by (cases x) (simp, simp_all add: clamp_def jmin_def jmax_def)

text \<open>A positive surplus does not keep the buyer whole: between 13600, where the surplus starts,
  and 15000 the buyer's row is worse off than walking away whatever \<^verbatim>\<open>alpha\<close>, because the transfer
  only ever goes to the supplier; the supplier's row is no worse off.\<close>

lemma buyer_worse_off_despite_surplus:
  assumes "13600 < u" "u < 15000" "lo_alpha options \<noteq> Some NaN"
  shows "\<not> noWorseOff (transferLedger (OfUtility (Fin u :: exact)) options ! 0)
    \<and> noWorseOff (transferLedger (OfUtility (Fin u :: exact)) options ! 1)"
proof -
  have "nullish (lo_alpha options) (Fin 1) \<noteq> NaN" using assms(3) by (cases "lo_alpha options") auto
  then obtain a where a: "clamp (nullish (lo_alpha options) (Fin 1)) (Fin 0) (Fin 1) = (Fin a :: exact)" "0 \<le> a"
    using clamp_unit by blast
  have "0 \<le> (u - 13600) * 0.12 * a" using assms a(2) by simp
  then show ?thesis
    using assms by (simp add: transferLedger_def twoPartyRows_def Let_def a algebra_simps)
qed

theorem buyer_worse_off_despite_surplus_witness:
  "\<not> noWorseOff (transferLedger (OfUtility (Fin 14000 :: exact)) no_options ! 0)
    \<and> noWorseOff (transferLedger (OfUtility (Fin 14000 :: exact)) no_options ! 1)"
  by (rule buyer_worse_off_despite_surplus) (simp_all add: no_options_def)

section \<open>Scenarios the schema accepts\<close>

definition lab_ok :: "('p::len0) labScenario \<Rightarrow> bool" where
  "lab_ok s = (scenario_accepted s \<and> demand s \<le> lit (2 ^ 20))"

lemma lab_okD:
  assumes "lab_ok s"
  shows "inrange 0 (2 ^ 20) (demand s)" "inrange 0 2 (volatility s)" "inrange 0 1 (capacityTightness s)"
    "inrange 1 52 (leadTimeWeeks s)" "inrange 1 20 (fulfillmentCenterCount s)" "inrange 2 8 (participantCount s)"
    "inrange 1 10 (productCount s)" "inrange 1 12 (periodCount s)" "inrange 0 1 (customBuyerUrgency s)"
    "inrange 0 1 (customSupplierFlexibility s)" "inrange 0 1 (customTruthfulness s)"
    "inrange 0 1 (customPrivacyPreference s)" "inrange 0 1 (customRiskAversion s)"
    "inrange 0 1 (buyerReliability s)" "inrange 0 1 (supplierReliability s)" "inrange 0 1 (alpha s)" "inrange 0 0.5 (epsilon s)"
  using assms unfolding lab_ok_def scenario_accepted_def scenario_fields_ok_def z_min_def z_range_def inrange_def
  by (simp_all only: simp_thms)

lemmas lab_mag [js_mag] =
  lab_okD(1) [THEN inrange_mag [where k = 20], simplified] lab_okD(2) [THEN inrange_mag [where k = 20], simplified]
  lab_okD(3) [THEN inrange_mag [where k = 20], simplified] lab_okD(4) [THEN inrange_mag [where k = 20], simplified]
  lab_okD(5) [THEN inrange_mag [where k = 20], simplified] lab_okD(6) [THEN inrange_mag [where k = 20], simplified]
  lab_okD(7) [THEN inrange_mag [where k = 20], simplified] lab_okD(8) [THEN inrange_mag [where k = 20], simplified]
  lab_okD(9) [THEN inrange_mag [where k = 20], simplified] lab_okD(10) [THEN inrange_mag [where k = 20], simplified]
  lab_okD(11) [THEN inrange_mag [where k = 20], simplified] lab_okD(12) [THEN inrange_mag [where k = 20], simplified]
  lab_okD(13) [THEN inrange_mag [where k = 20], simplified] lab_okD(14) [THEN inrange_mag [where k = 20], simplified]
  lab_okD(15) [THEN inrange_mag [where k = 20], simplified] lab_okD(16) [THEN inrange_mag [where k = 20], simplified]
  lab_okD(17) [THEN inrange_mag [where k = 20], simplified]

lemma inrange_nonneg: "inrange a b x \<Longrightarrow> 0 \<le> a \<Longrightarrow> Fin 0 \<le> x"
  unfolding inrange_def using lit_nonneg num_trans by blast

lemma inrange_unit: "inrange 0 1 x \<longleftrightarrow> Fin 0 \<le> x \<and> x \<le> Fin 1"
  by (simp add: inrange_def)

lemma unit_mult_le:
  assumes "inrange 0 1 x" "0 \<le> r" "r \<le> 2 ^ 20"
  shows "x * lit r \<le> lit r"
proof -
  have "is_fin (lit r :: 'a jsnum)" by (rule mag_is_fin [of 20], rule mag_lit) (use assms in simp_all)
  then have "lit r * x \<le> lit r" using assms by (intro num_mult_le_self) (simp_all add: inrange_unit lit_nonneg)
  then show ?thesis by (simp add: num_mult_commute)
qed

lemma num_1_minus: "x \<le> Fin 1 \<Longrightarrow> Fin 1 - x \<noteq> NaN \<Longrightarrow> Fin 0 \<le> Fin 1 - x" for x :: "('p::len0) jsnum"
  by (rule num_diff_nonneg)

section \<open>Capacity\<close>

lemma stated_mag [js_mag]: "lab_ok s \<Longrightarrow> 99 \<le> k \<Longrightarrow> k \<le> 1000 \<Longrightarrow> mag k (statedCapacity who s)"
proof -
  assume "lab_ok s"
  then have "mag 99 (statedCapacity who s)" by (simp add: statedCapacity_def js_mag)
  then show "99 \<le> k \<Longrightarrow> mag k (statedCapacity who s)" by (rule mag_mono)
qed

lemma stated_nonneg:
  fixes s :: "('p::len0) labScenario"
  assumes "lab_ok s" shows "Fin 0 \<le> statedCapacity who s"
proof -
  note d = lab_okD [OF assms]
  have n: "Fin 0 \<le> demand s" "Fin 0 \<le> customBuyerUrgency s" "Fin 0 \<le> customSupplierFlexibility s"
    using d inrange_nonneg by blast+
  have p: "Fin 0 \<le> customBuyerUrgency s * lit 0.22" "Fin 0 \<le> customSupplierFlexibility s * lit 0.28"
    using n by (auto intro!: num_mult_nonneg lit_nonneg mag_1000 simp: js_mag assms)
  have "capacityTightness s * lit 0.42 \<le> lit 0.42" using d by (simp add: unit_mult_le)
  also have "lit 0.42 \<le> (lit 1.34 :: 'p jsnum)" by (rule lit_mono) simp
  finally have t: "capacityTightness s * lit 0.42 \<le> lit 1.34" .
  have t': "Fin 0 \<le> lit 1.34 - capacityTightness s * lit 0.42"
    by (rule num_diff_nonneg [OF t]) (rule mag_1000, simp add: js_mag assms)
  have b: "Fin 0 \<le> demand s * (lit 1.04 + customBuyerUrgency s * lit 0.22)"
    by (rule num_mult_nonneg [OF n(1) num_add_nonneg [OF lit_nonneg p(1)]]) (simp, rule mag_1000, simp add: js_mag assms)
  have c: "Fin 0 \<le> demand s * (lit 1.34 - capacityTightness s * lit 0.42 + customSupplierFlexibility s * lit 0.28)"
    by (rule num_mult_nonneg [OF n(1) num_add_nonneg [OF t' p(2)]]) (rule mag_1000, simp add: js_mag assms)
  show ?thesis using jround_nonneg [OF b] jround_nonneg [OF c] by (simp add: statedCapacity_def)
qed

lemma reliability_unit:
  assumes "lab_ok s" shows "inrange 0 1 (cv_reliability (effectiveCapacity who s))"
  using lab_okD(14,15) [OF assms] by (auto simp: effectiveCapacity_def Let_def inrange_unit clamp_id)

text \<open>In every scenario the schema accepts, with a demand of at most a million units, the
  effective capacity of a party lies between zero and the capacity it states: a reliability prior
  can only discount a promise, also after the two roundings.\<close>

lemma effective_at_most_stated:
  fixes s :: "('p::len0) labScenario"
  assumes "lab_ok s"
  shows "Fin 0 \<le> effective (effectiveCapacity who s)
    \<and> effective (effectiveCapacity who s) \<le> stated (effectiveCapacity who s)"
proof -
  define r where "r = cv_reliability (effectiveCapacity who s)"
  have r: "Fin 0 \<le> r" "r \<le> Fin 1" using reliability_unit [OF assms] by (simp_all add: r_def inrange_unit)
  have e: "effective (effectiveCapacity who s) = jround (statedCapacity who s * r)"
    "stated (effectiveCapacity who s) = statedCapacity who s"
    by (simp_all add: effectiveCapacity_def Let_def r_def)
  have rep: "representable (statedCapacity who s)" "jround (statedCapacity who s) = statedCapacity who s"
    by (simp_all add: statedCapacity_def)
  have le: "statedCapacity who s * r \<le> statedCapacity who s"
    by (rule num_mult_le_self [OF rep(1) stated_nonneg [OF assms] _ r]) (rule mag_is_fin [where k = 99], simp add: js_mag assms)
  have "mag 20 r" using r inrange_mag [of 0 1 r 20] by (simp add: inrange_unit)
  then have "statedCapacity who s * r \<noteq> NaN" by (intro mag_1000) (simp add: js_mag assms)
  then have "Fin 0 \<le> statedCapacity who s * r" using num_mult_nonneg [OF stated_nonneg [OF assms] r(1)] by blast
  from jround_nonneg [OF this] jround_mono [OF le] show ?thesis by (simp only: e rep(2) simp_thms)
qed

section \<open>The terms of a score\<close>

lemma effective_mag [js_mag]: "lab_ok s \<Longrightarrow> 200 \<le> k \<Longrightarrow> k \<le> 1000 \<Longrightarrow> mag k (effective (effectiveCapacity who s))"
proof -
  assume s: "lab_ok s"
  have "mag 20 (cv_reliability (effectiveCapacity who s))" using inrange_mag [OF reliability_unit [OF s], of 20] by simp
  then have "mag 200 (effective (effectiveCapacity who s))"
    using s by (simp add: effectiveCapacity_def Let_def js_mag)
  then show "200 \<le> k \<Longrightarrow> mag k (effective (effectiveCapacity who s))" by (rule mag_mono)
qed

lemma reliability_mag [js_mag]: "lab_ok s \<Longrightarrow> mag 20 (cv_reliability (effectiveCapacity who s))"
  using inrange_mag [OF reliability_unit, of s 20] by simp

lemma penalty_mag [js_mag]: "lab_ok s \<Longrightarrow> 404 \<le> k \<Longrightarrow> k \<le> 1000 \<Longrightarrow> mag k (reliabilityPenalty s)"
proof -
  assume s: "lab_ok s"
  then have "mag 404 (reliabilityPenalty s)" by (simp add: reliabilityPenalty_def Let_def js_mag)
  then show "404 \<le> k \<Longrightarrow> mag k (reliabilityPenalty s)" by (rule mag_mono)
qed

lemma complexity_mag [js_mag]: "lab_ok s \<Longrightarrow> 405 \<le> k \<Longrightarrow> k \<le> 1000 \<Longrightarrow> mag k (complexity s)"
proof -
  assume s: "lab_ok s"
  then have "mag 405 (complexity s)" by (simp add: complexity_def js_mag)
  then show "405 \<le> k \<Longrightarrow> mag k (complexity s)" by (rule mag_mono)
qed

lemma discipline_mag [js_mag]: "lab_ok s \<Longrightarrow> 60 \<le> k \<Longrightarrow> k \<le> 1000 \<Longrightarrow> mag k (agentDiscipline s)"
proof -
  assume s: "lab_ok s"
  then have "mag 60 (agentDiscipline s)" by (simp add: agentDiscipline_def js_mag)
  then show "60 \<le> k \<Longrightarrow> mag k (agentDiscipline s)" by (rule mag_mono)
qed

lemma base_mag [js_mag]: "lab_ok s \<Longrightarrow> 830 \<le> k \<Longrightarrow> k \<le> 1000 \<Longrightarrow> mag k (baseUtility s)"
proof -
  assume s: "lab_ok s"
  then have "mag 830 (baseUtility s)" by (simp add: baseUtility_def js_mag)
  then show "830 \<le> k \<Longrightarrow> mag k (baseUtility s)" by (rule mag_mono)
qed

lemma loss_mag [js_mag]: "lab_ok s \<Longrightarrow> 830 \<le> k \<Longrightarrow> k \<le> 1000 \<Longrightarrow> mag k (lossOf i s)"
proof -
  assume s: "lab_ok s"
  then have "mag 830 (spec_loss (specOf i s))"
    by (cases i) (simp_all add: specOf_def mechanismTable_def js_mag)
  then have "mag 830 (lossOf i s)"
    by (auto simp: lossOf_def mechanismOverride_def Let_def js_mag)
  then show "830 \<le> k \<Longrightarrow> mag k (lossOf i s)" by (rule mag_mono)
qed

lemma residual_mag [js_mag]: "lab_ok s \<Longrightarrow> 830 \<le> k \<Longrightarrow> k \<le> 1000 \<Longrightarrow> mag k (residualOf i s)"
proof -
  assume s: "lab_ok s"
  then have "mag 830 (spec_residual (specOf i s))"
    by (cases i) (simp_all add: specOf_def mechanismTable_def js_mag)
  then have "mag 830 (residualOf i s)"
    by (auto simp: residualOf_def mechanismOverride_def Let_def js_mag)
  then show "830 \<le> k \<Longrightarrow> mag k (residualOf i s)" by (rule mag_mono)
qed

lemma utility_mag [js_mag]: "lab_ok s \<Longrightarrow> 831 \<le> k \<Longrightarrow> k \<le> 1000 \<Longrightarrow> mag k (utilityOf i s)"
proof -
  assume s: "lab_ok s"
  then have "mag 831 (utilityOf i s)" by (simp add: utilityOf_def js_mag)
  then show "831 \<le> k \<Longrightarrow> mag k (utilityOf i s)" by (rule mag_mono)
qed

lemma score_fields:
  "ar_id (mechanismScore i s u) = i"
  "globalUtility (mechanismScore i s u) = jround (utilityOf i s)"
  "oracleGap (mechanismScore i s u) = jround (jmax (Fin 0) (nullish u (baseUtility s) - utilityOf i s))"
  "residual (mechanismScore i s u) = jround (residualOf i s)"
  by (simp_all add: mechanismScore.simps Let_def)

section \<open>The benchmark\<close>

text \<open>Every rule for signs leaves the side condition that the result is a number, which its
  magnitude discharges.\<close>

lemma nonneg_mult: "Fin 0 \<le> x \<Longrightarrow> Fin 0 \<le> y \<Longrightarrow> mag 1000 (x * y) \<Longrightarrow> Fin 0 \<le> x * y" for x :: "('p::len0) jsnum"
  by (rule num_mult_nonneg) auto

lemma nonneg_diff: "y \<le> x \<Longrightarrow> mag 1000 (x - y) \<Longrightarrow> Fin 0 \<le> x - y" for x :: "('p::len0) jsnum"
  by (rule num_diff_nonneg) auto

lemma lab_unit_nonneg:
  assumes "lab_ok s"
  shows "Fin 0 \<le> Fin 1 - cv_reliability (effectiveCapacity who s)"
    "Fin 0 \<le> Fin 1 - customTruthfulness s" "Fin 0 \<le> Fin 1 - customSupplierFlexibility s"
    "Fin 0 \<le> Fin 1 - customPrivacyPreference s" "Fin 0 \<le> Fin 1 - customRiskAversion s"
  using lab_okD(10-13) [OF assms] reliability_unit [OF assms]
  by (auto simp: inrange_unit intro!: nonneg_diff) (simp_all add: js_mag assms)

lemma divide_jmax_nonneg: "Fin 0 \<le> x \<Longrightarrow> mag 400 x \<Longrightarrow> mag 20 y \<Longrightarrow> Fin 0 \<le> x / jmax (Fin 1) y" for x :: "('p::len0) jsnum"
proof -
  assume h: "Fin 0 \<le> x" "mag 400 x" "mag 20 y"
  have "mag 400 (x / jmax (Fin 1) y)" using h by (intro mag_divide) simp_all
  then have "x / jmax (Fin 1) y \<noteq> NaN" by (rule mag_not_NaN)
  moreover have "Fin 0 \<le> jmax (Fin 1) y" using h(3) by (auto elim!: magE)
  ultimately show ?thesis using h(1) by (intro num_divide_nonneg)
qed

lemma penalty_nonneg:
  assumes "lab_ok s" shows "Fin 0 \<le> reliabilityPenalty s"
proof -
  have d: "Fin 0 \<le> jmax (Fin 0) (demand s - effective (effectiveCapacity SupplierParty s))"
    by (rule jmax_0_nonneg) (rule mag_1000, simp add: js_mag assms)
  have "Fin 0 \<le> jmax (Fin 0) (demand s - effective (effectiveCapacity SupplierParty s)) / jmax (Fin 1) (demand s)"
    by (rule divide_jmax_nonneg [OF d]) (simp_all add: js_mag assms)
  then show ?thesis
    unfolding reliabilityPenalty_def Let_def one_jsnum_def zero_jsnum_def
    by (intro num_add_nonneg nonneg_mult lab_unit_nonneg assms lit_nonneg) (simp_all add: js_mag assms)
qed

lemma complexity_nonneg:
  assumes "lab_ok s" "lit 6 \<le> leadTimeWeeks s" "lit 3 \<le> fulfillmentCenterCount s"
  shows "Fin 0 \<le> complexity s"
proof -
  note d = lab_okD [OF assms(1)]
  have le: "lit 2 \<le> participantCount s" "Fin 1 \<le> productCount s" "Fin 1 \<le> periodCount s"
    "Fin 0 \<le> volatility s" "Fin 0 \<le> capacityTightness s"
    using d by (simp_all add: inrange_def)
  show ?thesis
    unfolding complexity_def one_jsnum_def zero_jsnum_def
    by (intro num_add_nonneg nonneg_mult nonneg_diff penalty_nonneg le assms lit_nonneg) (simp_all add: js_mag assms)
qed

lemma info_le_1: "infoQuality m \<le> (Fin 1 :: ('p::len0) jsnum)"
  using lit_mono [of _ 1, where 'p = 'p] by (cases m) simp_all

lemma loss_nonneg:
  assumes "lab_ok s" "Fin 0 \<le> complexity s" "agentDiscipline s \<le> Fin 1"
  shows "Fin 0 \<le> lossOf i s"
proof -
  have i: "Fin 0 \<le> Fin 1 - infoQuality (infoMode s)" by (rule nonneg_diff [OF info_le_1]) (simp add: js_mag)
  have a: "Fin 0 \<le> Fin 1 - agentDiscipline s" by (rule nonneg_diff [OF assms(3)]) (simp add: js_mag assms)
  have p: "Fin 0 \<le> jmax (Fin 0) (productCount s - lit 2)" by (rule jmax_0_nonneg) (rule mag_1000, simp add: js_mag assms)
  note terms = i a p assms lab_unit_nonneg lit_nonneg
  have "Fin 0 \<le> spec_loss (specOf i s)"
  proof (cases i)
    case CentralizedOracle
    then show ?thesis by (simp add: specOf_def mechanismTable_def)
  qed (simp_all only: specOf_def mechanismTable_def mechanismSpec.simps mechanismId.case one_jsnum_def zero_jsnum_def,
      (intro num_add_nonneg nonneg_mult terms; simp add: js_mag assms)+)
  then show ?thesis
    by (auto simp: lossOf_def mechanismOverride_def Let_def lit_nonneg)
qed

lemma representable_base: "representable (baseUtility s)"
  by (simp add: baseUtility_def)

lemma utility_le_base:
  assumes "lab_ok s" "Fin 0 \<le> complexity s" "agentDiscipline s \<le> Fin 1"
  shows "utilityOf i s \<le> baseUtility s"
proof (cases "i = CentralizedOracle")
  case True
  then show ?thesis using mag_1000 [of "baseUtility s"] by (simp add: utilityOf_def js_mag assms)
next
  case False
  have "is_fin (baseUtility s)" "is_fin (lossOf i s)"
    by (rule mag_is_fin [of 1000], simp add: js_mag assms)+
  then show ?thesis
    using False num_diff_le_self [OF representable_base _ _ loss_nonneg [OF assms]] by (simp add: utilityOf_def)
qed

lemma unit_flip: "inrange 0 1 x \<Longrightarrow> inrange 0 1 (Fin 1 - x)" for x :: "('p::len0) jsnum"
proof -
  assume x: "inrange 0 1 x"
  then have m: "mag 20 x" using inrange_mag [of 0 1 x 20] by simp
  have "Fin 0 \<le> Fin 1 - x" by (rule nonneg_diff) (use x m in \<open>simp_all add: inrange_unit js_mag\<close>)
  moreover have "Fin 1 - x \<le> Fin 1"
    by (rule num_diff_le_self) (use x m in \<open>simp_all add: inrange_unit mag_is_fin\<close>)
  ultimately show ?thesis by (simp add: inrange_unit)
qed

lemma discipline_le:
  fixes s :: "('p::len0) labScenario"
  assumes "lab_ok s"
  shows "agentDiscipline s \<le> lit 0.44 + lit 0.24 + lit 0.16 + lit 0.08 + lit 0.08"
  unfolding agentDiscipline_def one_jsnum_def
  by (intro num_add_mono unit_mult_le unit_flip lab_okD assms; (rule mag_1000)?; simp add: js_mag assms)

lemma weights_sum: "lit 0.44 + lit 0.24 + lit 0.16 + lit 0.08 + lit 0.08 \<le> (Fin 1 :: js)"
  by code_simp

lemma discipline_le_1: "lab_ok s \<Longrightarrow> agentDiscipline s \<le> (Fin 1 :: js)"
  using discipline_le [of s] weights_sum num_trans by blast

lemma algorithmResults_oracle: "algorithmResults s ! 1 = mechanismScore CentralizedOracle s None"
  by (simp add: algorithmResults_def Let_def)

lemma algorithmResults_in:
  "r \<in> set (algorithmResults s) \<Longrightarrow>
     \<exists>i u. r = mechanismScore i s u \<and> (u = None \<or> u = Some (jround (baseUtility s)))"
  by (auto simp: algorithmResults_def Let_def score_fields utilityOf_def)

lemma gap_nonneg:
  assumes "lab_ok s" "u = None \<or> u = Some (jround (baseUtility s))"
  shows "Fin 0 \<le> oracleGap (mechanismScore i s u)" "mag 1000 (oracleGap (mechanismScore i s u))"
proof -
  have m: "mag 999 (nullish u (baseUtility s) - utilityOf i s)"
    using assms(2) by (auto simp: js_mag assms(1))
  show "Fin 0 \<le> oracleGap (mechanismScore i s u)"
    unfolding score_fields by (intro jround_nonneg jmax_0_nonneg mag_not_NaN [OF m])
  show "mag 1000 (oracleGap (mechanismScore i s u))"
    unfolding score_fields by (rule mag_jround) (simp_all add: mag_jmax m)
qed


text \<open>The scenario that no override changes.\<close>

definition standard :: "('p::len0) labScenario" where
  "standard = \<lparr>presetId = ''substrate-crunch'', demand = lit 500, volatility = lit 0.26,
     capacityTightness = lit 0.72, leadTimeWeeks = lit 12, fulfillmentCenterCount = lit 3,
     participantCount = lit 2, productCount = 1, periodCount = 1, infoMode = ForecastBand,
     buyerAgentId = ''launch-protector'', supplierAgentId = ''capacity-guard'',
     customBuyerUrgency = lit 0.75, customSupplierFlexibility = lit 0.45, customTruthfulness = lit 0.78,
     customPrivacyPreference = lit 0.68, customRiskAversion = lit 0.68, alpha = 1, buyerReliability = 1,
     supplierReliability = 1, epsilon = 0, participants = None, splitRule = None, provenance = None,
     schemaVersion = None\<rparr>"

lemma presetById_first: "presetById ''substrate-crunch'' = preset_substrate_crunch"
  by (simp add: presetById_def scenarioPresets_def preset_substrate_crunch_def)

lemma makeScenario_standard: "makeScenario no_patch = standard"
  by (simp add: makeScenario_def Let_def presetById_first preset_substrate_crunch_def apply_patch_def
      no_patch_def standard_def)

lemma z_range_lit: "a \<le> r \<Longrightarrow> r \<le> b \<Longrightarrow> \<bar>r\<bar> \<le> 2 ^ 20 \<Longrightarrow> z_range a b (lit r :: ('p::len0) jsnum)"
  using mag_lit [of r 20, where 'p = 'p] lit_mono [of a r, where 'p = 'p] lit_mono [of r b, where 'p = 'p]
  by (simp add: z_range_def mag_is_fin)

lemma z_int_lit: "n \<le> 2 ^ 20 \<Longrightarrow> z_int (lit (of_nat n) :: js)"
proof -
  assume n: "n \<le> 2 ^ 20"
  have "(lit (of_int (int n)) :: js) = Fin (of_int (int n))" by (rule lit_int) (use n in simp_all)
  moreover have "(of_nat n :: rat) \<le> of_nat (2 ^ 20)" using n by (simp only: of_nat_le_iff)
  ultimately show ?thesis by simp
qed

lemma lab_ok_standard: "lab_ok (standard :: 53 labScenario)"
proof -
  have i: "z_int (lit 2 :: js)" "z_int (lit 3 :: js)" using z_int_lit [of 2] z_int_lit [of 3] by simp_all
  have o: "z_range 0 1 (Fin 1 :: js)" "z_range 1 10 (Fin 1 :: js)" "z_range 1 12 (Fin 1 :: js)" "z_range 0 (1 / 2) (Fin 0 :: js)"
    using z_range_lit [of 0 1 1, where 'p = 53] z_range_lit [of 1 1 10, where 'p = 53]
      z_range_lit [of 1 1 12, where 'p = 53] z_range_lit [of 0 0 "1 / 2", where 'p = 53] by simp_all
  show ?thesis
    by (simp add: lab_ok_def scenario_accepted_def scenario_fields_ok_def standard_def z_range_lit superRefine_def i o
        z_min_def lit_nonneg lit_mono mag_lit [THEN mag_is_fin, of _ 20])
qed


text \<open>The corner of the schema where everything is easy: short lead time, one fulfilment centre, no
  volatility, open and truthful parties.\<close>

definition easy :: "0 labScenario" where
  "easy = standard\<lparr>volatility := Fin 0, capacityTightness := Fin 0, leadTimeWeeks := Fin 1,
     fulfillmentCenterCount := Fin 1, infoMode := FullOracle, customBuyerUrgency := Fin 1,
     customSupplierFlexibility := Fin 1, customTruthfulness := Fin 1, customPrivacyPreference := Fin 0,
     customRiskAversion := Fin 0\<rparr>"

lemma easy_scores:
  "lab_ok easy \<and> complexity easy = Fin (- 11 / 100)
   \<and> map globalUtility (algorithmResults easy) = map Fin [28573, 32409, 32493, 32541, 32511, 32607, 32640, 32684]
   \<and> map oracleGap (algorithmResults easy) = map Fin [3836, 0, 0, 0, 0, 0, 0, 0]"
proof -
  have easy: "easy = \<lparr>presetId = ''substrate-crunch'', demand = Fin 500, volatility = Fin 0,
     capacityTightness = Fin 0, leadTimeWeeks = Fin 1, fulfillmentCenterCount = Fin 1,
     participantCount = Fin 2, productCount = Fin 1, periodCount = Fin 1, infoMode = FullOracle,
     buyerAgentId = ''launch-protector'', supplierAgentId = ''capacity-guard'',
     customBuyerUrgency = Fin 1, customSupplierFlexibility = Fin 1, customTruthfulness = Fin 1,
     customPrivacyPreference = Fin 0, customRiskAversion = Fin 0, alpha = Fin 1, buyerReliability = Fin 1,
     supplierReliability = Fin 1, epsilon = Fin 0, participants = None, splitRule = None, provenance = None,
     schemaVersion = None\<rparr>"
    by (simp add: easy_def standard_def)
  have ok: "lab_ok easy"
    by (simp add: lab_ok_def scenario_accepted_def scenario_fields_ok_def easy superRefine_def z_min_def z_range_def)
  have p: "reliabilityPenalty easy = Fin 0"
    by (simp add: reliabilityPenalty_def Let_def effectiveCapacity_def statedCapacity_def easy)
  have c: "complexity easy = Fin (- 11 / 100)"
    by (simp add: complexity_def p) (simp add: easy)
  have a: "agentDiscipline easy = Fin 1" by (simp add: agentDiscipline_def easy)
  have b: "baseUtility easy = Fin 32409" by (simp add: baseUtility_def p c a) (simp add: easy)
  have f: "presetId easy = ''substrate-crunch''" "infoMode easy = FullOracle" "customTruthfulness easy = Fin 1"
    "customSupplierFlexibility easy = Fin 1" "productCount easy = Fin 1"
    by (simp_all add: easy)
  have fl: "\<lfloor>64819 / 2 :: rat\<rfloor> = 32409" by (simp add: floor_eq_iff)
  show ?thesis
    by (simp add: ok c algorithmResults_def Let_def score_fields utilityOf_def b lossOf_def mechanismOverride_def
        specOf_def mechanismTable_def a f fl)
      (simp add: floor_eq_iff)
qed

text \<open>The hypothesis on the complexity is needed: the schema accepts a scenario of negative
  complexity, there the losses of six mechanisms are negative, and they score above the oracle they
  are benchmarked against, with a reported gap of zero.\<close>

lemma oracle_beaten:
  "lab_ok easy \<and> complexity easy = Fin (- 11 / 100)
   \<and> map globalUtility (algorithmResults easy) = map Fin [28573, 32409, 32493, 32541, 32511, 32607, 32640, 32684]
   \<and> map oracleGap (algorithmResults easy) = map Fin [3836, 0, 0, 0, 0, 0, 0, 0]"
  by (rule easy_scores)

theorem effective_at_most_stated_witness:
  "Fin 0 \<le> effective (effectiveCapacity SupplierParty (standard :: 53 labScenario))
    \<and> effective (effectiveCapacity SupplierParty standard) \<le> stated (effectiveCapacity SupplierParty (standard :: 53 labScenario))"
  by (rule effective_at_most_stated [OF lab_ok_standard])

section \<open>The recommended mechanism\<close>

text \<open>The comparator \<^verbatim>\<open>(a, b) => a.oracleGap - b.oracleGap\<close> is consistent on results whose gap is a
  number arithmetic produced.\<close>

interpretation by_gap: comparator "by_key oracleGap" "key_ok oracleGap"
  by (rule by_key_comparator)

lemma gap_key_ok:
  assumes "lab_ok s" "r \<in> set (algorithmResults s)"
  shows "key_ok oracleGap r"
proof -
  obtain i u where iu: "r = mechanismScore i s u" "u = None \<or> u = Some (jround (baseUtility s))"
    using algorithmResults_in [OF assms(2)] by blast
  show ?thesis
    using gap_nonneg(2) [OF assms(1) iu(2), THEN mag_is_fin] by (simp add: key_ok_def iu(1) score_fields)
qed

lemma implementable_subset: "r \<in> set (implementable runs) \<Longrightarrow> r \<in> set runs"
  by (simp add: implementable_def)

lemma implementable_ids: "map ar_id (implementable (algorithmResults s))
    = [CppVcg, CppAdmm, MenuContracts, AlternatingBestResponse, PriceOnly, ConsensusAveraging]"
  by (simp add: algorithmResults_def Let_def implementable_def score_fields)

lemma best_is_hd: "best_implementable s = hd (js_sort (by_key oracleGap) (implementable (algorithmResults s)))"
proof -
  have "implementable (algorithmResults s) \<noteq> []" using implementable_ids [of s] by auto
  then show ?thesis by (simp add: best_implementable_def hd_conv_nth)
qed

text \<open>The mechanism the lab recommends is one of the six implementable ones, never the oracle or
  the local baseline, and no other of the six has a smaller gap, at every precision of the arithmetic.\<close>

lemma best_mechanism_least:
  fixes s :: "('p::len0) labScenario"
  assumes "lab_ok s"
  shows "best_implementable s \<in> set (implementable (algorithmResults s))
    \<and> ar_id (best_implementable s) \<notin> {CentralizedOracle, JitBaseline}
    \<and> list_all (\<lambda>r. oracleGap (best_implementable s) \<le> oracleGap r) (implementable (algorithmResults s))"
proof -
  let ?runs = "implementable (algorithmResults s)"
  have ok: "\<forall>r \<in> set ?runs. key_ok oracleGap r" using gap_key_ok [OF assms] implementable_subset by blast
  have ne: "?runs \<noteq> []" using implementable_ids [of s] by auto
  have mem: "best_implementable s \<in> set ?runs" unfolding best_is_hd by (rule by_gap.sort_hd_in [OF ne])
  have "oracleGap (best_implementable s) \<le> oracleGap r" if "r \<in> set ?runs" for r
    using by_gap.sort_hd_least [OF ok that] mem that ok by (simp add: best_is_hd cmp_le_by_key)
  then show ?thesis using mem by (auto simp: list_all_iff implementable_def)
qed

theorem best_mechanism_least_witness:
  "best_implementable (standard :: 53 labScenario) \<in> set (implementable (algorithmResults standard))
    \<and> ar_id (best_implementable (standard :: 53 labScenario)) \<notin> {CentralizedOracle, JitBaseline}
    \<and> list_all (\<lambda>r. oracleGap (best_implementable (standard :: 53 labScenario)) \<le> oracleGap r)
        (implementable (algorithmResults standard))"
  by (rule best_mechanism_least [OF lab_ok_standard])

section \<open>The value of information\<close>

text \<open>A full scenario, spread as overrides, is that scenario: no preset fills an optional field.\<close>

lemma preset_no_options:
  fixes p :: "('p::len0) scenarioPreset"
  assumes "p = presetById i"
  shows "q_participants (defaults p) = None \<and> q_splitRule (defaults p) = None
    \<and> q_provenance (defaults p) = None \<and> q_schemaVersion (defaults p) = None"
proof -
  have "\<forall>p \<in> set (scenarioPresets :: 'p scenarioPreset list). q_participants (defaults p) = None
      \<and> q_splitRule (defaults p) = None \<and> q_provenance (defaults p) = None \<and> q_schemaVersion (defaults p) = None"
    by (simp add: scenarioPresets_def preset_substrate_crunch_def preset_regional_shipping_asymmetry_def
        preset_multi_vendor_shortage_def preset_joint_exists_admm_converges_def
        preset_joint_exists_admm_oscillates_def preset_joint_does_not_exist_def
        preset_advanced_packaging_bottleneck_def preset_export_control_shock_def preset_hyperscaler_surge_def
        preset_distributor_floats_inventory_def preset_audit_catches_misreport_def no_patch_def)
  moreover have "presetById i \<in> set (scenarioPresets :: 'p scenarioPreset list)"
  proof (cases "List.find (\<lambda>preset. preset_id preset = i) (scenarioPresets :: 'p scenarioPreset list)")
    case None
    have "scenarioPresets ! 0 \<in> set (scenarioPresets :: 'p scenarioPreset list)" by (simp add: scenarioPresets_def)
    then show ?thesis unfolding presetById_def None nullish.simps .
  next
    case (Some p)
    then show ?thesis unfolding presetById_def Some nullish.simps using find_Some_iff_props [OF Some] by blast
  qed
  ultimately show ?thesis unfolding assms by blast
qed

lemma makeScenario_patch_of: "makeScenario (patch_of s) = s"
  unfolding makeScenario_def Let_def
  by (rule apply_patch_of) (simp_all add: apply_patch_def preset_no_options [OF refl])

lemma makeScenario_infoMode: "makeScenario (patch_of s\<lparr>q_infoMode := Some m\<rparr>) = s\<lparr>infoMode := m\<rparr>"
proof -
  have "patch_of s\<lparr>q_infoMode := Some m\<rparr> = patch_of (s\<lparr>infoMode := m\<rparr>)" by (simp add: patch_of_def)
  then show ?thesis by (simp only: makeScenario_patch_of)
qed

lemma infoMode_irrelevant [simp]:
  "effectiveCapacity who (s\<lparr>infoMode := m\<rparr>) = effectiveCapacity who s"
  "reliabilityPenalty (s\<lparr>infoMode := m\<rparr>) = reliabilityPenalty s"
  "complexity (s\<lparr>infoMode := m\<rparr>) = complexity s"
  "agentDiscipline (s\<lparr>infoMode := m\<rparr>) = agentDiscipline s"
proof -
  show e: "effectiveCapacity who (s\<lparr>infoMode := m\<rparr>) = effectiveCapacity who s" for who
    by (simp add: effectiveCapacity_def statedCapacity_def)
  show p: "reliabilityPenalty (s\<lparr>infoMode := m\<rparr>) = reliabilityPenalty s"
    unfolding reliabilityPenalty_def e by simp
  show "complexity (s\<lparr>infoMode := m\<rparr>) = complexity s"
    unfolding complexity_def p by simp
  show "agentDiscipline (s\<lparr>infoMode := m\<rparr>) = agentDiscipline s"
    by (simp add: agentDiscipline_def)
qed

lemma lab_ok_infoMode [simp]: "lab_ok (s\<lparr>infoMode := m\<rparr>) = lab_ok s"
proof -
  have "superRefine f (s\<lparr>infoMode := m\<rparr>) = superRefine f s" for f
    by (cases "participants s") (simp_all add: superRefine_def)
  then show ?thesis by (simp add: lab_ok_def scenario_accepted_def scenario_fields_ok_def)
qed

lemma le_refl_mag: "mag 1000 x \<Longrightarrow> x \<le> x" for x :: "'p jsnum"
  by auto

lemma sum_mono_mag:
  fixes a :: "('p::len0) jsnum"
  shows "a \<le> b \<Longrightarrow> c \<le> d \<Longrightarrow> mag 1000 (a + c) \<Longrightarrow> mag 1000 (b + d) \<Longrightarrow> a + c \<le> b + d"
    and "a \<le> b \<Longrightarrow> d \<le> c \<Longrightarrow> mag 1000 (a - c) \<Longrightarrow> mag 1000 (b - d) \<Longrightarrow> a - c \<le> b - d"
    and "a \<le> b \<Longrightarrow> Fin 0 \<le> c \<Longrightarrow> mag 1000 (a * c) \<Longrightarrow> mag 1000 (b * c) \<Longrightarrow> a * c \<le> b * c"
    and "a \<le> b \<Longrightarrow> Fin 0 \<le> c \<Longrightarrow> mag 1000 (c * a) \<Longrightarrow> mag 1000 (c * b) \<Longrightarrow> c * a \<le> c * b"
  by (rule num_add_mono num_diff_mono num_mult_right_mono num_mult_left_mono; auto)+

text \<open>The terms of a score that depend on the information mode.\<close>

lemma info_terms:
  "baseUtility (s\<lparr>infoMode := m\<rparr>) =
     lit 18800 + demand s * lit 16 + fulfillmentCenterCount s * lit 260 + productCount s * lit 520
     - complexity s * lit 3900 + infoQuality m * lit 2600 + agentDiscipline s * lit 1800
     - reliabilityPenalty s * lit 5200 - (if presetId s = ''joint-does-not-exist'' then lit 9600 else Fin 0)"
  "spec_loss (specOf CppVcg (s\<lparr>infoMode := m\<rparr>)) =
     lit 420 * (Fin 1 - infoQuality m) + complexity s * lit 760 + (Fin 1 - customTruthfulness s) * lit 430"
  "spec_residual (specOf CppVcg (s\<lparr>infoMode := m\<rparr>)) =
     lit 52 * (Fin 1 - infoQuality m) + complexity s * lit 58 + (Fin 1 - customTruthfulness s) * lit 44"
  "mechanismOverride i (s\<lparr>infoMode := m\<rparr>) = mechanismOverride i s"
  by (simp_all add: baseUtility_def specOf_def mechanismTable_def mechanismOverride_def Let_def)

lemma base_mono:
  fixes s :: "('p::len0) labScenario"
  assumes ok: "lab_ok s" and better: "infoQuality m \<le> (infoQuality m' :: 'p jsnum)"
  shows "baseUtility (s\<lparr>infoMode := m\<rparr>) \<le> baseUtility (s\<lparr>infoMode := m'\<rparr>)"
  unfolding info_terms
  by (rule sum_mono_mag(2) [OF sum_mono_mag(2) [OF sum_mono_mag(1) [OF sum_mono_mag(1)
        [OF _ sum_mono_mag(3) [OF better lit_nonneg]]]]]; (rule le_refl_mag)?; simp add: js_mag ok)

lemma uncertainty_mono:
  assumes better: "infoQuality m \<le> (infoQuality m' :: ('p::len0) jsnum)"
  shows "Fin 1 - infoQuality m' \<le> (Fin 1 - infoQuality m :: 'p jsnum)"
  by (rule sum_mono_mag(2) [OF _ better]) (simp_all add: js_mag)

lemma loss_mono:
  fixes s :: "('p::len0) labScenario"
  assumes ok: "lab_ok s" and better: "infoQuality m \<le> (infoQuality m' :: 'p jsnum)"
  shows "lossOf CppVcg (s\<lparr>infoMode := m'\<rparr>) \<le> lossOf CppVcg (s\<lparr>infoMode := m\<rparr>)"
proof -
  have "spec_loss (specOf CppVcg (s\<lparr>infoMode := m'\<rparr>)) \<le> spec_loss (specOf CppVcg (s\<lparr>infoMode := m\<rparr>))"
    unfolding info_terms
    by (rule sum_mono_mag(1) [OF sum_mono_mag(1) [OF sum_mono_mag(4) [OF uncertainty_mono [OF better] lit_nonneg]]];
        (rule le_refl_mag)?; simp add: js_mag ok)
  then show ?thesis
    by (cases "o_loss (mechanismOverride CppVcg s)")
       (simp_all add: lossOf_def info_terms(4), auto simp: mechanismOverride_def Let_def split: if_splits)
qed

lemma residual_mono:
  fixes s :: "('p::len0) labScenario"
  assumes ok: "lab_ok s" and better: "infoQuality m \<le> (infoQuality m' :: 'p jsnum)"
  shows "residualOf CppVcg (s\<lparr>infoMode := m'\<rparr>) \<le> residualOf CppVcg (s\<lparr>infoMode := m\<rparr>)"
proof -
  have "spec_residual (specOf CppVcg (s\<lparr>infoMode := m'\<rparr>)) \<le> spec_residual (specOf CppVcg (s\<lparr>infoMode := m\<rparr>))"
    unfolding info_terms
    by (rule sum_mono_mag(1) [OF sum_mono_mag(1) [OF sum_mono_mag(4) [OF uncertainty_mono [OF better] lit_nonneg]]];
        (rule le_refl_mag)?; simp add: js_mag ok)
  then show ?thesis
    by (cases "o_residual (mechanismOverride CppVcg s)")
       (simp_all add: residualOf_def info_terms(4), auto simp: mechanismOverride_def Let_def split: if_splits)
qed

lemma vcg_mono:
  fixes s :: "('p::len0) labScenario"
  assumes ok: "lab_ok s" and better: "infoQuality m \<le> (infoQuality m' :: 'p jsnum)"
  shows "utilityOf CppVcg (s\<lparr>infoMode := m\<rparr>) \<le> utilityOf CppVcg (s\<lparr>infoMode := m'\<rparr>)"
  using sum_mono_mag(2) [OF base_mono [OF ok better] loss_mono [OF ok better]] by (simp add: utilityOf_def js_mag ok)

lemma quality_order:
  "sorted_wrt (\<lambda>a b. infoQuality a \<le> (infoQuality b :: ('p::len0) jsnum)
     \<and> privacyExposure a \<le> (privacyExposure b :: 'p jsnum)) infoModes"
  using lit_mono [of _ 1, where 'p = 'p] by (simp add: infoModes_def lit_mono)

lemma score_None: "lab_ok s \<Longrightarrow> mag 1000 (globalUtility (mechanismScore i s u))"
  unfolding score_fields by (rule mag_jround) (simp_all add: js_mag)

text \<open>More information never hurts the coordinated plan: along the sweep from private to full
  disclosure the utility of \<^verbatim>\<open>cpp-vcg\<close> never falls and its residual never rises, while privacy exposure
  rises; so the value of information the lab reports is not negative. Every scenario the schema accepts
  (demand at most a million units), every precision.\<close>

lemma information_never_hurts:
  fixes s :: "('p::len0) labScenario"
  assumes "lab_ok s"
  shows "sorted_wrt (\<lambda>a b. sw_globalUtility a \<le> sw_globalUtility b \<and> sw_residual b \<le> sw_residual a
      \<and> sw_privacy a \<le> sw_privacy b) (informationSweep s)
    \<and> Fin 0 \<le> informationValue (labTakeaway toLocaleString s)"
proof
  have step: "globalUtility (mechanismScore CppVcg (s\<lparr>infoMode := m\<rparr>) None)
        \<le> globalUtility (mechanismScore CppVcg (s\<lparr>infoMode := m'\<rparr>) None)
      \<and> residual (mechanismScore CppVcg (s\<lparr>infoMode := m'\<rparr>) None)
        \<le> residual (mechanismScore CppVcg (s\<lparr>infoMode := m\<rparr>) None)"
    if "infoQuality m \<le> (infoQuality m' :: 'p jsnum)" for m m'
    unfolding score_fields using vcg_mono [OF assms that] residual_mono [OF assms that] jround_mono by blast
  show "sorted_wrt (\<lambda>a b. sw_globalUtility a \<le> sw_globalUtility b \<and> sw_residual b \<le> sw_residual a
      \<and> sw_privacy a \<le> sw_privacy b) (informationSweep s)"
    unfolding informationSweep_def sorted_wrt_map Let_def sweepRow.simps
    by (rule sorted_wrt_mono_rel [OF _ quality_order [where 'p = 'p]]) (use step in blast)
  have "Fin 0 \<le> globalUtility (mechanismScore CppVcg (s\<lparr>infoMode := FullOracle\<rparr>) None)
      - globalUtility (mechanismScore CppVcg (s\<lparr>infoMode := InfoPrivate\<rparr>) None)"
  proof (rule num_diff_nonneg)
    have "infoQuality InfoPrivate \<le> (infoQuality FullOracle :: 'p jsnum)"
      using info_le_1 [of InfoPrivate, where 'p = 'p] by simp
    from step [OF this] show "globalUtility (mechanismScore CppVcg (s\<lparr>infoMode := InfoPrivate\<rparr>) None)
      \<le> globalUtility (mechanismScore CppVcg (s\<lparr>infoMode := FullOracle\<rparr>) None)" by blast
    have "is_fin (globalUtility (mechanismScore CppVcg (s\<lparr>infoMode := m\<rparr>) None))" for m
      by (rule mag_is_fin [OF score_None]) (simp add: assms)
    from this [of FullOracle] this [of InfoPrivate]
    show "globalUtility (mechanismScore CppVcg (s\<lparr>infoMode := FullOracle\<rparr>) None)
      - globalUtility (mechanismScore CppVcg (s\<lparr>infoMode := InfoPrivate\<rparr>) None) \<noteq> NaN"
      by (auto elim!: is_finE)
  qed
  then show "Fin 0 \<le> informationValue (labTakeaway toLocaleString s)"
    by (simp add: labTakeaway_def Let_def makeScenario_infoMode)
qed

theorem information_never_hurts_witness:
  "sorted_wrt (\<lambda>a b. sw_globalUtility a \<le> sw_globalUtility b \<and> sw_residual b \<le> sw_residual a
      \<and> sw_privacy a \<le> sw_privacy b) (informationSweep (standard :: 53 labScenario))
    \<and> Fin 0 \<le> informationValue (labTakeaway (\<lambda>_. []) (standard :: 53 labScenario))"
  by (rule information_never_hurts [OF lab_ok_standard])

section \<open>The frontier\<close>

lemma loss_order:
  "sorted_wrt (\<lambda>a b. snd a \<le> snd b) (enumerate 0 (lossPercents :: ('p::len0) jsnum list))"
  by (simp add: lossPercents_def lit_mono lit_nonneg)

lemma loss_unit: "x \<in> set (enumerate 0 lossPercents) \<Longrightarrow> inrange 0 1 (snd x :: ('p::len0) jsnum)"
proof -
  have "list_all (\<lambda>x. inrange 0 1 (snd x)) (enumerate 0 (lossPercents :: 'p jsnum list))"
    using lit_mono [of _ 1, where 'p = 'p] by (simp add: lossPercents_def inrange_unit lit_nonneg)
  then show "x \<in> set (enumerate 0 lossPercents) \<Longrightarrow> inrange 0 1 (snd x :: 'p jsnum)"
    by (auto simp: list_all_iff)
qed

definition all_plans :: "('p::len0) labScenario \<Rightarrow> 'p algorithmResult \<Rightarrow> 'p frontierPlan list" where
  "all_plans s run = map (\<lambda>x. frontier_plan s run (fst x) (snd x)) (enumerate 0 lossPercents)"

lemma plan_fields:
  "fp_globalUtility (frontier_plan s run i l) = jround (globalUtility run * (1 - l))"
  "fp_id (frontier_plan s run i l) = mechanism_text (ar_id run) @ ''-frontier-'' @ nat_text (i + 1)"
  by (simp_all add: frontier_plan_def Let_def)

lemma distinct_plan_ids: "distinct (map fp_id (all_plans s run))"
proof -
  have "map fp_id (all_plans s run)
      = map (\<lambda>i. mechanism_text (ar_id run) @ ''-frontier-'' @ nat_text (i + 1)) (map fst (enumerate 0 (lossPercents :: 'a jsnum list)))"
    unfolding all_plans_def list.map_comp comp_def plan_fields ..
  then show ?thesis by (auto simp: distinct_map inj_on_def nat_text_inj)
qed

lemma frontier_plans:
  "\<exists>run \<in> set (algorithmResults s). optimalUtility (frontier s a eps K) = globalUtility run
     \<and> plans (frontier s a eps K) = take K (filter (near_optimal (globalUtility run) (jmax 0 eps)) (all_plans s run))"
proof -
  have mem: "nullish (List.find (\<lambda>c. ar_id c = a) (algorithmResults s)) (algorithmResults s ! 0) \<in> set (algorithmResults s)"
  proof (cases "List.find (\<lambda>c. ar_id c = a) (algorithmResults s)")
    case None
    show ?thesis unfolding None nullish.simps by (simp add: algorithmResults_def Let_def)
  next
    case (Some r)
    show ?thesis unfolding Some nullish.simps using find_Some_iff_props [OF Some] by blast
  qed
  show ?thesis
    by (rule bexI [OF _ mem]) (simp add: frontier_def Let_def all_plans_def case_prod_unfold)
qed



text \<open>Five parties: the theorem on derived participants applied to a preset's scenario.\<close>

theorem derived_participants_witness:
  "distinct (map p_id (deriveParticipants ((standard :: 0 labScenario)\<lparr>participantCount := Fin 5\<rparr>)))
    \<and> length (deriveParticipants ((standard :: 0 labScenario)\<lparr>participantCount := Fin 5\<rparr>)) = 5"
  using derived_participants [of "(standard :: 0 labScenario)\<lparr>participantCount := Fin 5\<rparr>"]
  by (simp add: standard_def)

end
