(* ===== verification/Decoys.thy ===== *)
theory Decoys
  imports SimulationLaws
begin

text \<open>
  \<^verbatim>\<open>packages/engine/src/model/decoys.ts\<close>: five scenarios with a known answer, replayed with the
  agents and, in part, the dispositions of the scenario under audit.
\<close>

record evaluation =
  ev_match :: bool
  ev_actualPattern :: string
  ev_explanation :: string

record 'p decoySpec =
  decoy_id :: string
  spec_title :: string
  decoy_scenario :: "'p labScenario"
  spec_expectedPattern :: string
  spec_catches :: string
  decoy_evaluate :: "'p labScenario \<Rightarrow> evaluation"

definition find_run :: "mechanismId \<Rightarrow> ('p::len0) algorithmResult list \<Rightarrow> 'p algorithmResult option" where
  "find_run i runs = List.find (\<lambda>run. ar_id run = i) runs"

definition cheap_routing :: "('p::len0) decoySpec" where
  "cheap_routing = \<lparr>decoy_id = ''cheap-routing-known'', spec_title = ''Cheap routing known'',
     decoy_scenario = makeScenario (no_patch\<lparr>q_presetId := Some ''regional-shipping-asymmetry'',
       q_infoMode := Some CostBand, q_fulfillmentCenterCount := Some (lit 5),
       q_supplierReliability := Some (lit 0.96)\<rparr>),
     spec_expectedPattern = ''CPP+VCG should beat price-only when routing economics matter.'',
     spec_catches = ''FC-bias or routing-cost misreporting'',
     decoy_evaluate = (\<lambda>s.
       let runs = algorithmResults s;
           ok = (infoMode s = CostBand \<and>
             (case (find_run CppVcg runs, find_run PriceOnly runs) of
                (Some vcg, Some priceOnly) \<Rightarrow> oracleGap vcg < oracleGap priceOnly | _ \<Rightarrow> False))
       in \<lparr>ev_match = ok,
           ev_actualPattern = (if ok then ''VCG recovered more routing value than price-only.''
             else ''Price-only looked better than VCG.''),
           ev_explanation = ''When the cheap route is known, a quantity-only or price-only signal should not outperform the richer coordination rule.''\<rparr>)\<rparr>"

definition fragile_supplier :: "('p::len0) decoySpec" where
  "fragile_supplier = \<lparr>decoy_id = ''fragile-supplier-known'', spec_title = ''Fragile supplier known'',
     decoy_scenario = makeScenario (no_patch\<lparr>q_presetId := Some ''multi-vendor-shortage'',
       q_supplierReliability := Some (lit 0.58), q_capacityTightness := Some (lit 0.82)\<rparr>),
     spec_expectedPattern = ''Effective supplier capacity should fall below stated capacity.'',
     spec_catches = ''Reliability-prior bypass attempts'',
     decoy_evaluate = (\<lambda>s. let supplier = effectiveCapacity SupplierParty s in
       \<lparr>ev_match = (effective supplier < stated supplier),
        ev_actualPattern = num_text (effective supplier) @ '' effective units from '' @ num_text (stated supplier) @ '' stated units.'',
        ev_explanation = ''The audit expects the planner to discount a fragile supplier instead of accepting stated capacity at face value.''\<rparr>)\<rparr>"

definition collusion_pattern :: "('p::len0) decoySpec" where
  "collusion_pattern = \<lparr>decoy_id = ''collusion-pattern'', spec_title = ''Repeated high-quote pattern'',
     decoy_scenario = makeScenario (no_patch\<lparr>q_presetId := Some ''multi-vendor-shortage'',
       q_customTruthfulness := Some (lit 0.42), q_customPrivacyPreference := Some (lit 0.9),
       q_participantCount := Some (lit 4)\<rparr>),
     spec_expectedPattern = ''Low truthfulness plus high privacy should create a warning pattern.'',
     spec_catches = ''Coordinated quote shading or collusive price posture'',
     decoy_evaluate = (\<lambda>s.
       \<lparr>ev_match = (customTruthfulness s < lit 0.55 \<and> lit 0.75 < customPrivacyPreference s),
        ev_actualPattern = ''truthfulness '' @ toFixed (customTruthfulness s) 2 @ '', privacy '' @
          toFixed (customPrivacyPreference s) 2 @ ''.'',
        ev_explanation = ''This decoy does not prove collusion; it catches the pattern that should trigger human review in a pilot.''\<rparr>)\<rparr>"

definition missing_capacity :: "('p::len0) decoySpec" where
  "missing_capacity = \<lparr>decoy_id = ''missing-capacity-pattern'', spec_title = ''Missing capacity pattern'',
     decoy_scenario = makeScenario (no_patch\<lparr>q_presetId := Some ''substrate-crunch'',
       q_supplierReliability := Some (lit 0.62), q_capacityTightness := Some (lit 0.9)\<rparr>),
     spec_expectedPattern = ''Effective supplier capacity should be lower than expected demand.'',
     spec_catches = ''Capacity overpromise'',
     decoy_evaluate = (\<lambda>s. let supplier = effectiveCapacity SupplierParty s in
       \<lparr>ev_match = (effective supplier < demand s),
        ev_actualPattern = num_text (effective supplier) @ '' effective units versus '' @ num_text (demand s) @ '' demand.'',
        ev_explanation = ''If stated capacity cannot survive the reliability prior, the mechanism should flag the promise instead of hiding it inside a transfer.''\<rparr>)\<rparr>"

definition reliability_mismatch :: "('p::len0) decoySpec" where
  "reliability_mismatch = \<lparr>decoy_id = ''reliability-mismatch'', spec_title = ''Reliability and lead-time mismatch'',
     decoy_scenario = makeScenario (no_patch\<lparr>q_presetId := Some ''substrate-crunch'',
       q_supplierReliability := Some (lit 0.52), q_leadTimeWeeks := Some (lit 18), q_volatility := Some (lit 0.46)\<rparr>),
     spec_expectedPattern = ''Long lead time and high volatility should not carry a perfect reliability assumption.'',
     spec_catches = ''Inconsistent self-reported reliability'',
     decoy_evaluate = (\<lambda>s. let stress = (lit 14 \<le> leadTimeWeeks s \<and> lit 0.35 \<le> volatility s) in
       \<lparr>ev_match = (stress \<and> supplierReliability s < lit 0.8),
        ev_actualPattern = num_text (leadTimeWeeks s) @ '' week lead time, '' @ num_text (jround (volatility s * lit 100)) @
          ''% volatility, '' @ num_text (jround (supplierReliability s * lit 100)) @ ''% reliability.'',
        ev_explanation = ''The decoy catches configurations that claim high delivery certainty despite long lead times and volatile demand.''\<rparr>)\<rparr>"

definition decoys :: "('p::len0) decoySpec list" where
  "decoys = [cheap_routing, fragile_supplier, collusion_pattern, missing_capacity, reliability_mismatch]"

definition audit_scenario :: "('p::len0) labScenario \<Rightarrow> 'p decoySpec \<Rightarrow> 'p labScenario" where
  "audit_scenario base d =
     (let isBehaviorPattern = (decoy_id d = ''collusion-pattern'')
      in makeScenario (patch_of (decoy_scenario d)\<lparr>q_buyerAgentId := Some (buyerAgentId base),
           q_supplierAgentId := Some (supplierAgentId base),
           q_customTruthfulness := Some (if isBehaviorPattern then customTruthfulness base
             else jmin (customTruthfulness (decoy_scenario d)) (customTruthfulness base)),
           q_customPrivacyPreference := Some (if isBehaviorPattern then customPrivacyPreference base
             else jmax (customPrivacyPreference (decoy_scenario d)) (customPrivacyPreference base))\<rparr>))"

definition runDecoyAudit :: "('p::len0) labScenario \<Rightarrow> decoyAuditResult list" where
  "runDecoyAudit base =
     map (\<lambda>d. let outcome = decoy_evaluate d (audit_scenario base d) in
       \<lparr>decoyId = decoy_id d, decoy_title = spec_title d, decoy_match = ev_match outcome,
        expectedPattern = spec_expectedPattern d, actualPattern = ev_actualPattern outcome,
        catchesMisreportKind = spec_catches d, decoy_explanation = ev_explanation outcome\<rparr>) decoys"

section \<open>What an audit can detect\<close>

lemma audit_scenario_fields:
  "demand (audit_scenario base d) = demand (decoy_scenario d)"
  "capacityTightness (audit_scenario base d) = capacityTightness (decoy_scenario d)"
  "customSupplierFlexibility (audit_scenario base d) = customSupplierFlexibility (decoy_scenario d)"
  "supplierReliability (audit_scenario base d) = supplierReliability (decoy_scenario d)"
  "leadTimeWeeks (audit_scenario base d) = leadTimeWeeks (decoy_scenario d)"
  "volatility (audit_scenario base d) = volatility (decoy_scenario d)"
proof -
  have "audit_scenario base d = makeScenario (patch_of (decoy_scenario d
      \<lparr>buyerAgentId := buyerAgentId base, supplierAgentId := supplierAgentId base,
       customTruthfulness := (if decoy_id d = ''collusion-pattern'' then customTruthfulness base
         else jmin (customTruthfulness (decoy_scenario d)) (customTruthfulness base)),
       customPrivacyPreference := (if decoy_id d = ''collusion-pattern'' then customPrivacyPreference base
         else jmax (customPrivacyPreference (decoy_scenario d)) (customPrivacyPreference base))\<rparr>))"
    by (simp add: audit_scenario_def Let_def patch_of_def)
  note eq = this [unfolded makeScenario_patch_of]
  show "demand (audit_scenario base d) = demand (decoy_scenario d)"
    "capacityTightness (audit_scenario base d) = capacityTightness (decoy_scenario d)"
    "customSupplierFlexibility (audit_scenario base d) = customSupplierFlexibility (decoy_scenario d)"
    "supplierReliability (audit_scenario base d) = supplierReliability (decoy_scenario d)"
    "leadTimeWeeks (audit_scenario base d) = leadTimeWeeks (decoy_scenario d)"
    "volatility (audit_scenario base d) = volatility (decoy_scenario d)"
    unfolding eq by simp_all
qed

lemma supplier_capacity_cong:
  assumes "demand s = demand t" "capacityTightness s = capacityTightness t"
    "customSupplierFlexibility s = customSupplierFlexibility t" "supplierReliability s = supplierReliability t"
  shows "effectiveCapacity SupplierParty s = effectiveCapacity SupplierParty t"
  using assms by (simp add: effectiveCapacity_def statedCapacity_def)

text \<open>What the three evaluations read.\<close>

lemma fragile_reads:
  "effectiveCapacity SupplierParty s = effectiveCapacity SupplierParty t \<Longrightarrow>
     decoy_evaluate fragile_supplier s = decoy_evaluate fragile_supplier t"
  by (simp add: fragile_supplier_def Let_def)

lemma missing_reads:
  "effectiveCapacity SupplierParty s = effectiveCapacity SupplierParty t \<Longrightarrow> demand s = demand t \<Longrightarrow>
     decoy_evaluate missing_capacity s = decoy_evaluate missing_capacity t"
  by (simp add: missing_capacity_def Let_def)

lemma mismatch_reads:
  "leadTimeWeeks s = leadTimeWeeks t \<Longrightarrow> volatility s = volatility t \<Longrightarrow>
     supplierReliability s = supplierReliability t \<Longrightarrow>
     decoy_evaluate reliability_mismatch s = decoy_evaluate reliability_mismatch t"
  by (simp add: reliability_mismatch_def Let_def)

lemmas blind_evaluations =
  fragile_reads [OF supplier_capacity_cong [OF audit_scenario_fields(1-4)]]
  missing_reads [OF supplier_capacity_cong [OF audit_scenario_fields(1-4)] audit_scenario_fields(1)]
  mismatch_reads [OF audit_scenario_fields(5,6,4)]

text \<open>Three of the five audits say nothing about the scenario under audit: their rows, texts
  included, are the same for any two scenarios, because they read only the decoy's own fields.\<close>

lemma blind_audits:
  "map (\<lambda>i. runDecoyAudit (base :: ('p::len0) labScenario) ! i) [1, 3, 4] = map (\<lambda>i. runDecoyAudit (other :: 'p labScenario) ! i) [1, 3, 4]"
  by (simp add: runDecoyAudit_def decoys_def Let_def blind_evaluations)

end
