(* ===== verification/Provenance.thy ===== *)
theory Provenance
  imports Types
begin

text \<open>
  \<^verbatim>\<open>packages/engine/src/model/bridges/sourceProvenance.ts\<close>: where a scenario's data comes from. The
  time stamp of \<^verbatim>\<open>tag\<close> is the host's and an argument.
\<close>

fun PROVENANCE_LABELS :: "provenanceSource \<Rightarrow> string" where
  "PROVENANCE_LABELS Synthetic = ''synthetic (Lab default)''"
| "PROVENANCE_LABELS ChipMap = ''chip-supply-chain-map (public)''"
| "PROVENANCE_LABELS SupplierRiskRag = ''supplier-risk-rag-agent (public)''"
| "PROVENANCE_LABELS UserImported = ''user paste (in-session)''"
| "PROVENANCE_LABELS CsvImported = ''CSV import (Open Contracting shape)''"

fun PROVENANCE_BADGE_COLORS :: "provenanceSource \<Rightarrow> string" where
  "PROVENANCE_BADGE_COLORS Synthetic = ''#3a3f4a''"
| "PROVENANCE_BADGE_COLORS ChipMap = ''#2563eb''"
| "PROVENANCE_BADGE_COLORS SupplierRiskRag = ''#7c3aed''"
| "PROVENANCE_BADGE_COLORS UserImported = ''#0d9488''"
| "PROVENANCE_BADGE_COLORS CsvImported = ''#b45309''"

definition tag :: "string \<Rightarrow> provenanceSource \<Rightarrow> string option \<Rightarrow> citation list option \<Rightarrow> string option \<Rightarrow> dataProvenance" where
  "tag now_text src srcId cites nts =
     \<lparr>prov_source = src, prov_sourceId = srcId, fetchedAt = Some now_text,
      citations = nullish cites [], prov_notes = nts\<rparr>"

definition citation_key :: "citation \<Rightarrow> string" where
  "citation_key c = cite_source c @ ''|'' @ nullish (cite_sourceId c) [] @ ''|'' @ nullish (cite_span c) []"

fun dedupe_from :: "string set \<Rightarrow> citation list \<Rightarrow> citation list" where
  "dedupe_from seen [] = []"
| "dedupe_from seen (c # cs) =
     (if citation_key c \<in> seen then dedupe_from seen cs
      else c # dedupe_from (insert (citation_key c) seen) cs)"

definition dedupeCitations :: "citation list \<Rightarrow> citation list" where
  "dedupeCitations cs = dedupe_from {} cs"

fun or_else :: "'a option \<Rightarrow> 'a option \<Rightarrow> 'a option" where
  "or_else (Some x) y = Some x"
| "or_else None y = y"

definition mergeProvenance :: "dataProvenance \<Rightarrow> dataProvenance \<Rightarrow> dataProvenance" where
  "mergeProvenance base addition =
     \<lparr>prov_source = prov_source addition,
      prov_sourceId = or_else (prov_sourceId addition) (prov_sourceId base),
      fetchedAt = or_else (fetchedAt addition) (fetchedAt base),
      citations = dedupeCitations (citations base @ citations addition),
      prov_notes = or_else (prov_notes addition) (prov_notes base)\<rparr>"

text \<open>Characters outside ASCII are written as the bytes of their UTF-8 encoding. An empty text counts
  as absent.\<close>

definition MIDDLE_DOT :: string where
  "MIDDLE_DOT = [CHR 0xC2, CHR 0xB7]"

definition describeProvenance :: "(nat \<Rightarrow> string) \<Rightarrow> dataProvenance \<Rightarrow> string" where
  "describeProvenance nat_string d =
     (let dot = '' '' @ MIDDLE_DOT @ '' '';
          srcId = (case prov_sourceId d of Some i \<Rightarrow> if i = [] then [] else dot @ i | None \<Rightarrow> []);
          fetched = (case fetchedAt d of Some t \<Rightarrow> if t = [] then [] else dot @ ''fetched '' @ take 10 t | None \<Rightarrow> []);
          n = length (citations d);
          cites = (if 0 < n then dot @ nat_string n @ '' citation'' @ (if n = 1 then [] else ''s'') else [])
      in PROVENANCE_LABELS (prov_source d) @ srcId @ fetched @ cites)"

section \<open>Laws of merging\<close>

lemma dedupe_from_keys:
  "distinct (map citation_key (dedupe_from seen cs))
   \<and> citation_key ` set (dedupe_from seen cs) = citation_key ` set cs - seen"
  by (induction seen cs rule: dedupe_from.induct) auto

lemma dedupe_from_set: "set (dedupe_from seen cs) \<subseteq> set cs"
  by (induction seen cs rule: dedupe_from.induct) auto

lemma dedupe_from_id:
  "distinct (map citation_key cs) \<Longrightarrow> citation_key ` set cs \<inter> seen = {} \<Longrightarrow> dedupe_from seen cs = cs"
  by (induction seen cs rule: dedupe_from.induct) auto

lemma dedupe_from_append:
  "dedupe_from seen (xs @ ys) = dedupe_from seen xs @ dedupe_from (seen \<union> citation_key ` set xs) ys"
  by (induction seen xs rule: dedupe_from.induct) (auto simp: insert_absorb)

lemma or_else_assoc: "or_else (or_else a b) c = or_else a (or_else b c)"
  by (cases a) auto

lemma dedupe_from_dedupe: "dedupe_from (K \<union> S) (dedupe_from S cs) = dedupe_from (K \<union> S) cs"
proof (induction S cs rule: dedupe_from.induct)
  case (2 seen c cs)
  show ?case
  proof (cases "citation_key c \<in> seen")
    case False
    have e: "K \<union> insert (citation_key c) seen = insert (citation_key c) (K \<union> seen)" by auto
    show ?thesis using 2(2) [OF False] False by (auto simp: e insert_absorb)
  qed (simp add: 2)
qed simp

lemma dedupe_append_left: "dedupeCitations (dedupeCitations xs @ ys) = dedupeCitations (xs @ ys)"
  using dedupe_from_keys [of "{}" xs] dedupe_from_dedupe [of "{}" "{}" xs]
  by (simp add: dedupeCitations_def dedupe_from_append)

lemma dedupe_append_right: "dedupeCitations (xs @ dedupeCitations ys) = dedupeCitations (xs @ ys)"
  using dedupe_from_dedupe [of _ "{}" ys] by (simp add: dedupeCitations_def dedupe_from_append)

text \<open>Merging provenance is associative, so the order in which sources are folded together does
  not matter for the result beyond the order of the sources; and after a merge no two citations
  share the key of source, source id and span, while every key of either side is kept.\<close>

lemma merge_associative:
  "mergeProvenance (mergeProvenance a b) c = mergeProvenance a (mergeProvenance b c)
   \<and> distinct (map citation_key (citations (mergeProvenance a b)))
   \<and> citation_key ` set (citations (mergeProvenance a b))
     = citation_key ` set (citations a) \<union> citation_key ` set (citations b)"
  using dedupe_from_keys [of "{}" "citations a @ citations b"]
  by (simp add: mergeProvenance_def or_else_assoc dedupe_append_left dedupe_append_right image_Un dedupeCitations_def [symmetric])

definition cite :: "string \<Rightarrow> string option \<Rightarrow> citation" where
  "cite src i = \<lparr>cite_source = src, cite_sourceId = i, cite_span = None, cite_url = None\<rparr>"

text \<open>A citation can be lost: two different sources share a key when one of them contains the
  separator, and then only the first is kept.\<close>

lemma merge_loses_citation:
  "citations (mergeProvenance
      \<lparr>prov_source = ChipMap, prov_sourceId = None, fetchedAt = None, citations = [cite ''fab|12'' None], prov_notes = None\<rparr>
      \<lparr>prov_source = ChipMap, prov_sourceId = None, fetchedAt = None, citations = [cite ''fab'' (Some ''12|'')], prov_notes = None\<rparr>)
   = [cite ''fab|12'' None]"
  by (simp add: mergeProvenance_def dedupeCitations_def cite_def citation_key_def)

end
