(* ===== verification/RunReport.thy ===== *)
theory RunReport
  imports Decoys Provenance
begin

text \<open>
  \<^verbatim>\<open>runReport.ts\<close>, \<^verbatim>\<open>runReportSchema.ts\<close> and \<^verbatim>\<open>reportMarkdown.ts\<close> of
  \<^verbatim>\<open>packages/engine/src/model\<close>: a run of the lab as a report, which reports the schema accepts,
  and the report as Markdown. The run id and the time stamp come from the host and are arguments, as
  are \<^verbatim>\<open>toLocaleString\<close> and the JSON text of a whole report. Characters outside ASCII are
  written as the bytes of their UTF-8 encoding.
\<close>

section \<open>Reports\<close>

definition RUN_REPORT_SCHEMA_VERSION :: string where
  "RUN_REPORT_SCHEMA_VERSION = ''0.6.0''"

record 'p reportParameters =
  par_alpha :: "'p jsnum"
  par_epsilon :: "'p jsnum"
  auditMode :: bool
  par_splitRule :: "splitRule option"

record 'p reportComputed =
  com_coordinationGap :: "'p jsnum"
  bestNonOracle :: mechanismId
  bestNonOracleGap :: "'p jsnum"
  com_transferLedger :: "'p transferRow list"
  com_multiPartyLedger :: "'p multiPartyTransferRow list option"
  com_totalOutside :: "'p jsnum option"
  com_surplus :: "'p jsnum option"

record 'p runReport =
  rep_schemaVersion :: string
  rep_id :: string
  timestamp :: string
  rep_label :: string
  rep_scenario :: "'p labScenario"
  rep_parameters :: "'p reportParameters"
  reliabilityByAgent :: "(string \<times> 'p jsnum) list"
  rep_algorithmResults :: "'p algorithmResult list"
  rep_frontier :: "'p frontierResult option"
  rep_decoyAudit :: "decoyAuditResult list option"
  rep_computed :: "'p reportComputed"
  rep_provenance :: "dataProvenance option"
  rep_notes :: "string option"

fun info_text :: "infoMode \<Rightarrow> string" where
  "info_text InfoPrivate = ''private''"
| "info_text RiskOnly = ''risk-only''"
| "info_text CapacityBand = ''capacity-band''"
| "info_text CostBand = ''cost-band''"
| "info_text ForecastBand = ''forecast-band''"
| "info_text FullOracle = ''full-oracle''"

definition ALPHA_SIGN :: string where "ALPHA_SIGN = [CHR 0xCE, CHR 0xB1]"
definition EPSILON_SIGN :: string where "EPSILON_SIGN = [CHR 0xCE, CHR 0xB5]"
definition EM_DASH :: string where "EM_DASH = [CHR 0xE2, CHR 0x80, CHR 0x94]"
definition DOWN_ARROW :: string where "DOWN_ARROW = [CHR 0xE2, CHR 0x86, CHR 0x93]"

record 'p assembleInput =
  as_scenario :: "'p labScenario"
  as_auditMode :: bool
  as_label :: "string option"
  as_notes :: "string option"

definition default_label :: "('p::len0) labScenario \<Rightarrow> string" where
  "default_label s =
     presetId s @ '' '' @ MIDDLE_DOT @ '' '' @ info_text (infoMode s) @ '' '' @ MIDDLE_DOT @ '' '' @ ALPHA_SIGN @ ''='' @
     toFixed (alpha s) 2 @ '' '' @ MIDDLE_DOT @ '' '' @ EPSILON_SIGN @ ''='' @ toFixed (epsilon s) 2"

definition assembleReport :: "string \<Rightarrow> string \<Rightarrow> ('p::len0) assembleInput \<Rightarrow> 'p runReport" where
  "assembleReport run_id now_text input =
     (let s = as_scenario input; best = best_implementable s; welfare = multiPartyWelfare s
      in \<lparr>rep_schemaVersion = RUN_REPORT_SCHEMA_VERSION, rep_id = run_id, timestamp = now_text,
          rep_label = nullish (as_label input) (default_label s), rep_scenario = s,
          rep_parameters = \<lparr>par_alpha = alpha s, par_epsilon = epsilon s, auditMode = as_auditMode input,
            par_splitRule = Some (nullish (splitRule s) Proportional)\<rparr>,
          reliabilityByAgent = aput (supplierAgentId s) (supplierReliability s) [(buyerAgentId s, buyerReliability s)],
          rep_algorithmResults = algorithmResults s,
          rep_frontier = Some (frontier s (ar_id best) (epsilon s) 5),
          rep_decoyAudit = (if as_auditMode input then Some (runDecoyAudit s) else None),
          rep_computed = \<lparr>com_coordinationGap = coordinationGap (labTakeaway (\<lambda>_. []) s),
            bestNonOracle = ar_id best, bestNonOracleGap = oracleGap best,
            com_transferLedger = transferLedger (OfScenario s) no_options,
            com_multiPartyLedger = Some (multiPartyLedger s no_options),
            com_totalOutside = Some (totalOutside welfare), com_surplus = Some (w_surplus welfare)\<rparr>,
          rep_provenance = Some (nullish (provenance s)
            \<lparr>prov_source = Synthetic, prov_sourceId = None, fetchedAt = None, citations = [], prov_notes = None\<rparr>),
          rep_notes = as_notes input\<rparr>)"

definition reportLabelFromScenario :: "'p labScenario \<Rightarrow> string" where
  "reportLabelFromScenario s = presetId s @ '' '' @ MIDDLE_DOT @ '' '' @ info_text (infoMode s)"

section \<open>The schema\<close>

text \<open>zod's numbers are finite; the other checks hold by the types.\<close>

definition algorithmResultSchema :: "'p algorithmResult \<Rightarrow> bool" where
  "algorithmResultSchema r =
     (is_fin (iterations r) \<and> is_fin (residual r) \<and> is_fin (runtimeMs r) \<and> is_fin (globalUtility r)
      \<and> is_fin (oracleGap r) \<and> is_fin (ar_privacyExposure r) \<and> is_fin (transferMagnitude r)
      \<and> is_fin (buyerEffectiveCapacity r) \<and> is_fin (supplierEffectiveCapacity r))"

definition transferRowSchema :: "('p, 'm) transferRow_scheme \<Rightarrow> bool" where
  "transferRowSchema r =
     (is_fin (utilityBeforeTransfer r) \<and> is_fin (row_outsideOption r) \<and> is_fin (transfer r)
      \<and> is_fin (utilityAfterTransfer r))"

definition frontierPlanSchema :: "'p frontierPlan \<Rightarrow> bool" where
  "frontierPlanSchema p =
     (is_fin (fp_globalUtility p) \<and> is_fin (fp_buyerUtility p) \<and> is_fin (fp_supplierUtility p)
      \<and> is_fin (fp_surplus p) \<and> is_fin (fp_residual p) \<and> is_fin (fp_oracleGap p)
      \<and> list_all transferRowSchema (transferRows p))"

definition frontierSchema :: "'p frontierResult \<Rightarrow> bool" where
  "frontierSchema f =
     (list_all frontierPlanSchema (plans f) \<and> is_fin (f_epsilon f) \<and> is_fin (optimalUtility f))"

definition runReportSchema :: "('p::len0) runReport \<Rightarrow> bool" where
  "runReportSchema r =
     (rep_schemaVersion r = RUN_REPORT_SCHEMA_VERSION \<and> rep_id r \<noteq> [] \<and> timestamp r \<noteq> [] \<and> rep_label r \<noteq> []
      \<and> is_fin (par_alpha (rep_parameters r)) \<and> is_fin (par_epsilon (rep_parameters r))
      \<and> list_all (\<lambda>(_, v). is_fin v) (reliabilityByAgent r)
      \<and> list_all algorithmResultSchema (rep_algorithmResults r)
      \<and> (case rep_frontier r of None \<Rightarrow> True | Some f \<Rightarrow> frontierSchema f)
      \<and> is_fin (com_coordinationGap (rep_computed r)) \<and> is_fin (bestNonOracleGap (rep_computed r))
      \<and> list_all transferRowSchema (com_transferLedger (rep_computed r))
      \<and> (case com_multiPartyLedger (rep_computed r) of None \<Rightarrow> True
         | Some rows \<Rightarrow> list_all (\<lambda>row. transferRowSchema row \<and> is_fin (share row)) rows)
      \<and> (case com_totalOutside (rep_computed r) of None \<Rightarrow> True | Some v \<Rightarrow> is_fin v)
      \<and> (case com_surplus (rep_computed r) of None \<Rightarrow> True | Some v \<Rightarrow> is_fin v)
      \<and> (case rep_provenance r of None \<Rightarrow> True | Some d \<Rightarrow> provenanceSchema d))"

section \<open>The report as Markdown\<close>

definition report_money :: "('p jsnum \<Rightarrow> string) \<Rightarrow> ('p::len0) jsnum \<Rightarrow> string" where
  "report_money toLocaleString v =
     (let formatted = ''$'' @ toLocaleString \<bar>jround v\<bar> in if v < 0 then ''-'' @ formatted else formatted)"

definition pct :: "('p::len0) jsnum \<Rightarrow> string" where
  "pct v = num_text (jround (v * lit 100)) @ ''%''"

fun quality_text :: "quality \<Rightarrow> string" where
  "quality_text BestBenchmark = ''best benchmark''"
| "quality_text Strong = ''strong''"
| "quality_text Mixed = ''mixed''"
| "quality_text Weak = ''weak''"

fun split_text :: "splitRule \<Rightarrow> string" where
  "split_text Proportional = ''proportional''"
| "split_text EqualSplit = ''equal''"
| "split_text ShapleySplit = ''shapley''"

definition teachingTemplate :: "('p::len0) runReport \<Rightarrow> string" where
  "teachingTemplate r =
     (let admm = find_run CppAdmm (rep_algorithmResults r);
          altBR = find_run AlternatingBestResponse (rep_algorithmResults r);
          oracleFeasible = (0 < nullish (com_surplus (rep_computed r)) 0)
      in if \<not> oracleFeasible
         then ''The operational plan does not produce enough joint value for CBT transfers to make every party '' @
              ''no worse off. CBT can split surplus; it cannot manufacture surplus.''
         else if (case admm of None \<Rightarrow> False | Some a \<Rightarrow> convergence a = Converged \<and> oracleGap a < lit 1500)
         then ''CPP/ADMM recovers most of the centralized-oracle welfare while exposing less private cost data '' @
              ''than the oracle. Truthful local responses to the coordinator'' @ [CHR 0x27] @ ''s prices are the attractive strategy here.''
         else if (case (admm, altBR) of (Some a, Some b) \<Rightarrow> convergence a = Oscillating \<and> convergence b = Converged | _ \<Rightarrow> False)
         then ''ADMM oscillates on this instance, but alternating best response converges. Mechanism choice is '' @
              ''instance-dependent: the best protocol is not always the most theoretically powerful one.''
         else if auditMode (rep_parameters r) \<and>
           (case rep_decoyAudit r of None \<Rightarrow> False | Some rows \<Rightarrow> list_ex (\<lambda>row. \<not> decoy_match row) rows)
         then ''Audit Mode caught a mismatch between the agent'' @ [CHR 0x27] @ ''s stated demand and its behavior on decoy curves. '' @
              ''Mechanism design solves the negotiation; auditing keeps the inputs to the mechanism honest.''
         else ''The selected mechanism trades privacy exposure for joint welfare. Compare the oracle-gap column with '' @
              ''the privacy column to see what each protocol costs you on each axis.'')"

definition tick :: string where
  "tick = [CHR 0x60]"

definition toMarkdown :: "('p jsnum \<Rightarrow> string) \<Rightarrow> ('p runReport \<Rightarrow> string) \<Rightarrow> ('p::len0) runReport \<Rightarrow> string" where
  "toMarkdown toLocaleString json_text r =
     (let money = report_money toLocaleString; s = rep_scenario r; com = rep_computed r; par = rep_parameters r;
          reliabilities = join_with '', '' (map (\<lambda>(i, v). i @ ''='' @ toFixed v 2) (reliabilityByAgent r))
      in join_with [CHR 0x0A] (
        [''# Run report '' @ EM_DASH @ '' '' @ presetId s, [],
         ''**'' @ timestamp r @ ''** '' @ EM_DASH @ '' '' @ rep_label r, [],
         ''## Setup'',
         ''- Preset: '' @ tick @ presetId s @ tick,
         ''- Information mode: '' @ tick @ info_text (infoMode s) @ tick,
         ''- '' @ ALPHA_SIGN @ '' = '' @ toFixed (par_alpha par) 2 @ '', '' @ EPSILON_SIGN @ '' = '' @
           toFixed (par_epsilon par) 2 @ '', audit mode '' @ (if auditMode par then ''on'' else ''off'') @
           '', split rule '' @ tick @ split_text (nullish (par_splitRule par) Proportional) @ tick, []]
        @ (if reliabilities = [] then [] else [''- Reliability priors: '' @ reliabilities, []])
        @ [''## Mechanisms'', [],
           ''| Mechanism | Global utility | vs oracle | Privacy | Quality |'', ''|---|---|---|---|---|'']
        @ map (\<lambda>run. ''| '' @ ar_name run @ '' | '' @ money (globalUtility run) @ '' | '' @ money (oracleGap run) @
             '' | '' @ pct (ar_privacyExposure run) @ '' | '' @ quality_text (ar_quality run) @ '' |'') (rep_algorithmResults r)
        @ [[], ''## Headline'', [],
           ''**Coordination gap: '' @ money (com_coordinationGap com) @ ''** '' @ EM_DASH @ '' recovered by '' @ tick @
             mechanism_text (bestNonOracle com) @ tick @ '' (oracle gap '' @ money (bestNonOracleGap com) @ '').'', [],
           ''## Transfer ledger'', [],
           ''| Party | Before | Outside | Transfer | After | No worse off? |'', ''|---|---|---|---|---|---|'']
        @ map (\<lambda>row. ''| '' @ row_party row @ '' | '' @ money (utilityBeforeTransfer row) @ '' | '' @
             money (row_outsideOption row) @ '' | '' @ money (transfer row) @ '' | '' @ money (utilityAfterTransfer row) @
             '' | '' @ (if noWorseOff row then ''yes'' else ''no'') @ '' |'') (com_transferLedger com)
        @ [[], ''## What this teaches'', [], teachingTemplate r, []]
        @ (case rep_notes r of None \<Rightarrow> [] | Some n \<Rightarrow> if n = [] then [] else [''## Notes'', [], n, []])
        @ [''---'', [],
           ''[Open the lab](https://procurement-negotiation-lab.vercel.app/) '' @ MIDDLE_DOT @ '' [Reproduce this run](#reproduce)'', [],
           ''<details>'', ''<summary>'' @ DOWN_ARROW @ '' reproduce this run</summary>'', [],
           tick @ tick @ tick @ ''json'', json_text r, tick @ tick @ tick, [], ''</details>'']))"

end
