(* ===== verification/ReportStorage.thy ===== *)
theory ReportStorage
  imports RunReport
begin

text \<open>
  \<^verbatim>\<open>packages/engine/src/model/reportStorage.ts\<close>: saved reports in \<^verbatim>\<open>localStorage\<close>. The store
  is a map from keys to texts; a text is represented by what \<^verbatim>\<open>JSON.parse\<close> reads from it, since
  everything here writes what \<^verbatim>\<open>JSON.stringify\<close> gives. The specification is a list of at most
  20 reports, newest first, which every operation refines.
\<close>

section \<open>The store\<close>

definition STORAGE_PREFIX :: string where
  "STORAGE_PREFIX = ''procurement-lab.runs.''"

definition INDEX_KEY :: string where
  "INDEX_KEY = STORAGE_PREFIX @ ''__index''"

definition MAX_RUNS :: nat where
  "MAX_RUNS = 20"

record runReportSummary =
  sum_id :: string
  sum_timestamp :: string
  sum_label :: string

text \<open>What a text parses to: a report, an array (of which the entries of the right shape are kept), or
  something else, unparsable texts included.\<close>

datatype 'p stored = ReportText "'p runReport" | IndexText "runReportSummary list" | OtherText

type_synonym 'p storage = "string \<Rightarrow> 'p stored option"

definition run_key :: "string \<Rightarrow> string" where
  "run_key i = STORAGE_PREFIX @ i"

definition summary_of :: "'p runReport \<Rightarrow> runReportSummary" where
  "summary_of r = \<lparr>sum_id = rep_id r, sum_timestamp = timestamp r, sum_label = rep_label r\<rparr>"

definition readIndex :: "'p storage \<Rightarrow> runReportSummary list" where
  "readIndex ls = (case ls INDEX_KEY of Some (IndexText entries) \<Rightarrow> entries | _ \<Rightarrow> [])"

definition writeIndex :: "runReportSummary list \<Rightarrow> 'p storage \<Rightarrow> 'p storage" where
  "writeIndex summaries ls = ls(INDEX_KEY \<mapsto> IndexText summaries)"

definition remove_runs :: "runReportSummary list \<Rightarrow> 'p storage \<Rightarrow> 'p storage" where
  "remove_runs entries ls = foldl (\<lambda>ls entry. ls(run_key (sum_id entry) := None)) ls entries"

definition saveRun :: "'p runReport \<Rightarrow> 'p storage \<Rightarrow> 'p storage" where
  "saveRun report ls =
     (let ls = ls(run_key (rep_id report) \<mapsto> ReportText report);
          index = summary_of report # filter (\<lambda>entry. sum_id entry \<noteq> rep_id report) (readIndex ls)
      in if MAX_RUNS < length index
         then writeIndex (take MAX_RUNS index) (remove_runs (drop MAX_RUNS index) ls)
         else writeIndex index ls)"

definition listRuns :: "'p storage \<Rightarrow> runReportSummary list" where
  "listRuns ls = readIndex ls"

definition loadRun :: "string \<Rightarrow> ('p::len0) storage \<Rightarrow> 'p runReport option" where
  "loadRun i ls =
     (case ls (run_key i) of Some (ReportText r) \<Rightarrow> if runReportSchema r then Some r else None | _ \<Rightarrow> None)"

definition deleteRun :: "string \<Rightarrow> 'p storage \<Rightarrow> 'p storage" where
  "deleteRun i ls =
     (let ls = ls(run_key i := None)
      in writeIndex (filter (\<lambda>entry. sum_id entry \<noteq> i) (readIndex ls)) ls)"

definition clearAll :: "'p storage \<Rightarrow> 'p storage" where
  "clearAll ls = (remove_runs (readIndex ls) ls)(INDEX_KEY := None)"

section \<open>The specification\<close>

datatype 'p storageCommand = Save "'p runReport" | Delete string | Clear

fun exec :: "'p storageCommand \<Rightarrow> 'p storage \<Rightarrow> 'p storage" where
  "exec (Save r) = saveRun r"
| "exec (Delete i) = deleteRun i"
| "exec Clear = clearAll"

fun spec :: "'p storageCommand \<Rightarrow> 'p runReport list \<Rightarrow> 'p runReport list" where
  "spec (Save r) rs = take MAX_RUNS (r # filter (\<lambda>q. rep_id q \<noteq> rep_id r) rs)"
| "spec (Delete i) rs = filter (\<lambda>q. rep_id q \<noteq> i) rs"
| "spec Clear rs = []"

text \<open>Commands a run of the lab issues: what is saved passes the schema, and no report is called
  like the index.\<close>

definition proper_id :: "string \<Rightarrow> bool" where
  "proper_id i = (i \<noteq> ''__index'')"

fun proper :: "('p::len0) storageCommand \<Rightarrow> bool" where
  "proper (Save r) = (proper_id (rep_id r) \<and> runReportSchema r)"
| "proper (Delete i) = proper_id i"
| "proper Clear = True"

definition represents :: "('p::len0) storage \<Rightarrow> 'p runReport list \<Rightarrow> bool" where
  "represents ls rs =
     (readIndex ls = map summary_of rs \<and> distinct (map rep_id rs) \<and> length rs \<le> MAX_RUNS
      \<and> (\<forall>i. proper_id i \<longrightarrow> ls (run_key i) = map_option ReportText (List.find (\<lambda>r. rep_id r = i) rs))
      \<and> (\<forall>r \<in> set rs. proper_id (rep_id r) \<and> runReportSchema r))"

lemma run_key_eq [simp]: "run_key i = run_key j \<longleftrightarrow> i = j"
  by (simp add: run_key_def)

lemma run_key_index [simp]:
  "run_key i = INDEX_KEY \<longleftrightarrow> \<not> proper_id i" "INDEX_KEY = run_key i \<longleftrightarrow> \<not> proper_id i"
  by (auto simp: run_key_def INDEX_KEY_def proper_id_def)

lemma sum_id_summary [simp]: "sum_id (summary_of r) = rep_id r"
  by (simp add: summary_of_def)

lemma readIndex_simps [simp]:
  "readIndex (writeIndex ss ls) = ss" "proper_id i \<Longrightarrow> readIndex (ls(run_key i := v)) = readIndex ls"
  by (auto simp: readIndex_def writeIndex_def)

lemma writeIndex_other [simp]: "proper_id i \<Longrightarrow> writeIndex ss ls (run_key i) = ls (run_key i)"
  by (simp add: writeIndex_def)

lemma remove_runs_apply:
  "remove_runs es ls (run_key i) = (if i \<in> sum_id ` set es then None else ls (run_key i))"
  by (induction es arbitrary: ls) (auto simp: remove_runs_def)

lemma remove_runs_index:
  "\<forall>e \<in> set es. proper_id (sum_id e) \<Longrightarrow> remove_runs es ls INDEX_KEY = ls INDEX_KEY"
  by (induction es arbitrary: ls) (auto simp: remove_runs_def)

lemma filter_summaries: "filter (\<lambda>e. sum_id e \<noteq> i) (map summary_of rs) = map summary_of (filter (\<lambda>r. rep_id r \<noteq> i) rs)"
  by (simp add: filter_map comp_def)

lemma find_filter_neq:
  "List.find (\<lambda>r. rep_id r = i) (filter (\<lambda>r. rep_id r \<noteq> j) rs)
     = (if i = j then None else List.find (\<lambda>r. rep_id r = i) rs)"
  by (induction rs) auto

lemma find_take:
  "distinct (map rep_id rs) \<Longrightarrow>
     List.find (\<lambda>r. rep_id r = i) (take n rs)
     = (if i \<in> rep_id ` set (drop n rs) then None else List.find (\<lambda>r. rep_id r = i) rs)"
proof (induction rs arbitrary: n)
  case (Cons r rs)
  show ?case
  proof (cases n)
    case 0
    then show ?thesis by (auto simp: find_None_iff find_None_iff2)
  next
    case (Suc m)
    then show ?thesis using Cons by (auto dest: in_set_dropD)
  qed
qed simp

section \<open>Refinement\<close>

lemma represents_empty: "represents (\<lambda>_. None) []"
  by (simp add: represents_def readIndex_def)

lemma represents_write:
  assumes "distinct (map rep_id qs)" "length qs \<le> MAX_RUNS"
    "\<And>q. q \<in> set qs \<Longrightarrow> proper_id (rep_id q) \<and> runReportSchema q"
    "\<And>i. proper_id i \<Longrightarrow> ls (run_key i) = map_option ReportText (List.find (\<lambda>q. rep_id q = i) qs)"
  shows "represents (writeIndex (map summary_of qs) ls) qs"
  using assms by (simp add: represents_def)

text \<open>Trimming to the newest runs removes exactly the texts of the others.\<close>

lemma represents_trim:
  assumes "distinct (map rep_id qs)" "\<And>q. q \<in> set qs \<Longrightarrow> proper_id (rep_id q) \<and> runReportSchema q"
    "\<And>i. proper_id i \<Longrightarrow> ls (run_key i) = map_option ReportText (List.find (\<lambda>q. rep_id q = i) qs)"
  shows "represents (if MAX_RUNS < length qs
      then writeIndex (take MAX_RUNS (map summary_of qs)) (remove_runs (drop MAX_RUNS (map summary_of qs)) ls)
      else writeIndex (map summary_of qs) ls) (take MAX_RUNS qs)"
proof (cases "MAX_RUNS < length qs")
  case True
  have d: "sum_id ` set (drop MAX_RUNS (map summary_of qs)) = rep_id ` set (drop MAX_RUNS qs)"
    by (simp add: drop_map image_image)
  have "represents (writeIndex (map summary_of (take MAX_RUNS qs)) (remove_runs (drop MAX_RUNS (map summary_of qs)) ls))
      (take MAX_RUNS qs)"
  proof (rule represents_write)
    show "distinct (map rep_id (take MAX_RUNS qs))" using assms(1) by (simp add: take_map [symmetric])
    show "proper_id (rep_id q) \<and> runReportSchema q" if "q \<in> set (take MAX_RUNS qs)" for q
      using assms(2) that in_set_takeD by fast
    show "remove_runs (drop MAX_RUNS (map summary_of qs)) ls (run_key i)
        = map_option ReportText (List.find (\<lambda>q. rep_id q = i) (take MAX_RUNS qs))" if "proper_id i" for i
      using assms(3) [OF that] by (simp add: remove_runs_apply d find_take [OF assms(1)])
  qed simp
  then show ?thesis using True by (simp add: take_map)
next
  case False
  then show ?thesis using represents_write [OF assms(1) _ assms(2,3)] by simp
qed

lemma represents_save:
  assumes "represents ls rs" "proper (Save r)"
  shows "represents (saveRun r ls) (spec (Save r) rs)"
proof -
  define qs where "qs = r # filter (\<lambda>q. rep_id q \<noteq> rep_id r) rs"
  let ?ls = "ls(run_key (rep_id r) \<mapsto> ReportText r)"
  have idx: "summary_of r # filter (\<lambda>e. sum_id e \<noteq> rep_id r) (readIndex ?ls) = map summary_of qs"
    using assms by (simp add: represents_def filter_summaries qs_def)
  have "distinct (map rep_id qs)" using assms(1) by (auto simp: qs_def represents_def distinct_map_filter)
  moreover have "\<And>q. q \<in> set qs \<Longrightarrow> proper_id (rep_id q) \<and> runReportSchema q"
    using assms by (auto simp: qs_def represents_def)
  moreover have "?ls (run_key i) = map_option ReportText (List.find (\<lambda>q. rep_id q = i) qs)" if "proper_id i" for i
    using assms(1) that by (auto simp: qs_def represents_def find_filter_neq)
  ultimately show ?thesis
    using represents_trim [of qs ?ls] unfolding saveRun_def Let_def idx by (simp add: qs_def)
qed

lemma represents_delete:
  assumes "represents ls rs" "proper_id i"
  shows "represents (deleteRun i ls) (spec (Delete i) rs)"
  using assms
  by (auto simp: represents_def deleteRun_def Let_def filter_summaries find_filter_neq distinct_map_filter
      intro: le_trans [OF length_filter_le])

lemma represents_clear:
  assumes "represents ls rs"
  shows "represents (clearAll ls) (spec Clear rs)"
proof -
  have ids: "sum_id ` set (readIndex ls) = rep_id ` set rs" using assms by (auto simp: represents_def image_image)
  have "clearAll ls (run_key i) = None" if "proper_id i" for i
  proof (cases "i \<in> rep_id ` set rs")
    case False
    then have "List.find (\<lambda>r. rep_id r = i) rs = None" by (auto simp: find_None_iff)
    then show ?thesis using assms that False by (simp add: clearAll_def remove_runs_apply ids represents_def)
  qed (use that in \<open>simp add: clearAll_def remove_runs_apply ids\<close>)
  then show ?thesis by (simp add: represents_def readIndex_def) (simp add: clearAll_def)
qed

lemma represents_exec: "represents ls rs \<Longrightarrow> proper c \<Longrightarrow> represents (exec c ls) (spec c rs)"
  by (cases c) (simp_all only: exec.simps represents_save represents_delete represents_clear proper.simps)

lemma represents_run:
  "represents ls rs \<Longrightarrow> list_all proper cs \<Longrightarrow>
     represents (foldl (\<lambda>ls c. exec c ls) ls cs) (foldl (\<lambda>rs c. spec c rs) rs cs)"
  by (induction cs arbitrary: ls rs) (simp_all add: represents_exec)

definition sample_report :: "string \<Rightarrow> 53 runReport" where
  "sample_report i = \<lparr>rep_schemaVersion = RUN_REPORT_SCHEMA_VERSION, rep_id = i, timestamp = ''2026-01-01'',
     rep_label = ''demo'', rep_scenario = standard,
     rep_parameters = \<lparr>par_alpha = Fin 1, par_epsilon = Fin 0, auditMode = False, par_splitRule = None\<rparr>,
     reliabilityByAgent = [(''capacity-guard'', Fin 1)], rep_algorithmResults = [], rep_frontier = None,
     rep_decoyAudit = None,
     rep_computed = \<lparr>com_coordinationGap = Fin 5294, bestNonOracle = MenuContracts, bestNonOracleGap = Fin 454,
       com_transferLedger = [], com_multiPartyLedger = None, com_totalOutside = None, com_surplus = None\<rparr>,
     rep_provenance = None, rep_notes = None\<rparr>"

lemma sample_valid: "i \<noteq> [] \<Longrightarrow> runReportSchema (sample_report i)"
  by (simp add: runReportSchema_def sample_report_def)

text \<open>C13: The storage refines its specification. After any sequence of saves, deletions and clearings
  from an empty \<^verbatim>\<open>localStorage\<close>, the listed runs are the summaries of the specified list (at most
  20 reports, newest first, one per id), and loading an id gives the report the list holds for it;
  so a listed run can always be loaded and a forgotten one never lingers.\<close>

theorem storage_refines:
  fixes cs :: "('p::len0) storageCommand list"
  assumes "list_all proper cs" "proper_id i"
  shows "listRuns (foldl (\<lambda>ls c. exec c ls) (\<lambda>_. None) cs) = map summary_of (foldl (\<lambda>rs c. spec c rs) [] cs)
    \<and> length (listRuns (foldl (\<lambda>ls c. exec c ls) (\<lambda>_. None) cs)) \<le> 20
    \<and> loadRun i (foldl (\<lambda>ls c. exec c ls) (\<lambda>_. None) cs)
      = List.find (\<lambda>r. rep_id r = i) (foldl (\<lambda>rs c. spec c rs) [] cs)"
proof -
  let ?ls = "foldl (\<lambda>ls c. exec c ls) (\<lambda>_. None) cs" and ?rs = "foldl (\<lambda>rs c. spec c rs) [] cs"
  have r: "represents ?ls ?rs" by (rule represents_run [OF represents_empty assms(1)])
  have "loadRun i ?ls = List.find (\<lambda>r. rep_id r = i) ?rs"
  proof (cases "List.find (\<lambda>r. rep_id r = i) ?rs")
    case None
    then show ?thesis using r assms(2) by (simp add: represents_def loadRun_def)
  next
    case (Some q)
    moreover have "runReportSchema q" using find_Some_iff_props [OF Some] r by (simp add: represents_def)
    ultimately show ?thesis using r assms(2) by (simp add: represents_def loadRun_def)
  qed
  then show ?thesis using r by (simp add: represents_def listRuns_def MAX_RUNS_def)
qed

theorem storage_refines_witness:
  "map sum_id (listRuns (foldl (\<lambda>ls c. exec c ls) (\<lambda>_. None)
      [Save (sample_report ''a''), Save (sample_report ''b''), Save (sample_report ''a''), Delete ''b'']))  = [''a'']
   \<and> loadRun ''a'' (foldl (\<lambda>ls c. exec c ls) (\<lambda>_. None)
      [Save (sample_report ''a''), Save (sample_report ''b''), Save (sample_report ''a''), Delete ''b''])
     = Some (sample_report ''a'')"
proof -
  have i: "rep_id (sample_report i) = i" for i by (simp add: sample_report_def)
  have "list_all proper [Save (sample_report ''a''), Save (sample_report ''b''), Save (sample_report ''a''), Delete ''b'']"
    by (simp add: i sample_valid proper_id_def)
  from storage_refines [OF this, of "''a''"] show ?thesis
    by (simp add: i proper_id_def MAX_RUNS_def summary_of_def)
qed

text \<open>The index shares the key space of the reports: a report with the id \<^verbatim>\<open>__index\<close>, which the
  schema accepts, overwrites the index when it is saved. Every other run disappears from the list and
  the report itself cannot be loaded.\<close>

lemma index_clobbered:
  assumes "rep_id r = ''__index''"
  shows "listRuns (saveRun r ls) = [summary_of r] \<and> loadRun ''__index'' (saveRun r ls) = None"
proof -
  have k: "run_key (rep_id r) = INDEX_KEY" using assms by (simp add: proper_id_def)
  have "saveRun r ls = writeIndex [summary_of r] (ls(INDEX_KEY \<mapsto> ReportText r))"
    by (simp add: saveRun_def k readIndex_def MAX_RUNS_def)
  then show ?thesis using k assms by (simp add: listRuns_def loadRun_def writeIndex_def readIndex_def)
qed

theorem index_clobbered_witness:
  "listRuns (saveRun (sample_report ''__index'') (saveRun (sample_report ''a'') (\<lambda>_. None)))
     = [summary_of (sample_report ''__index'')]
   \<and> loadRun ''__index'' (saveRun (sample_report ''__index'') (saveRun (sample_report ''a'') (\<lambda>_. None))) = None"
  by (rule index_clobbered) (simp add: sample_report_def)

end
