(* ===== verification/Migration.thy ===== *)
theory Migration
  imports Provenance SimulationLaws
begin

text \<open>
  \<^verbatim>\<open>scenarioMigrate.ts\<close> and \<^verbatim>\<open>factories.ts\<close> of \<^verbatim>\<open>packages/engine/src/model\<close>. The
  input of a migration is either no object or an object whose fields, as far as they are there, have
  their types: an absent field is \<open>None\<close>. A field of another type would be replaced by its default
  like an absent one (numbers) or rejected by the schema.
\<close>

section \<open>Migration\<close>

datatype 'p rawInput = NotAnObject | Raw "'p scenarioPatch"

record 'p migrateResult =
  mig_data :: "'p labScenario option"
  fromVersion :: string
  toVersion :: string
  warnings :: "string list"

definition RIGHT_ARROW :: string where
  "RIGHT_ARROW = [CHR 0xE2, CHR 0x86, CHR 0x92]"

definition default_warning :: "string \<Rightarrow> ('p::len0) jsnum \<Rightarrow> 'p jsnum option \<Rightarrow> string list" where
  "default_warning field v x = (case x of Some _ \<Rightarrow> [] | None \<Rightarrow> [field @ '' defaulted to '' @ num_text v])"

text \<open>The object handed to the schema; \<open>None\<close> when a field without a default is missing.\<close>

definition backfill :: "('p::len0) scenarioPatch \<Rightarrow> 'p labScenario option" where
  "backfill q =
     (case (q_presetId q, q_volatility q, q_capacityTightness q, q_buyerAgentId q, q_supplierAgentId q) of
        (Some preset, Some vol, Some tight, Some buyerId, Some supplierId) \<Rightarrow> Some
          \<lparr>presetId = preset, demand = nullish (q_demand q) (lit 500), volatility = vol, capacityTightness = tight,
           leadTimeWeeks = nullish (q_leadTimeWeeks q) (lit 12),
           fulfillmentCenterCount = nullish (q_fulfillmentCenterCount q) (lit 3),
           participantCount = nullish (q_participantCount q) (lit 2),
           productCount = nullish (q_productCount q) 1, periodCount = nullish (q_periodCount q) 1,
           infoMode = nullish (q_infoMode q) ForecastBand, buyerAgentId = buyerId, supplierAgentId = supplierId,
           customBuyerUrgency = nullish (q_customBuyerUrgency q) (lit 0.6),
           customSupplierFlexibility = nullish (q_customSupplierFlexibility q) (lit 0.5),
           customTruthfulness = nullish (q_customTruthfulness q) (lit 0.7),
           customPrivacyPreference = nullish (q_customPrivacyPreference q) (lit 0.6),
           customRiskAversion = nullish (q_customRiskAversion q) (lit 0.6),
           alpha = nullish (q_alpha q) 1, buyerReliability = nullish (q_buyerReliability q) 1,
           supplierReliability = nullish (q_supplierReliability q) 1, epsilon = nullish (q_epsilon q) 0,
           participants = q_participants q, splitRule = Some (nullish (q_splitRule q) Proportional),
           provenance = Some (nullish (q_provenance q)
             \<lparr>prov_source = Synthetic, prov_sourceId = None, fetchedAt = None, citations = [], prov_notes = None\<rparr>),
           schemaVersion = Some SCHEMA_VERSION\<rparr>
      | _ \<Rightarrow> None)"

definition version_warning :: "string option \<Rightarrow> string list" where
  "version_warning v =
     (let given = nullish v [] in
      if given = [] then [''schemaVersion missing; assuming pre-0.5.0; upgrading to '' @ SCHEMA_VERSION]
      else if given \<noteq> SCHEMA_VERSION
      then [''schemaVersion '' @ given @ '' '' @ RIGHT_ARROW @ '' '' @ SCHEMA_VERSION]
      else [])"

definition migration_warnings :: "('p::len0) scenarioPatch \<Rightarrow> string list" where
  "migration_warnings q =
     version_warning (q_schemaVersion q)
     @ (case q_splitRule q of Some _ \<Rightarrow> [] | None \<Rightarrow> [''splitRule defaulted to '' @ [CHR 0x27] @ ''proportional'' @ [CHR 0x27]])
     @ (case q_provenance q of Some _ \<Rightarrow> [] | None \<Rightarrow> [''provenance defaulted to synthetic''])
     @ default_warning ''alpha'' 1 (q_alpha q) @ default_warning ''epsilon'' 0 (q_epsilon q)
     @ default_warning ''buyerReliability'' 1 (q_buyerReliability q)
     @ default_warning ''supplierReliability'' 1 (q_supplierReliability q)
     @ default_warning ''customBuyerUrgency'' (lit 0.6) (q_customBuyerUrgency q)
     @ default_warning ''customSupplierFlexibility'' (lit 0.5) (q_customSupplierFlexibility q)
     @ default_warning ''customTruthfulness'' (lit 0.7) (q_customTruthfulness q)
     @ default_warning ''customPrivacyPreference'' (lit 0.6) (q_customPrivacyPreference q)
     @ default_warning ''customRiskAversion'' (lit 0.6) (q_customRiskAversion q)
     @ default_warning ''participantCount'' (lit 2) (q_participantCount q)
     @ default_warning ''productCount'' 1 (q_productCount q)
     @ default_warning ''periodCount'' 1 (q_periodCount q)
     @ default_warning ''fulfillmentCenterCount'' (lit 3) (q_fulfillmentCenterCount q)
     @ default_warning ''leadTimeWeeks'' (lit 12) (q_leadTimeWeeks q)
     @ default_warning ''demand'' (lit 500) (q_demand q)
     @ (case q_infoMode q of Some _ \<Rightarrow> [] | None \<Rightarrow> [''infoMode defaulted to forecast-band''])"

definition migrateScenario :: "('p::len0) rawInput \<Rightarrow> 'p migrateResult" where
  "migrateScenario input =
     (case input of
        NotAnObject \<Rightarrow> \<lparr>mig_data = None, fromVersion = ''unknown'', toVersion = SCHEMA_VERSION, warnings = []\<rparr>
      | Raw q \<Rightarrow>
          \<lparr>mig_data = (case backfill q of Some s \<Rightarrow> parseScenario s | None \<Rightarrow> None),
           fromVersion = nullish (q_schemaVersion q) ''0.0.0'', toVersion = SCHEMA_VERSION,
           warnings = migration_warnings q\<rparr>)"

section \<open>Factories\<close>

record 'p participantPatch =
  pp_id :: "string option"
  pp_role :: "participantRole option"
  pp_name :: "string option"
  pp_strategyId :: "string option"
  pp_reliability :: "'p jsnum option"
  pp_capacity :: "'p jsnum option"
  pp_outsideOption :: "'p jsnum option"
  pp_parameters :: "'p agentParameters option"

text \<open>The module's counter is threaded through.\<close>

definition buildParticipant :: "('p::len0) participantPatch \<Rightarrow> nat \<Rightarrow> nat \<times> 'p participant" where
  "buildParticipant q counter =
     (let counter = counter + 1; role = nullish (pp_role q) Supplier
      in (counter,
        \<lparr>p_id = nullish (pp_id q) (''p-'' @ nat_text counter), p_role = role,
         p_name = nullish (pp_name q) (''Participant '' @ nat_text counter),
         strategyId = nullish (pp_strategyId q)
           (if role = Buyer then ''launch-protector-buyer''
            else if role = Supplier then ''capacity-guard-supplier''
            else if role = Packager then ''packager-cowos''
            else if role = Coordinator then ''neutral-coordinator'' else ''logistics-customs''),
         reliability = nullish (pp_reliability q) (lit 0.9), capacity = pp_capacity q,
         outsideOption = Some (nullish (pp_outsideOption q) (if role = Buyer then lit 8000 else lit 4800)),
         parameters = nullish (pp_parameters q)
           \<lparr>urgency = lit 0.6, flexibility = lit 0.5, truthfulness = lit 0.7, privacyPreference = lit 0.6,
            riskAversion = lit 0.6\<rparr>\<rparr>))"

definition resetFactories :: "nat \<Rightarrow> nat" where
  "resetFactories counter = 0"

definition buildScenario :: "string \<Rightarrow> ('p::len0) scenarioPatch \<Rightarrow> 'p labScenario" where
  "buildScenario now_text overrides =
     makeScenario overrides
       \<lparr>provenance := Some (nullish (q_provenance overrides) (tag now_text Synthetic None None None)),
        splitRule := Some (nullish (q_splitRule overrides) Proportional)\<rparr>"

section \<open>Laws\<close>

lemma backfill_complete:
  assumes "schemaVersion s = Some SCHEMA_VERSION" "splitRule s = Some r" "provenance s = Some d"
  shows "backfill (patch_of s) = Some s" "migration_warnings (patch_of s) = []"
  using assms
  by (cases s; simp add: backfill_def patch_of_def)
     (simp add: migration_warnings_def patch_of_def version_warning_def default_warning_def assms SCHEMA_VERSION_def)

text \<open>C12: A migration settles: what it returns carries the current version, the schema accepts it, and
  migrating it again returns it unchanged, from the current version and without a warning.\<close>

theorem migration_settles:
  assumes "mig_data (migrateScenario input) = Some d"
  shows "scenario_accepted d \<and> schemaVersion d = Some SCHEMA_VERSION
    \<and> mig_data (migrateScenario (Raw (patch_of d))) = Some d
    \<and> warnings (migrateScenario (Raw (patch_of d))) = []
    \<and> fromVersion (migrateScenario (Raw (patch_of d))) = SCHEMA_VERSION"
proof -
  obtain q s where qs: "input = Raw q" "backfill q = Some s" "parseScenario s = Some d"
    using assms by (auto simp: migrateScenario_def split: rawInput.splits option.splits)
  then have d: "d = fill_defaults s" "scenario_accepted s" by (auto simp: parseScenario_def split: if_splits)
  have "schemaVersion s = Some SCHEMA_VERSION" using qs(2) by (auto simp: backfill_def split: option.splits)
  then have f: "schemaVersion d = Some SCHEMA_VERSION" "\<exists>r. splitRule d = Some r" "\<exists>p. provenance d = Some p"
    by (simp_all add: d)
  then obtain r p where rp: "splitRule d = Some r" "provenance d = Some p" by blast
  have acc: "scenario_accepted d" unfolding d(1) by (rule scenario_accepted_fill_defaults [OF d(2)])
  show ?thesis
    using acc f(1) parseScenario_idem [OF qs(3)] backfill_complete [OF f(1) rp]
    by (simp add: migrateScenario_def) (simp add: patch_of_def)
qed

theorem migration_settles_witness:
  "scenario_accepted (fill_defaults (standard :: 53 labScenario))
    \<and> warnings (migrateScenario (Raw (patch_of (fill_defaults (standard :: 53 labScenario))))) = []"
proof -
  have acc: "scenario_accepted (standard :: 53 labScenario)" using lab_ok_standard by (simp add: lab_ok_def)
  have "backfill (patch_of (standard :: 53 labScenario)) = Some (fill_defaults standard)"
    by (simp add: backfill_def patch_of_def fill_defaults_def standard_def)
  then have "mig_data (migrateScenario (Raw (patch_of (standard :: 53 labScenario)))) = Some (fill_defaults standard)"
    by (simp add: migrateScenario_def parseScenario_def scenario_accepted_fill_defaults [OF acc])
  from migration_settles [OF this] show ?thesis by blast
qed

end
