(* ===== verification/Views.thy ===== *)
theory Views
  imports Types
begin

text \<open>
  \<^verbatim>\<open>packages/engine/src/model/views.ts\<close>: what each party may see of the others. View equivalence
  says which differences between two lists of participants an observer cannot see; the redaction is
  proved to reveal exactly the rest.
\<close>

datatype viewMode = CoordinatorView | PartyView (view_party: party) (view_participant: string)

datatype viewKind = KindCoordinator | KindBuyer | KindSupplier

record 'p redactedParameters =
  r_urgency :: "'p jsnum option"
  r_flexibility :: "'p jsnum option"
  r_truthfulness :: "'p jsnum option"
  r_privacyPreference :: "'p jsnum option"
  r_riskAversion :: "'p jsnum option"

record 'p redactedParticipant =
  rp_id :: string
  rp_role :: participantRole
  rp_name :: string
  rp_reliability :: "'p jsnum option"
  rp_parameters :: "'p redactedParameters"
  rp_capacity :: "'p jsnum option"
  rp_outsideOption :: "'p jsnum option"
  rp_strategyId :: "string option"
  isSelf :: bool
  privateFieldsRedacted :: "string list"

record 'p viewState =
  vs_kind :: viewKind
  selfId :: "string option"
  vs_participants :: "'p redactedParticipant list"

fun viewKind_of :: "viewMode \<Rightarrow> viewKind" where
  "viewKind_of CoordinatorView = KindCoordinator"
| "viewKind_of (PartyView BuyerParty _) = KindBuyer"
| "viewKind_of (PartyView SupplierParty _) = KindSupplier"

fun viewSelfId :: "viewMode \<Rightarrow> string option" where
  "viewSelfId CoordinatorView = None"
| "viewSelfId (PartyView _ i) = Some i"

fun PRIVATE_FIELDS_BY_ROLE :: "participantRole \<Rightarrow> string list" where
  "PRIVATE_FIELDS_BY_ROLE Buyer = [''outsideOption'', ''capacity'', ''parameters.truthfulness'']"
| "PRIVATE_FIELDS_BY_ROLE Supplier = [''outsideOption'', ''capacity'', ''parameters.truthfulness'']"
| "PRIVATE_FIELDS_BY_ROLE Packager = [''outsideOption'', ''capacity'']"
| "PRIVATE_FIELDS_BY_ROLE Logistics = [''outsideOption'', ''capacity'']"
| "PRIVATE_FIELDS_BY_ROLE Distributor = [''outsideOption'', ''capacity'']"
| "PRIVATE_FIELDS_BY_ROLE Coordinator = []"

text \<open>\<^verbatim>\<open>path.replace(/^parameters\./, "")\<close>.\<close>

definition strip_parameters :: "string \<Rightarrow> string" where
  "strip_parameters path = (if take 11 path = ''parameters.'' then drop 11 path else path)"

definition redactParameters :: "'p agentParameters \<Rightarrow> string list \<Rightarrow> 'p redactedParameters" where
  "redactParameters ps hiddenFields =
     (let hidden = set (map strip_parameters hiddenFields)
      in \<lparr>r_urgency = (if ''urgency'' \<in> hidden then None else Some (urgency ps)),
          r_flexibility = (if ''flexibility'' \<in> hidden then None else Some (flexibility ps)),
          r_truthfulness = (if ''truthfulness'' \<in> hidden then None else Some (truthfulness ps)),
          r_privacyPreference = (if ''privacyPreference'' \<in> hidden then None else Some (privacyPreference ps)),
          r_riskAversion = (if ''riskAversion'' \<in> hidden then None else Some (riskAversion ps))\<rparr>)"

definition all_parameters :: "'p agentParameters \<Rightarrow> 'p redactedParameters" where
  "all_parameters ps =
     \<lparr>r_urgency = Some (urgency ps), r_flexibility = Some (flexibility ps), r_truthfulness = Some (truthfulness ps),
      r_privacyPreference = Some (privacyPreference ps), r_riskAversion = Some (riskAversion ps)\<rparr>"

definition whole :: "bool \<Rightarrow> 'p participant \<Rightarrow> 'p redactedParticipant" where
  "whole self p =
     \<lparr>rp_id = p_id p, rp_role = p_role p, rp_name = p_name p, rp_reliability = Some (reliability p),
      rp_parameters = all_parameters (parameters p), rp_capacity = capacity p,
      rp_outsideOption = outsideOption p, rp_strategyId = Some (strategyId p), isSelf = self,
      privateFieldsRedacted = []\<rparr>"

definition redact_other :: "'p participant \<Rightarrow> 'p redactedParticipant" where
  "redact_other p =
     (let hidden = PRIVATE_FIELDS_BY_ROLE (p_role p)
      in \<lparr>rp_id = p_id p, rp_role = p_role p, rp_name = p_name p, rp_reliability = None,
          rp_parameters = redactParameters (parameters p) hidden, rp_capacity = None,
          rp_outsideOption = None, rp_strategyId = None, isSelf = False, privateFieldsRedacted = hidden\<rparr>)"

definition redactForView :: "'p participant list \<Rightarrow> viewMode \<Rightarrow> 'p viewState" where
  "redactForView ps mode =
     (if viewKind_of mode = KindCoordinator
      then \<lparr>vs_kind = KindCoordinator, selfId = viewSelfId mode, vs_participants = map (whole False) ps\<rparr>
      else \<lparr>vs_kind = viewKind_of mode, selfId = viewSelfId mode,
            vs_participants = map (\<lambda>p. if Some (p_id p) = viewSelfId mode then whole True p else redact_other p) ps\<rparr>)"

definition describeView :: "viewMode \<Rightarrow> string" where
  "describeView mode =
     (case mode of
        CoordinatorView \<Rightarrow> ''Coordinator: sees the full orchestration, no participant cost structures.''
      | PartyView BuyerParty _ \<Rightarrow> ''Buyer view: own data plus coordinator signals; competitor cost structures hidden.''
      | PartyView SupplierParty _ \<Rightarrow> ''Supplier view: own data plus coordinator signals; competitor cost structures hidden.'')"

section \<open>View equivalence\<close>

definition truthfulness_public :: "participantRole \<Rightarrow> bool" where
  "truthfulness_public r = (r \<noteq> Buyer \<and> r \<noteq> Supplier)"

text \<open>Two participants a stranger cannot tell apart: id, role and name, the four dispositions, and for
  roles other than buyer and supplier the truthfulness too.\<close>

definition same_in_public :: "'p participant \<Rightarrow> 'p participant \<Rightarrow> bool" where
  "same_in_public p q =
     (p_id p = p_id q \<and> p_role p = p_role q \<and> p_name p = p_name q
      \<and> urgency (parameters p) = urgency (parameters q) \<and> flexibility (parameters p) = flexibility (parameters q)
      \<and> privacyPreference (parameters p) = privacyPreference (parameters q)
      \<and> riskAversion (parameters p) = riskAversion (parameters q)
      \<and> (truthfulness_public (p_role p) \<longrightarrow> truthfulness (parameters p) = truthfulness (parameters q)))"

definition same_for :: "viewMode \<Rightarrow> 'p participant \<Rightarrow> 'p participant \<Rightarrow> bool" where
  "same_for mode p q =
     (if mode = CoordinatorView \<or> Some (p_id p) = viewSelfId mode then p = q else same_in_public p q)"

lemma hidden_parameters:
  "redactParameters a (PRIVATE_FIELDS_BY_ROLE r) = redactParameters b (PRIVATE_FIELDS_BY_ROLE r) \<longleftrightarrow>
     urgency a = urgency b \<and> flexibility a = flexibility b \<and> privacyPreference a = privacyPreference b
     \<and> riskAversion a = riskAversion b \<and> (truthfulness_public r \<longrightarrow> truthfulness a = truthfulness b)"
  by (cases r) (auto simp: redactParameters_def strip_parameters_def truthfulness_public_def Let_def)

lemma redact_other_eq: "redact_other p = redact_other q \<longleftrightarrow> same_in_public p q"
proof (cases "p_role p = p_role q")
  case True
  then show ?thesis by (auto simp: redact_other_def Let_def same_in_public_def hidden_parameters)
qed (auto simp: redact_other_def Let_def same_in_public_def)

lemma whole_eq: "whole b p = whole b q \<longleftrightarrow> p = q"
  by (cases p; cases q; cases "parameters p"; cases "parameters q") (auto simp: whole_def all_parameters_def)

lemma viewKind_coordinator [simp]: "viewKind_of mode = KindCoordinator \<longleftrightarrow> mode = CoordinatorView"
  by (cases mode rule: viewKind_of.cases) auto

lemma whole_neq_other: "whole True p \<noteq> redact_other q"
  by (simp add: whole_def redact_other_def Let_def)

lemma map_eq_iff_all2:
  assumes "\<And>p q. f p = f q \<longleftrightarrow> R p q"
  shows "map f ps = map f qs \<longleftrightarrow> list_all2 R ps qs"
proof (induction ps arbitrary: qs)
  case (Cons p ps)
  then show ?case by (cases qs) (simp_all add: assms)
qed simp

text \<open>C10: The redaction is exact: two lists of participants give the same view if and only if they
  agree, participant by participant, on what that observer may know. So a party learns nothing of the
  others' outside options, capacities, reliabilities or strategies (nor of a buyer's or supplier's
  truthfulness), and loses nothing of the rest; and the coordinator sees everything.\<close>

theorem redaction_exact:
  "redactForView ps mode = redactForView qs mode \<longleftrightarrow> list_all2 (same_for mode) ps qs"
proof (cases "mode = CoordinatorView")
  case True
  then have "redactForView ps mode = redactForView qs mode \<longleftrightarrow> map (whole False) ps = map (whole False) qs"
    by (simp add: redactForView_def)
  also have "\<dots> \<longleftrightarrow> list_all2 (same_for mode) ps qs"
    by (rule map_eq_iff_all2) (simp add: same_for_def True whole_eq)
  finally show ?thesis .
next
  case False
  let ?f = "\<lambda>p. if Some (p_id p) = viewSelfId mode then whole True p else redact_other p"
  have f: "?f p = ?f q \<longleftrightarrow> same_for mode p q" for p q :: "'a participant"
    using whole_neq_other [of p q] whole_neq_other [of q p]
    by (auto simp: same_for_def False whole_eq redact_other_eq same_in_public_def)
  have "redactForView ps mode = redactForView qs mode \<longleftrightarrow> map ?f ps = map ?f qs"
    by (simp add: redactForView_def False)
  also have "\<dots> \<longleftrightarrow> list_all2 (same_for mode) ps qs"
    by (rule map_eq_iff_all2) (rule f)
  finally show ?thesis .
qed

end
