(* ===== verification/DecisionLog.thy ===== *)
theory DecisionLog
  imports Types
begin

text \<open>
  \<^verbatim>\<open>packages/engine/src/model/decisionEvent.ts\<close>: the log of decisions, capped at 200 events. The
  locale \<open>capped_log\<close> is the contract of every bounded history of the program: adding an entry keeps
  the newest entries and forgets the oldest.
\<close>

section \<open>Bounded histories\<close>

locale capped_log =
  fixes add :: "'l \<Rightarrow> 'e \<Rightarrow> 'l"
    and entries :: "'l \<Rightarrow> 'e list"
    and cap :: nat
  assumes cap_pos: "0 < cap"
    and entries_add: "entries (add l e) = slice_last cap (entries l @ [e])"
begin

lemma slice_last_twice: "slice_last cap (slice_last cap xs @ ys) = slice_last cap (xs @ ys)"
  by (cases "length xs \<le> cap") (simp_all add: slice_last_def add.commute)

text \<open>A bounded history refines the unbounded one: it is the tail of everything ever added.\<close>

lemma entries_fold:
  assumes "length (entries l) \<le> cap"
  shows "entries (foldl add l es) = slice_last cap (entries l @ es)"
proof (induction es rule: rev_induct)
  case Nil
  then show ?case using assms by simp
next
  case (snoc e es)
  then show ?case using slice_last_twice [of "entries l @ es" "[e]"] by (simp add: entries_add)
qed

lemma length_add: "length (entries (add l e)) \<le> cap"
  by (simp add: entries_add)

lemma last_add: "last (entries (add l e)) = e"
  using cap_pos by (simp add: entries_add)

end

section \<open>Events\<close>

datatype loadSource = FromPreset | FromImport | FromCsv | FromBridge | FromReplay
datatype exportFormat = AsJson | AsMarkdown
datatype bridgeId = ChipMapBridge | SupplierRiskBridge

text \<open>A changed parameter carries its values as data no code inspects.\<close>

datatype ('v, 'p) decisionEvent =
    ScenarioLoaded (at_time: string) string loadSource
  | ParameterChanged (at_time: string) string 'v 'v
  | ViewSwitched (at_time: string) string string
  | AlgorithmCompared (at_time: string) "mechanismId list"
  | TransferComputed (at_time: string) string "'p jsnum"
  | ExportIssued (at_time: string) exportFormat string
  | ReplayLoaded (at_time: string) string bool
  | BridgeFetched (at_time: string) bridgeId bool
  | CsvImportedEvent (at_time: string) "'p jsnum" "'p jsnum"

fun event_kind :: "('v, 'p) decisionEvent \<Rightarrow> string" where
  "event_kind (ScenarioLoaded _ _ _) = ''scenario.loaded''"
| "event_kind (ParameterChanged _ _ _ _) = ''scenario.parameter-changed''"
| "event_kind (ViewSwitched _ _ _) = ''view.switched''"
| "event_kind (AlgorithmCompared _ _) = ''algorithm.compared''"
| "event_kind (TransferComputed _ _ _) = ''transfer.computed''"
| "event_kind (ExportIssued _ _ _) = ''export.issued''"
| "event_kind (ReplayLoaded _ _ _) = ''replay.loaded''"
| "event_kind (BridgeFetched _ _ _) = ''bridge.fetched''"
| "event_kind (CsvImportedEvent _ _ _) = ''csv.imported''"

record ('v, 'p) decisionEventLog =
  log_events :: "('v, 'p) decisionEvent list"

definition MAX_EVENTS :: nat where
  "MAX_EVENTS = 200"

definition createLog :: "('v, 'p) decisionEventLog" where
  "createLog = \<lparr>log_events = []\<rparr>"

text \<open>\<^verbatim>\<open>events.splice(0, n)\<close> removes the first \<open>n\<close> elements.\<close>

definition appendEvent :: "('v, 'p) decisionEventLog \<Rightarrow> ('v, 'p) decisionEvent \<Rightarrow> ('v, 'p) decisionEventLog" where
  "appendEvent lg event =
     (let events = log_events lg @ [event]
      in \<lparr>log_events = (if MAX_EVENTS < length events then drop (length events - MAX_EVENTS) events else events)\<rparr>)"

definition eventKindCounts :: "('v, 'p) decisionEventLog \<Rightarrow> (string \<times> nat) list" where
  "eventKindCounts lg =
     foldl (\<lambda>counts event. aput (event_kind event) (nullish (map_of counts (event_kind event)) 0 + 1) counts)
       [] (log_events lg)"

section \<open>Laws\<close>

interpretation decision_log: capped_log appendEvent log_events MAX_EVENTS
  by unfold_locales (auto simp: MAX_EVENTS_def appendEvent_def Let_def slice_last_def)

text \<open>C11: However many decisions are appended, the log is exactly the newest 200 of them in their
  order: the bounded log refines the unbounded history.\<close>

theorem log_is_recent_history:
  "log_events (foldl appendEvent createLog events) = slice_last 200 events"
  using decision_log.entries_fold [of createLog events] by (simp add: createLog_def MAX_EVENTS_def)

lemma kind_count_fold:
  "nullish (map_of (foldl (\<lambda>counts event. aput (event_kind event)
       (nullish (map_of counts (event_kind event)) 0 + 1) counts) acc events) k) 0
   = nullish (map_of acc k) 0 + length (filter (\<lambda>e. event_kind e = k) events)"
  by (induction events arbitrary: acc) auto

text \<open>The counts by kind are the numbers of events of that kind in the log; a kind that does not
  occur has no entry or zero.\<close>

lemma kind_counts_correct:
  "nullish (map_of (eventKindCounts lg) k) 0 = length (filter (\<lambda>e. event_kind e = k) (log_events lg))"
  using kind_count_fold [of "[]" "log_events lg" k] by (simp add: eventKindCounts_def)

end
