(* ===== verification/Base64.thy ===== *)
theory Base64
  imports Prelude
begin

text \<open>
  The URL-safe base64 of \<^verbatim>\<open>negotiationSession.ts\<close> and \<^verbatim>\<open>negotiationContract.ts\<close>
  (\<^verbatim>\<open>packages/engine/src/learn\<close>), on the path with \<^verbatim>\<open>btoa\<close> and \<^verbatim>\<open>atob\<close>. A text
  is the list of the bytes of its UTF-8 encoding, so \<^verbatim>\<open>TextEncoder\<close> and, on well-formed
  bytes, \<^verbatim>\<open>TextDecoder\<close> do nothing.
\<close>

section \<open>Bytes and sextets\<close>

fun sextets :: "nat list \<Rightarrow> nat list" where
  "sextets [] = []"
| "sextets [a] = [a div 4, (a mod 4) * 16]"
| "sextets [a, b] = [a div 4, (a mod 4) * 16 + b div 16, (b mod 16) * 4]"
| "sextets (a # b # c # r) =
     a div 4 # ((a mod 4) * 16 + b div 16) # ((b mod 16) * 4 + c div 64) # (c mod 64) # sextets r"

text \<open>A single left-over sextet carries no byte; \<^verbatim>\<open>atob\<close> refuses such inputs before.\<close>

fun bytes_of :: "nat list \<Rightarrow> nat list" where
  "bytes_of [] = []"
| "bytes_of [a] = []"
| "bytes_of [a, b] = [a * 4 + b div 16]"
| "bytes_of [a, b, c] = [a * 4 + b div 16, (b mod 16) * 16 + c div 4]"
| "bytes_of (a # b # c # d # r) =
     (a * 4 + b div 16) # ((b mod 16) * 16 + c div 4) # ((c mod 4) * 64 + d) # bytes_of r"

lemma sextets_small: "\<forall>x \<in> set bs. x < 256 \<Longrightarrow> \<forall>x \<in> set (sextets bs). x < 64"
  by (induction bs rule: sextets.induct) auto

lemma bytes_of_sextets: "\<forall>x \<in> set bs. x < 256 \<Longrightarrow> bytes_of (sextets bs) = bs"
  by (induction bs rule: sextets.induct) auto

lemma length_sextets_mod: "length (sextets bs) mod 4 \<noteq> 1"
  by (induction bs rule: sextets.induct) auto

section \<open>The alphabet\<close>

definition B64_ALPHABET :: string where
  "B64_ALPHABET = ''ABCDEFGHIJKLMNOPQRSTUVWXYZabcdefghijklmnopqrstuvwxyz0123456789+/''"

definition b64_char :: "nat \<Rightarrow> char" where
  "b64_char n = B64_ALPHABET ! n"

fun index_of :: "'a \<Rightarrow> 'a list \<Rightarrow> nat option" where
  "index_of x [] = None"
| "index_of x (y # ys) = (if x = y then Some 0 else map_option Suc (index_of x ys))"

definition b64_value :: "char \<Rightarrow> nat option" where
  "b64_value c = index_of c B64_ALPHABET"

lemma index_of_nth: "distinct xs \<Longrightarrow> n < length xs \<Longrightarrow> index_of (xs ! n) xs = Some n"
proof (induction xs arbitrary: n)
  case (Cons x xs)
  then show ?case by (cases n) auto
qed simp

lemma length_alphabet [simp]: "length B64_ALPHABET = 64"
  by (simp add: B64_ALPHABET_def)

lemma distinct_alphabet: "distinct B64_ALPHABET"
  by (simp add: B64_ALPHABET_def)

lemma b64_value_char [simp]: "n < 64 \<Longrightarrow> b64_value (b64_char n) = Some n"
  by (simp add: b64_value_def b64_char_def index_of_nth distinct_alphabet)

lemma b64_char_in: "n < 64 \<Longrightarrow> b64_char n \<in> set B64_ALPHABET"
  by (simp add: b64_char_def)

section \<open>The functions of the host\<close>

definition bytes :: "string \<Rightarrow> nat list" where
  "bytes s = map of_char s"

definition btoa :: "string \<Rightarrow> string" where
  "btoa s = map b64_char (sextets (bytes s)) @ replicate ((3 - length s mod 3) mod 3) CHR ''=''"

definition strip_end :: "'a \<Rightarrow> 'a list \<Rightarrow> 'a list" where
  "strip_end c s = rev (dropWhile (\<lambda>x. x = c) (rev s))"

definition ascii_space :: "char \<Rightarrow> bool" where
  "ascii_space c = (c \<in> set [CHR 0x09, CHR 0x0A, CHR 0x0C, CHR 0x0D, CHR 0x20])"

text \<open>\<^verbatim>\<open>atob\<close>: without white space, at most two trailing \<^verbatim>\<open>=\<close> of a text of full length are
  dropped; \<open>None\<close> is the exception.\<close>

definition drop_padding :: "string \<Rightarrow> string" where
  "drop_padding s =
     (if length s mod 4 = 0 \<and> s \<noteq> [] \<and> last s = CHR ''='' then
        (let s = butlast s in if s \<noteq> [] \<and> last s = CHR ''='' then butlast s else s)
      else s)"

definition atob :: "string \<Rightarrow> string option" where
  "atob input =
     (let s = drop_padding (filter (\<lambda>c. \<not> ascii_space c) input)
      in if length s mod 4 = 1 \<or> \<not> list_all (\<lambda>c. b64_value c \<noteq> None) s then None
         else Some (map char_of (bytes_of (map (\<lambda>c. the (b64_value c)) s))))"

section \<open>URL-safe texts\<close>

definition replace_char :: "char \<Rightarrow> char \<Rightarrow> string \<Rightarrow> string" where
  "replace_char a b s = map (\<lambda>c. if c = a then b else c) s"

definition base64UrlEncode :: "string \<Rightarrow> string" where
  "base64UrlEncode input =
     strip_end CHR ''='' (replace_char CHR ''/'' CHR ''_'' (replace_char CHR ''+'' CHR ''-'' (btoa input)))"

definition base64UrlDecode :: "string \<Rightarrow> string option" where
  "base64UrlDecode input =
     (let padded = replace_char CHR ''_'' CHR ''/'' (replace_char CHR ''-'' CHR ''+'' input);
          padding = (if length padded mod 4 = 0 then [] else replicate (4 - length padded mod 4) CHR ''='')
      in atob (padded @ padding))"

section \<open>The round trip\<close>

definition url_char :: "char \<Rightarrow> char" where
  "url_char c = (if c = CHR ''+'' then CHR ''-'' else if c = CHR ''/'' then CHR ''_'' else c)"

lemma dropWhile_replicate: "dropWhile (\<lambda>x. x = c) (replicate n c @ t) = dropWhile (\<lambda>x. x = c) t"
  by (induction n) auto

lemma strip_end_append: "c \<notin> set s \<Longrightarrow> strip_end c (s @ replicate n c) = s"
proof -
  assume c: "c \<notin> set s"
  have "dropWhile (\<lambda>x. x = c) (rev s) = rev s"
    using c by (subst dropWhile_eq_self_iff) (metis hd_in_set set_rev)
  then show ?thesis by (simp add: strip_end_def dropWhile_replicate)
qed

lemma alphabet_facts:
  assumes "c \<in> set B64_ALPHABET"
  shows "c \<noteq> CHR ''=''" "c \<noteq> CHR ''-''" "c \<noteq> CHR ''_''" "\<not> ascii_space c" "url_char c \<noteq> CHR ''=''"
    "(if (if url_char c = CHR ''-'' then CHR ''+'' else url_char c) = CHR ''_'' then CHR ''/''
      else (if url_char c = CHR ''-'' then CHR ''+'' else url_char c)) = c"
  using assms by (auto simp: B64_ALPHABET_def ascii_space_def url_char_def)

lemma bytes_small: "\<forall>x \<in> set (bytes s). x < 256"
  by (auto simp: bytes_def)

lemma char_of_bytes [simp]: "map char_of (bytes s) = s"
  by (simp add: bytes_def comp_def)

definition b64_text :: "string \<Rightarrow> string" where
  "b64_text s = map b64_char (sextets (bytes s))"

lemma b64_text_alphabet: "c \<in> set (b64_text s) \<Longrightarrow> c \<in> set B64_ALPHABET"
  using sextets_small [OF bytes_small, of s] by (auto simp: b64_text_def b64_char_in)

lemma base64UrlEncode_eq: "base64UrlEncode s = map url_char (b64_text s)"
proof -
  have "replace_char CHR ''/'' CHR ''_'' (replace_char CHR ''+'' CHR ''-'' (btoa s))
      = map url_char (b64_text s) @ replicate ((3 - length s mod 3) mod 3) CHR ''=''"
    by (simp add: btoa_def b64_text_def replace_char_def url_char_def)
  moreover have "CHR ''='' \<notin> set (map url_char (b64_text s))"
    using alphabet_facts(5) b64_text_alphabet by force
  ultimately show ?thesis unfolding base64UrlEncode_def by (simp only: strip_end_append not_False_eq_True)
qed

lemma drop_padding_id: "CHR ''='' \<notin> set s \<Longrightarrow> drop_padding s = s"
  unfolding drop_padding_def by (metis last_in_set)

lemma drop_padding_one:
  assumes "CHR ''='' \<notin> set s" "length s mod 4 = 3" shows "drop_padding (s @ [CHR ''='']) = s"
proof -
  have "s \<noteq> [] \<longrightarrow> last s \<noteq> CHR ''=''" using assms(1) last_in_set by metis
  moreover have "length (s @ [CHR ''='']) mod 4 = 0" using assms(2) mod_Suc [of "length s" 4] by simp
  ultimately show ?thesis unfolding drop_padding_def by (auto simp: Let_def)
qed

lemma drop_padding_two:
  assumes "length s mod 4 = 2" shows "drop_padding (s @ [CHR ''='', CHR ''='']) = s"
proof -
  have "length (s @ [CHR ''='', CHR ''='']) mod 4 = 0"
    using assms mod_Suc [of "length s" 4] mod_Suc [of "Suc (length s)" 4] by simp
  then show ?thesis unfolding drop_padding_def by (simp add: butlast_append)
qed

lemma base64Url_lemma:
  "base64UrlDecode (base64UrlEncode s) = Some s
   \<and> set (base64UrlEncode s) \<subseteq> set ''ABCDEFGHIJKLMNOPQRSTUVWXYZabcdefghijklmnopqrstuvwxyz0123456789-_''"
proof
  let ?t = "b64_text s"
  have unsafe: "replace_char CHR ''_'' CHR ''/'' (replace_char CHR ''-'' CHR ''+'' (map url_char ?t)) = ?t"
    unfolding replace_char_def list.map_comp comp_def
    by (rule map_idI) (rule alphabet_facts(6), rule b64_text_alphabet)
  have no_eq: "CHR ''='' \<notin> set ?t" using alphabet_facts(1) b64_text_alphabet by blast
  have len: "length ?t mod 4 \<noteq> 1" using length_sextets_mod by (simp add: b64_text_def)
  have pad: "drop_padding (filter (\<lambda>c. \<not> ascii_space c)
      (?t @ (if length ?t mod 4 = 0 then [] else replicate (4 - length ?t mod 4) CHR ''=''))) = ?t"
  proof -
    have f: "filter (\<lambda>c. \<not> ascii_space c) ?t = ?t"
      using alphabet_facts(4) b64_text_alphabet by (auto simp: filter_id_conv)
    have sp: "\<not> ascii_space CHR ''=''" by (simp add: ascii_space_def)
    have "length ?t mod 4 = 0 \<or> length ?t mod 4 = 2 \<or> length ?t mod 4 = 3" using len by linarith
    then show ?thesis
    proof (elim disjE)
      assume "length ?t mod 4 = 2"
      then show ?thesis using drop_padding_two by (simp add: f sp numeral_2_eq_2)
    qed (simp_all add: f sp drop_padding_id no_eq drop_padding_one)
  qed
  have vals: "map (\<lambda>c. the (b64_value c)) ?t = sextets (bytes s)"
    using sextets_small [OF bytes_small, of s] by (auto simp: b64_text_def intro!: map_idI)
  have ok: "list_all (\<lambda>c. b64_value c \<noteq> None) ?t"
    using sextets_small [OF bytes_small, of s] by (auto simp: b64_text_def list_all_iff)
  show "base64UrlDecode (base64UrlEncode s) = Some s"
    using len ok
    by (simp only: base64UrlDecode_def base64UrlEncode_eq Let_def unsafe atob_def pad vals
        bytes_of_sextets [OF bytes_small] char_of_bytes simp_thms if_False)
  show "set (base64UrlEncode s) \<subseteq> set ''ABCDEFGHIJKLMNOPQRSTUVWXYZabcdefghijklmnopqrstuvwxyz0123456789-_''"
  proof
    fix c assume "c \<in> set (base64UrlEncode s)"
    then obtain d where d: "d \<in> set ?t" "c = url_char d" by (auto simp: base64UrlEncode_eq)
    then show "c \<in> set ''ABCDEFGHIJKLMNOPQRSTUVWXYZabcdefghijklmnopqrstuvwxyz0123456789-_''"
      using b64_text_alphabet [OF d(1)] by (auto simp: B64_ALPHABET_def url_char_def)
  qed
qed

lemmas base64Url_roundtrip_eq [simp] = base64Url_lemma [THEN conjunct1]

text \<open>A text survives the URL: decoding what the encoder gives returns the text, whatever bytes it
  holds, and the encoded text has only letters, digits, hyphens and underscores.\<close>

theorem base64Url_roundtrip:
  "base64UrlDecode (base64UrlEncode s) = Some s
   \<and> set (base64UrlEncode s) \<subseteq> set ''ABCDEFGHIJKLMNOPQRSTUVWXYZabcdefghijklmnopqrstuvwxyz0123456789-_''"
  by (rule base64Url_lemma)

end
