(* ===== verification/LinkCodec.thy ===== *)
theory LinkCodec
  imports Prelude
begin

text \<open>The interface of the links that carry a state from one page to another.\<close>

text \<open>What the pages ask of a link: decoding what was encoded gives the normal form of the state, which
  is written as the same link. So the normal form is idempotent, two states have the same link exactly when
  they have the same normal form, and passing a link on through any number of readers leaves it alone.\<close>

locale link_codec =
  fixes encode :: "'a \<Rightarrow> string" and decode :: "string \<Rightarrow> 'a option"
    and norm :: "'a \<Rightarrow> 'a" and ok :: "'a \<Rightarrow> bool"
  assumes decode_encode: "ok x \<Longrightarrow> decode (encode x) = Some (norm x)"
    and encode_norm: "encode (norm x) = encode x"
    and ok_norm: "ok x \<Longrightarrow> ok (norm x)"
begin

lemma norm_idem: "ok x \<Longrightarrow> norm (norm x) = norm x"
  using decode_encode [of x] decode_encode [OF ok_norm] by (simp add: encode_norm)

lemma encode_eq_iff: "ok x \<Longrightarrow> ok y \<Longrightarrow> encode x = encode y \<longleftrightarrow> norm x = norm y"
  by (metis decode_encode encode_norm option.inject)

lemma passed_on: "ok x \<Longrightarrow> ((\<lambda>l. case decode l of None \<Rightarrow> l | Some y \<Rightarrow> encode y) ^^ n) (encode x) = encode x"
  by (induction n) (simp_all add: decode_encode encode_norm)

end

end
