(* ===== verification/NegotiationSession.thy ===== *)
theory NegotiationSession
  imports Base64 DecisionLog LinkCodec
begin

text \<open>
  \<^verbatim>\<open>packages/engine/src/learn/negotiationSession.ts\<close>: the state of a two-party negotiation and
  its form in a link. \<^verbatim>\<open>JSON.stringify\<close> and \<^verbatim>\<open>JSON.parse\<close> are arguments that map between
  JSON values and texts; what a value must look like is checked here as the code checks it.
\<close>

section \<open>JSON values\<close>

datatype 'p json =
    JNull | JBool bool | JNum "'p jsnum" | JStr string | JArr "'p json list" | JObj "(string \<times> 'p json) list"

text \<open>\<^verbatim>\<open>v.k\<close>: only objects have the fields the code reads; \<open>None\<close> is \<^verbatim>\<open>undefined\<close>.\<close>

fun field :: "'p json \<Rightarrow> string \<Rightarrow> 'p json option" where
  "field (JObj kvs) k = map_of kvs k"
| "field _ k = None"

text \<open>\<^verbatim>\<open>typeof v === "object" && v !== null\<close>.\<close>

fun is_object :: "'p json \<Rightarrow> bool" where
  "is_object (JObj _) = True"
| "is_object (JArr _) = True"
| "is_object _ = False"

section \<open>States\<close>

definition SESSION_VERSION :: "('p::len0) jsnum" where
  "SESSION_VERSION = 1"

record 'p offer =
  of_q :: "'p jsnum"
  of_unitPrice :: "'p jsnum"
  of_note :: string

record 'p roundRecord =
  rd_role :: party
  rd_offer :: "'p offer"
  rd_at :: string

record 'p negotiationState =
  sessionId :: string
  history :: "'p roundRecord list"
  buyerAccepted :: bool
  supplierAccepted :: bool

definition newSession :: "string \<Rightarrow> 'p negotiationState" where
  "newSession random_id =
     \<lparr>sessionId = random_id, history = [], buyerAccepted = False, supplierAccepted = False\<rparr>"

definition MAX_HISTORY :: nat where
  "MAX_HISTORY = 24"

fun role_name :: "party \<Rightarrow> string" where
  "role_name BuyerParty = ''buyer''"
| "role_name SupplierParty = ''supplier''"

section \<open>Encoding\<close>

definition offer_json :: "'p offer \<Rightarrow> 'p json" where
  "offer_json x = JObj [(''q'', JNum (of_q x)), (''unitPrice'', JNum (of_unitPrice x)), (''note'', JStr (of_note x))]"

definition round_json :: "'p roundRecord \<Rightarrow> 'p json" where
  "round_json r = JObj [(''role'', JStr (role_name (rd_role r))), (''offer'', offer_json (rd_offer r)), (''at'', JStr (rd_at r))]"

definition session_json :: "('p::len0) negotiationState \<Rightarrow> 'p json" where
  "session_json st = JObj [(''v'', JNum SESSION_VERSION), (''sessionId'', JStr (sessionId st)),
     (''history'', JArr (map round_json (history st))), (''buyerAccepted'', JBool (buyerAccepted st)),
     (''supplierAccepted'', JBool (supplierAccepted st))]"

definition compact_session :: "'p negotiationState \<Rightarrow> 'p negotiationState" where
  "compact_session st = st\<lparr>history := slice_last 12 (history st)\<rparr>"

definition encodeSession :: "('p json \<Rightarrow> string) \<Rightarrow> ('p::len0) negotiationState \<Rightarrow> string" where
  "encodeSession stringify st = base64UrlEncode (stringify (session_json (compact_session st)))"

section \<open>Decoding\<close>

text \<open>\<^verbatim>\<open>isOffer\<close> and \<^verbatim>\<open>isRoundRecord\<close>, returning what they accept.\<close>

definition read_offer :: "'p json \<Rightarrow> 'p offer option" where
  "read_offer v =
     (case (field v ''q'', field v ''unitPrice'', field v ''note'') of
        (Some (JNum q), Some (JNum p), Some (JStr n)) \<Rightarrow>
          if is_fin q \<and> is_fin p then Some \<lparr>of_q = q, of_unitPrice = p, of_note = n\<rparr> else None
      | _ \<Rightarrow> None)"

definition read_role :: "'p json \<Rightarrow> party option" where
  "read_role v = (if v = JStr ''buyer'' then Some BuyerParty else if v = JStr ''supplier'' then Some SupplierParty else None)"

definition read_round :: "'p json \<Rightarrow> 'p roundRecord option" where
  "read_round v =
     (case (field v ''role'', field v ''offer'', field v ''at'') of
        (Some r, Some x, Some (JStr t)) \<Rightarrow>
          (case (read_role r, read_offer x) of
             (Some r, Some x) \<Rightarrow> Some \<lparr>rd_role = r, rd_offer = x, rd_at = t\<rparr> | _ \<Rightarrow> None)
      | _ \<Rightarrow> None)"

fun read_all :: "('a \<Rightarrow> 'b option) \<Rightarrow> 'a list \<Rightarrow> 'b list option" where
  "read_all f [] = Some []"
| "read_all f (x # xs) =
     (case f x of None \<Rightarrow> None | Some y \<Rightarrow> (case read_all f xs of None \<Rightarrow> None | Some ys \<Rightarrow> Some (y # ys)))"

definition read_session :: "('p::len0) json \<Rightarrow> 'p negotiationState option" where
  "read_session v =
     (if \<not> is_object v \<or> field v ''v'' \<noteq> Some (JNum SESSION_VERSION) then None
      else case (field v ''sessionId'', field v ''history'', field v ''buyerAccepted'', field v ''supplierAccepted'') of
        (Some (JStr i), Some (JArr hs), Some (JBool b), Some (JBool s)) \<Rightarrow>
          if MAX_HISTORY < length hs then None
          else map_option (\<lambda>rs. \<lparr>sessionId = i, history = slice_last MAX_HISTORY rs, buyerAccepted = b, supplierAccepted = s\<rparr>)
                 (read_all read_round hs)
      | _ \<Rightarrow> None)"

definition decodeSession :: "(string \<Rightarrow> 'p json option) \<Rightarrow> string \<Rightarrow> ('p::len0) negotiationState option" where
  "decodeSession parse encoded =
     (case base64UrlDecode encoded of None \<Rightarrow> None
      | Some txt \<Rightarrow> (case parse txt of None \<Rightarrow> None | Some v \<Rightarrow> read_session v))"

section \<open>Moves\<close>

definition appendRound :: "'p negotiationState \<Rightarrow> 'p roundRecord \<Rightarrow> 'p negotiationState" where
  "appendRound st r =
     st\<lparr>history := slice_last MAX_HISTORY (history st @ [r]), buyerAccepted := False, supplierAccepted := False\<rparr>"

definition applyAccept :: "'p negotiationState \<Rightarrow> party \<Rightarrow> 'p negotiationState" where
  "applyAccept st who = (if who = BuyerParty then st\<lparr>buyerAccepted := True\<rparr> else st\<lparr>supplierAccepted := True\<rparr>)"

definition isDealClosed :: "'p negotiationState \<Rightarrow> bool" where
  "isDealClosed st = (buyerAccepted st \<and> supplierAccepted st)"

definition latest_offer :: "'p roundRecord list \<Rightarrow> party \<Rightarrow> 'p offer option" where
  "latest_offer rs who = map_option rd_offer (find_last (\<lambda>r. rd_role r = who) rs)"

definition latestOfferFor :: "'p negotiationState \<Rightarrow> party \<Rightarrow> 'p offer option" where
  "latestOfferFor st who = latest_offer (history st) who"

section \<open>Laws\<close>

interpretation session_history: capped_log appendRound history MAX_HISTORY
  by unfold_locales (simp_all add: MAX_HISTORY_def appendRound_def)

definition finite_offer :: "'p roundRecord \<Rightarrow> bool" where
  "finite_offer r = (is_fin (of_q (rd_offer r)) \<and> is_fin (of_unitPrice (rd_offer r)))"

lemma read_offer_json [simp]:
  "is_fin (of_q x) \<Longrightarrow> is_fin (of_unitPrice x) \<Longrightarrow> read_offer (offer_json x) = Some x"
  by (simp add: read_offer_def offer_json_def)

lemma read_round_json [simp]: "finite_offer r \<Longrightarrow> read_round (round_json r) = Some r"
  by (cases "rd_role r") (simp_all add: read_round_def round_json_def read_role_def finite_offer_def)

lemma read_all_map: "(\<And>x. x \<in> set xs \<Longrightarrow> f (g x) = Some x) \<Longrightarrow> read_all f (map g xs) = Some xs"
  by (induction xs) auto

lemma read_rounds: "list_all finite_offer rs \<Longrightarrow> read_all read_round (map round_json rs) = Some rs"
  by (rule read_all_map) (simp add: list_all_iff)

lemma list_all_slice_last: "list_all P xs \<Longrightarrow> list_all P (slice_last n xs)"
  using set_slice_last [of n xs] by (auto simp: list_all_iff)

text \<open>A session survives its link: if the host reads back the one JSON value that is written and
  the offers are finite, decoding the encoded session gives the session with its last 12 rounds. So a
  link forgets every round before those, though 24 are kept in a tab.\<close>

definition session_ok :: "('p json \<Rightarrow> string) \<Rightarrow> (string \<Rightarrow> 'p json option) \<Rightarrow> ('p::len0) negotiationState \<Rightarrow> bool" where
  "session_ok stringify parse st =
     (parse (stringify (session_json (compact_session st))) = Some (session_json (compact_session st))
      \<and> list_all finite_offer (history st))"

lemma compact_idem [simp]: "compact_session (compact_session st) = compact_session st"
  by (simp add: compact_session_def)

lemma session_roundtrip:
  assumes "session_ok stringify parse st"
  shows "decodeSession parse (encodeSession stringify st) = Some (compact_session st)"
proof -
  have r: "read_all read_round (map round_json (slice_last 12 (history st))) = Some (slice_last 12 (history st))"
    using assms by (intro read_rounds list_all_slice_last) (simp add: session_ok_def)
  show ?thesis
    using assms base64Url_roundtrip_eq
    by (simp add: session_ok_def decodeSession_def encodeSession_def)
       (simp add: read_session_def session_json_def compact_session_def MAX_HISTORY_def r)
qed

lemma session_ok_compact: "session_ok stringify parse st \<Longrightarrow> session_ok stringify parse (compact_session st)"
  by (simp add: session_ok_def) (simp add: compact_session_def list_all_slice_last)

interpretation session_link: link_codec "encodeSession stringify" "decodeSession parse" compact_session
    "session_ok stringify parse"
  by (unfold_locales, erule session_roundtrip, simp add: encodeSession_def, erule session_ok_compact)

definition demo_round :: "0 roundRecord" where
  "demo_round = \<lparr>rd_role = BuyerParty, rd_offer = \<lparr>of_q = Fin 400, of_unitPrice = Fin 85, of_note = ''hi''\<rparr>, rd_at = ''t''\<rparr>"

end
