(* ===== verification/NegotiationContract.thy ===== *)
theory NegotiationContract
  imports NegotiationSession WeightedNash
begin

text \<open>
  \<^verbatim>\<open>packages/engine/src/learn/negotiationContract.ts\<close>: the state of the negotiation surface, its
  link, and the engine run that turns the two latest offers into a scenario of the weighted Nash
  solver and back into a proposed offer. The response of the engine is a type parameter of the state:
  a decoded state carries whatever JSON value the link held for it.
\<close>

section \<open>State\<close>

definition NEGOTIATION_CONTRACT_VERSION :: "('p::len0) jsnum" where
  "NEGOTIATION_CONTRACT_VERSION = lit 2"

definition NEGOTIATION_URL_PARAM :: string where "NEGOTIATION_URL_PARAM = ''neg''"
definition LEGACY_NEGOTIATION_URL_PARAM :: string where "LEGACY_NEGOTIATION_URL_PARAM = ''n''"

record functionalMechanism =
  fm_id :: string
  fm_label :: string
  fm_privacyMode :: nashInformationMode
  fm_description :: string

definition FUNCTIONAL_NEGOTIATION_MECHANISMS :: "functionalMechanism list" where
  "FUNCTIONAL_NEGOTIATION_MECHANISMS =
     [\<lparr>fm_id = ''weighted_nash_bounded'', fm_label = ''Weighted-Nash transcript exposure'', fm_privacyMode = NashPrivate,
       fm_description = ''Runs the disclosure-limiting weighted-Nash protocol with transcript exposure accounting.''\<rparr>,
      \<lparr>fm_id = ''weighted_nash_plaintext'', fm_label = ''Weighted-Nash plaintext'', fm_privacyMode = NashFullOracle,
       fm_description = ''Runs the full-preference weighted-Nash reference solver.''\<rparr>]"

record ('p, 'r) surfaceState =
  sf_sessionId :: string
  mechanismId :: string
  privacyMode :: nashInformationMode
  sf_history :: "'p roundRecord list"
  sf_buyerAccepted :: bool
  sf_supplierAccepted :: bool
  engineResponse :: "'r option"

definition isFunctionalMechanism :: "string \<Rightarrow> bool" where
  "isFunctionalMechanism v = (\<exists>m \<in> set FUNCTIONAL_NEGOTIATION_MECHANISMS. fm_id m = v)"

definition privacyModeForMechanism :: "string \<Rightarrow> nashInformationMode" where
  "privacyModeForMechanism i = (if i = ''weighted_nash_plaintext'' then NashFullOracle else NashPrivate)"

definition normalizeSurfaceState :: "('p, 'r) surfaceState \<Rightarrow> ('p, 'r) surfaceState" where
  "normalizeSurfaceState st =
     (let i = (if isFunctionalMechanism (mechanismId st) then mechanismId st else ''weighted_nash_bounded'')
      in st\<lparr>mechanismId := i, privacyMode := privacyModeForMechanism i,
            sf_history := slice_last MAX_HISTORY (sf_history st)\<rparr>)"

text \<open>\<^verbatim>\<open>newSurfaceState(overrides)\<close>: \<open>f\<close> overwrites fields of the fresh state.\<close>

definition newSurfaceState :: "string \<Rightarrow> (('p, 'r) surfaceState \<Rightarrow> ('p, 'r) surfaceState) \<Rightarrow> ('p, 'r) surfaceState" where
  "newSurfaceState random_id f =
     normalizeSurfaceState (f \<lparr>sf_sessionId = random_id, mechanismId = ''weighted_nash_bounded'', privacyMode = NashPrivate,
       sf_history = [], sf_buyerAccepted = False, sf_supplierAccepted = False, engineResponse = None\<rparr>)"

section \<open>Links\<close>

definition compactSurfaceState :: "('p, 'r) surfaceState \<Rightarrow> ('p, 'r) surfaceState" where
  "compactSurfaceState st = st\<lparr>sf_history := slice_last MAX_HISTORY (sf_history st)\<rparr>"

fun mode_name :: "nashInformationMode \<Rightarrow> string" where
  "mode_name NashPrivate = ''private''"
| "mode_name NashRiskOnly = ''risk_only''"
| "mode_name NashCapacityBand = ''capacity_band''"
| "mode_name NashCostBand = ''cost_band''"
| "mode_name NashForecastBand = ''forecast_band''"
| "mode_name NashFullOracle = ''full_oracle''"

definition surface_json :: "('r \<Rightarrow> 'p json) \<Rightarrow> ('p::len0, 'r) surfaceState \<Rightarrow> 'p json" where
  "surface_json response_json st =
     JObj [(''v'', JNum NEGOTIATION_CONTRACT_VERSION), (''sessionId'', JStr (sf_sessionId st)),
       (''mechanismId'', JStr (mechanismId st)), (''privacyMode'', JStr (mode_name (privacyMode st))),
       (''history'', JArr (map round_json (sf_history st))), (''buyerAccepted'', JBool (sf_buyerAccepted st)),
       (''supplierAccepted'', JBool (sf_supplierAccepted st)),
       (''engineResponse'', (case engineResponse st of None \<Rightarrow> JNull | Some r \<Rightarrow> response_json r))]"

definition encodeSurfaceState ::
    "('p json \<Rightarrow> string) \<Rightarrow> ('r \<Rightarrow> 'p json) \<Rightarrow> ('p::len0, 'r) surfaceState \<Rightarrow> string" where
  "encodeSurfaceState stringify response_json st =
     base64UrlEncode (stringify (surface_json response_json (compactSurfaceState (normalizeSurfaceState st))))"

text \<open>\<^verbatim>\<open>validateSurfaceStateShape\<close>, with the state it lets through. The response is not looked at:
  \<^verbatim>\<open>null\<close> and \<^verbatim>\<open>undefined\<close> are \<open>None\<close>.\<close>

definition validateSurfaceStateShape :: "'p json \<Rightarrow> string + ('p, 'p json) surfaceState" where
  "validateSurfaceStateShape v =
     (case field v ''sessionId'' of
        Some (JStr i) \<Rightarrow>
          (case field v ''mechanismId'' of
             Some (JStr m) \<Rightarrow>
               if \<not> isFunctionalMechanism m then Inl ''unknown mechanism id''
               else (case field v ''history'' of
                 Some (JArr hs) \<Rightarrow>
                   if MAX_HISTORY < length hs then Inl ''history too large''
                   else (case read_all read_round hs of
                     None \<Rightarrow> Inl ''invalid round history''
                   | Some rs \<Rightarrow>
                       (case (field v ''buyerAccepted'', field v ''supplierAccepted'') of
                          (Some (JBool b), Some (JBool s)) \<Rightarrow> Inr
                            \<lparr>sf_sessionId = i, mechanismId = m, privacyMode = NashPrivate, sf_history = rs,
                             sf_buyerAccepted = b, sf_supplierAccepted = s,
                             engineResponse = (case field v ''engineResponse'' of
                               None \<Rightarrow> None | Some r \<Rightarrow> if r = JNull then None else Some r)\<rparr>
                        | _ \<Rightarrow> Inl ''acceptance fields missing''))
               | _ \<Rightarrow> Inl ''history missing'')
           | _ \<Rightarrow> Inl ''unknown mechanism id'')
      | _ \<Rightarrow> Inl ''sessionId missing'')"

definition decodeSurfaceState :: "(string \<Rightarrow> 'p json option) \<Rightarrow> string \<Rightarrow> string + ('p::len0, 'p json) surfaceState" where
  "decodeSurfaceState parse encoded =
     (case base64UrlDecode encoded of
        None \<Rightarrow> Inl ''invalid base64 or JSON payload''
      | Some txt \<Rightarrow>
          (case parse txt of
             None \<Rightarrow> Inl ''invalid base64 or JSON payload''
           | Some v \<Rightarrow>
               if \<not> is_object v then Inl ''decoded payload is not an object''
               else if field v ''v'' \<noteq> Some (JNum NEGOTIATION_CONTRACT_VERSION)
               then Inl ''unknown negotiation contract version''
               else ebind (validateSurfaceStateShape v) (\<lambda>st. Inr (normalizeSurfaceState st))))"

definition legacySessionToSurfaceState :: "'p negotiationState \<Rightarrow> string \<Rightarrow> ('p, 'r) surfaceState" where
  "legacySessionToSurfaceState legacy i =
     normalizeSurfaceState \<lparr>sf_sessionId = sessionId legacy, mechanismId = i, privacyMode = privacyModeForMechanism i,
       sf_history = history legacy, sf_buyerAccepted = buyerAccepted legacy,
       sf_supplierAccepted = supplierAccepted legacy, engineResponse = None\<rparr>"

definition decodeLegacySessionToSurfaceState ::
    "(string \<Rightarrow> 'p json option) \<Rightarrow> string \<Rightarrow> string + ('p::len0, 'r) surfaceState" where
  "decodeLegacySessionToSurfaceState parse encoded =
     (case decodeSession parse encoded of
        None \<Rightarrow> Inl ''invalid legacy negotiation session''
      | Some legacy \<Rightarrow> Inr (legacySessionToSurfaceState legacy ''weighted_nash_bounded''))"

text \<open>\<open>params\<close> are the parameters of the query; an empty one counts as absent. The flag says whether
  the state was translated.\<close>

definition decodeNegotiationFromURLSearch ::
    "(string \<Rightarrow> 'p json option) \<Rightarrow> (string \<Rightarrow> string option) \<Rightarrow> (string + ('p::len0, 'p json) surfaceState \<times> bool) option" where
  "decodeNegotiationFromURLSearch parse params =
     (let v2 = nullish (params NEGOTIATION_URL_PARAM) []; legacy = nullish (params LEGACY_NEGOTIATION_URL_PARAM) []
      in if v2 \<noteq> [] then Some (ebind (decodeSurfaceState parse v2) (\<lambda>st. Inr (st, False)))
         else if legacy \<noteq> [] then Some (ebind (decodeLegacySessionToSurfaceState parse legacy) (\<lambda>st. Inr (st, True)))
         else None)"

section \<open>Moves\<close>

definition withMechanism :: "('p, 'r) surfaceState \<Rightarrow> string \<Rightarrow> ('p, 'r) surfaceState" where
  "withMechanism st i =
     normalizeSurfaceState (st\<lparr>mechanismId := i, privacyMode := privacyModeForMechanism i, engineResponse := None\<rparr>)"

definition appendSurfaceRound :: "('p, 'r) surfaceState \<Rightarrow> 'p roundRecord \<Rightarrow> ('p, 'r) surfaceState" where
  "appendSurfaceRound st r =
     normalizeSurfaceState (st\<lparr>sf_history := slice_last MAX_HISTORY (sf_history st @ [r]),
       sf_buyerAccepted := False, sf_supplierAccepted := False, engineResponse := None\<rparr>)"

definition applySurfaceAccept :: "('p, 'r) surfaceState \<Rightarrow> party \<Rightarrow> ('p, 'r) surfaceState" where
  "applySurfaceAccept st who =
     normalizeSurfaceState (st\<lparr>sf_buyerAccepted := (if who = BuyerParty then True else sf_buyerAccepted st),
       sf_supplierAccepted := (if who = SupplierParty then True else sf_supplierAccepted st)\<rparr>)"

definition latestSurfaceOfferFor :: "('p, 'r) surfaceState \<Rightarrow> party \<Rightarrow> 'p offer option" where
  "latestSurfaceOfferFor st who = latest_offer (sf_history st) who"

section \<open>Laws of normalisation\<close>

lemma normalize_idem [simp]: "normalizeSurfaceState (normalizeSurfaceState st) = normalizeSurfaceState st"
  by (simp add: normalizeSurfaceState_def Let_def isFunctionalMechanism_def FUNCTIONAL_NEGOTIATION_MECHANISMS_def)

interpretation surface_history: capped_log appendSurfaceRound sf_history MAX_HISTORY
  by unfold_locales (simp_all add: MAX_HISTORY_def appendSurfaceRound_def normalizeSurfaceState_def Let_def)

definition normal :: "('p, 'r) surfaceState \<Rightarrow> bool" where
  "normal st = (normalizeSurfaceState st = st)"

lemma normal_iff:
  "normal st \<longleftrightarrow> isFunctionalMechanism (mechanismId st) \<and> privacyMode st = privacyModeForMechanism (mechanismId st)
     \<and> length (sf_history st) \<le> MAX_HISTORY"
proof
  assume n: "normal st"
  have f: "isFunctionalMechanism ''weighted_nash_bounded''"
    by (simp add: isFunctionalMechanism_def FUNCTIONAL_NEGOTIATION_MECHANISMS_def)
  have eq: "normalizeSurfaceState st = st" using n by (simp add: normal_def)
  have "mechanismId (normalizeSurfaceState st) = (if isFunctionalMechanism (mechanismId st) then mechanismId st else ''weighted_nash_bounded'')"
    "privacyMode (normalizeSurfaceState st) = privacyModeForMechanism (mechanismId (normalizeSurfaceState st))"
    "sf_history (normalizeSurfaceState st) = slice_last MAX_HISTORY (sf_history st)"
    by (simp_all add: normalizeSurfaceState_def Let_def)
  from this [unfolded eq] f length_slice_last [of MAX_HISTORY "sf_history st"]
  show "isFunctionalMechanism (mechanismId st) \<and> privacyMode st = privacyModeForMechanism (mechanismId st)
     \<and> length (sf_history st) \<le> MAX_HISTORY"
    by (metis min.cobounded1)
qed (simp add: normal_def normalizeSurfaceState_def Let_def)

lemma normal_normalize [simp]: "normal (normalizeSurfaceState st)"
  by (simp add: normal_def)

lemma normal_moves [simp]:
  "normal (withMechanism st i)" "normal (appendSurfaceRound st r)" "normal (applySurfaceAccept st who)"
  "normal (newSurfaceState rid f)" "normal (legacySessionToSurfaceState legacy i)"
  by (simp_all add: withMechanism_def appendSurfaceRound_def applySurfaceAccept_def newSurfaceState_def
      legacySessionToSurfaceState_def)

section \<open>The link of a surface state\<close>

lemma compact_normalize [simp]: "compactSurfaceState (normalizeSurfaceState st) = normalizeSurfaceState st"
  by (simp add: compactSurfaceState_def normalizeSurfaceState_def Let_def)

definition surface_ok ::
    "('p json \<Rightarrow> string) \<Rightarrow> (string \<Rightarrow> 'p json option) \<Rightarrow> ('p::len0, 'p json) surfaceState \<Rightarrow> bool" where
  "surface_ok stringify parse st =
     (parse (stringify (surface_json (\<lambda>r. r) (normalizeSurfaceState st)))
        = Some (surface_json (\<lambda>r. r) (normalizeSurfaceState st))
      \<and> list_all finite_offer (sf_history st) \<and> engineResponse st \<noteq> Some JNull)"

definition read_surface :: "(string \<Rightarrow> 'p json option) \<Rightarrow> string \<Rightarrow> ('p::len0, 'p json) surfaceState option" where
  "read_surface parse l = (case decodeSurfaceState parse l of Inl e \<Rightarrow> None | Inr st \<Rightarrow> Some st)"

lemma surface_ok_normalize:
  assumes "surface_ok stringify parse st"
  shows "surface_ok stringify parse (normalizeSurfaceState st)"
proof -
  have "list_all finite_offer (sf_history (normalizeSurfaceState st))"
    using list_all_slice_last [of finite_offer "sf_history st" MAX_HISTORY] assms
    by (simp add: surface_ok_def normalizeSurfaceState_def Let_def)
  moreover have "engineResponse (normalizeSurfaceState st) = engineResponse st"
    by (simp add: normalizeSurfaceState_def Let_def)
  ultimately show ?thesis using assms by (simp add: surface_ok_def)
qed

lemma validate_surface_json:
  assumes "surface_ok stringify parse st" "normal st"
  shows "validateSurfaceStateShape (surface_json (\<lambda>r. r) st) = Inr (st\<lparr>privacyMode := NashPrivate\<rparr>)"
  using assms read_rounds [of "sf_history st"]
  by (cases "engineResponse st") (auto simp: surface_ok_def normal_iff validateSurfaceStateShape_def surface_json_def)

lemma normalize_mode: "normalizeSurfaceState (st\<lparr>privacyMode := m\<rparr>) = normalizeSurfaceState st"
  by (simp add: normalizeSurfaceState_def Let_def)

lemma read_surface_encode:
  assumes "surface_ok stringify parse st"
  shows "read_surface parse (encodeSurfaceState stringify (\<lambda>r. r) st) = Some (normalizeSurfaceState st)"
  using validate_surface_json [OF surface_ok_normalize [OF assms]] assms normalize_mode [where st = "normalizeSurfaceState st"]
  by (simp add: read_surface_def decodeSurfaceState_def encodeSurfaceState_def surface_ok_def) (simp add: surface_json_def)

interpretation surface_link: link_codec "encodeSurfaceState stringify (\<lambda>r. r)" "read_surface parse"
    normalizeSurfaceState "surface_ok stringify parse"
  by (unfold_locales, erule read_surface_encode, simp add: encodeSurfaceState_def, erule surface_ok_normalize)

text \<open>C15: A surface state survives its link: if the host reads back the JSON value that is written, the
  offers are finite and a response is not written as \<^verbatim>\<open>null\<close>, decoding the encoded state gives its
  normal form (a known mechanism, the privacy mode that goes with it, the last 24 rounds), and
  encoding that again writes the same text.\<close>

theorem surface_roundtrip:
  fixes st :: "('p::len0, 'p json) surfaceState"
  assumes "parse (stringify (surface_json (\<lambda>r. r) (normalizeSurfaceState st)))
      = Some (surface_json (\<lambda>r. r) (normalizeSurfaceState st))"
    and "list_all finite_offer (sf_history st)" "engineResponse st \<noteq> Some JNull"
  shows "decodeSurfaceState parse (encodeSurfaceState stringify (\<lambda>r. r) st) = Inr (normalizeSurfaceState st)
    \<and> encodeSurfaceState stringify (\<lambda>r. r) (normalizeSurfaceState st) = encodeSurfaceState stringify (\<lambda>r. r) st"
proof -
  have ok: "surface_ok stringify parse st" using assms by (simp add: surface_ok_def)
  show ?thesis using surface_link.decode_encode [OF ok] surface_link.encode_norm [of stringify st]
    by (simp add: read_surface_def split: sum.splits)
qed

definition demo_surface :: "(0, 0 json) surfaceState" where
  "demo_surface = \<lparr>sf_sessionId = ''s'', mechanismId = ''no_such'', privacyMode = NashFullOracle,
     sf_history = replicate 30 demo_round, sf_buyerAccepted = True, sf_supplierAccepted = False, engineResponse = None\<rparr>"

theorem surface_roundtrip_witness:
  "decodeSurfaceState (\<lambda>_. Some (surface_json (\<lambda>r. r) (normalizeSurfaceState demo_surface)))
      (encodeSurfaceState (\<lambda>_. ''json'') (\<lambda>r. r) demo_surface)
   = Inr (demo_surface\<lparr>mechanismId := ''weighted_nash_bounded'', privacyMode := NashPrivate, sf_history := replicate 24 demo_round\<rparr>)"
proof -
  have eq: "normalizeSurfaceState demo_surface
      = demo_surface\<lparr>mechanismId := ''weighted_nash_bounded'', privacyMode := NashPrivate, sf_history := replicate 24 demo_round\<rparr>"
    by (simp add: demo_surface_def normalizeSurfaceState_def Let_def isFunctionalMechanism_def
        FUNCTIONAL_NEGOTIATION_MECHANISMS_def privacyModeForMechanism_def MAX_HISTORY_def slice_last_def)
  have "list_all finite_offer (sf_history demo_surface)" "engineResponse demo_surface \<noteq> Some JNull"
    by (simp_all add: demo_surface_def finite_offer_def demo_round_def list_all_iff)
  from surface_roundtrip [OF _ this, of "\<lambda>_. Some (surface_json (\<lambda>r. r) (normalizeSurfaceState demo_surface))" "\<lambda>_. ''json''"]
  show ?thesis by (simp only: eq simp_thms)
qed

section \<open>The engine\<close>

definition averageDefined :: "('p::len0) jsnum option list \<Rightarrow> 'p jsnum option" where
  "averageDefined values =
     (let present = filter is_fin (concat (map (\<lambda>v. case v of None \<Rightarrow> [] | Some x \<Rightarrow> [x]) values))
      in if present = [] then None else Some (jsum present / of_count (length present)))"

definition BUYER_FORMULA :: string where
  "BUYER_FORMULA = ''service_level_value * min(q, demand) '' @ ''- unit_price * q '' @
     ''- shortage_penalty * max(demand - q, 0) '' @ ''- inventory_penalty * max(q - demand, 0)''"

definition SUPPLIER_FORMULA :: string where
  "SUPPLIER_FORMULA = ''revenue_per_unit * q '' @ ''- production_cost * q '' @ ''- holding_cost * max(q - demand, 0) '' @
     ''- stockout_penalty * max(demand - q, 0) '' @ ''- risk_premium * risk_score * q''"

definition surface_demand :: "('p::len0, 'r) surfaceState \<Rightarrow> 'p jsnum" where
  "surface_demand st =
     jmax 1 (nullish (map_option of_q (latestSurfaceOfferFor st BuyerParty))
       (nullish (map_option of_q (latestSurfaceOfferFor st SupplierParty)) (lit 500)))"

definition surface_capacity :: "('p::len0, 'r) surfaceState \<Rightarrow> 'p jsnum" where
  "surface_capacity st =
     jmax 1 (nullish (map_option of_q (latestSurfaceOfferFor st SupplierParty)) (jround (surface_demand st * lit 1.2)))"

definition surface_unitPrice :: "('p::len0, 'r) surfaceState \<Rightarrow> 'p jsnum" where
  "surface_unitPrice st =
     nullish (averageDefined [map_option of_unitPrice (latestSurfaceOfferFor st BuyerParty),
       map_option of_unitPrice (latestSurfaceOfferFor st SupplierParty)]) (lit 80)"

definition scenarioFromSurfaceState :: "('p::len0, 'r) surfaceState \<Rightarrow> 'p nashScenario" where
  "scenarioFromSurfaceState st =
     (let dem = surface_demand st; cap = surface_capacity st; price = jmax 1 (surface_unitPrice st);
          productId = ''surface-allocation'';
          buyer = \<lparr>np_id = ''buyer'', np_name = ''Buyer'', np_role = NashBuyer, utility_formula = BUYER_FORMULA,
            np_parameters = [(''service_level_value'', price * lit 1.45), (''unit_price'', price),
              (''shortage_penalty'', price * lit 0.9), (''inventory_penalty'', jmax 1 (price * lit 0.05))],
            outside_option = 0\<rparr>;
          supplier = \<lparr>np_id = ''supplier'', np_name = ''Supplier'', np_role = NashSupplier, utility_formula = SUPPLIER_FORMULA,
            np_parameters = [(''revenue_per_unit'', price), (''production_cost'', price * lit 0.63),
              (''holding_cost'', jmax 1 (price * lit 0.04)), (''stockout_penalty'', jmax 1 (price * lit 0.08)),
              (''risk_premium'', jmax 1 (price * lit 0.1))],
            outside_option = 0\<rparr>
      in \<lparr>ns_id = ''surface-'' @ sf_sessionId st, ns_title = ''NegotiateSurface weighted-Nash round'', n_periods = 1,
          ns_products = [\<lparr>prod_id = productId, prod_name = ''Negotiated capacity'', demand_mean = dem,
            demand_std = jmax 0 (dem * lit 0.12), unit_value = price * lit 1.45\<rparr>],
          ns_participants = [buyer, supplier], ns_capacity = [(productId, cap)], risk_score = 0,
          evidence_ids = Some [''session:'' @ sf_sessionId st]\<rparr>)"

record 'p participationReport =
  pr_party_id :: string
  pr_role :: party
  pr_utility :: "'p jsnum"
  pr_outside_option :: "'p jsnum"
  no_worse_off :: bool

record 'p engineAnswer =
  mechanism_id :: string
  privacy_mode :: nashInformationMode
  proposed_offer :: "'p offer"
  consensus_quantity :: "'p jsnum"
  ea_convergence :: nashConvergence
  ea_global_utility :: "'p jsnum"
  ea_final_residual :: "'p jsnum"
  ea_leakage_report :: "'p leakageReport option"
  participation :: "'p participationReport list"
  source_run :: "'p nashRun"

fun failure_name :: "mechanismFailureReason \<Rightarrow> string" where
  "failure_name NoFeasibleAllocation = ''no_feasible_allocation''"
| "failure_name BatnaFloorUnreachable = ''batna_floor_unreachable''"
| "failure_name CapacityExceeded = ''capacity_exceeded''"
| "failure_name DealbreakerConflict = ''dealbreaker_conflict''"
| "failure_name PrivateModeUnsupported = ''private_mode_unsupported''"

definition responseFromRun :: "('p::len0, 'r) surfaceState \<Rightarrow> 'p nashRun \<Rightarrow> 'p engineAnswer" where
  "responseFromRun st run =
     (let final = (case at_last (nr_iterations run) of None \<Rightarrow> None
            | Some it \<Rightarrow> (case consensus it of [] \<Rightarrow> None | x # _ \<Rightarrow> Some x));
          agreed = jmax 0 (jround (nullish final 0));
          price = jround (surface_unitPrice st);
          outside = (\<lambda>i. nullish (map_of (outside_options (nr_ledger run)) i) 0)
      in \<lparr>mechanism_id = mechanismId st, privacy_mode = privacyMode st,
          proposed_offer = \<lparr>of_q = agreed, of_unitPrice = price,
            of_note = (case failure run of
               Some (reason, _) \<Rightarrow> ''No deal: '' @ failure_name reason
             | None \<Rightarrow> mechanismId st @ '' suggests q='' @ num_text agreed @ '' with '' @ mode_name (privacyMode st) @ '' information.'')\<rparr>,
          consensus_quantity = agreed, ea_convergence = nr_convergence run,
          ea_global_utility = global_utility (nr_ledger run), ea_final_residual = final_residual run,
          ea_leakage_report = leakage_report run,
          participation = map (\<lambda>(i, u). \<lparr>pr_party_id = i, pr_role = (if i = ''buyer'' then BuyerParty else SupplierParty),
            pr_utility = u, pr_outside_option = outside i, no_worse_off = (outside i \<le> u)\<rparr>) (local (nr_ledger run)),
          source_run = run\<rparr>)"

text \<open>The engine may throw, as the solver does.\<close>

definition runSurfaceEngine ::
    "('p::len0) host \<Rightarrow> ('p, 'p engineAnswer) surfaceState \<Rightarrow> 'p nashError + ('p, 'p engineAnswer) surfaceState" where
  "runSurfaceEngine h st =
     (let normalized = normalizeSurfaceState st
      in if sf_history normalized = [] then Inr (normalized\<lparr>engineResponse := None\<rparr>)
         else let scenario = scenarioFromSurfaceState normalized
           in ebind (if mechanismId normalized = ''weighted_nash_plaintext''
                then runWeightedNashPlaintext h scenario (Some NashFullOracle)
                else runWeightedNashBounded h scenario (Some NashPrivate) (Some (''surface-'' @ sf_sessionId normalized)))
              (\<lambda>run. Inr (normalized\<lparr>engineResponse := Some (responseFromRun normalized run)\<rparr>)))"

end
