(* ===== verification/Tabs.thy ===== *)
theory Tabs
  imports NegotiationContract
begin

text \<open>
  \<^verbatim>\<open>apps/web/src/surfaces/negotiate/NegotiateSurface.tsx\<close>: two tabs that negotiate over a
  broadcast channel. A tab is the state of the component; its handlers are the moves of its user, with
  the conditions under which the page offers them; the effect that follows a change of the session
  state writes the link and posts the state, and arrives, in order, at the other tab. Effects may lag
  behind several changes, as React batches them. What arrives is the decoded form of what was posted,
  which is its normal form by \<open>surface_roundtrip\<close>, and nothing if an offer is not finite
  (\<^verbatim>\<open>JSON.stringify\<close> writes \<^verbatim>\<open>null\<close>, which the decoder refuses).
\<close>

section \<open>A tab\<close>

type_synonym 'p surface = "('p, 'p engineAnswer) surfaceState"

record 'p tab =
  tab_state :: "'p surface"
  tab_role :: "party option"
  pendingAcceptIdx :: "nat option"
  lastSeenRounds :: nat
  dirty :: bool
  tab_url :: "'p surface option"
  inbox :: "'p surface option list"

definition dealClosed :: "('p, 'r) surfaceState \<Rightarrow> bool" where
  "dealClosed st = (sf_buyerAccepted st \<and> sf_supplierAccepted st)"

definition roleConflict :: "'p tab \<Rightarrow> bool" where
  "roleConflict t = (case tab_role t of None \<Rightarrow> False
     | Some who \<Rightarrow> sf_history (tab_state t) \<noteq> [] \<and> (\<forall>r \<in> set (sf_history (tab_state t)). rd_role r = who))"

fun other_party :: "party \<Rightarrow> party" where
  "other_party BuyerParty = SupplierParty"
| "other_party SupplierParty = BuyerParty"

definition partnerLastOffer :: "'p tab \<Rightarrow> 'p offer option" where
  "partnerLastOffer t = (case tab_role t of None \<Rightarrow> None
     | Some who \<Rightarrow> latestSurfaceOfferFor (tab_state t) (other_party who))"

definition suggestedRole :: "'p tab \<Rightarrow> party option" where
  "suggestedRole t =
     (let h = sf_history (tab_state t); b = length (filter (\<lambda>r. rd_role r = BuyerParty) h); s = length h - b
      in if h = [] then None
         else if b > 0 \<and> s = 0 then Some SupplierParty
         else if s > 0 \<and> b = 0 then Some BuyerParty
         else None)"

text \<open>What the page reads while it renders must exist: the offer to be confirmed, and the last round of
  a closed deal. If it does not, rendering throws and the component is gone.\<close>

definition render_ok :: "'p tab \<Rightarrow> bool" where
  "render_ok t = (tab_role t \<noteq> None \<longrightarrow>
     (case pendingAcceptIdx t of None \<Rightarrow> True | Some i \<Rightarrow> i < length (sf_history (tab_state t))) \<and>
     (dealClosed (tab_state t) \<longrightarrow> sf_history (tab_state t) \<noteq> []))"

section \<open>The user\<close>

definition round_of :: "party \<Rightarrow> ('p::len0) jsnum \<Rightarrow> 'p jsnum \<Rightarrow> string \<Rightarrow> string \<Rightarrow> 'p roundRecord" where
  "round_of who q price nt now =
     \<lparr>rd_role = who, rd_offer = \<lparr>of_q = jmax 0 (jfloor q), of_unitPrice = jmax 0 (jfloor price), of_note = take 240 nt\<rparr>,
      rd_at = now\<rparr>"

definition set_state :: "'p surface \<Rightarrow> 'p tab \<Rightarrow> 'p tab" where
  "set_state st t = t\<lparr>tab_state := st, dirty := True\<rparr>"

definition handlePickRole :: "party \<Rightarrow> 'p tab \<Rightarrow> 'p tab" where
  "handlePickRole who t = t\<lparr>tab_role := Some who\<rparr>"

text \<open>\<open>None\<close> is an exception of the engine.\<close>

definition handleSubmit ::
    "('p::len0) host \<Rightarrow> 'p jsnum \<Rightarrow> 'p jsnum \<Rightarrow> string \<Rightarrow> string \<Rightarrow> 'p tab \<Rightarrow> 'p tab option" where
  "handleSubmit h q price nt now t =
     (case tab_role t of None \<Rightarrow> Some t
      | Some who \<Rightarrow> (case runSurfaceEngine h (appendSurfaceRound (tab_state t) (round_of who q price nt now)) of
          Inl e \<Rightarrow> None | Inr st \<Rightarrow> Some (set_state st t)))"

definition handleMechanismChange :: "('p::len0) host \<Rightarrow> string \<Rightarrow> 'p tab \<Rightarrow> 'p tab option" where
  "handleMechanismChange h i t =
     (case runSurfaceEngine h (withMechanism (tab_state t) i) of Inl e \<Rightarrow> None | Inr st \<Rightarrow> Some (set_state st t))"

fun partner_idx :: "party \<Rightarrow> 'p roundRecord list \<Rightarrow> nat option" where
  "partner_idx who [] = None"
| "partner_idx who (r # rs) =
     (case partner_idx who rs of Some i \<Rightarrow> Some (Suc i) | None \<Rightarrow> if rd_role r \<noteq> who then Some 0 else None)"

definition handleAcceptRequest :: "'p tab \<Rightarrow> 'p tab" where
  "handleAcceptRequest t =
     (case tab_role t of None \<Rightarrow> t
      | Some who \<Rightarrow> (case partner_idx who (sf_history (tab_state t)) of
          None \<Rightarrow> t | Some i \<Rightarrow> t\<lparr>pendingAcceptIdx := Some i\<rparr>))"

definition handleAcceptConfirm :: "'p tab \<Rightarrow> 'p tab" where
  "handleAcceptConfirm t =
     (case tab_role t of None \<Rightarrow> t
      | Some who \<Rightarrow> (set_state (applySurfaceAccept (tab_state t) who) t)\<lparr>pendingAcceptIdx := None\<rparr>)"

definition handleAcceptCancel :: "'p tab \<Rightarrow> 'p tab" where
  "handleAcceptCancel t = t\<lparr>pendingAcceptIdx := None\<rparr>"

definition handleNewSession :: "string \<Rightarrow> 'p tab \<Rightarrow> 'p tab" where
  "handleNewSession random_id t =
     (set_state (newSurfaceState random_id (\<lambda>st. st)) t)\<lparr>tab_role := None, tab_url := None\<rparr>"

section \<open>The channel\<close>

text \<open>The state update of \<^verbatim>\<open>channel.onmessage\<close>.\<close>

definition adopts :: "('p, 'r) surfaceState \<Rightarrow> ('p, 'r) surfaceState \<Rightarrow> bool" where
  "adopts prev nxt =
     (if length (sf_history nxt) > length (sf_history prev) then True
      else if length (sf_history nxt) < length (sf_history prev) then False
      else if sf_buyerAccepted nxt \<noteq> sf_buyerAccepted prev then True
      else sf_supplierAccepted nxt \<noteq> sf_supplierAccepted prev)"

definition receive :: "'p surface option \<Rightarrow> 'p tab \<Rightarrow> 'p tab" where
  "receive m t = (case m of None \<Rightarrow> t
     | Some nxt \<Rightarrow> if adopts (tab_state t) nxt then set_state nxt t else t)"

definition wire :: "'p surface \<Rightarrow> 'p surface option" where
  "wire st = (let st = normalizeSurfaceState st in if list_all finite_offer (sf_history st) then Some st else None)"

text \<open>The effect that flashes the latest new round of the partner, and the one that posts the state.\<close>

definition new_partner_round :: "'p tab \<Rightarrow> (nat \<times> party) option" where
  "new_partner_round t =
     (let h = sf_history (tab_state t)
      in at_last (map (\<lambda>i. (i, rd_role (h ! i)))
           (filter (\<lambda>i. tab_role t \<noteq> Some (rd_role (h ! i))) [lastSeenRounds t..<length h])))"

definition post_effect :: "'p tab \<Rightarrow> 'p tab" where
  "post_effect t = t\<lparr>dirty := False, tab_url := Some (normalizeSurfaceState (tab_state t)),
     lastSeenRounds := length (sf_history (tab_state t))\<rparr>"

section \<open>Two tabs\<close>

datatype side = LeftTab | RightTab

fun other :: "side \<Rightarrow> side" where
  "other LeftTab = RightTab"
| "other RightTab = LeftTab"

type_synonym 'p net = "side \<Rightarrow> 'p tab"

datatype 'p action =
    PickRole party
  | Submit "'p jsnum" "'p jsnum" string string
  | ChooseMechanism string
  | AcceptRequest | AcceptConfirm | AcceptCancel
  | NewSession string
  | Effect
  | Message

text \<open>When the page offers a button, and the moves of the user.\<close>

definition can_pick :: "party \<Rightarrow> 'p tab \<Rightarrow> bool" where
  "can_pick who t = (tab_role t = None \<or> roleConflict t \<and> tab_role t = Some (other_party who))"

definition can_submit :: "'p tab \<Rightarrow> bool" where
  "can_submit t =
     (tab_role t \<noteq> None \<and> \<not> dealClosed (tab_state t) \<and> pendingAcceptIdx t = None \<and> \<not> roleConflict t)"

definition can_request :: "'p tab \<Rightarrow> bool" where
  "can_request t =
     (tab_role t \<noteq> None \<and> \<not> dealClosed (tab_state t) \<and> pendingAcceptIdx t = None
      \<and> \<not> (roleConflict t \<or> length (sf_history (tab_state t)) = 0 \<or> partnerLastOffer t = None))"

definition can_confirm :: "'p tab \<Rightarrow> bool" where
  "can_confirm t = (tab_role t \<noteq> None \<and> pendingAcceptIdx t \<noteq> None)"

fun user_move :: "('p::len0) host \<Rightarrow> 'p action \<Rightarrow> 'p tab \<Rightarrow> 'p tab option" where
  "user_move h (PickRole who) t = (if can_pick who t then Some (handlePickRole who t) else None)"
| "user_move h (Submit q price nt now) t = (if can_submit t then handleSubmit h q price nt now t else None)"
| "user_move h (ChooseMechanism i) t = (if isFunctionalMechanism i then handleMechanismChange h i t else None)"
| "user_move h AcceptRequest t = (if can_request t then Some (handleAcceptRequest t) else None)"
| "user_move h AcceptConfirm t = (if can_confirm t then Some (handleAcceptConfirm t) else None)"
| "user_move h AcceptCancel t = (if can_confirm t then Some (handleAcceptCancel t) else None)"
| "user_move h (NewSession i) t = Some (handleNewSession i t)"
| "user_move h Effect t = None"
| "user_move h Message t = None"

inductive net_step :: "('p::len0) host \<Rightarrow> 'p net \<Rightarrow> side \<times> 'p action \<Rightarrow> 'p net \<Rightarrow> bool" for h where
  user: "render_ok (n s) \<Longrightarrow> user_move h a (n s) = Some t \<Longrightarrow> net_step h n (s, a) (n(s := t))"
| effect: "render_ok (n s) \<Longrightarrow> dirty (n s) \<Longrightarrow>
     net_step h n (s, Effect) (n(s := post_effect (n s),
       other s := (n (other s))\<lparr>inbox := inbox (n (other s)) @ [wire (tab_state (n s))]\<rparr>))"
| message: "render_ok (n s) \<Longrightarrow> inbox (n s) = m # ms \<Longrightarrow>
     net_step h n (s, Message) (n(s := receive m ((n s)\<lparr>inbox := ms\<rparr>)))"

inductive_cases effectE: "net_step h n (s, Effect) n'"
inductive_cases messageE: "net_step h n (s, Message) n'"

inductive net_run :: "('p::len0) host \<Rightarrow> 'p net \<Rightarrow> (side \<times> 'p action) list \<Rightarrow> 'p net \<Rightarrow> bool" for h where
  run_nil: "net_run h n [] n"
| run_step: "net_step h n l n' \<Longrightarrow> net_run h n' ls n'' \<Longrightarrow> net_run h n (l # ls) n''"

inductive_simps net_run_Nil [simp]: "net_run h n [] n'"
inductive_simps net_run_Cons: "net_run h n (l # ls) n'"

section \<open>What every reachable pair of tabs satisfies\<close>

lemma engine_keeps:
  assumes "runSurfaceEngine h st = Inr st'"
  shows "normal st' \<and> sf_history st' = sf_history (normalizeSurfaceState st)
    \<and> sf_buyerAccepted st' = sf_buyerAccepted st \<and> sf_supplierAccepted st' = sf_supplierAccepted st"
proof -
  obtain r where r: "st' = (normalizeSurfaceState st)\<lparr>engineResponse := r\<rparr>"
    using assms by (auto simp: runSurfaceEngine_def Let_def split: if_splits)
  have "normal st'"
    using normal_normalize [of st] by (simp add: r normal_iff)
  then show ?thesis by (simp add: r) (simp add: normalizeSurfaceState_def Let_def)
qed

lemma normalize_fields [simp]:
  "sf_history (normalizeSurfaceState st) = slice_last MAX_HISTORY (sf_history st)"
  "sf_buyerAccepted (normalizeSurfaceState st) = sf_buyerAccepted st"
  "sf_supplierAccepted (normalizeSurfaceState st) = sf_supplierAccepted st"
  by (simp_all add: normalizeSurfaceState_def Let_def)

lemma move_histories [simp]:
  "sf_history (withMechanism st i) = slice_last MAX_HISTORY (sf_history st)"
  "sf_history (appendSurfaceRound st r) = slice_last MAX_HISTORY (sf_history st @ [r])"
  "sf_history (applySurfaceAccept st who) = slice_last MAX_HISTORY (sf_history st)"
  by (simp_all add: withMechanism_def appendSurfaceRound_def applySurfaceAccept_def)

text \<open>The invariant: states in the tabs and in flight are normal and hold only rounds of \<open>K\<close>.\<close>

definition genuine :: "'p roundRecord set \<Rightarrow> 'p surface \<Rightarrow> bool" where
  "genuine K st = (normal st \<and> set (sf_history st) \<subseteq> K)"

definition genuine_tab :: "'p roundRecord set \<Rightarrow> 'p tab \<Rightarrow> bool" where
  "genuine_tab K t = (genuine K (tab_state t) \<and> (\<forall>st. Some st \<in> set (inbox t) \<longrightarrow> genuine K st))"

definition submitted :: "side \<times> 'p::len0 action \<Rightarrow> 'p roundRecord set" where
  "submitted l = (case snd l of Submit q price nt now \<Rightarrow> {round_of who q price nt now | who. True} | _ \<Rightarrow> {})"

lemma genuine_tab_mono: "genuine_tab K t \<Longrightarrow> K \<subseteq> K' \<Longrightarrow> genuine_tab K' t"
  by (auto simp: genuine_tab_def genuine_def)

lemma slice_last_in: "x \<in> set (slice_last n xs) \<Longrightarrow> x \<in> set xs"
  using set_slice_last by fastforce

lemma engine_genuine:
  assumes "runSurfaceEngine h st = Inr st'" "set (sf_history st) \<subseteq> K"
  shows "genuine K st'"
  using engine_keeps [OF assms(1)] assms(2) by (auto simp: genuine_def dest: slice_last_in)

lemma user_move_genuine:
  assumes "user_move h a t = Some t'" "genuine_tab K t" "submitted (s, a) \<subseteq> K"
  shows "genuine_tab K t'"
proof -
  have i: "inbox t' = inbox t"
    using assms(1)
    by (cases a) (auto simp: handlePickRole_def handleSubmit_def handleMechanismChange_def handleAcceptRequest_def
        handleAcceptConfirm_def handleAcceptCancel_def handleNewSession_def set_state_def
        split: if_splits option.splits sum.splits)
  have g: "r \<in> set (sf_history (tab_state t)) \<Longrightarrow> r \<in> K" "normal (tab_state t)" for r
    using assms(2) by (auto simp: genuine_tab_def genuine_def)
  have "genuine K (tab_state t')"
  proof (cases a)
    case (Submit q price nt now)
    have "handleSubmit h q price nt now t = Some t'" "tab_role t \<noteq> None"
      using assms(1) by (simp_all add: Submit can_submit_def split: if_splits)
    then obtain who where "handleSubmit h q price nt now t = Some t'" "tab_role t = Some who" by blast
    then obtain st where "runSurfaceEngine h (appendSurfaceRound (tab_state t) (round_of who q price nt now)) = Inr st"
      "t' = set_state st t"
      by (cases "runSurfaceEngine h (appendSurfaceRound (tab_state t) (round_of who q price nt now))")
        (simp_all add: handleSubmit_def)
    moreover have "set (sf_history (appendSurfaceRound (tab_state t) (round_of who q price nt now))) \<subseteq> K"
      using assms(3) Submit set_slice_last g(1) by (fastforce simp: submitted_def)
    ultimately show ?thesis
      by (simp add: set_state_def engine_genuine)
  next
    case (ChooseMechanism i)
    then obtain st where "runSurfaceEngine h (withMechanism (tab_state t) i) = Inr st" "t' = set_state st t"
      using assms(1) by (auto simp: handleMechanismChange_def split: if_splits sum.splits)
    moreover have "set (sf_history (withMechanism (tab_state t) i)) \<subseteq> K"
      using set_slice_last g(1) by fastforce
    ultimately show ?thesis
      by (simp add: set_state_def engine_genuine)
  next
    case AcceptConfirm
    then show ?thesis
      using assms(1) g
      by (auto simp: handleAcceptConfirm_def set_state_def genuine_def split: if_splits option.splits dest!: slice_last_in intro: g)
  next
    case (NewSession i)
    then show ?thesis
      using assms(1) by (auto simp: handleNewSession_def set_state_def genuine_def) (simp add: newSurfaceState_def)
  qed (insert assms(1) g, auto simp: genuine_def handlePickRole_def handleAcceptRequest_def handleAcceptCancel_def
        split: if_splits option.splits)
  then show ?thesis
    using assms(2) i by (simp add: genuine_tab_def)
qed

lemma net_step_genuine:
  assumes "net_step h n l n'" "\<forall>s. genuine_tab K (n s)" "submitted l \<subseteq> K"
  shows "\<forall>s. genuine_tab K (n' s)"
  using assms
proof (induction rule: net_step.induct)
  case (user n s a t)
  then show ?case using user_move_genuine [of h a "n s" t K s] by simp
next
  case (effect n s)
  have "genuine K st" if "wire (tab_state (n s)) = Some st" for st
    using that effect.prems(1) [rule_format, of s]
    by (auto simp: wire_def Let_def genuine_def genuine_tab_def split: if_splits dest!: slice_last_in)
  then show ?case
    using effect.prems by (auto simp: genuine_tab_def post_effect_def)
next
  case (message n s m ms)
  then show ?case
    by (auto simp: receive_def genuine_tab_def set_state_def split: option.splits) (metis list.set_intros(1,2))+
qed

lemma net_run_genuine:
  assumes "net_run h n ls n'" "\<forall>s. genuine_tab K (n s)" "\<Union> (submitted ` set ls) \<subseteq> K"
  shows "\<forall>s. genuine_tab K (n' s)"
  using assms
proof (induction rule: net_run.induct)
  case (run_step n l n' ls n'')
  then show ?case using net_step_genuine [of h n l n' K] by simp
qed simp

text \<open>C3: However the users of two tabs and the channel interleave, every tab shows a normal state (a
  known mechanism, its privacy mode, at most 24 rounds) whose every round was there at the start or
  was submitted in one of the tabs, with quantity and price rounded down and not negative.\<close>

theorem no_forged_rounds:
  assumes "net_run h n ls n'" and "\<forall>s. normal (tab_state (n s)) \<and> inbox (n s) = []"
  shows "normal (tab_state (n' s)) \<and> (\<forall>r \<in> set (sf_history (tab_state (n' s))).
    (\<exists>s. r \<in> set (sf_history (tab_state (n s)))) \<or>
    (\<exists>s q price nt now. (s, Submit q price nt now) \<in> set ls \<and> r = round_of (rd_role r) q price nt now))"
proof -
  let ?K = "(\<Union>s. set (sf_history (tab_state (n s)))) \<union> \<Union> (submitted ` set ls)"
  have "\<forall>s. genuine_tab ?K (n s)"
    using assms(2) by (auto simp: genuine_tab_def genuine_def)
  from net_run_genuine [OF assms(1) this] have g: "genuine ?K (tab_state (n' s))"
    by (simp add: genuine_tab_def)
  have "\<exists>s q price nt now. (s, Submit q price nt now) \<in> set ls \<and> r = round_of (rd_role r) q price nt now"
    if l: "l \<in> set ls" "r \<in> submitted l" for l r
  proof (cases "snd l")
    case (Submit q price nt now)
    with l(2) obtain who where "r = round_of who q price nt now" by (auto simp: submitted_def)
    moreover from this have "rd_role r = who" by (simp add: round_of_def)
    ultimately show ?thesis using l(1) Submit by (metis prod.collapse)
  qed (use l(2) in \<open>simp_all add: submitted_def\<close>)
  then show ?thesis
    using g unfolding genuine_def by blast
qed

section \<open>One acceptance\<close>

fun system :: "side \<times> 'p action \<Rightarrow> bool" where
  "system (s, Effect) = True"
| "system (s, Message) = True"
| "system (s, _) = False"

text \<open>Whatever the channel and the page do next, it takes at most four steps and ends where \<open>P\<close> holds.\<close>

definition settles :: "('p::len0) host \<Rightarrow> ('p net \<Rightarrow> bool) \<Rightarrow> 'p net \<Rightarrow> bool" where
  "settles h P n = (\<forall>ls n'. net_run h n ls n' \<longrightarrow> list_all system ls \<longrightarrow>
     length ls \<le> 4 \<and> ((\<exists>l n''. system l \<and> net_step h n' l n'') \<or> P n'))"

text \<open>Two tabs of different roles that show the same state, with an offer of each party and nothing
  in flight.\<close>

definition in_sync :: "(side \<Rightarrow> party) \<Rightarrow> 'p surface \<Rightarrow> 'p net \<Rightarrow> bool" where
  "in_sync roles st n =
     ((\<forall>s. tab_state (n s) = st \<and> \<not> dirty (n s) \<and> inbox (n s) = [] \<and> pendingAcceptIdx (n s) = None
        \<and> tab_role (n s) = Some (roles s))
      \<and> roles RightTab = other_party (roles LeftTab) \<and> normal st \<and> list_all finite_offer (sf_history st)
      \<and> latestSurfaceOfferFor st BuyerParty \<noteq> None \<and> latestSurfaceOfferFor st SupplierParty \<noteq> None)"

definition phase :: "nat \<Rightarrow> side \<Rightarrow> 'p surface \<Rightarrow> 'p surface \<Rightarrow> 'p net \<Rightarrow> bool" where
  "phase k s st st' n =
     (k \<le> 4 \<and> tab_state (n s) = st' \<and> tab_state (n (other s)) = (if k < 2 then st else st')
      \<and> dirty (n s) = (k = 0) \<and> dirty (n (other s)) = (k = 2)
      \<and> inbox (n s) = (if k = 3 then [Some st'] else []) \<and> inbox (n (other s)) = (if k = 1 then [Some st'] else [])
      \<and> pendingAcceptIdx (n s) = None \<and> pendingAcceptIdx (n (other s)) = None)"

lemma other_simps [simp]: "other s \<noteq> s" "s \<noteq> other s" "other (other s) = s"
  by (cases s; simp)+

lemma phase_step:
  assumes "phase k s st st' n" "net_step h n l n'" "system l"
    and "wire st' = Some st'" "adopts st st'"
  shows "k < 4 \<and> phase (Suc k) s st st' n' \<and> (\<forall>t. tab_role (n' t) = tab_role (n t))"
proof -
  have a: "\<not> adopts st' st'" by (simp add: adopts_def)
  have side: "t = s \<or> t = other s" for t by (cases s; cases t) simp_all
  from assms(3) obtain t where "l = (t, Effect) \<or> l = (t, Message)"
    by (cases l rule: system.cases) auto
  with side [of t] consider "l = (s, Effect)" | "l = (other s, Effect)" | "l = (s, Message)" | "l = (other s, Message)"
    by auto
  then show ?thesis
  proof cases
    case 1
    with assms(2) have "dirty (n s)" "n' = n(s := post_effect (n s), other s := (n (other s))\<lparr>inbox := inbox (n (other s)) @ [wire (tab_state (n s))]\<rparr>)"
      by (auto elim: effectE)
    then show ?thesis using assms(1,4) by (auto simp: phase_def post_effect_def)
  next
    case 2
    with assms(2) have "dirty (n (other s))" "n' = n(other s := post_effect (n (other s)), s := (n s)\<lparr>inbox := inbox (n s) @ [wire (tab_state (n (other s)))]\<rparr>)"
      by (auto elim: effectE)
    then show ?thesis using assms(1,4) by (auto simp: phase_def post_effect_def)
  next
    case 3
    with assms(2) obtain m ms where "inbox (n s) = m # ms" "n' = n(s := receive m ((n s)\<lparr>inbox := ms\<rparr>))"
      by (auto elim: messageE)
    then show ?thesis using assms(1) a by (auto simp: phase_def receive_def split: if_splits)
  next
    case 4
    with assms(2) obtain m ms where "inbox (n (other s)) = m # ms" "n' = n(other s := receive m ((n (other s))\<lparr>inbox := ms\<rparr>))"
      by (auto elim: messageE)
    then show ?thesis using assms(1,5) a by (auto simp: phase_def receive_def set_state_def split: if_splits)
  qed
qed

lemma phase_progress:
  assumes "phase k s st st' n" "k < 4" "sf_history st \<noteq> []" "sf_history st' \<noteq> []"
  shows "\<exists>l n'. system l \<and> net_step h n l n'"
proof -
  have r: "render_ok (n s)" "render_ok (n (other s))"
    using assms by (auto simp: phase_def render_ok_def split: if_splits)
  from assms(2) consider "k = 0" | "k = 1" | "k = 2" | "k = 3" by linarith
  then show ?thesis
  proof cases
    case 1
    then show ?thesis using net_step.effect [where n = n and s = s, OF r(1)] assms(1) by (fastforce simp: phase_def intro: exI [of _ "(s, Effect)"])
  next
    case 2
    then show ?thesis using net_step.message [where n = n and s = "other s", OF r(2)] assms(1) by (fastforce simp: phase_def intro: exI [of _ "(other s, Message)"])
  next
    case 3
    then show ?thesis using net_step.effect [where n = n and s = "other s", OF r(2)] assms(1) by (fastforce simp: phase_def intro: exI [of _ "(other s, Effect)"])
  next
    case 4
    then show ?thesis using net_step.message [where n = n and s = s, OF r(1)] assms(1) by (fastforce simp: phase_def intro: exI [of _ "(s, Message)"])
  qed
qed

lemma phase_run:
  assumes "net_run h n ls n'" "list_all system ls" "phase k s st st' n" "wire st' = Some st'" "adopts st st'"
  shows "phase (k + length ls) s st st' n' \<and> (\<forall>t. tab_role (n' t) = tab_role (n t))"
  using assms
proof (induction arbitrary: k rule: net_run.induct)
  case (run_step n l n' ls n'')
  have "k < 4 \<and> phase (Suc k) s st st' n' \<and> (\<forall>t. tab_role (n' t) = tab_role (n t))"
    using phase_step [OF run_step.prems(2) run_step.hyps(1)] run_step.prems by simp
  then show ?case using run_step.IH [of "Suc k"] run_step.prems by simp
qed simp

lemma phase_settles:
  assumes "phase 0 s st st' n" "wire st' = Some st'" "adopts st st'" "sf_history st \<noteq> []" "sf_history st' \<noteq> []"
    and P: "\<And>n'. phase 4 s st st' n' \<Longrightarrow> \<forall>t. tab_role (n' t) = tab_role (n t) \<Longrightarrow> P n'"
  shows "settles h P n"
  unfolding settles_def
proof (intro allI impI)
  fix ls n'
  assume run: "net_run h n ls n'" "list_all system ls"
  note ph = phase_run [OF run assms(1-3), simplified]
  then have le: "length ls \<le> 4" by (simp add: phase_def)
  show "length ls \<le> 4 \<and> ((\<exists>l n''. system l \<and> net_step h n' l n'') \<or> P n')"
  proof (cases "length ls = 4")
    case True
    then show ?thesis using ph P le by simp
  next
    case False
    then show ?thesis using ph le phase_progress assms(4,5) by (metis le_neq_implies_less)
  qed
qed

text \<open>Asking for the confirmation and confirming: the page offers both moves.\<close>

lemma partner_idx_Some: "partner_idx who rs = Some i \<Longrightarrow> i < length rs \<and> rd_role (rs ! i) \<noteq> who"
  by (induction rs arbitrary: i) (auto split: option.splits if_splits)

lemma partner_idx_None: "partner_idx who rs = None \<longleftrightarrow> (\<forall>r \<in> set rs. rd_role r = who)"
  by (induction rs) (auto split: option.splits)

lemma both_offers:
  assumes "latestSurfaceOfferFor st BuyerParty \<noteq> None" "latestSurfaceOfferFor st SupplierParty \<noteq> None"
  shows "\<exists>r \<in> set (sf_history st). rd_role r = who"
  using assms by (cases who) (auto simp: latestSurfaceOfferFor_def latest_offer_def dest: find_last_SomeD)

lemma other_party_neq [simp]: "other_party who \<noteq> who" "who \<noteq> other_party who"
  by (cases who; simp)+

lemma user_step:
  "render_ok (n s) \<Longrightarrow> user_move h a (n s) = Some t \<Longrightarrow> n' = n(s := t) \<Longrightarrow> net_step h n (s, a) n'"
  by (simp add: net_step.user)

definition waiting :: "party \<Rightarrow> 'p surface \<Rightarrow> 'p tab \<Rightarrow> bool" where
  "waiting who st t = (tab_state t = st \<and> pendingAcceptIdx t = None \<and> tab_role t = Some who \<and> \<not> dealClosed st
     \<and> latestSurfaceOfferFor st BuyerParty \<noteq> None \<and> latestSurfaceOfferFor st SupplierParty \<noteq> None)"

definition accepted :: "party \<Rightarrow> 'p tab \<Rightarrow> 'p tab" where
  "accepted who t = t\<lparr>tab_state := applySurfaceAccept (tab_state t) who, dirty := True, pendingAcceptIdx := None\<rparr>"

lemma request_move:
  assumes w: "waiting who st (n s)"
  shows "\<exists>i < length (sf_history st). net_step h n (s, AcceptRequest) (n(s := (n s)\<lparr>pendingAcceptIdx := Some i\<rparr>))"
proof -
  note facts = w [unfolded waiting_def]
  have two: "\<exists>r \<in> set (sf_history st). rd_role r = who" for who
    using both_offers facts by blast
  then have ne: "sf_history st \<noteq> []" by auto
  have noconf: "\<not> roleConflict (n s)"
    using facts two [of "other_party who"] by (auto simp: roleConflict_def)
  obtain i where i: "partner_idx who (sf_history st) = Some i"
    using two [of "other_party who"] partner_idx_None [of who "sf_history st"] by fastforce
  have "user_move h AcceptRequest (n s) = Some ((n s)\<lparr>pendingAcceptIdx := Some i\<rparr>)"
    using facts noconf ne i
    by (cases who) (simp_all add: can_request_def partnerLastOffer_def handleAcceptRequest_def)
  moreover have "render_ok (n s)"
    using facts ne by (auto simp: render_ok_def)
  ultimately show ?thesis
    using user_step [where n = n and s = s] partner_idx_Some [OF i] by blast
qed

lemma accept_moves:
  assumes w: "waiting who st (n s)"
  shows "net_run h n [(s, AcceptRequest), (s, AcceptConfirm)] (n(s := accepted who (n s)))"
proof -
  from request_move [where n = n and s = s, OF w] obtain i where
    i: "i < length (sf_history st)" "net_step h n (s, AcceptRequest) (n(s := (n s)\<lparr>pendingAcceptIdx := Some i\<rparr>))" by blast
  let ?n1 = "n(s := (n s)\<lparr>pendingAcceptIdx := Some i\<rparr>)"
  have m: "user_move h AcceptConfirm (?n1 s) = Some (accepted who (n s))"
    using w by (simp add: can_confirm_def handleAcceptConfirm_def set_state_def accepted_def waiting_def)
  have r: "render_ok (?n1 s)"
    using w i(1) by (auto simp: render_ok_def waiting_def)
  have "net_step h ?n1 (s, AcceptConfirm) (n(s := accepted who (n s)))"
    by (rule user_step [where n = ?n1 and s = s, OF r m]) simp
  with i(2) show ?thesis by (blast intro: net_run.intros)
qed

lemma net_run_append:
  "net_run h n ls n1 \<Longrightarrow> net_run h n1 ls' n2 \<Longrightarrow> net_run h n (ls @ ls') n2"
  by (induction rule: net_run.induct) (auto intro: net_run.intros)

definition flag :: "party \<Rightarrow> ('p, 'r) surfaceState \<Rightarrow> bool" where
  "flag who st = (case who of BuyerParty \<Rightarrow> sf_buyerAccepted st | SupplierParty \<Rightarrow> sf_supplierAccepted st)"

lemma accept_state:
  assumes "normal st"
  shows "normal (applySurfaceAccept st who)" "sf_history (applySurfaceAccept st who) = sf_history st"
    "latestSurfaceOfferFor (applySurfaceAccept st who) p = latestSurfaceOfferFor st p"
    "flag p (applySurfaceAccept st who) = (p = who \<or> flag p st)"
proof -
  show h: "sf_history (applySurfaceAccept st who) = sf_history st"
    using assms by (simp add: normal_iff)
  then show "latestSurfaceOfferFor (applySurfaceAccept st who) p = latestSurfaceOfferFor st p"
    by (simp add: latestSurfaceOfferFor_def)
  show "flag p (applySurfaceAccept st who) = (p = who \<or> flag p st)"
    by (cases p; cases who) (simp_all add: flag_def applySurfaceAccept_def)
qed simp

lemma all_party: "(\<forall>p. P p) = (P BuyerParty \<and> P SupplierParty)"
  by (auto intro: party.induct)

lemma ex_party: "(\<exists>p. P p) = (P BuyerParty \<or> P SupplierParty)"
  by (metis party.exhaust)

lemma adopts_flags: "length (sf_history b) = length (sf_history a) \<Longrightarrow> adopts a b = (\<exists>p. flag p a \<noteq> flag p b)"
  by (auto simp: adopts_def flag_def ex_party)

lemma dealClosed_flags: "dealClosed st = (\<forall>p. flag p st)"
  by (auto simp: dealClosed_def flag_def all_party)

lemma wire_normal: "normal st \<Longrightarrow> list_all finite_offer (sf_history st) \<Longrightarrow> wire st = Some st"
  by (simp add: wire_def normal_def)

lemma accept_spreads:
  assumes sync: "in_sync roles st n" and "\<not> flag (roles s) st" "\<not> dealClosed st"
    and P: "\<And>n'. in_sync roles (applySurfaceAccept st (roles s)) n' \<Longrightarrow> P n'"
  shows "\<exists>n1. net_run h n [(s, AcceptRequest), (s, AcceptConfirm)] n1 \<and> settles h P n1"
proof -
  note facts = sync [unfolded in_sync_def]
  let ?st' = "applySurfaceAccept st (roles s)"
  have st': "normal ?st'" "list_all finite_offer (sf_history ?st')" "sf_history st \<noteq> []" "sf_history ?st' \<noteq> []"
    using facts accept_state [of st "roles s"] both_offers [of st BuyerParty] by auto
  let ?n1 = "n(s := accepted (roles s) (n s))"
  have "waiting (roles s) st (n s)" using facts assms(3) by (simp add: waiting_def)
  from accept_moves [where n = n and s = s, OF this] have run: "net_run h n [(s, AcceptRequest), (s, AcceptConfirm)] ?n1" .
  have ph: "phase 0 s st ?st' ?n1" using facts by (simp add: phase_def accepted_def)
  have "adopts st ?st'"
    using facts assms(2) accept_state [of st "roles s"] by (auto simp: adopts_flags)
  moreover have "P n'" if "phase 4 s st ?st' n'" "\<forall>t. tab_role (n' t) = tab_role (?n1 t)" for n'
  proof (rule P)
    have side: "t = s \<or> t = other s" for t by (cases s; cases t) simp_all
    have "tab_role (?n1 t) = Some (roles t)" for t using facts by (simp add: accepted_def)
    with that have "tab_state (n' t) = ?st' \<and> \<not> dirty (n' t) \<and> inbox (n' t) = [] \<and> pendingAcceptIdx (n' t) = None
        \<and> tab_role (n' t) = Some (roles t)" for t
      using side [of t] by (auto simp: phase_def)
    then show "in_sync roles ?st' n'"
      using facts st' accept_state [of st "roles s"] by (simp add: in_sync_def)
  qed
  ultimately have "settles h P ?n1"
    using phase_settles [OF ph wire_normal [OF st'(1,2)] _ st'(3,4)] by blast
  with run show ?thesis by blast
qed

text \<open>C1: A deal closes. From two tabs in sync that hold different roles and an offer of each party, when
  one accepts, every schedule of effects and deliveries brings the acceptance to both tabs in at most
  four steps; the other can then accept, and every schedule closes the deal in both tabs, with
  the history unchanged.\<close>

theorem deal_closes:
  assumes "in_sync roles st n" "\<not> sf_buyerAccepted st" "\<not> sf_supplierAccepted st"
  shows "\<exists>n1. net_run h n [(s, AcceptRequest), (s, AcceptConfirm)] n1 \<and>
    settles h (\<lambda>n2. \<exists>n3. net_run h n2 [(other s, AcceptRequest), (other s, AcceptConfirm)] n3 \<and>
      settles h (\<lambda>n4. \<forall>t. dealClosed (tab_state (n4 t)) \<and> sf_history (tab_state (n4 t)) = sf_history st) n3) n1"
proof (rule accept_spreads [OF assms(1)])
  have no: "\<not> flag p st" for p using assms(2,3) by (cases p) (simp_all add: flag_def)
  then show "\<not> flag (roles s) st" "\<not> dealClosed st" by (simp_all add: dealClosed_flags)
  have nst: "normal st" and diff: "roles (other s) \<noteq> roles s"
    using assms(1) by (cases s; simp add: in_sync_def)+
  let ?st1 = "applySurfaceAccept st (roles s)"
  let ?st2 = "applySurfaceAccept ?st1 (roles (other s))"
  have f1: "flag p ?st1 = (p = roles s)" for p using nst no by (simp add: accept_state)
  have "p = roles s \<or> p = roles (other s)" for p
    using diff by (cases p; cases "roles s"; cases "roles (other s)") simp_all
  then have f2: "flag p ?st2" for p using nst f1 by (simp add: accept_state) blast
  have h2: "sf_history ?st2 = sf_history st" using nst by (simp only: accept_state)
  fix n2
  assume sync: "in_sync roles ?st1 n2"
  show "\<exists>n3. net_run h n2 [(other s, AcceptRequest), (other s, AcceptConfirm)] n3 \<and>
      settles h (\<lambda>n4. \<forall>t. dealClosed (tab_state (n4 t)) \<and> sf_history (tab_state (n4 t)) = sf_history st) n3"
  proof (rule accept_spreads [OF sync])
    show "\<not> flag (roles (other s)) ?st1" using f1 diff by simp
    then show "\<not> dealClosed ?st1" by (auto simp: dealClosed_flags)
    fix n4
    assume "in_sync roles ?st2 n4"
    then show "\<forall>t. dealClosed (tab_state (n4 t)) \<and> sf_history (tab_state (n4 t)) = sf_history st"
      using f2 h2 by (simp add: in_sync_def dealClosed_flags)
  qed
qed

section \<open>Two acceptances at once\<close>

lemma inbox_receive [simp]: "inbox (receive m t) = inbox t"
  by (simp add: receive_def set_state_def split: option.splits)

definition between :: "'p surface \<Rightarrow> 'p surface \<Rightarrow> 'p net \<Rightarrow> bool" where
  "between a b n = (\<forall>s. tab_state (n s) \<in> {a, b} \<and> set (inbox (n s)) \<subseteq> {Some a, Some b})"

lemma between_step:
  assumes "net_step h n l n'" "system l" "between a b n" "wire a = Some a" "wire b = Some b"
  shows "between a b n'"
  using assms
proof (induction rule: net_step.induct)
  case (user n s act t)
  then show ?case by (cases act) simp_all
next
  case (effect n s)
  then have "wire (tab_state (n s)) \<in> {Some a, Some b}" unfolding between_def by (metis insert_iff empty_iff)
  with effect show ?case by (simp add: between_def post_effect_def)
next
  case (message n s m ms)
  then have "m = Some a \<or> m = Some b" "set ms \<subseteq> {Some a, Some b}"
    unfolding between_def by (metis insert_iff empty_iff list.set_intros(1) subsetD, metis list.set(2) insert_subset)
  moreover have "tab_state (n s) = a \<or> tab_state (n s) = b" using message by (auto simp: between_def)
  moreover have "tab_state (receive m ((n s)\<lparr>inbox := ms\<rparr>)) = tab_state (n s) \<or> Some (tab_state (receive m ((n s)\<lparr>inbox := ms\<rparr>))) = m"
    by (simp add: receive_def set_state_def split: option.splits)
  ultimately show ?case using message.prems(2) by (auto simp: between_def)
qed

lemma between_run:
  assumes "net_run h n ls n'" "list_all system ls" "between a b n" "wire a = Some a" "wire b = Some b"
  shows "between a b n'"
  using assms by (induction rule: net_run.induct) (auto dest: between_step)

lemma all_side: "(\<forall>s. P s) = (P LeftTab \<and> P RightTab)"
  by (metis side.exhaust)

text \<open>Each tab is about to post its own state, and each will adopt the other's: after one exchange they
  have swapped.\<close>

definition racing :: "'p surface \<Rightarrow> 'p surface \<Rightarrow> 'p net \<Rightarrow> bool" where
  "racing a b n = (tab_state (n LeftTab) = a \<and> tab_state (n RightTab) = b
     \<and> (\<forall>s. dirty (n s) \<and> inbox (n s) = [] \<and> pendingAcceptIdx (n s) = None))"

definition swap_cycle :: "(side \<times> 'p action) list" where
  "swap_cycle = [(LeftTab, Effect), (RightTab, Effect), (LeftTab, Message), (RightTab, Message)]"

lemma racing_swaps:
  assumes r: "racing a b n" and w: "wire a = Some a" "wire b = Some b" and ad: "adopts a b" "adopts b a"
    and ne: "sf_history a \<noteq> []" "sf_history b \<noteq> []"
  shows "\<exists>n'. net_run h n swap_cycle n' \<and> racing b a n'"
proof -
  let ?L = LeftTab and ?R = RightTab
  note facts = r [unfolded racing_def]
  let ?n1 = "n(?L := post_effect (n ?L), other ?L := (n (other ?L))\<lparr>inbox := inbox (n (other ?L)) @ [wire (tab_state (n ?L))]\<rparr>)"
  let ?n2 = "?n1(?R := post_effect (?n1 ?R), other ?R := (?n1 (other ?R))\<lparr>inbox := inbox (?n1 (other ?R)) @ [wire (tab_state (?n1 ?R))]\<rparr>)"
  let ?n3 = "?n2(?L := receive (Some b) ((?n2 ?L)\<lparr>inbox := []\<rparr>))"
  let ?n4 = "?n3(?R := receive (Some a) ((?n3 ?R)\<lparr>inbox := []\<rparr>))"
  have ok: "render_ok (n ?L)" "render_ok (?n1 ?R)" "render_ok (?n2 ?L)" "render_ok (?n3 ?R)"
    using facts ne by (simp_all add: render_ok_def post_effect_def)
  have "net_step h n (?L, Effect) ?n1" by (rule net_step.effect [where n = n and s = ?L, OF ok(1)]) (simp add: facts)
  moreover have "net_step h ?n1 (?R, Effect) ?n2" by (rule net_step.effect [where n = ?n1 and s = ?R, OF ok(2)]) (simp add: facts)
  moreover have "net_step h ?n2 (?L, Message) ?n3" by (rule net_step.message [where n = ?n2 and s = ?L, OF ok(3)]) (simp add: facts post_effect_def w)
  moreover have "net_step h ?n3 (?R, Message) ?n4" by (rule net_step.message [where n = ?n3 and s = ?R, OF ok(4)]) (simp add: facts post_effect_def w)
  ultimately have "net_run h n swap_cycle ?n4"
    unfolding swap_cycle_def by (blast intro: net_run.intros)
  moreover have "(\<forall>s. dirty (?n4 s) \<and> inbox (?n4 s) = [] \<and> pendingAcceptIdx (?n4 s) = None)"
  proof
    fix s show "dirty (?n4 s) \<and> inbox (?n4 s) = [] \<and> pendingAcceptIdx (?n4 s) = None"
      using facts ad by (cases s) (simp_all add: receive_def set_state_def post_effect_def)
  qed
  moreover have "tab_state (?n4 ?L) = b" "tab_state (?n4 ?R) = a"
    using facts ad by (simp_all add: receive_def set_state_def post_effect_def)
  ultimately show ?thesis unfolding racing_def by blast
qed

lemma system_swap_cycle [simp]: "list_all system swap_cycle"
  by (simp add: swap_cycle_def)

lemma racing_forever:
  assumes "racing a b n" "wire a = Some a" "wire b = Some b" "adopts a b" "adopts b a"
    "sf_history a \<noteq> []" "sf_history b \<noteq> []"
  shows "\<exists>ls n'. net_run h n ls n' \<and> list_all system ls \<and> length ls = 4 * k"
  using assms
proof (induction k arbitrary: a b n)
  case 0
  then show ?case by (auto intro: net_run.intros)
next
  case (Suc k)
  then obtain n1 where n1: "net_run h n swap_cycle n1" "racing b a n1" using racing_swaps by blast
  from Suc.IH [OF n1(2)] Suc.prems obtain ls n' where "net_run h n1 ls n'" "list_all system ls" "length ls = 4 * k" by blast
  then show ?case
    using net_run_append [OF n1(1)] by (intro exI [of _ "swap_cycle @ ls"]) (auto simp: swap_cycle_def)
qed

text \<open>C2: Two acceptances at once never close the deal. When both parties accept before either state
  has arrived, the tabs adopt each other's state instead of joining the two flags: under every
  schedule no tab ever shows a closed deal, and the exchange can go on for ever.\<close>

theorem concurrent_accepts_lost:
  assumes "in_sync roles st n" "\<not> sf_buyerAccepted st" "\<not> sf_supplierAccepted st"
  shows "\<exists>n1. net_run h n [(LeftTab, AcceptRequest), (LeftTab, AcceptConfirm), (RightTab, AcceptRequest), (RightTab, AcceptConfirm)] n1 \<and>
    (\<forall>ls n'. net_run h n1 ls n' \<and> list_all system ls \<longrightarrow> \<not> dealClosed (tab_state (n' s))) \<and>
    (\<forall>k. \<exists>ls n'. net_run h n1 ls n' \<and> list_all system ls \<and> length ls = 4 * k)"
proof -
  let ?L = LeftTab and ?R = RightTab
  have no: "\<not> flag p st" for p using assms(2,3) by (cases p) (simp_all add: flag_def)
  note facts = assms(1) [unfolded in_sync_def]
  have nst: "normal st" and diff: "roles ?R \<noteq> roles ?L" using facts by simp_all
  let ?a = "applySurfaceAccept st (roles ?L)" and ?b = "applySurfaceAccept st (roles ?R)"
  have fl: "flag p (applySurfaceAccept st who) = (p = who)" for p who using nst no by (simp add: accept_state)
  have w: "wire ?a = Some ?a" "wire ?b = Some ?b"
    using facts accept_state [OF nst] by (simp_all add: wire_normal)
  have ad: "adopts ?a ?b" "adopts ?b ?a"
    using diff accept_state [OF nst] by (auto simp: adopts_flags fl)
  have ne: "sf_history ?a \<noteq> []" "sf_history ?b \<noteq> []"
    using facts accept_state [OF nst] both_offers [of st BuyerParty] by auto
  let ?n1 = "n(?L := accepted (roles ?L) (n ?L))"
  let ?n2 = "?n1(?R := accepted (roles ?R) (?n1 ?R))"
  have "waiting (roles ?L) st (n ?L)" "waiting (roles ?R) st (?n1 ?R)"
    using facts no by (simp_all add: waiting_def dealClosed_flags)
  note accept_moves [where n = n and s = ?L, OF this(1)] accept_moves [where n = ?n1 and s = ?R, OF this(2)]
  from net_run_append [OF this] have run: "net_run h n [(?L, AcceptRequest), (?L, AcceptConfirm), (?R, AcceptRequest), (?R, AcceptConfirm)] ?n2"
    by simp
  have race: "racing ?a ?b ?n2"
    using facts by (auto simp: racing_def accepted_def all_side)
  have "between ?a ?b ?n2"
    using race by (simp add: racing_def between_def all_side)
  then have "between ?a ?b n'" if "net_run h ?n2 ls n'" "list_all system ls" for ls n'
    using between_run [OF that] w by blast
  moreover have "\<not> dealClosed ?a" "\<not> dealClosed ?b"
    using diff by (metis dealClosed_flags fl)+
  ultimately have "\<not> dealClosed (tab_state (n' s))" if "net_run h ?n2 ls n'" "list_all system ls" for ls n'
    using that unfolding between_def by (metis insert_iff empty_iff)
  with run racing_forever [OF race w ad ne] show ?thesis by blast
qed

text \<open>C4: A session that is started anew while an acceptance awaits its confirmation breaks the page:
  the index of the offer to confirm is kept, the history is empty, and picking a role renders an offer
  that does not exist.\<close>

theorem new_session_breaks_page:
  assumes "in_sync roles st n" "\<not> dealClosed st"
  shows "\<exists>n'. net_run h n [(s, AcceptRequest), (s, NewSession rid), (s, PickRole who)] n' \<and> \<not> render_ok (n' s)"
proof -
  have "waiting (roles s) st (n s)" using assms by (simp add: waiting_def in_sync_def)
  from request_move [where n = n and s = s, OF this] obtain i where
    i: "i < length (sf_history st)" "net_step h n (s, AcceptRequest) (n(s := (n s)\<lparr>pendingAcceptIdx := Some i\<rparr>))" by blast
  let ?t1 = "(n s)\<lparr>pendingAcceptIdx := Some i\<rparr>"
  let ?n1 = "n(s := ?t1)"
  let ?t2 = "handleNewSession rid ?t1"
  let ?n2 = "?n1(s := ?t2)"
  let ?t3 = "handlePickRole who ?t2"
  have "render_ok (?n1 s)" "render_ok (?n2 s)"
    using assms i(1) by (simp_all add: render_ok_def in_sync_def handleNewSession_def)
  moreover have "tab_role ?t2 = None" by (simp add: handleNewSession_def)
  ultimately have "net_step h ?n1 (s, NewSession rid) ?n2" "net_step h ?n2 (s, PickRole who) (?n2(s := ?t3))"
    by (auto intro!: user_step simp: can_pick_def)
  with i(2) have "net_run h n [(s, AcceptRequest), (s, NewSession rid), (s, PickRole who)] (?n2(s := ?t3))"
    by (blast intro: net_run.intros)
  moreover have "\<not> render_ok ((?n2(s := ?t3)) s)"
    by (simp add: render_ok_def handlePickRole_def handleNewSession_def set_state_def newSurfaceState_def)
  ultimately show ?thesis by blast
qed

section \<open>What the merge does not notice\<close>

text \<open>The party that opens a session is told that its partner took its role: the conflict looks at the
  rounds only, and its own are there.\<close>

lemma own_offer_conflicts:
  assumes "tab_role t = Some who" "sf_history (tab_state t) = []" "handleSubmit h q price nt now t = Some t'"
  shows "roleConflict t'"
proof -
  obtain st where "runSurfaceEngine h (appendSurfaceRound (tab_state t) (round_of who q price nt now)) = Inr st" "t' = set_state st t"
    using assms by (auto simp: handleSubmit_def split: sum.splits)
  moreover from engine_keeps [OF this(1)] have "sf_history st = [round_of who q price nt now]"
    using assms(2) by (simp add: MAX_HISTORY_def)
  ultimately show ?thesis using assms(1) by (simp add: roleConflict_def set_state_def round_of_def)
qed

text \<open>A longer history of any other session replaces the state of the tab.\<close>

lemma foreign_session_adopted:
  "length (sf_history (tab_state t)) < length (sf_history st) \<Longrightarrow> tab_state (receive (Some st) t) = st"
  by (simp add: receive_def adopts_def set_state_def)

text \<open>Once both histories hold 24 rounds a new round does not arrive any more, nor does a change of the
  mechanism at any time.\<close>

lemma equal_length_ignored:
  assumes "length (sf_history st) = length (sf_history (tab_state t))"
    and "sf_buyerAccepted st = sf_buyerAccepted (tab_state t)" "sf_supplierAccepted st = sf_supplierAccepted (tab_state t)"
  shows "receive (Some st) t = t"
  using assms by (simp add: receive_def adopts_def)

lemma full_history_never_grows:
  "length (sf_history st) = MAX_HISTORY \<Longrightarrow> length (sf_history (appendSurfaceRound st r)) = MAX_HISTORY"
  by simp

section \<open>An instance\<close>

definition demo_history :: "0 roundRecord list" where
  "demo_history =
     [\<lparr>rd_role = BuyerParty, rd_offer = \<lparr>of_q = Fin 400, of_unitPrice = Fin 85, of_note = []\<rparr>, rd_at = ''t1''\<rparr>,
      \<lparr>rd_role = SupplierParty, rd_offer = \<lparr>of_q = Fin 350, of_unitPrice = Fin 95, of_note = []\<rparr>, rd_at = ''t2''\<rparr>]"

definition demo_state :: "0 surface" where
  "demo_state = \<lparr>sf_sessionId = ''s'', mechanismId = ''weighted_nash_bounded'', privacyMode = NashPrivate,
     sf_history = demo_history, sf_buyerAccepted = False, sf_supplierAccepted = False, engineResponse = None\<rparr>"

fun demo_roles :: "side \<Rightarrow> party" where
  "demo_roles LeftTab = BuyerParty"
| "demo_roles RightTab = SupplierParty"

definition demo_net :: "0 net" where
  "demo_net s = \<lparr>tab_state = demo_state, tab_role = Some (demo_roles s), pendingAcceptIdx = None,
     lastSeenRounds = 2, dirty = False, tab_url = None, inbox = []\<rparr>"

lemma demo_sync: "in_sync demo_roles demo_state demo_net"
  by (simp add: in_sync_def demo_net_def demo_state_def demo_history_def normal_iff isFunctionalMechanism_def
      FUNCTIONAL_NEGOTIATION_MECHANISMS_def privacyModeForMechanism_def MAX_HISTORY_def finite_offer_def
      latestSurfaceOfferFor_def latest_offer_def)

lemma demo_open: "\<not> sf_buyerAccepted demo_state" "\<not> sf_supplierAccepted demo_state" "\<not> dealClosed demo_state"
  by (simp_all add: demo_state_def dealClosed_def)

theorem no_forged_rounds_witness:
  "\<forall>h. \<exists>n1. net_run h demo_net [(LeftTab, AcceptRequest), (LeftTab, AcceptConfirm)] n1
     \<and> normal (tab_state (n1 LeftTab)) \<and> sf_buyerAccepted (tab_state (n1 LeftTab))"
proof
  fix h
  let ?n1 = "demo_net(LeftTab := accepted BuyerParty (demo_net LeftTab))"
  have "waiting BuyerParty demo_state (demo_net LeftTab)"
    using demo_sync demo_open by (simp add: waiting_def in_sync_def)
  from accept_moves [where n = demo_net and s = LeftTab, OF this]
  have run: "net_run h demo_net [(LeftTab, AcceptRequest), (LeftTab, AcceptConfirm)] ?n1" .
  have "\<forall>s. normal (tab_state (demo_net s)) \<and> inbox (demo_net s) = []"
    using demo_sync by (simp add: in_sync_def)
  from no_forged_rounds [OF run this, of LeftTab] have "normal (tab_state (?n1 LeftTab))" by blast
  moreover have "sf_buyerAccepted (tab_state (?n1 LeftTab))"
    by (simp add: accepted_def applySurfaceAccept_def)
  ultimately show "\<exists>n1. net_run h demo_net [(LeftTab, AcceptRequest), (LeftTab, AcceptConfirm)] n1
     \<and> normal (tab_state (n1 LeftTab)) \<and> sf_buyerAccepted (tab_state (n1 LeftTab))"
    using run by blast
qed

theorem deal_closes_witness:
  "\<forall>h. \<exists>n1. net_run h demo_net [(LeftTab, AcceptRequest), (LeftTab, AcceptConfirm)] n1 \<and>
    settles h (\<lambda>n2. \<exists>n3. net_run h n2 [(RightTab, AcceptRequest), (RightTab, AcceptConfirm)] n3 \<and>
      settles h (\<lambda>n4. \<forall>t. dealClosed (tab_state (n4 t)) \<and> sf_history (tab_state (n4 t)) = demo_history) n3) n1"
  using deal_closes [OF demo_sync demo_open(1,2), of _ LeftTab] by (simp add: demo_state_def)

theorem concurrent_accepts_lost_witness:
  "\<forall>h. \<exists>n1. net_run h demo_net [(LeftTab, AcceptRequest), (LeftTab, AcceptConfirm), (RightTab, AcceptRequest), (RightTab, AcceptConfirm)] n1
    \<and> \<not> dealClosed (tab_state (n1 LeftTab))"
proof
  fix h
  show "\<exists>n1. net_run h demo_net [(LeftTab, AcceptRequest), (LeftTab, AcceptConfirm), (RightTab, AcceptRequest), (RightTab, AcceptConfirm)] n1
    \<and> \<not> dealClosed (tab_state (n1 LeftTab))"
    using concurrent_accepts_lost [OF demo_sync demo_open(1,2), of h LeftTab] net_run.run_nil
    by (metis list.pred_inject(1))
qed

theorem new_session_breaks_page_witness:
  "\<forall>h. \<exists>n'. net_run h demo_net [(LeftTab, AcceptRequest), (LeftTab, NewSession ''r''), (LeftTab, PickRole BuyerParty)] n'
     \<and> \<not> render_ok (n' LeftTab)"
  by (intro allI new_session_breaks_page [OF demo_sync demo_open(3)])

end
