(* ===== verification/TransferPricing.thy ===== *)
theory TransferPricing
  imports JsBounds
begin

text \<open>
  \<^verbatim>\<open>packages/engine/src/learn/transferPricing.ts\<close>: the transfer a platform pays a vendor for an
  operational move, and when both gain by it. \<open>finite_or\<close> and \<open>cents\<close> are shared with the other
  modules of \<^verbatim>\<open>learn\<close> that have the same helpers.
\<close>

section \<open>Helpers\<close>

definition finite_or :: "'p jsnum \<Rightarrow> 'p jsnum \<Rightarrow> 'p jsnum" where
  "finite_or value fallback = (if is_fin value then value else fallback)"

definition nonNegative :: "('p::len0) jsnum \<Rightarrow> 'p jsnum \<Rightarrow> 'p jsnum" where
  "nonNegative value fallback = jmax 0 (finite_or value fallback)"

definition at_least_one :: "('p::len0) jsnum \<Rightarrow> 'p jsnum \<Rightarrow> 'p jsnum" where
  "at_least_one value fallback = jmax 1 (finite_or value fallback)"

definition cents :: "('p::len0) jsnum \<Rightarrow> 'p jsnum" where
  "cents value = jround (value * lit 100) / lit 100"

section \<open>Scenarios and results\<close>

datatype transferMethod = SurplusShare | MarginalExternality | TwoPartTariff | VcgStyle

definition TRANSFER_METHODS :: "transferMethod list" where
  "TRANSFER_METHODS = [SurplusShare, MarginalExternality, TwoPartTariff, VcgStyle]"

record 'p transferScenario =
  tp_method :: transferMethod
  tp_units :: "'p jsnum"
  vendorIncrementalCost :: "'p jsnum"
  platformBenefit :: "'p jsnum"
  networkCongestionCost :: "'p jsnum"
  tp_splitAlpha :: "'p jsnum"
  capacityShadowPricePerUnit :: "'p jsnum"
  serviceCreditPerUnit :: "'p jsnum"
  timingPremiumPerUnit :: "'p jsnum"
  congestionChargePerUnit :: "'p jsnum"
  markdownRiskChargePerUnit :: "'p jsnum"

record 'p transferComponent =
  tc_id :: string
  tc_label :: string
  tc_amount :: "'p jsnum"
  tc_note :: string

record 'p transferResult =
  tr_method :: transferMethod
  tr_welfareSurplus :: "'p jsnum"
  acceptanceMin :: "'p jsnum"
  acceptanceMax :: "'p jsnum"
  tr_feasible :: bool
  selectedTransfer :: "'p jsnum"
  unitTransfer :: "'p jsnum"
  vendorNetGain :: "'p jsnum"
  platformNetGain :: "'p jsnum"
  budgetBalanced :: bool
  tr_components :: "'p transferComponent list"
  tr_explanation :: string
  tr_guardrail :: string

definition DEFAULT_TRANSFER_SCENARIO :: "('p::len0) transferScenario" where
  "DEFAULT_TRANSFER_SCENARIO =
     \<lparr>tp_method = SurplusShare, tp_units = lit 1000, vendorIncrementalCost = lit 4000, platformBenefit = lit 11000,
      networkCongestionCost = lit 2000, tp_splitAlpha = lit 0.5, capacityShadowPricePerUnit = lit 0.18,
      serviceCreditPerUnit = lit 0.11, timingPremiumPerUnit = lit 0.07, congestionChargePerUnit = lit 0.04,
      markdownRiskChargePerUnit = lit 0.03\<rparr>"

section \<open>The transfer\<close>

fun methodTransfer :: "transferMethod \<Rightarrow> ('p::len0) jsnum \<Rightarrow> 'p jsnum \<Rightarrow> 'p jsnum \<Rightarrow> 'p jsnum \<Rightarrow> 'p jsnum" where
  "methodTransfer m lo hi surplus \<alpha> =
     (if surplus \<le> 0 \<or> hi < lo then 0
      else case m of
        MarginalExternality \<Rightarrow> lo + surplus / lit 2
      | TwoPartTariff \<Rightarrow> lo + clamp \<alpha> 0 1 * surplus
      | VcgStyle \<Rightarrow> hi
      | SurplusShare \<Rightarrow> lo + clamp \<alpha> 0 1 * surplus)"

fun methodExplanation :: "transferMethod \<Rightarrow> string" where
  "methodExplanation MarginalExternality =
     ''Prices the operational move by the external benefit it creates, then splits the surplus inside the acceptance interval.''"
| "methodExplanation TwoPartTariff =
     ''Keeps the unit signal close to scarcity cost and uses a fixed credit to divide the remaining surplus.''"
| "methodExplanation VcgStyle =
     ''Uses the outside-party externality as the reference payment. It is clean in theory and harder to explain commercially.''"
| "methodExplanation SurplusShare =
     ''Compensates the harmed party for cost, then shares the remaining real surplus by policy.''"

definition signalComponents :: "('p::len0) transferScenario \<Rightarrow> 'p jsnum \<Rightarrow> 'p transferComponent list" where
  "signalComponents cfg units =
     [\<lparr>tc_id = ''capacity'', tc_label = ''capacity'', tc_amount = nonNegative (capacityShadowPricePerUnit cfg) 0 * units,
       tc_note = ''Scarce node or lane capacity gets a positive shadow price.''\<rparr>,
      \<lparr>tc_id = ''service'', tc_label = ''service'', tc_amount = nonNegative (serviceCreditPerUnit cfg) 0 * units,
       tc_note = ''Avoided stockout or service failure becomes a credit.''\<rparr>,
      \<lparr>tc_id = ''timing'', tc_label = ''timing'', tc_amount = nonNegative (timingPremiumPerUnit cfg) 0 * units,
       tc_note = ''Earlier or more reliable arrival gets a timing premium.''\<rparr>,
      \<lparr>tc_id = ''congestion'', tc_label = ''congestion'', tc_amount = - nonNegative (congestionChargePerUnit cfg) 0 * units,
       tc_note = ''Overloaded nodes charge the plan for operational disruption.''\<rparr>,
      \<lparr>tc_id = ''markdown'', tc_label = ''markdown risk'', tc_amount = - nonNegative (markdownRiskChargePerUnit cfg) 0 * units,
       tc_note = ''Excess inventory risk reduces the operational credit.''\<rparr>]"

definition transfer_components :: "('p::len0) transferScenario \<Rightarrow> 'p jsnum \<Rightarrow> 'p jsnum \<Rightarrow> 'p transferComponent list" where
  "transfer_components cfg units selected =
     (let signals = signalComponents cfg units; unitSignal = jsum (map tc_amount signals)
      in if tp_method cfg = TwoPartTariff
         then signals @ [\<lparr>tc_id = ''fixed-surplus'', tc_label = ''fixed surplus'', tc_amount = selected - unitSignal,
           tc_note = ''Fixed credit keeps surplus sharing separate from marginal operating signals.''\<rparr>]
         else [\<lparr>tc_id = ''fixed-surplus'', tc_label = ''settlement transfer'', tc_amount = selected,
           tc_note = ''Single transfer chosen from the positive-surplus acceptance interval.''\<rparr>])"

text \<open>\<open>f\<close> overwrites fields of the default scenario.\<close>

definition evaluateTransferPricing ::
    "('p transferScenario \<Rightarrow> ('p::len0) transferScenario) \<Rightarrow> 'p transferResult" where
  "evaluateTransferPricing f =
     (let cfg = f DEFAULT_TRANSFER_SCENARIO;
          units = at_least_one (tp_units cfg) (lit 1000);
          vendorCost = nonNegative (vendorIncrementalCost cfg) (lit 4000);
          benefit = nonNegative (platformBenefit cfg) (lit 11000);
          congestionCost = nonNegative (networkCongestionCost cfg) (lit 2000);
          \<alpha> = clamp (finite_or (tp_splitAlpha cfg) (lit 0.5)) 0 1;
          surplus = benefit - vendorCost - congestionCost;
          lo = vendorCost; hi = jmax 0 (benefit - congestionCost);
          feasible = (0 < surplus \<and> lo \<le> hi);
          raw = methodTransfer (tp_method cfg) lo hi surplus \<alpha>;
          selected = (if feasible then clamp raw lo hi else 0)
      in \<lparr>tr_method = tp_method cfg, tr_welfareSurplus = cents surplus, acceptanceMin = cents lo, acceptanceMax = cents hi,
          tr_feasible = feasible, selectedTransfer = cents selected, unitTransfer = cents (selected / units),
          vendorNetGain = cents (selected - vendorCost), platformNetGain = cents (benefit - congestionCost - selected),
          budgetBalanced = (\<bar>selected + - selected\<bar> < lit 0.01),
          tr_components = map (\<lambda>c. c\<lparr>tc_amount := cents (tc_amount c)\<rparr>) (transfer_components cfg units selected),
          tr_explanation = methodExplanation (tp_method cfg),
          tr_guardrail = (if feasible
            then ''Positive real surplus. Transfers may allocate the gain, but they do not create it.''
            else ''Do not use a transfer to make a negative-welfare plan look attractive.'')\<rparr>)"

section \<open>Laws of the helpers\<close>

lemma finite_or_fin [simp]: "is_fin d \<Longrightarrow> is_fin (finite_or x d)"
  by (simp add: finite_or_def)

lemma nonNegative_fin [simp]: "is_fin d \<Longrightarrow> is_fin (nonNegative x d)"
  by (cases x; cases d) (simp_all add: nonNegative_def finite_or_def zero_jsnum_def)

lemma nonNegative_nonneg: "is_fin d \<Longrightarrow> Fin 0 \<le> nonNegative x d" for x :: "('p::len0) jsnum"
  by (cases x; cases d) (simp_all add: nonNegative_def finite_or_def zero_jsnum_def)

lemma num_divide_pos_mono [js_order]:
  "x \<le> y \<Longrightarrow> 0 < c \<Longrightarrow> x / Fin c \<le> y / Fin c" for x :: "('p::len0) jsnum"
  by (cases x; cases y) (auto simp: divide_right_mono intro!: lit_mono)

lemma lit_100: "\<exists>c > 0. (lit 100 :: ('p::len0) jsnum) = Fin c"
proof -
  obtain c where c: "(lit 100 :: 'p jsnum) = Fin c" using lit_is_fin [of 100, where 'p = 'p] by simp
  have "Fin 1 \<le> (lit 100 :: 'p jsnum)"
    using lit_mono [of 1 100, where 'p = 'p] lit_int [of 1, where 'p = 'p] by simp
  then show ?thesis using c by auto
qed

lemma cents_mono [js_order]: "x \<le> y \<Longrightarrow> cents x \<le> cents y" for x :: "('p::len0) jsnum"
proof -
  assume xy: "x \<le> y"
  obtain c where c: "0 < c" "(lit 100 :: 'p jsnum) = Fin c" using lit_100 by blast
  have "x * Fin c \<le> y * Fin c"
    using xy c(1) by (intro num_mult_right_mono) (cases x; cases y; auto simp: less_jsnum_def)+
  then show ?thesis
    unfolding cents_def c(2) by (intro num_divide_pos_mono jround_mono c(1))
qed

lemma cents_0 [simp]: "cents (Fin 0) = (Fin 0 :: ('p::len0) jsnum)"
proof -
  obtain c where c: "0 < c" "(lit 100 :: 'p jsnum) = Fin c" using lit_100 by blast
  then show ?thesis by (simp add: cents_def)
qed

lemma cents_nonneg: "Fin 0 \<le> x \<Longrightarrow> Fin 0 \<le> cents x" for x :: "('p::len0) jsnum"
  using cents_mono [of "Fin 0" x] by simp

lemma representable_jmax [simp]: "representable x \<Longrightarrow> representable y \<Longrightarrow> representable (jmax x y)"
  by (simp add: jmax_def)

lemma lit_small_fin [simp]: "\<bar>r\<bar> \<le> 2 ^ 1000 \<Longrightarrow> is_fin (lit r :: ('p::len0) jsnum)"
  by (simp add: lit_is_fin)

lemma lit_cent_pos: "Fin 0 < (lit 0.01 :: ('p::len0) jsnum)"
proof -
  have "(lit (pow2 (- 7)) :: 'p jsnum) = Fin (pow2 (- 7))"
    using lit_is_fin [of "pow2 (- 7)", where 'p = 'p] pow2_mono [of "- 7" 0] by (simp only: rnd_pow2) (simp add: pow2_def)
  then have "Fin 0 < (lit (pow2 (- 7)) :: 'p jsnum)" by simp
  moreover have "(lit (pow2 (- 7)) :: 'p jsnum) \<le> lit 0.01" by (rule lit_mono) (simp add: pow2_def)
  ultimately show ?thesis by (rule num_less_le_trans)
qed

lemma fin_mult_not_NaN: "is_fin x \<Longrightarrow> is_fin y \<Longrightarrow> x * y \<noteq> NaN"
  by (cases x; cases y) simp_all

lemma fin_add_not_NaN: "is_fin x \<Longrightarrow> y \<noteq> NaN \<Longrightarrow> x + y \<noteq> NaN"
  by (cases x; cases y) simp_all

lemma diff_fin_not_NaN: "x \<noteq> NaN \<Longrightarrow> is_fin y \<Longrightarrow> x - y \<noteq> NaN"
  by (cases x; cases y) (simp_all add: minus_jsnum_def)

lemma between_is_fin: "is_fin x \<Longrightarrow> is_fin y \<Longrightarrow> x \<le> z \<Longrightarrow> z \<le> y \<Longrightarrow> is_fin z"
  by (cases x; cases y; cases z) simp_all

section \<open>Both gain\<close>

text \<open>C16: A transfer is made only when both gain by it, at every precision and for all inputs that are
  numbers of the machine: in a feasible result the transfer lies in the acceptance interval and
  neither net gain is negative; in any other nothing is transferred. The payments always cancel.\<close>

theorem transfer_individually_rational:
  fixes f :: "('p::len0) transferScenario \<Rightarrow> 'p transferScenario"
  assumes "representable (platformBenefit (f DEFAULT_TRANSFER_SCENARIO))"
  shows "budgetBalanced (evaluateTransferPricing f) \<and>
    (if tr_feasible (evaluateTransferPricing f)
     then acceptanceMin (evaluateTransferPricing f) \<le> selectedTransfer (evaluateTransferPricing f)
       \<and> selectedTransfer (evaluateTransferPricing f) \<le> acceptanceMax (evaluateTransferPricing f)
       \<and> 0 \<le> vendorNetGain (evaluateTransferPricing f) \<and> 0 \<le> platformNetGain (evaluateTransferPricing f)
     else selectedTransfer (evaluateTransferPricing f) = 0)"
proof -
  define cfg where "cfg = f DEFAULT_TRANSFER_SCENARIO"
  define vc where "vc = nonNegative (vendorIncrementalCost cfg) (lit 4000)"
  define pb where "pb = nonNegative (platformBenefit cfg) (lit 11000)"
  define cc where "cc = nonNegative (networkCongestionCost cfg) (lit 2000)"
  define hi where "hi = jmax 0 (pb - cc)"
  define surplus where "surplus = pb - vc - cc"
  define raw where "raw = methodTransfer (tp_method cfg) vc hi surplus (clamp (finite_or (tp_splitAlpha cfg) (lit 0.5)) 0 1)"
  define feas where "feas = (0 < surplus \<and> vc \<le> hi)"
  define sel where "sel = (if feas then clamp raw vc hi else 0)"
  note defs = cfg_def vc_def pb_def cc_def hi_def surplus_def raw_def feas_def sel_def
  have fields: "tr_feasible (evaluateTransferPricing f) = feas" "acceptanceMin (evaluateTransferPricing f) = cents vc"
    "acceptanceMax (evaluateTransferPricing f) = cents hi" "selectedTransfer (evaluateTransferPricing f) = cents sel"
    "vendorNetGain (evaluateTransferPricing f) = cents (sel - vc)"
    "platformNetGain (evaluateTransferPricing f) = cents (pb - cc - sel)"
    "budgetBalanced (evaluateTransferPricing f) = (\<bar>sel + - sel\<bar> < lit 0.01)"
    by (simp_all add: evaluateTransferPricing_def Let_def defs)
  have fin: "is_fin vc" "is_fin pb" "is_fin cc" and nonneg: "Fin 0 \<le> vc" "Fin 0 \<le> pb" "Fin 0 \<le> cc"
    by (simp_all add: defs nonNegative_nonneg)
  have rep: "representable pb"
    using assms by (simp add: pb_def cfg_def nonNegative_def finite_or_def zero_jsnum_def)
  have le1: "pb - vc \<le> pb" "pb - cc \<le> pb"
    using num_diff_le_self [OF rep fin(2)] fin nonneg by blast+
  show ?thesis
  proof (cases feas)
    case True
    then have pos: "Fin 0 < surplus" and lohi: "vc \<le> hi" by (simp_all add: feas_def zero_jsnum_def)
    have "surplus \<le> pb - cc"
      unfolding surplus_def using le1(1) fin
      by (intro num_diff_mono diff_fin_not_NaN) (auto simp: minus_jsnum_def elim!: is_finE)
    then have pc: "Fin 0 < pb - cc" using pos num_less_le_trans by blast
    then have hi: "hi = pb - cc" by (simp add: hi_def zero_jsnum_def jmax_absorb num_less_imp_le)
    have fhi: "is_fin hi" unfolding hi using between_is_fin [OF _ fin(2)] pc le1(2) num_less_imp_le by (metis is_fin.simps(1))
    have fs: "is_fin surplus"
      using between_is_fin [of "Fin 0" pb surplus] fin(2) pos num_less_imp_le \<open>surplus \<le> pb - cc\<close> le1(2) num_trans by (metis is_fin.simps(1))
    let ?a = "clamp (clamp (finite_or (tp_splitAlpha cfg) (lit 0.5)) 0 1) 0 1 :: 'p jsnum"
    have "is_fin ?a"
      by (intro clamp_is_fin) (auto simp: zero_jsnum_def one_jsnum_def finite_or_def)
    then have share: "vc + ?a * surplus \<noteq> NaN"
      using fin(1) fs by (intro fin_add_not_NaN fin_mult_not_NaN)
    obtain c where c: "(lit 2 :: 'p jsnum) = Fin c" using lit_is_fin [of 2, where 'p = 'p] by simp
    have "vc + surplus / lit 2 \<noteq> NaN"
      using fin(1) fs pos by (intro fin_add_not_NaN) (auto simp: c elim!: is_finE split: if_splits)
    with share have "raw \<noteq> NaN"
      using fhi by (cases "tp_method cfg") (auto simp: raw_def zero_jsnum_def)
    then have sel: "vc \<le> sel" "sel \<le> hi" using clamp_bounds [of vc hi raw] lohi True by (simp_all add: sel_def)
    then have fsel: "is_fin sel" using between_is_fin fin(1) fhi by blast
    have "Fin 0 \<le> sel - vc" "Fin 0 \<le> hi - sel"
      using sel fsel fhi fin(1) by (auto intro!: lit_nonneg simp: minus_jsnum_def elim!: is_finE)
    then show ?thesis
      using True sel fsel lit_cent_pos [where 'p = 'p]
      by (simp add: fields zero_jsnum_def cents_mono cents_nonneg num_diff_nonneg num_minus_plus_self hi [symmetric])
  next
    case False
    then show ?thesis using lit_cent_pos [where 'p = 'p] by (simp add: fields sel_def zero_jsnum_def)
  qed
qed

theorem transfer_individually_rational_witness:
  "(0 :: exact) \<le> platformNetGain (evaluateTransferPricing (\<lambda>s. s\<lparr>tp_method := TwoPartTariff\<rparr>))
   \<and> selectedTransfer (evaluateTransferPricing (\<lambda>s. s\<lparr>tp_method := TwoPartTariff\<rparr>)) = (Fin 6500 :: exact)"
proof -
  let ?f = "\<lambda>s. s\<lparr>tp_method := TwoPartTariff\<rparr> :: 0 transferScenario"
  have "representable (platformBenefit (?f DEFAULT_TRANSFER_SCENARIO))"
    by (simp add: DEFAULT_TRANSFER_SCENARIO_def representable_def)
  note ir = transfer_individually_rational [where f = ?f, OF this]
  have "tr_feasible (evaluateTransferPricing ?f)" "selectedTransfer (evaluateTransferPricing ?f) = Fin 6500"
    by (simp_all add: evaluateTransferPricing_def DEFAULT_TRANSFER_SCENARIO_def nonNegative_def finite_or_def
        cents_def exact_eval Let_def floor_eq_iff)
  with ir show ?thesis by simp
qed

end
