(* ===== verification/MultiPeriod.thy ===== *)
theory MultiPeriod
  imports JsBounds
begin

text \<open>
  \<^verbatim>\<open>packages/engine/src/learn/multiPeriod.ts\<close>: a schedule of weekly commitments and its value. The
  number of weeks is a natural number here.
\<close>

section \<open>Plans\<close>

datatype commitmentKind = FirmCommitment | SoftCommitment | ForecastCommitment

definition COMMITMENT_KINDS :: "commitmentKind list" where
  "COMMITMENT_KINDS = [FirmCommitment, SoftCommitment, ForecastCommitment]"

fun SHORTFALL_PENALTY :: "commitmentKind \<Rightarrow> ('p::len0) jsnum" where
  "SHORTFALL_PENALTY FirmCommitment = lit 130"
| "SHORTFALL_PENALTY SoftCommitment = lit 60"
| "SHORTFALL_PENALTY ForecastCommitment = 0"

record 'p weekPlan =
  wp_week :: nat
  wp_q :: "'p jsnum"
  wp_committed :: "'p jsnum"
  wp_commitment :: commitmentKind
  demandMean :: "'p jsnum"
  forecastConfidence :: "'p jsnum"

record 'p multiPeriodConfig =
  mp_weeks :: nat
  mp_serviceValue :: "'p jsnum"
  mp_unitCost :: "'p jsnum"
  mp_excessPenalty :: "'p jsnum"

record 'p weekResult =
  wr_week :: nat
  wr_utility :: "'p jsnum"
  wr_delivered :: "'p jsnum"
  wr_shortfall :: "'p jsnum"
  wr_overcommit :: "'p jsnum"
  wr_commitment :: commitmentKind

record 'p multiPeriodResult =
  mr_total :: "'p jsnum"
  mr_weeks :: "'p weekResult list"

definition DEFAULT_MULTI_PERIOD_CONFIG :: "('p::len0) multiPeriodConfig" where
  "DEFAULT_MULTI_PERIOD_CONFIG =
     \<lparr>mp_weeks = 12, mp_serviceValue = lit 125, mp_unitCost = lit 55, mp_excessPenalty = lit 7\<rparr>"

definition default_week :: "nat \<Rightarrow> ('p::len0) weekPlan" where
  "default_week w =
     (let d = lit 500 - (of_count w - 1) * lit 12;
          (conf, kind) =
            (if w \<le> 3 then (lit 0.95, FirmCommitment)
             else if w \<le> 7 then (lit 0.75, SoftCommitment)
             else (jmax (lit 0.35) (lit 0.65 - (of_count w - lit 7) * lit 0.06), ForecastCommitment))
      in \<lparr>wp_week = w, wp_q = d, wp_committed = d, wp_commitment = kind, demandMean = d, forecastConfidence = conf\<rparr>)"

definition defaultMultiPeriodPlan :: "('p::len0) multiPeriodConfig \<Rightarrow> 'p weekPlan list" where
  "defaultMultiPeriodPlan config = map default_week [1..<Suc (mp_weeks config)]"

section \<open>Value of a plan\<close>

definition weeklyUtility :: "('p::len0) weekPlan \<Rightarrow> 'p multiPeriodConfig \<Rightarrow> 'p weekResult" where
  "weeklyUtility wk config =
     (let effectiveDemand = demandMean wk * forecastConfidence wk;
          delivered = mp_serviceValue config * jmin (wp_q wk) effectiveDemand;
          c = mp_unitCost config * wp_q wk;
          shortfall = SHORTFALL_PENALTY (wp_commitment wk) * jmax 0 (wp_committed wk - wp_q wk);
          overcommit = mp_excessPenalty config * jmax 0 (wp_q wk - demandMean wk * lit 1.2)
      in \<lparr>wr_week = wp_week wk, wr_utility = delivered - c - shortfall - overcommit, wr_delivered = delivered,
          wr_shortfall = shortfall, wr_overcommit = overcommit, wr_commitment = wp_commitment wk\<rparr>)"

definition evaluateMultiPeriodPlan :: "('p::len0) weekPlan list \<Rightarrow> 'p multiPeriodConfig \<Rightarrow> 'p multiPeriodResult" where
  "evaluateMultiPeriodPlan plan config =
     (let weeks = map (\<lambda>wk. weeklyUtility wk config) plan
      in \<lparr>mr_total = jsum (map wr_utility weeks), mr_weeks = weeks\<rparr>)"

section \<open>Optimal quantities and presets\<close>

definition optimalQuantityForWeek :: "('p::len0) weekPlan \<Rightarrow> 'p multiPeriodConfig \<Rightarrow> 'p jsnum" where
  "optimalQuantityForWeek wk config =
     (if mp_serviceValue config \<le> mp_unitCost config then 0 else demandMean wk * forecastConfidence wk)"

definition optimalMultiPeriodPlan :: "('p::len0) weekPlan list \<Rightarrow> 'p multiPeriodConfig \<Rightarrow> 'p weekPlan list" where
  "optimalMultiPeriodPlan plan config = map (\<lambda>wk. wk\<lparr>wp_q := optimalQuantityForWeek wk config\<rparr>) plan"

datatype multiPeriodPreset = DefaultPreset | AllFirmPreset | DropFarWeeksPreset | OptimalPreset

fun applyPreset :: "('p::len0) weekPlan list \<Rightarrow> multiPeriodPreset \<Rightarrow> 'p multiPeriodConfig \<Rightarrow> 'p weekPlan list" where
  "applyPreset plan DefaultPreset config = defaultMultiPeriodPlan config"
| "applyPreset plan AllFirmPreset config = map (\<lambda>w. w\<lparr>wp_commitment := FirmCommitment\<rparr>) plan"
| "applyPreset plan DropFarWeeksPreset config =
     map (\<lambda>w. if wp_week w > 7 then w\<lparr>wp_q := demandMean w * lit 0.4\<rparr> else w) plan"
| "applyPreset plan OptimalPreset config = optimalMultiPeriodPlan plan config"

section \<open>What the optimal quantity is optimal for\<close>

text \<open>The value of a week in exact arithmetic.\<close>

definition week_value :: "rat \<Rightarrow> rat \<Rightarrow> rat \<Rightarrow> rat \<Rightarrow> rat \<Rightarrow> rat \<Rightarrow> rat \<Rightarrow> rat \<Rightarrow> rat" where
  "week_value sv c ex pen d conf com q =
     sv * min q (d * conf) - c * q - pen * max 0 (com - q) - ex * max 0 (q - d * (6 / 5))"

fun penalty :: "commitmentKind \<Rightarrow> rat" where
  "penalty FirmCommitment = 130"
| "penalty SoftCommitment = 60"
| "penalty ForecastCommitment = 0"

lemma weekly_exact:
  fixes wk :: "0 weekPlan"
  assumes "mp_serviceValue config = Fin sv" "mp_unitCost config = Fin c" "mp_excessPenalty config = Fin ex"
    "demandMean wk = Fin d" "forecastConfidence wk = Fin conf" "wp_committed wk = Fin com" "wp_q wk = Fin q"
  shows "wr_utility (weeklyUtility wk config) = Fin (week_value sv c ex (penalty (wp_commitment wk)) d conf com q)"
  by (cases "wp_commitment wk") (simp_all add: weeklyUtility_def assms week_value_def exact_eval Let_def)

text \<open>Without a commitment the optimal quantity is one, for every quantity and confidence up to the
  boundary of overcommitment.\<close>

lemma optimal_without_commitment:
  assumes "c < sv" "0 \<le> c" "0 \<le> ex" "conf \<le> 6 / 5" "0 \<le> d"
  shows "week_value sv c ex 0 d conf com q \<le> week_value sv c ex 0 d conf com (d * conf)"
proof -
  have b: "max 0 (d * conf - d * (6 / 5)) = 0" using mult_left_mono [OF assms(4,5)] by simp
  have n: "0 \<le> ex * max 0 (q - d * (6 / 5))" using assms(3) by simp
  show ?thesis
  proof (cases "q \<le> d * conf")
    case True
    have "(sv - c) * q \<le> (sv - c) * (d * conf)" using True assms(1) by (intro mult_left_mono) simp_all
    then show ?thesis using True n b by (simp add: week_value_def algebra_simps)
  next
    case False
    have "c * (d * conf) \<le> c * q" using False assms(2) by (intro mult_left_mono) simp_all
    then show ?thesis using False n b by (simp add: week_value_def)
  qed
qed

lemma shrink_value:
  assumes "d * conf < q" "q \<le> d * (6 / 5)"
  shows "week_value sv c ex pen d conf q (d * conf) - week_value sv c ex pen d conf q q = (c - pen) * (q - d * conf)"
  using assms by (simp add: week_value_def algebra_simps)

text \<open>What the optimal preset costs. In a week whose committed quantity is ordered and more than the
  effective demand, setting the optimal quantity lowers the value of the week exactly when the
  penalty of the commitment is above the unit cost: with the default cost of 55 that is every firm
  (130) and every soft (60) week, although the preset is called optimal.\<close>

lemma optimal_preset_worse_iff:
  fixes wk :: "0 weekPlan"
  assumes "mp_serviceValue config = Fin sv" "mp_unitCost config = Fin c" "mp_excessPenalty config = Fin ex"
    "demandMean wk = Fin d" "forecastConfidence wk = Fin conf" "wp_committed wk = Fin q" "wp_q wk = Fin q"
    and "c < sv" "d * conf < q" "q \<le> d * (6 / 5)"
  shows "map wr_utility (mr_weeks (evaluateMultiPeriodPlan (applyPreset [wk] OptimalPreset config) config))
      = [wr_utility (weeklyUtility wk config) + Fin ((c - penalty (wp_commitment wk)) * (q - d * conf))]
    \<and> (wr_utility (weeklyUtility (hd (applyPreset [wk] OptimalPreset config)) config) < wr_utility (weeklyUtility wk config)
        \<longleftrightarrow> c < penalty (wp_commitment wk))"
proof -
  let ?opt = "wk\<lparr>wp_q := optimalQuantityForWeek wk config\<rparr>"
  have q: "optimalQuantityForWeek wk config = Fin (d * conf)"
    using assms(1,2,4,5) \<open>c < sv\<close> by (simp add: optimalQuantityForWeek_def)
  have cur: "wr_utility (weeklyUtility wk config) = Fin (week_value sv c ex (penalty (wp_commitment wk)) d conf q q)"
    using weekly_exact assms by blast
  have opt: "wr_utility (weeklyUtility ?opt config) = Fin (week_value sv c ex (penalty (wp_commitment wk)) d conf q (d * conf))"
    using weekly_exact [of config sv c ex ?opt d conf q "d * conf"] assms by (simp add: q)
  note sh = shrink_value [OF assms(9,10), of sv c ex "penalty (wp_commitment wk)"]
  have "(c - penalty (wp_commitment wk)) * (q - d * conf) < 0 \<longleftrightarrow> c < penalty (wp_commitment wk)"
    using assms(9) by (simp add: mult_less_0_iff)
  then show ?thesis
    using sh by (simp add: evaluateMultiPeriodPlan_def optimalMultiPeriodPlan_def cur opt exact_eval) linarith
qed

theorem optimal_preset_worse_iff_witness:
  "wr_utility (weeklyUtility (hd (applyPreset [default_week 1] OptimalPreset DEFAULT_MULTI_PERIOD_CONFIG)) DEFAULT_MULTI_PERIOD_CONFIG)
     < (wr_utility (weeklyUtility (default_week 1) DEFAULT_MULTI_PERIOD_CONFIG) :: exact)"
  using optimal_preset_worse_iff [of "DEFAULT_MULTI_PERIOD_CONFIG" 125 55 7 "default_week 1" 500 "95 / 100" 500]
  by (simp add: DEFAULT_MULTI_PERIOD_CONFIG_def default_week_def of_count_def Let_def exact_eval)

end
