(* ===== verification/ModelStudio.thy ===== *)
theory ModelStudio
  imports TransferPricing NumText
begin

text \<open>
  \<^verbatim>\<open>packages/engine/src/learn/modelStudio.ts\<close>: coordination models selected by scope, the menu of
  options derived from cost signals, its certification, and the clearing of a menu against the
  reservations of a vendor. \<^verbatim>\<open>localeCompare\<close> is an argument of the selection.
\<close>

section \<open>Models and menus\<close>

datatype modelStatus = DraftStatus | SimulatedStatus | ShadowStatus | PilotStatus | ProductionStatus

definition MODEL_STATUSES :: "modelStatus list" where
  "MODEL_STATUSES = [DraftStatus, SimulatedStatus, ShadowStatus, PilotStatus, ProductionStatus]"

record coordinationScope =
  sc_vendor :: "string option"
  sc_category :: "string option"
  sc_productFamily :: "string option"
  sc_sku :: "string option"
  sc_marketplace :: "string option"
  sc_region :: "string option"
  sc_fc :: "string option"
  sc_lane :: "string option"
  sc_week :: "string option"
  sc_contractType :: "string option"

record coordinationModel =
  cm_modelId :: string
  cm_owner :: string
  cm_scope :: coordinationScope
  cm_objective :: string
  cm_constraints :: "string list"
  cm_outputs :: "string list"
  cm_status :: modelStatus

record scopeResolution =
  sr_requested :: coordinationScope
  sr_selected :: "coordinationModel option"
  sr_candidates :: "coordinationModel list"
  sr_fallbackOrder :: "string list"

record 'p menuCostSignals =
  basePoPerUnit :: "'p jsnum"
  marginalCostPerUnit :: "'p jsnum"
  holdingCostPerUnit :: "'p jsnum"
  mc_capacityShadowPrice :: "'p jsnum"
  latenessExternalityPerUnit :: "'p jsnum"
  standardRebatePerUnit :: "'p jsnum option"
  flexibilityCreditPerUnit :: "'p jsnum option"

datatype menuOptionKind = FastOption | StandardOption | FlexOption

record 'p menuOption =
  mo_optionId :: string
  mo_kind :: menuOptionKind
  mo_label :: string
  mo_quantity :: "'p jsnum"
  shipWindowDays :: "'p jsnum \<times> 'p jsnum"
  feePerUnit :: "'p jsnum"
  creditPerUnit :: "'p jsnum"
  netAdjustmentPerUnit :: "'p jsnum"
  settlementPricePerUnit :: "'p jsnum"
  platformMarginPerUnit :: "'p jsnum"
  mo_chips :: "(string \<times> 'p jsnum) list"

record certificationCheck =
  cc_id :: string
  cc_label :: string
  cc_pass :: bool
  cc_detail :: string

record 'p menuGuardrails =
  maxFastFeePerUnit :: "'p jsnum"
  maxCreditPerUnit :: "'p jsnum"
  minPlatformMarginPerUnit :: "'p jsnum"
  maxFeeVariancePerUnit :: "'p jsnum"

record 'p vendorReservation =
  vr_optionId :: string
  minimumCreditPerUnit :: "'p jsnum option"
  maximumFeePerUnit :: "'p jsnum option"
  hardBlock :: bool

record 'p menuContract =
  mk_quantity :: "'p jsnum"
  arrivalWindowDays :: "'p jsnum \<times> 'p jsnum"
  mk_feePerUnit :: "'p jsnum"
  mk_creditPerUnit :: "'p jsnum"
  measurementWindowDays :: "'p jsnum"

record 'p clearedAgreement =
  ca_selected :: "'p menuOption option"
  ca_rejected :: "(string \<times> string) list"
  ca_contract :: "'p menuContract option"

definition SCOPE_KEYS :: "(coordinationScope \<Rightarrow> string option) list" where
  "SCOPE_KEYS = [sc_vendor, sc_category, sc_productFamily, sc_sku, sc_marketplace, sc_region, sc_fc, sc_lane, sc_week,
     sc_contractType]"

fun STATUS_RANK :: "modelStatus \<Rightarrow> nat" where
  "STATUS_RANK DraftStatus = 0"
| "STATUS_RANK SimulatedStatus = 1"
| "STATUS_RANK ShadowStatus = 2"
| "STATUS_RANK PilotStatus = 3"
| "STATUS_RANK ProductionStatus = 4"

definition DEFAULT_MENU_SIGNALS :: "('p::len0) menuCostSignals" where
  "DEFAULT_MENU_SIGNALS =
     \<lparr>basePoPerUnit = lit 10, marginalCostPerUnit = lit 7.8, holdingCostPerUnit = lit 0.05, mc_capacityShadowPrice = lit 0.18,
      latenessExternalityPerUnit = lit 0.07, standardRebatePerUnit = Some (lit 0.03), flexibilityCreditPerUnit = Some (lit 0.12)\<rparr>"

definition DEFAULT_MENU_GUARDRAILS :: "('p::len0) menuGuardrails" where
  "DEFAULT_MENU_GUARDRAILS =
     \<lparr>maxFastFeePerUnit = lit 0.5, maxCreditPerUnit = lit 0.35, minPlatformMarginPerUnit = lit 1.25,
      maxFeeVariancePerUnit = lit 0.45\<rparr>"

definition empty_scope :: coordinationScope where
  "empty_scope = \<lparr>sc_vendor = None, sc_category = None, sc_productFamily = None, sc_sku = None, sc_marketplace = None,
     sc_region = None, sc_fc = None, sc_lane = None, sc_week = None, sc_contractType = None\<rparr>"

definition SAMPLE_MODELS :: "coordinationModel list" where
  "SAMPLE_MODELS =
     [\<lparr>cm_modelId = ''global.default.replenishment-flex.v1'', cm_owner = ''platform'',
       cm_scope = empty_scope\<lparr>sc_contractType := Some ''replenishment''\<rparr>,
       cm_objective = ''maximize expected margin while preserving arrival reliability'',
       cm_constraints = [''quantity >= 0'', ''ship_window in allowed_windows''],
       cm_outputs = [''ranked_options'', ''reservation_prices'', ''explanation''], cm_status = ProductionStatus\<rparr>,
      \<lparr>cm_modelId = ''category.electronics.flex-window.v2'', cm_owner = ''platform'',
       cm_scope = empty_scope\<lparr>sc_category := Some ''electronics.accessories'', sc_marketplace := Some ''US'',
         sc_contractType := Some ''replenishment''\<rparr>,
       cm_objective = ''trade arrival speed against scarce FC capacity'',
       cm_constraints = [''fast_fee <= 0.50'', ''credit <= 0.35''],
       cm_outputs = [''ranked_options'', ''guardrail_checks'', ''explanation''], cm_status = PilotStatus\<rparr>,
      \<lparr>cm_modelId = ''vendor-123.sku-001.abe8.w22.v4'', cm_owner = ''vendor_123'',
       cm_scope = empty_scope\<lparr>sc_vendor := Some ''vendor_123'', sc_sku := Some ''SKU-001'', sc_fc := Some ''ABE8'',
         sc_week := Some ''2026-W22'', sc_marketplace := Some ''US'', sc_contractType := Some ''replenishment''\<rparr>,
       cm_objective = ''maximize contribution margin subject to factory capacity and cash timing'',
       cm_constraints = [''quantity <= 1500'', ''quantity >= 500'', ''delay <= 14 days'', ''payment_delay <= 45 days''],
       cm_outputs = [''ranked_options'', ''reservation_prices'', ''hard_constraints'', ''explanation''],
       cm_status = ShadowStatus\<rparr>]"

section \<open>Selection by scope\<close>

definition scopeSpecificity :: "coordinationScope \<Rightarrow> nat" where
  "scopeSpecificity scope = length (filter (\<lambda>key. key scope \<noteq> None) SCOPE_KEYS)"

definition matchesScope :: "coordinationScope \<Rightarrow> coordinationScope \<Rightarrow> bool" where
  "matchesScope modelScope requested =
     list_all (\<lambda>key. key modelScope = None \<or> key requested = key modelScope) SCOPE_KEYS"

definition non_empty :: "string option \<Rightarrow> bool" where
  "non_empty v = (v \<noteq> None \<and> v \<noteq> Some [])"

definition fallbackOrderForScope :: "coordinationScope \<Rightarrow> string list" where
  "fallbackOrderForScope s =
     (if non_empty (sc_sku s) \<and> non_empty (sc_vendor s) \<and> non_empty (sc_fc s) \<and> non_empty (sc_week s)
        then [''SKU x vendor x FC x week''] else []) @
     (if non_empty (sc_sku s) \<and> non_empty (sc_vendor s) \<and> non_empty (sc_region s) then [''SKU x vendor x region''] else []) @
     (if non_empty (sc_productFamily s) \<and> non_empty (sc_vendor s) then [''product family x vendor''] else []) @
     (if non_empty (sc_category s) \<and> non_empty (sc_vendor s) then [''category x vendor''] else []) @
     (if non_empty (sc_category s) then [''category default''] else []) @ [''global default'']"

text \<open>The numbers compared are small integers, so their differences are exact.\<close>

definition resolve_cmp :: "(string \<Rightarrow> string \<Rightarrow> exact) \<Rightarrow> coordinationModel \<Rightarrow> coordinationModel \<Rightarrow> exact" where
  "resolve_cmp localeCompare a b =
     (let byScope = of_count (scopeSpecificity (cm_scope b)) - of_count (scopeSpecificity (cm_scope a));
          byStatus = of_count (STATUS_RANK (cm_status b)) - of_count (STATUS_RANK (cm_status a))
      in if byScope \<noteq> 0 then byScope else if byStatus \<noteq> 0 then byStatus
         else localeCompare (cm_modelId a) (cm_modelId b))"

definition resolveCoordinationModel ::
    "(string \<Rightarrow> string \<Rightarrow> exact) \<Rightarrow> coordinationModel list \<Rightarrow> coordinationScope \<Rightarrow> scopeResolution" where
  "resolveCoordinationModel localeCompare models requested =
     (let candidates = js_sort (resolve_cmp localeCompare) (filter (\<lambda>m. matchesScope (cm_scope m) requested) models)
      in \<lparr>sr_requested = requested, sr_selected = (case candidates of [] \<Rightarrow> None | m # _ \<Rightarrow> Some m),
          sr_candidates = candidates, sr_fallbackOrder = fallbackOrderForScope requested\<rparr>)"

section \<open>The menu\<close>

text \<open>\<^verbatim>\<open>option(input, signals)\<close>: \<open>fee\<close> and \<open>credit\<close> of the input are rounded, the prices computed.\<close>

definition menu_option ::
    "string \<Rightarrow> menuOptionKind \<Rightarrow> string \<Rightarrow> ('p::len0) jsnum \<Rightarrow> 'p jsnum \<times> 'p jsnum \<Rightarrow> 'p jsnum \<Rightarrow> 'p jsnum
      \<Rightarrow> (string \<times> 'p jsnum) list \<Rightarrow> 'p menuCostSignals \<Rightarrow> 'p menuOption" where
  "menu_option i kind label q window fee credit chips signals =
     (let net = cents (fee - credit); settlement = cents (basePoPerUnit signals + net);
          margin = cents (settlement - marginalCostPerUnit signals)
      in \<lparr>mo_optionId = i, mo_kind = kind, mo_label = label, mo_quantity = q, shipWindowDays = window,
          feePerUnit = cents fee, creditPerUnit = cents credit, netAdjustmentPerUnit = net,
          settlementPricePerUnit = settlement, platformMarginPerUnit = margin, mo_chips = chips\<rparr>)"

definition generateMenuOptions :: "('p::len0) menuCostSignals \<Rightarrow> 'p menuOption list" where
  "generateMenuOptions signals =
     (let standardRebate = nullish (standardRebatePerUnit signals) (lit 0.03);
          flexCredit = nullish (flexibilityCreditPerUnit signals) (lit 0.12)
      in [menu_option ''A'' FastOption ''Fast / scarce'' (lit 1200) (lit 2, lit 3)
            (mc_capacityShadowPrice signals + latenessExternalityPerUnit signals) 0
            [(''capacity'', mc_capacityShadowPrice signals), (''lateness risk'', latenessExternalityPerUnit signals)] signals,
          menu_option ''B'' StandardOption ''Standard'' (lit 1000) (lit 5, lit 7) 0 standardRebate
            [(''efficient frontier'', - standardRebate)] signals,
          menu_option ''C'' FlexOption ''Flex / low touch'' (lit 700) (lit 10, lit 14) 0
            (flexCredit + holdingCostPerUnit signals)
            [(''flex credit'', - flexCredit), (''holding relief'', - holdingCostPerUnit signals)] signals])"

section \<open>Certification\<close>

definition certifyCoordinationModel ::
    "coordinationModel \<Rightarrow> ('p::len0) menuOption list \<Rightarrow> 'p menuGuardrails \<Rightarrow> certificationCheck list" where
  "certifyCoordinationModel model options guardrails =
     (let maxFee = jmaxs (map feePerUnit options); minFee = jmins (map feePerUnit options)
      in [\<lparr>cc_id = ''schema'', cc_label = ''Schema'',
            cc_pass = (cm_modelId model \<noteq> [] \<and> cm_owner model \<noteq> [] \<and> cm_objective model \<noteq> []),
            cc_detail = ''model id, owner, and objective are present''\<rparr>,
          \<lparr>cc_id = ''scope'', cc_label = ''Scope'', cc_pass = (scopeSpecificity (cm_scope model) > 0),
            cc_detail = num_text (of_count (scopeSpecificity (cm_scope model)) :: exact) @ '' scope field(s) set''\<rparr>,
          \<lparr>cc_id = ''outputs'', cc_label = ''Allowed outputs'',
            cc_pass = (''ranked_options'' \<in> set (cm_outputs model) \<and> ''explanation'' \<in> set (cm_outputs model)),
            cc_detail = ''model returns preferences, constraints, and explanation''\<rparr>,
          \<lparr>cc_id = ''feasibility'', cc_label = ''Feasibility'',
            cc_pass = list_all (\<lambda>x. 0 < mo_quantity x \<and> fst (shipWindowDays x) \<le> snd (shipWindowDays x)) options,
            cc_detail = ''quantities and ship windows are feasible''\<rparr>,
          \<lparr>cc_id = ''guardrails'', cc_label = ''Guardrails'',
            cc_pass = (maxFee \<le> maxFastFeePerUnit guardrails
              \<and> jmaxs (map creditPerUnit options) \<le> maxCreditPerUnit guardrails
              \<and> minPlatformMarginPerUnit guardrails \<le> jmins (map platformMarginPerUnit options)),
            cc_detail = ''fees, credits, and margin stay inside configured bounds''\<rparr>,
          \<lparr>cc_id = ''fairness'', cc_label = ''Fairness'', cc_pass = (maxFee - minFee \<le> maxFeeVariancePerUnit guardrails),
            cc_detail = ''per-vendor fast-window fee variance remains capped''\<rparr>,
          \<lparr>cc_id = ''explainability'', cc_label = ''Explainability'', cc_pass = list_all (\<lambda>x. mo_chips x \<noteq> []) options,
            cc_detail = ''each option carries cost chips for the vendor-facing UI''\<rparr>])"

section \<open>Clearing\<close>

text \<open>Why an option is rejected, \<open>None\<close> if it is not. The last reservation for an option counts.\<close>

definition reservationById :: "'p vendorReservation list \<Rightarrow> string \<Rightarrow> 'p vendorReservation option" where
  "reservationById reservations = map_of (rev (map (\<lambda>r. (vr_optionId r, r)) reservations))"

definition rejection ::
    "'p vendorReservation list \<Rightarrow> 'p menuGuardrails \<Rightarrow> 'p menuOption \<Rightarrow> string option" where
  "rejection reservations guardrails x =
     (let r = reservationById reservations (mo_optionId x) in
      if (case r of None \<Rightarrow> False | Some r \<Rightarrow> hardBlock r) then Some ''vendor hard constraint''
      else if (case r of None \<Rightarrow> False | Some r \<Rightarrow>
        (case maximumFeePerUnit r of None \<Rightarrow> False | Some m \<Rightarrow> m < feePerUnit x)) then Some ''fee exceeds vendor range''
      else if (case r of None \<Rightarrow> False | Some r \<Rightarrow>
        (case minimumCreditPerUnit r of None \<Rightarrow> False | Some m \<Rightarrow> creditPerUnit x < m)) then Some ''credit below vendor range''
      else if platformMarginPerUnit x < minPlatformMarginPerUnit guardrails then Some ''margin guardrail''
      else None)"

definition menu_cmp :: "('p::len0) menuOption \<Rightarrow> 'p menuOption \<Rightarrow> 'p jsnum" where
  "menu_cmp a b =
     (let byMargin = platformMarginPerUnit b - platformMarginPerUnit a
      in if byMargin \<noteq> 0 then byMargin else mo_quantity b - mo_quantity a)"

definition contract_of :: "('p::len0) menuOption \<Rightarrow> 'p menuContract" where
  "contract_of x = \<lparr>mk_quantity = mo_quantity x, arrivalWindowDays = shipWindowDays x, mk_feePerUnit = feePerUnit x,
     mk_creditPerUnit = creditPerUnit x, measurementWindowDays = lit 14\<rparr>"

definition clearMenuAgreement ::
    "('p::len0) menuOption list \<Rightarrow> 'p vendorReservation list \<Rightarrow> 'p menuGuardrails \<Rightarrow> 'p clearedAgreement" where
  "clearMenuAgreement options reservations guardrails =
     (let reason = rejection reservations guardrails;
          rejected = concat (map (\<lambda>x. case reason x of None \<Rightarrow> [] | Some why \<Rightarrow> [(mo_optionId x, why)]) options);
          feasible = filter (\<lambda>x. reason x = None) options;
          selected = (case js_sort menu_cmp feasible of [] \<Rightarrow> None | x # _ \<Rightarrow> Some x)
      in \<lparr>ca_selected = selected, ca_rejected = rejected, ca_contract = map_option contract_of selected\<rparr>)"

section \<open>Comparing by one number, then by the rest\<close>

text \<open>Both comparators have this shape: descending in a number, ties broken by another comparator.\<close>

definition then_cmp :: "('a \<Rightarrow> ('p::len0) jsnum) \<Rightarrow> ('a \<Rightarrow> 'a \<Rightarrow> 'p jsnum) \<Rightarrow> 'a \<Rightarrow> 'a \<Rightarrow> 'p jsnum" where
  "then_cmp f c a b = (if f b - f a \<noteq> 0 then f b - f a else c a b)"

lemma diff_zero_iff:
  fixes u v :: "('p::len0) jsnum"
  assumes "representable u" "representable v" "is_fin u" "is_fin v"
  shows "u - v = 0 \<longleftrightarrow> u = v"
proof
  assume "u - v = 0"
  then have "\<not> Fin 0 < u - v" by (simp add: zero_jsnum_def)
  then have le: "\<not> v < u" using diff_pos_iff assms by blast
  have "v - u = - (u - v)" using assms(3,4) by (auto elim!: is_finE simp: lit_uminus)
  then have "\<not> Fin 0 < v - u" using \<open>u - v = 0\<close> by (simp add: zero_jsnum_def)
  then have "\<not> u < v" using diff_pos_iff assms by blast
  with le show "u = v" using assms(3,4) by (auto elim!: is_finE)
next
  assume "u = v"
  then show "u - v = 0" using assms(3) num_diff_self by (simp add: zero_jsnum_def)
qed

lemma cmp_le_then:
  assumes "key_ok f a" "key_ok f b"
  shows "cmp_le (then_cmp f c) a b \<longleftrightarrow> f b < f a \<or> f a = f b \<and> cmp_le c a b"
proof (cases "f b - f a = 0")
  case True
  then have "f a = f b" using assms diff_zero_iff by (metis key_ok_def)
  then show ?thesis using True by (simp add: cmp_le_def then_cmp_def less_jsnum_def)
next
  case False
  then have "f a \<noteq> f b" using assms diff_zero_iff by (metis key_ok_def)
  moreover have "Fin 0 < f b - f a \<longleftrightarrow> f a < f b" using assms diff_pos_iff by (metis key_ok_def)
  ultimately show ?thesis using False assms
    by (auto simp: cmp_le_def then_cmp_def key_ok_def elim!: is_finE)
qed

lemma then_comparator:
  assumes "comparator c ok"
  shows "comparator (then_cmp f c) (\<lambda>x. key_ok f x \<and> ok x)"
proof
  note total = comparator.le_total [OF assms] and trans = comparator.le_trans [OF assms]
  fix x y z
  assume ok: "key_ok f x \<and> ok x" "key_ok f y \<and> ok y"
  then have tot: "f x < f y \<or> f x = f y \<or> f y < f x" by (auto simp: key_ok_def elim!: is_finE)
  show "cmp_le (then_cmp f c) x y \<or> cmp_le (then_cmp f c) y x"
    using ok tot total [of x y] by (auto simp: cmp_le_then)
  assume z: "key_ok f z \<and> ok z" and le: "cmp_le (then_cmp f c) x y" "cmp_le (then_cmp f c) y z"
  have "f z < f y \<and> f y < f x \<Longrightarrow> f z < f x" using num_less_le_trans num_less_imp_le by blast
  then show "cmp_le (then_cmp f c) x z"
    using ok z le trans [of x y z] by (auto simp: cmp_le_then)
qed

lemma then_hd:
  assumes "comparator c ok" "\<forall>x \<in> set xs. key_ok f x \<and> ok x" "y \<in> set xs"
  shows "hd (js_sort (then_cmp f c) xs) \<in> set xs \<and> (f y < f (hd (js_sort (then_cmp f c) xs))
    \<or> f y = f (hd (js_sort (then_cmp f c) xs)) \<and> cmp_le c (hd (js_sort (then_cmp f c) xs)) y)"
proof -
  note cmp = then_comparator [OF assms(1), of f]
  have "xs \<noteq> []" using assms(3) by auto
  then have "hd (js_sort (then_cmp f c) xs) \<in> set xs" using comparator.sort_hd_in [OF cmp] by blast
  moreover from comparator.sort_hd_least [OF cmp assms(2,3)]
  have "cmp_le (then_cmp f c) (hd (js_sort (then_cmp f c) xs)) y" .
  ultimately show ?thesis using assms(2,3) by (auto simp: cmp_le_then)
qed

section \<open>What is selected\<close>

lemma resolve_then:
  "resolve_cmp lc = then_cmp (\<lambda>m. of_count (scopeSpecificity (cm_scope m)))
     (then_cmp (\<lambda>m. of_count (STATUS_RANK (cm_status m))) (\<lambda>a b. lc (cm_modelId a) (cm_modelId b)))"
  by (intro ext) (simp add: resolve_cmp_def then_cmp_def Let_def)

lemma count_key_ok [simp]: "key_ok (\<lambda>m. Fin (g m) :: exact) x"
  by (simp add: key_ok_def representable_def)

lemma matches_more_specific: "matchesScope s r \<Longrightarrow> scopeSpecificity s \<le> scopeSpecificity r"
proof -
  have "list_all (\<lambda>key. key s = None \<or> key r = key s) ks \<Longrightarrow>
      length (filter (\<lambda>key. key s \<noteq> None) ks) \<le> length (filter (\<lambda>key. key r \<noteq> None) ks)" for ks
    by (induction ks) auto
  then show "matchesScope s r \<Longrightarrow> scopeSpecificity s \<le> scopeSpecificity r"
    unfolding scopeSpecificity_def matchesScope_def by blast
qed

text \<open>The model that is selected matches the request; among the models that match none is more specific,
  and of equal specificity none is further in its life cycle.\<close>

lemma resolution_most_specific:
  assumes "comparator lc (\<lambda>_. True)" "m \<in> set models" "matchesScope (cm_scope m) requested"
  shows "\<exists>s \<in> set models. sr_selected (resolveCoordinationModel lc models requested) = Some s
    \<and> matchesScope (cm_scope s) requested
    \<and> (scopeSpecificity (cm_scope m) < scopeSpecificity (cm_scope s)
       \<or> scopeSpecificity (cm_scope m) = scopeSpecificity (cm_scope s) \<and> STATUS_RANK (cm_status m) \<le> STATUS_RANK (cm_status s))"
proof -
  let ?c0 = "\<lambda>a b. lc (cm_modelId a) (cm_modelId b)"
  let ?c1 = "then_cmp (\<lambda>m. of_count (STATUS_RANK (cm_status m)) :: exact) ?c0"
  let ?xs = "filter (\<lambda>m. matchesScope (cm_scope m) requested) models"
  have "comparator ?c0 (\<lambda>_. True)"
    using assms(1) unfolding comparator_def cmp_le_def by blast
  from then_comparator [OF this, of "\<lambda>m. of_count (STATUS_RANK (cm_status m))"] have c1: "comparator ?c1 (\<lambda>_. True)" by simp
  have mx: "m \<in> set ?xs" using assms(2,3) by simp
  let ?s = "hd (js_sort (resolve_cmp lc) ?xs)"
  have h: "?s \<in> set ?xs \<and> ((of_count (scopeSpecificity (cm_scope m)) :: exact) < of_count (scopeSpecificity (cm_scope ?s))
      \<or> (of_count (scopeSpecificity (cm_scope m)) :: exact) = of_count (scopeSpecificity (cm_scope ?s)) \<and> cmp_le ?c1 ?s m)"
    unfolding resolve_then by (rule then_hd [OF c1 _ mx]) simp
  have ne: "js_sort (resolve_cmp lc) ?xs \<noteq> []" using mx by (metis js_sort_Nil_iff list.distinct(1) list.set(1) empty_iff)
  then have "sr_selected (resolveCoordinationModel lc models requested) = Some ?s"
    by (cases "js_sort (resolve_cmp lc) ?xs") (simp_all add: resolveCoordinationModel_def)
  then show ?thesis using h by (intro bexI [of _ ?s]) (auto simp: cmp_le_then)
qed

definition menu_ok :: "('p::len0) menuOption \<Rightarrow> bool" where
  "menu_ok x = (key_ok platformMarginPerUnit x \<and> key_ok mo_quantity x)"

lemma menu_then: "menu_cmp = then_cmp platformMarginPerUnit (then_cmp mo_quantity (\<lambda>_ _. 0))"
  by (intro ext) (simp add: menu_cmp_def then_cmp_def Let_def)

interpretation menu_order: comparator "menu_cmp :: ('p::len0) menuOption \<Rightarrow> 'p menuOption \<Rightarrow> 'p jsnum" menu_ok
proof -
  have "comparator (\<lambda>_ _. 0 :: ('p::len0) jsnum) (\<lambda>_ :: 'p menuOption. True)"
    by unfold_locales (simp_all add: cmp_le_def zero_jsnum_def)
  from then_comparator [OF then_comparator [OF this, of mo_quantity], of platformMarginPerUnit]
  show "comparator (menu_cmp :: ('p::len0) menuOption \<Rightarrow> 'p menuOption \<Rightarrow> 'p jsnum) menu_ok"
    by (simp add: menu_then menu_ok_def [abs_def])
qed

lemma rejection_margin: "rejection res g x = None \<Longrightarrow> \<not> platformMarginPerUnit x < minPlatformMarginPerUnit g"
  by (auto simp: rejection_def Let_def split: if_splits)

text \<open>C17: Clearing a menu is sound and optimal. An option is rejected, with the first reason that applies,
  or acceptable, never both; the agreement is empty exactly when every option is rejected; otherwise
  it is for an acceptable option of the highest margin and, among those, of the largest quantity, on
  the terms of that option.\<close>

theorem clearing_sound:
  fixes options :: "('p::len0) menuOption list"
  assumes "list_all menu_ok options"
  shows "(case ca_selected (clearMenuAgreement options res g) of
      None \<Rightarrow> ca_contract (clearMenuAgreement options res g) = None
        \<and> length (ca_rejected (clearMenuAgreement options res g)) = length options
    | Some s \<Rightarrow> s \<in> set options \<and> rejection res g s = None
        \<and> ca_contract (clearMenuAgreement options res g) = Some (contract_of s)
        \<and> \<not> platformMarginPerUnit s < minPlatformMarginPerUnit g
        \<and> (\<forall>x \<in> set options. rejection res g x = None \<longrightarrow>
             platformMarginPerUnit x < platformMarginPerUnit s
             \<or> platformMarginPerUnit x = platformMarginPerUnit s \<and> mo_quantity x \<le> mo_quantity s))
    \<and> map Some (ca_rejected (clearMenuAgreement options res g))
        = map (\<lambda>x. map_option (\<lambda>why. (mo_optionId x, why)) (rejection res g x)) (filter (\<lambda>x. rejection res g x \<noteq> None) options)"
proof -
  let ?xs = "filter (\<lambda>x. rejection res g x = None) options"
  let ?a = "clearMenuAgreement options res g"
  have rejected: "map Some (ca_rejected ?a)
      = map (\<lambda>x. map_option (\<lambda>why. (mo_optionId x, why)) (rejection res g x)) (filter (\<lambda>x. rejection res g x \<noteq> None) options)"
    unfolding clearMenuAgreement_def Let_def by (induction options) auto
  have len: "length (ca_rejected ?a) = length (filter (\<lambda>x. rejection res g x \<noteq> None) options)"
    using arg_cong [OF rejected, of length] by simp
  have "comparator (\<lambda>_ _. 0 :: 'p jsnum) (\<lambda>_. True)"
    by unfold_locales (simp_all add: cmp_le_def zero_jsnum_def)
  from then_comparator [OF this, of mo_quantity] have c: "comparator (then_cmp mo_quantity (\<lambda>_ _. 0)) (key_ok mo_quantity :: 'p menuOption \<Rightarrow> bool)" by simp
  show ?thesis
  proof (cases "?xs = []")
    case True
    then have "ca_selected ?a = None" "ca_contract ?a = None" by (simp_all add: clearMenuAgreement_def Let_def)
    moreover have "filter (\<lambda>x. rejection res g x \<noteq> None) options = options"
      using True by (simp add: filter_empty_conv filter_id_conv)
    ultimately show ?thesis using rejected len by simp
  next
    case False
    let ?s = "hd (js_sort menu_cmp ?xs)"
    have sel: "ca_selected ?a = Some ?s" "ca_contract ?a = Some (contract_of ?s)"
      using False by (cases "js_sort menu_cmp ?xs"; simp add: clearMenuAgreement_def Let_def)+
    have ok: "\<forall>x \<in> set ?xs. key_ok platformMarginPerUnit x \<and> key_ok mo_quantity x"
      using assms by (simp add: list_all_iff menu_ok_def)
    have h: "?s \<in> set ?xs \<and> (platformMarginPerUnit x < platformMarginPerUnit ?s
        \<or> platformMarginPerUnit x = platformMarginPerUnit ?s \<and> cmp_le (then_cmp mo_quantity (\<lambda>_ _. 0)) ?s x)"
      if "x \<in> set ?xs" for x
      unfolding menu_then by (rule then_hd [OF c ok that])
    have q: "mo_quantity x \<le> mo_quantity ?s"
      if "x \<in> set ?xs" "cmp_le (then_cmp mo_quantity (\<lambda>_ _. 0)) ?s x" for x
    proof -
      have k: "key_ok mo_quantity ?s" "key_ok mo_quantity x" using ok h [OF that(1)] that(1) by blast+
      from that(2) have "mo_quantity x < mo_quantity ?s \<or> mo_quantity ?s = mo_quantity x"
        unfolding cmp_le_then [OF k] by blast
      moreover have "mo_quantity x \<noteq> NaN" using k(2) by (auto simp: key_ok_def)
      ultimately show ?thesis using num_less_imp_le num_refl by metis
    qed
    have "?s \<in> set ?xs" using h False by (metis hd_in_set)
    moreover from this have "\<not> platformMarginPerUnit ?s < minPlatformMarginPerUnit g"
      using rejection_margin [of res g ?s] by simp
    ultimately show ?thesis using sel rejected h q by auto
  qed
qed

definition demo_menu :: "0 menuOption list" where
  "demo_menu = generateMenuOptions DEFAULT_MENU_SIGNALS"

definition demo_reservations :: "0 vendorReservation list" where
  "demo_reservations =
     [\<lparr>vr_optionId = ''A'', minimumCreditPerUnit = None, maximumFeePerUnit = None, hardBlock = True\<rparr>,
      \<lparr>vr_optionId = ''C'', minimumCreditPerUnit = Some (Fin (1 / 2)), maximumFeePerUnit = None, hardBlock = False\<rparr>]"

theorem clearing_sound_witness:
  "ca_rejected (clearMenuAgreement demo_menu demo_reservations DEFAULT_MENU_GUARDRAILS)
     = [(''A'', ''vendor hard constraint''), (''C'', ''credit below vendor range'')]"
proof -
  have "list_all menu_ok demo_menu"
    by (simp add: demo_menu_def generateMenuOptions_def menu_ok_def key_ok_def menu_option_def DEFAULT_MENU_SIGNALS_def
        cents_def exact_eval Let_def representable_def)
  note sound = clearing_sound [OF this, of demo_reservations DEFAULT_MENU_GUARDRAILS, THEN conjunct2]
  have fl: "\<lfloor>2001 / 2 :: rat\<rfloor> = 1000" "\<lfloor>- (5 / 2) :: rat\<rfloor> = - 3" "\<lfloor>1995 / 2 :: rat\<rfloor> = 997" by (simp_all add: floor_eq_iff)
  have rej: "rejection demo_reservations DEFAULT_MENU_GUARDRAILS (demo_menu ! 0) = Some ''vendor hard constraint''"
    "rejection demo_reservations DEFAULT_MENU_GUARDRAILS (demo_menu ! 1) = None"
    "rejection demo_reservations DEFAULT_MENU_GUARDRAILS (demo_menu ! 2) = Some ''credit below vendor range''"
    by (simp_all add: demo_menu_def generateMenuOptions_def menu_option_def DEFAULT_MENU_SIGNALS_def rejection_def
        reservationById_def demo_reservations_def DEFAULT_MENU_GUARDRAILS_def cents_def exact_eval Let_def floor_eq_iff fl)
  obtain a b c where abc: "demo_menu = [a, b, c]" by (simp add: demo_menu_def generateMenuOptions_def Let_def)
  have ids: "map mo_optionId demo_menu = [''A'', ''B'', ''C'']"
    by (simp add: demo_menu_def generateMenuOptions_def menu_option_def Let_def)
  note facts = rej [unfolded abc, simplified] ids [unfolded abc, simplified]
  have "map Some (ca_rejected (clearMenuAgreement demo_menu demo_reservations DEFAULT_MENU_GUARDRAILS))
      = map Some [(''A'', ''vendor hard constraint''), (''C'', ''credit below vendor range'')]"
    unfolding sound unfolding abc by (simp add: facts)
  then show ?thesis by (simp only: inj_map_eq_map [OF inj_Some])
qed

text \<open>A menu without options passes every check that looks at its options.\<close>

lemma empty_menu_certified:
  assumes "representable (maxFeeVariancePerUnit g)" "is_fin (maxFastFeePerUnit g)" "is_fin (maxCreditPerUnit g)"
    "is_fin (minPlatformMarginPerUnit g)" "is_fin (maxFeeVariancePerUnit g)"
  shows "list_all cc_pass (drop 3 (certifyCoordinationModel model [] g))"
  using assms by (simp add: certifyCoordinationModel_def Let_def jmaxs_def jmins_def) (auto elim!: is_finE simp: minus_jsnum_def)

end
