(* ===== verification/Sampling.thy ===== *)
theory Sampling
  imports Simulation
begin

text \<open>
  \<^verbatim>\<open>packages/engine/src/learn/split.ts\<close> and \<^verbatim>\<open>jointUtility.ts\<close>: the split of a surplus by
  a share, the joint utility of a quantity, and the loops that sample both along a step. A loop that
  never ends is \<open>None\<close>.
\<close>

section \<open>Loops along a step\<close>

text \<open>\<^verbatim>\<open>for (let x = s; x <= hi; x += step)\<close> around a body that updates \<open>acc\<close>.\<close>

partial_function (option) for_steps ::
    "('s \<Rightarrow> 'p jsnum \<Rightarrow> 's) \<Rightarrow> 'p jsnum \<Rightarrow> 'p jsnum \<Rightarrow> ('p::len0) jsnum \<Rightarrow> 's \<Rightarrow> 's option" where
  "for_steps body hi step x acc =
     (if x \<le> hi then for_steps body hi step (x + step) (body acc x) else Some acc)"

text \<open>A step that is not positive never leaves the range, at any precision.\<close>

lemma for_steps_stuck:
  fixes x :: "('p::len0) jsnum"
  assumes "step \<le> 0" "x \<le> hi" "representable x" "x \<noteq> PInf"
  shows "for_steps body hi step x acc = None"
proof (rule ccontr)
  assume "for_steps body hi step x acc \<noteq> None"
  then obtain r where ret: "for_steps body hi step x acc = Some r" by blast
  have "\<not> (step \<le> 0 \<and> x \<le> hi \<and> representable x \<and> x \<noteq> PInf)"
  proof (rule for_steps.raw_induct [where P = "\<lambda>body hi step x acc r. \<not> (step \<le> 0 \<and> x \<le> hi \<and> representable x \<and> x \<noteq> PInf)"
        and xa = "((((body, hi), step), x), acc)" and y = r, unfolded prod.case, OF _ ret])
    fix loop body acc r
    fix hi step x :: "'p jsnum"
    assume IH: "\<And>body hi step x acc r. loop body hi step x acc = Some r \<Longrightarrow> \<not> (step \<le> 0 \<and> x \<le> hi \<and> representable x \<and> x \<noteq> PInf)"
      and eq: "(if x \<le> hi then loop body hi step (x + step) (body acc x) else Some acc) = Some r"
    show "\<not> (step \<le> 0 \<and> x \<le> hi \<and> representable x \<and> x \<noteq> PInf)"
    proof
      assume a: "step \<le> 0 \<and> x \<le> hi \<and> representable x \<and> x \<noteq> PInf"
      then have le: "x + step \<le> x"
      proof (cases x; cases step)
        fix u v assume "x = Fin u" "step = Fin v"
        then show ?thesis using a lit_mono [of "u + v" u, where 'p = 'p] by (simp add: representable_def zero_jsnum_def)
      qed (use a in \<open>auto simp: zero_jsnum_def\<close>)
      have "x + step \<le> hi" using le a num_trans by blast
      moreover have "x + step \<noteq> PInf" using le a by (cases x; cases "x + step") auto
      moreover have "loop body hi step (x + step) (body acc x) = Some r" using eq a by simp
      ultimately show False using IH [of body hi step "x + step"] a by auto
    qed
  qed
  then show False using assms by blast
qed

text \<open>In exact arithmetic the loop visits the points \<open>a, a + d, \<dots>\<close> up to the bound.\<close>

lemma for_steps_visits:
  assumes "\<And>k. k < n \<Longrightarrow> a + of_nat k * d \<le> h" "h < a + of_nat n * d"
  shows "for_steps body (Fin h) (Fin d) (Fin a :: exact) acc
    = Some (foldl body acc (map (\<lambda>k. Fin (a + of_nat k * d)) [0..<n]))"
  using assms
proof (induction n arbitrary: a acc)
  case 0
  then show ?case by (subst for_steps.simps) simp
next
  case (Suc n)
  have a: "a \<le> h" using Suc.prems(1) [of 0] by simp
  have "a + d + of_nat k * d \<le> h" if "k < n" for k
    using Suc.prems(1) [of "Suc k"] that by (simp add: algebra_simps)
  moreover have "h < a + d + of_nat n * d" using Suc.prems(2) by (simp add: algebra_simps)
  ultimately have IH: "for_steps body (Fin h) (Fin d) (Fin (a + d) :: exact) (body acc (Fin a))
      = Some (foldl body (body acc (Fin a)) (map (\<lambda>k. Fin (a + d + of_nat k * d)) [0..<n]))"
    by (rule Suc.IH)
  have "map (\<lambda>k. Fin (a + of_nat k * d) :: exact) [0..<Suc n] = Fin a # map (\<lambda>k. Fin (a + d + of_nat k * d)) [0..<n]"
    unfolding upt_conv_Cons [OF zero_less_Suc] map_Suc_upt [symmetric] by (simp add: algebra_simps comp_def)
  then show ?case using a IH by (subst for_steps.simps) (simp add: exact_eval)
qed

definition visited :: "rat \<Rightarrow> rat \<Rightarrow> rat \<Rightarrow> nat" where
  "visited a d h = nat (\<lfloor>(h - a) / d\<rfloor> + 1)"

lemma for_steps_exact:
  assumes "0 < d"
  shows "for_steps body (Fin h) (Fin d) (Fin a :: exact) acc
    = Some (foldl body acc (map (\<lambda>k. Fin (a + of_nat k * d)) [0..<visited a d h]))"
proof (rule for_steps_visits)
  show "a + of_nat k * d \<le> h" if "k < visited a d h" for k
  proof -
    have "int k \<le> \<lfloor>(h - a) / d\<rfloor>" using that unfolding visited_def by linarith
    then have "of_nat k \<le> (h - a) / d" by (simp add: le_floor_iff)
    then show ?thesis using assms by (simp add: pos_le_divide_eq)
  qed
  have "(h - a) / d < of_nat (visited a d h)"
    unfolding visited_def by linarith
  then show "h < a + of_nat (visited a d h) * d" using assms by (simp add: pos_divide_less_eq)
qed

section \<open>Splitting a surplus\<close>

record 'p splitPoint =
  sp_share :: "'p jsnum"
  sp_buyerUtility :: "'p jsnum"
  sp_supplierUtility :: "'p jsnum"
  sp_buyerOutside :: "'p jsnum"
  sp_supplierOutside :: "'p jsnum"
  sp_buyerFeasible :: bool
  sp_supplierFeasible :: bool
  sp_feasible :: bool

record 'p splitConfig =
  sp_globalUtility :: "'p jsnum"
  buyerOutside_opt :: "'p jsnum option"
  supplierOutside_opt :: "'p jsnum option"

definition DEFAULT_BUYER_OUTSIDE :: "('p::len0) jsnum" where "DEFAULT_BUYER_OUTSIDE = lit 8400"
definition DEFAULT_SUPPLIER_OUTSIDE :: "('p::len0) jsnum" where "DEFAULT_SUPPLIER_OUTSIDE = lit 5200"

definition splitOutcome :: "('p::len0) jsnum \<Rightarrow> 'p splitConfig \<Rightarrow> 'p splitPoint" where
  "splitOutcome shr config =
     (let clamped = jmax 0 (jmin 1 shr);
          b = nullish (buyerOutside_opt config) DEFAULT_BUYER_OUTSIDE;
          s = nullish (supplierOutside_opt config) DEFAULT_SUPPLIER_OUTSIDE;
          surplus = jmax 0 (sp_globalUtility config - b - s);
          offset = (clamped - lit 0.5) * lit 1.5 * surplus;
          buyer = b + lit 0.5 * surplus + offset;
          supplier = s + lit 0.5 * surplus - offset
      in \<lparr>sp_share = clamped, sp_buyerUtility = buyer, sp_supplierUtility = supplier, sp_buyerOutside = b,
          sp_supplierOutside = s, sp_buyerFeasible = (b \<le> buyer), sp_supplierFeasible = (s \<le> supplier),
          sp_feasible = (b \<le> buyer \<and> s \<le> supplier)\<rparr>)"

definition sampleSplitCurve :: "('p::len0) jsnum \<Rightarrow> 'p splitConfig \<Rightarrow> 'p splitPoint list option" where
  "sampleSplitCurve step config =
     for_steps (\<lambda>points s. points @ [splitOutcome s config]) (1 + lit (1 / 10 ^ 9)) step 0 []"

definition feasibleBand :: "('p::len0) splitConfig \<Rightarrow> 'p jsnum \<times> 'p jsnum" where
  "feasibleBand config =
     (let b = nullish (buyerOutside_opt config) DEFAULT_BUYER_OUTSIDE;
          s = nullish (supplierOutside_opt config) DEFAULT_SUPPLIER_OUTSIDE;
          surplus = sp_globalUtility config - b - s
      in if surplus \<le> 0 then (lit 0.5, lit 0.5) else (1 / lit 6, lit 5 / lit 6))"

section \<open>Joint utility\<close>

definition buyerUtilityAt :: "('p::len0) jsnum \<Rightarrow> 'p jsnum \<Rightarrow> 'p jsnum" where
  "buyerUtilityAt q dem =
     (let shortage = jmax 0 (dem - q); excess = jmax 0 (q - dem)
      in lit 125 * jmin q dem - lit 55 * q - lit 92 * shortage - lit 7 * excess)"

definition supplierUtilityAt :: "('p::len0) jsnum \<Rightarrow> 'p jsnum \<Rightarrow> 'p jsnum" where
  "supplierUtilityAt q cap =
     (let overCapacity = jmax 0 (q - cap)
      in (lit 55 - lit 34) * q - lit 5 * jmax 0 (lit 500 - q) - overCapacity * overCapacity * lit 0.07)"

record 'p jointPoint =
  jp_q :: "'p jsnum"
  jp_buyer :: "'p jsnum"
  jp_supplier :: "'p jsnum"
  jp_joint :: "'p jsnum"

definition joint_point :: "('p::len0) jsnum \<Rightarrow> 'p jsnum \<Rightarrow> 'p jsnum \<Rightarrow> 'p jointPoint" where
  "joint_point dem cap q =
     \<lparr>jp_q = q, jp_buyer = buyerUtilityAt q dem, jp_supplier = supplierUtilityAt q cap,
      jp_joint = buyerUtilityAt q dem + supplierUtilityAt q cap\<rparr>"

definition sampleJointCurve ::
    "('p::len0) jsnum \<Rightarrow> 'p jsnum \<Rightarrow> 'p jsnum \<Rightarrow> 'p jsnum \<Rightarrow> 'p jsnum \<Rightarrow> 'p jointPoint list option" where
  "sampleJointCurve qMin qMax step dem cap =
     for_steps (\<lambda>points q. points @ [joint_point dem cap q]) qMax step qMin []"

definition jointUtilityAt :: "('p::len0) jsnum \<Rightarrow> 'p jsnum \<Rightarrow> 'p jsnum \<Rightarrow> 'p jsnum" where
  "jointUtilityAt q dem cap = buyerUtilityAt q dem + supplierUtilityAt q cap"

definition better_joint ::
    "('p::len0) jsnum \<Rightarrow> 'p jsnum \<Rightarrow> 'p jointPoint option \<Rightarrow> 'p jsnum \<Rightarrow> 'p jointPoint option" where
  "better_joint dem cap best q =
     (let joint = jointUtilityAt q dem cap
      in if (case best of None \<Rightarrow> True | Some b \<Rightarrow> jp_joint b < joint)
         then Some \<lparr>jp_q = q, jp_buyer = buyerUtilityAt q dem, jp_supplier = supplierUtilityAt q cap, jp_joint = joint\<rparr>
         else best)"

definition findJointOptimum ::
    "('p::len0) jsnum \<Rightarrow> 'p jsnum \<Rightarrow> 'p jsnum \<Rightarrow> 'p jsnum \<Rightarrow> 'p jsnum \<Rightarrow> 'p jointPoint option" where
  "findJointOptimum qMin qMax step dem cap =
     map_option (\<lambda>best. case best of Some b \<Rightarrow> b | None \<Rightarrow> \<lparr>jp_q = qMin, jp_buyer = 0, jp_supplier = 0, jp_joint = 0\<rparr>)
       (for_steps (better_joint dem cap) qMax step qMin None)"

record 'p learnDefaults =
  ld_scenario :: "'p labScenario"
  ld_demand :: "'p jsnum"
  ld_supplierCapacity :: "'p jsnum"
  ld_qMin :: "'p jsnum"
  ld_qMax :: "'p jsnum"

definition defaultLearnScenario :: "('p::len0) learnDefaults" where
  "defaultLearnScenario =
     \<lparr>ld_scenario = makeScenario no_patch, ld_demand = lit 500, ld_supplierCapacity = lit 350, ld_qMin = 0, ld_qMax = lit 600\<rparr>"

section \<open>The band of feasible shares\<close>

text \<open>With a positive surplus a share is feasible exactly when it lies in the band from a sixth to five
  sixths that \<^verbatim>\<open>feasibleBand\<close> returns, and the two utilities add up to the global utility.
  Without one every share counts as feasible, although the band is then the midpoint alone.\<close>

lemma split_feasible_iff:
  fixes config :: "0 splitConfig"
  assumes "sp_globalUtility config = Fin g" "buyerOutside_opt config = Some (Fin b)" "supplierOutside_opt config = Some (Fin s)"
  shows "(if b + s < g
      then sp_feasible (splitOutcome (Fin x) config) = (fst (feasibleBand config) \<le> Fin x \<and> Fin x \<le> snd (feasibleBand config))
        \<and> sp_buyerUtility (splitOutcome (Fin x) config) + sp_supplierUtility (splitOutcome (Fin x) config) = Fin g
      else sp_feasible (splitOutcome (Fin x) config) \<and> feasibleBand config = (Fin (1 / 2), Fin (1 / 2)))"
proof -
  let ?c = "max 0 (min 1 x)" and ?S = "max 0 (g - b - s)"
  let ?off = "(?c - 1 / 2) * (3 / 2) * ?S"
  have f: "sp_feasible (splitOutcome (Fin x) config) = (b \<le> b + 1 / 2 * ?S + ?off \<and> s \<le> s + 1 / 2 * ?S - ?off)"
    and u: "sp_buyerUtility (splitOutcome (Fin x) config) + sp_supplierUtility (splitOutcome (Fin x) config)
      = Fin (b + 1 / 2 * ?S + ?off + (s + 1 / 2 * ?S - ?off))"
    by (simp_all add: splitOutcome_def assms exact_eval Let_def)
  have band: "feasibleBand config = (if g - b - s \<le> 0 then (Fin (1 / 2), Fin (1 / 2)) else (Fin (1 / 6), Fin (5 / 6)))"
    by (simp add: feasibleBand_def assms exact_eval Let_def)
  show ?thesis
  proof (cases "b + s < g")
    case True
    then have S: "?S = g - b - s" "0 < g - b - s" by simp_all
    have k: "1 / 2 * ?S + ?off = (3 / 2 * ?c - 1 / 4) * ?S" "1 / 2 * ?S - ?off = (5 / 4 - 3 / 2 * ?c) * ?S"
      by (simp_all add: algebra_simps)
    have nonneg: "0 \<le> r * ?S \<longleftrightarrow> 0 \<le> r" for r
      using S by (simp add: zero_le_mult_iff)
    have "sp_feasible (splitOutcome (Fin x) config) \<longleftrightarrow> 0 \<le> 1 / 2 * ?S + ?off \<and> 0 \<le> 1 / 2 * ?S - ?off"
      unfolding f by linarith
    also have "\<dots> \<longleftrightarrow> 1 / 6 \<le> ?c \<and> ?c \<le> 5 / 6"
      unfolding k nonneg by linarith
    also have "\<dots> \<longleftrightarrow> 1 / 6 \<le> x \<and> x \<le> 5 / 6" by linarith
    finally show ?thesis using True S u band by simp
  next
    case False
    then show ?thesis using f band by simp
  qed
qed

theorem split_feasible_iff_witness:
  "\<not> sp_feasible (splitOutcome (Fin (1 / 10) :: exact) \<lparr>sp_globalUtility = Fin 20000, buyerOutside_opt = Some (Fin 8400), supplierOutside_opt = Some (Fin 5200)\<rparr>)
   \<and> sp_feasible (splitOutcome (Fin (1 / 2) :: exact) \<lparr>sp_globalUtility = Fin 20000, buyerOutside_opt = Some (Fin 8400), supplierOutside_opt = Some (Fin 5200)\<rparr>)"
proof -
  let ?c = "\<lparr>sp_globalUtility = Fin 20000, buyerOutside_opt = Some (Fin 8400), supplierOutside_opt = Some (Fin 5200)\<rparr> :: 0 splitConfig"
  have "feasibleBand ?c = (Fin (1 / 6), Fin (5 / 6))" by (simp add: feasibleBand_def exact_eval)
  then show ?thesis
    using split_feasible_iff [of ?c 20000 8400 5200 "1 / 10"] split_feasible_iff [of ?c 20000 8400 5200 "1 / 2"] by simp
qed

section \<open>The best quantity on the grid\<close>

lemma joint_exact: "\<exists>r. jointUtilityAt (Fin q) (Fin dem) (Fin cap :: exact) = Fin r"
  by (simp add: jointUtilityAt_def buyerUtilityAt_def supplierUtilityAt_def exact_eval Let_def)

lemma better_joint_simps:
  "better_joint dem cap None q = Some (joint_point dem cap q)"
  "better_joint dem cap (Some p) q = (if jp_joint p < jointUtilityAt q dem cap then Some (joint_point dem cap q) else Some p)"
  by (simp_all add: better_joint_def joint_point_def jointUtilityAt_def Let_def)

lemma better_joint_fold:
  "qs \<noteq> [] \<Longrightarrow> \<exists>q \<in> set qs. foldl (better_joint (Fin dem) (Fin cap :: exact)) None (map Fin qs) = Some (joint_point (Fin dem) (Fin cap) (Fin q))
     \<and> (\<forall>x \<in> set qs. jointUtilityAt (Fin x) (Fin dem) (Fin cap :: exact) \<le> jointUtilityAt (Fin q) (Fin dem) (Fin cap))"
proof (induction qs rule: rev_induct)
  case (snoc y ys)
  let ?J = "\<lambda>x. jointUtilityAt (Fin x) (Fin dem) (Fin cap :: exact)"
  have fin: "\<exists>r. ?J x = Fin r" for x by (rule joint_exact)
  have refl: "?J x \<le> ?J x" for x using fin [of x] by auto
  show ?case
  proof (cases "ys = []")
    case True
    then show ?thesis using refl by (simp add: better_joint_simps)
  next
    case False
    then obtain q where q: "q \<in> set ys"
      "foldl (better_joint (Fin dem) (Fin cap :: exact)) None (map Fin ys) = Some (joint_point (Fin dem) (Fin cap) (Fin q))"
      "\<forall>x \<in> set ys. ?J x \<le> ?J q" using snoc.IH by blast
    have jp: "jp_joint (joint_point (Fin dem) (Fin cap) (Fin q)) = ?J q" by (simp add: joint_point_def jointUtilityAt_def)
    show ?thesis
    proof (cases "?J q < ?J y")
      case True
      then have "\<forall>x \<in> set (ys @ [y]). ?J x \<le> ?J y"
        using q(3) num_less_imp_le num_trans refl by fastforce
      then show ?thesis using True
        by (intro bexI [of _ y]) (simp_all add: q(2) better_joint_simps jp)
    next
      case nless: False
      then have "?J y \<le> ?J q" using fin [of y] fin [of q] by auto
      then show ?thesis using nless q by (intro bexI [of _ q]) (simp_all add: better_joint_simps jp)
    qed
  qed
qed simp

lemma visited_pos: "a \<le> h \<Longrightarrow> 0 < d \<Longrightarrow> 0 < visited a d h"
  by (simp add: visited_def zero_less_nat_eq)



end
