(* ===== verification/BuyPlan.thy ===== *)
theory BuyPlan
  imports TransferPricing Formula NumText
begin

text \<open>
  \<^verbatim>\<open>packages/engine/src/learn/buyPlan.ts\<close>: a buy plan of several products, each with a formula
  of its own, and the relationships that correct its utility. The parser, the functions of
  \<^verbatim>\<open>Math\<close> and \<^verbatim>\<open>toLocaleString\<close> are arguments; a formula that fails keeps
  its error instead of the error's message.
\<close>

section \<open>Plans\<close>

record 'p skuParameters =
  sku_demand :: "'p jsnum"
  sku_unit_cost :: "'p jsnum"
  sku_service_value :: "'p jsnum"
  sku_shortage_penalty :: "'p jsnum"
  sku_excess_penalty :: "'p jsnum"

definition DEFAULT_SKU_PARAMS :: "('p::len0) skuParameters" where
  "DEFAULT_SKU_PARAMS = \<lparr>sku_demand = lit 500, sku_unit_cost = lit 55, sku_service_value = lit 125,
     sku_shortage_penalty = lit 92, sku_excess_penalty = lit 7\<rparr>"

datatype relationshipKind = Substitute | Complement | SharedCapacity

record 'p relationship =
  rl_id :: string
  rl_kind :: relationshipKind
  rl_skuIds :: "string list"
  rl_strength :: "'p jsnum"

record 'p skuRow =
  sk_id :: string
  sk_name :: string
  sk_formula :: string
  sk_params :: "'p skuParameters"
  sk_q :: "'p jsnum"

record 'p skuEvalResult =
  se_skuId :: string
  se_name :: string
  se_q :: "'p jsnum"
  se_utility :: "'p jsnum"
  se_error :: "'p ferror option"

record 'p correction =
  co_id :: string
  co_kind :: relationshipKind
  co_skuIds :: "string list"
  co_delta :: "'p jsnum"
  co_binding :: bool
  co_note :: string

record 'p planResult =
  pl_perSku :: "'p skuEvalResult list"
  pl_corrections :: "'p correction list"
  pl_aggregate :: "'p jsnum"
  pl_errors :: "(string \<times> 'p ferror) list"
  pl_violations :: "(string \<times> string) list"

definition ALLOWED_VARS :: "string list" where
  "ALLOWED_VARS = [''q'', ''demand'', ''unit_cost'', ''service_value'', ''shortage_penalty'', ''excess_penalty'', ''holding'']"

definition finiteNonNegative :: "('p::len0) jsnum \<Rightarrow> 'p jsnum" where
  "finiteNonNegative value = (if is_fin value then jmax 0 value else 0)"

section \<open>Evaluation of a row\<close>

definition sku_namespace :: "('p::len0) skuRow \<Rightarrow> 'p namespace" where
  "sku_namespace row =
     [(''q'', NumV (sk_q row)), (''demand'', NumV (sku_demand (sk_params row))),
      (''unit_cost'', NumV (sku_unit_cost (sk_params row))), (''service_value'', NumV (sku_service_value (sk_params row))),
      (''shortage_penalty'', NumV (sku_shortage_penalty (sk_params row))),
      (''excess_penalty'', NumV (sku_excess_penalty (sk_params row))), (''holding'', NumV (lit 5))]"

definition evalSkuFormula :: "'p parser \<Rightarrow> ('p::len0) mathlib \<Rightarrow> 'p skuRow \<Rightarrow> 'p skuEvalResult" where
  "evalSkuFormula acorn m row =
     (case ebind (compileFormula acorn (sk_formula row) (Some ALLOWED_VARS))
             (\<lambda>compiled. evaluate m compiled (sku_namespace row)) of
        Inr u \<Rightarrow> \<lparr>se_skuId = sk_id row, se_name = sk_name row, se_q = sk_q row, se_utility = u, se_error = None\<rparr>
      | Inl e \<Rightarrow> \<lparr>se_skuId = sk_id row, se_name = sk_name row, se_q = sk_q row, se_utility = 0, se_error = Some e\<rparr>)"

section \<open>Corrections\<close>

definition MINUS_SIGN :: string where "MINUS_SIGN = [CHR 0xE2, CHR 0x88, CHR 0x92]"

definition correction_of :: "('p::len0) relationship \<Rightarrow> 'p jsnum \<Rightarrow> bool \<Rightarrow> string \<Rightarrow> 'p correction" where
  "correction_of rel delta binding nt =
     \<lparr>co_id = rl_id rel, co_kind = rl_kind rel, co_skuIds = rl_skuIds rel, co_delta = delta, co_binding = binding, co_note = nt\<rparr>"

definition involved_rows :: "'p skuRow list \<Rightarrow> string list \<Rightarrow> 'p skuRow list" where
  "involved_rows skus ids =
     concat (map (\<lambda>i. case map_of (rev (map (\<lambda>s. (sk_id s, s)) skus)) i of None \<Rightarrow> [] | Some r \<Rightarrow> [r]) ids)"

definition complement_correction ::
    "('p jsnum \<Rightarrow> string) \<Rightarrow> ('p::len0) relationship \<Rightarrow> 'p skuRow \<Rightarrow> 'p skuRow \<Rightarrow> 'p correction" where
  "complement_correction locale_text rel a b =
     (let strength = finiteNonNegative (rl_strength rel);
          matched = jmin (finiteNonNegative (sk_q a)) (finiteNonNegative (sk_q b));
          delta = matched * strength
      in correction_of rel delta (0 < delta)
           (''+$'' @ locale_text (jround delta) @ '' bundle lift across '' @ sk_name a @ '' + '' @ sk_name b @
            '' (matched '' @ num_text matched @ '' units x $'' @ num_text strength @ ''/unit).''))"

definition substitute_correction ::
    "('p jsnum \<Rightarrow> string) \<Rightarrow> ('p::len0) relationship \<Rightarrow> 'p skuRow \<Rightarrow> 'p skuRow \<Rightarrow> 'p correction" where
  "substitute_correction locale_text rel a b =
     (let strength = finiteNonNegative (rl_strength rel);
          combinedDemand = jmax (finiteNonNegative (sku_demand (sk_params a))) (finiteNonNegative (sku_demand (sk_params b)));
          combinedQ = finiteNonNegative (sk_q a) + finiteNonNegative (sk_q b);
          overlap = jmax 0 (combinedQ - combinedDemand);
          avgValue = (finiteNonNegative (sku_service_value (sk_params a)) + finiteNonNegative (sku_service_value (sk_params b))) / lit 2;
          delta = - overlap * strength * avgValue * lit 0.25
      in correction_of rel delta (0 < overlap)
           (if 0 < overlap
            then MINUS_SIGN @ ''$'' @ locale_text (jround (- delta)) @ '' substitution penalty across '' @
                 sk_name a @ '' / '' @ sk_name b @ '' (overlap '' @ num_text overlap @ '' units cannibalized).''
            else sk_name a @ '' / '' @ sk_name b @ '' substitute, but no overlap at current plan.''))"

definition capacity_correction ::
    "('p jsnum \<Rightarrow> string) \<Rightarrow> ('p::len0) relationship \<Rightarrow> 'p skuRow list \<Rightarrow> 'p correction" where
  "capacity_correction locale_text rel involved =
     (if involved = []
      then correction_of rel 0 False ''shared-capacity relationship has no matching SKUs; correction skipped.''
      else let totalQ = jsum (map (\<lambda>s. finiteNonNegative (sk_q s)) involved);
               cap = finiteNonNegative (rl_strength rel);
               over = jmax 0 (totalQ - cap)
        in if 0 < over
           then let worstService = jmaxs (map (\<lambda>s. finiteNonNegative (sku_service_value (sk_params s))) involved);
                    delta = - over * worstService
             in correction_of rel delta True
                  (''Shared capacity '' @ num_text cap @ '' exceeded by '' @ num_text over @ '' units across '' @
                   join_with '', '' (map sk_name involved) @ ''. Penalty $'' @ locale_text (jround (- delta)) @ ''.'')
           else correction_of rel 0 False
                  (''Shared capacity '' @ num_text cap @ '' respected (using '' @ num_text totalQ @ '').''))"

definition applyRelationship ::
    "('p jsnum \<Rightarrow> string) \<Rightarrow> 'p skuRow list \<Rightarrow> ('p::len0) relationship \<Rightarrow> 'p correction" where
  "applyRelationship locale_text skus rel =
     (let involved = involved_rows skus (rl_skuIds rel) in
      case rl_kind rel of
        Complement \<Rightarrow> (case involved of [a, b] \<Rightarrow> complement_correction locale_text rel a b
          | _ \<Rightarrow> correction_of rel 0 False ''complement requires exactly two SKUs; correction skipped.'')
      | Substitute \<Rightarrow> (case involved of [a, b] \<Rightarrow> substitute_correction locale_text rel a b
          | _ \<Rightarrow> correction_of rel 0 False ''substitute requires exactly two SKUs; correction skipped.'')
      | SharedCapacity \<Rightarrow> capacity_correction locale_text rel involved)"

definition evaluateBuyPlan ::
    "'p parser \<Rightarrow> 'p mathlib \<Rightarrow> ('p jsnum \<Rightarrow> string) \<Rightarrow> ('p::len0) skuRow list \<Rightarrow> 'p relationship list \<Rightarrow> 'p planResult" where
  "evaluateBuyPlan acorn m locale_text skus relationships =
     (let perSku = map (evalSkuFormula acorn m) skus;
          corrections = map (applyRelationship locale_text skus) relationships;
          baseUtility = jsum (map se_utility perSku);
          correctionTotal = jsum (map co_delta corrections)
      in \<lparr>pl_perSku = perSku, pl_corrections = corrections, pl_aggregate = baseUtility + correctionTotal,
          pl_errors = concat (map (\<lambda>r. case se_error r of None \<Rightarrow> [] | Some e \<Rightarrow> [(se_skuId r, e)]) perSku),
          pl_violations = map (\<lambda>c. (co_id c, co_note c)) (filter (\<lambda>c. co_kind c = SharedCapacity \<and> co_binding c) corrections)\<rparr>)"

section \<open>The optimal plan\<close>

definition sku_optimum :: "('p::len0) skuRow \<Rightarrow> 'p skuRow" where
  "sku_optimum sku = sku\<lparr>sk_q :=
     (if sku_unit_cost (sk_params sku) < sku_service_value (sk_params sku) then sku_demand (sk_params sku) else 0)\<rparr>"

definition optimalBuyPlan :: "('p::len0) skuRow list \<Rightarrow> 'p relationship list \<Rightarrow> 'p skuRow list" where
  "optimalBuyPlan skus relationships =
     (let result = map sku_optimum skus in
      case List.find (\<lambda>r. rl_kind r = SharedCapacity) relationships of
        None \<Rightarrow> result
      | Some cap \<Rightarrow>
          (let total = jsum (map sk_q (filter (\<lambda>s. sk_id s \<in> set (rl_skuIds cap)) result)) in
           if rl_strength cap < total \<and> 0 < total
           then let scale = rl_strength cap / total
             in map (\<lambda>s. if sk_id s \<in> set (rl_skuIds cap) then s\<lparr>sk_q := jfloor (sk_q s * scale)\<rparr> else s) result
           else result))"

definition ACCESSORY_FORMULA :: string where
  "ACCESSORY_FORMULA =
     ''service_value * min(q, demand) - unit_cost * q - shortage_penalty * max(demand - q, 0)''"

definition CHIP_FORMULA :: string where
  "CHIP_FORMULA = ACCESSORY_FORMULA @ '' - excess_penalty * max(q - demand, 0)''"

definition defaultBuyPlan :: "('p::len0) skuRow list \<times> 'p relationship list" where
  "defaultBuyPlan =
     ([\<lparr>sk_id = ''sku-a'', sk_name = ''Chip A (high-end)'', sk_formula = CHIP_FORMULA,
        sk_params = DEFAULT_SKU_PARAMS\<lparr>sku_service_value := lit 140, sku_unit_cost := lit 60, sku_demand := lit 400\<rparr>,
        sk_q = lit 350\<rparr>,
       \<lparr>sk_id = ''sku-b'', sk_name = ''Chip B (mid-range)'', sk_formula = CHIP_FORMULA,
        sk_params = DEFAULT_SKU_PARAMS\<lparr>sku_service_value := lit 95, sku_unit_cost := lit 45, sku_demand := lit 600\<rparr>,
        sk_q = lit 500\<rparr>,
       \<lparr>sk_id = ''sku-c'', sk_name = ''Accessory (bundle)'', sk_formula = ACCESSORY_FORMULA,
        sk_params = DEFAULT_SKU_PARAMS\<lparr>sku_service_value := lit 35, sku_unit_cost := lit 18, sku_demand := lit 350,
          sku_shortage_penalty := lit 22, sku_excess_penalty := lit 3\<rparr>,
        sk_q = lit 250\<rparr>],
      [\<lparr>rl_id = ''rel-sub-ab'', rl_kind = Substitute, rl_skuIds = [''sku-a'', ''sku-b''], rl_strength = lit 0.4\<rparr>,
       \<lparr>rl_id = ''rel-comp-ac'', rl_kind = Complement, rl_skuIds = [''sku-a'', ''sku-c''], rl_strength = lit 8\<rparr>,
       \<lparr>rl_id = ''rel-cap-shared'', rl_kind = SharedCapacity, rl_skuIds = [''sku-a'', ''sku-b'', ''sku-c''],
        rl_strength = lit 1500\<rparr>])"

section \<open>The optimal plan keeps the shared capacity\<close>

lemma map_of_rows:
  assumes "distinct (map sk_id skus)"
  shows "map_of (rev (map (\<lambda>s. (sk_id s, s)) skus)) i = Some r \<longleftrightarrow> r \<in> set skus \<and> sk_id r = i"
proof -
  have "distinct (map fst (rev (map (\<lambda>s. (sk_id s, s)) skus)))"
    using assms by (simp add: rev_map [symmetric] comp_def)
  then show ?thesis by (auto simp: map_of_eq_Some_iff)
qed

lemma set_involved:
  assumes "distinct (map sk_id skus)"
  shows "set (involved_rows skus ids) = {s \<in> set skus. sk_id s \<in> set ids}"
proof -
  have "x \<in> set (involved_rows skus ids) \<longleftrightarrow> (\<exists>i \<in> set ids. map_of (rev (map (\<lambda>s. (sk_id s, s)) skus)) i = Some x)" for x
    unfolding involved_rows_def by (auto split: option.splits intro: bexI [rotated])
  then show ?thesis unfolding map_of_rows [OF assms] by auto
qed

lemma distinct_involved:
  assumes "distinct (map sk_id skus)" "distinct ids"
  shows "distinct (involved_rows skus ids)"
  using assms(2)
proof (induction ids)
  case (Cons i ids)
  let ?m = "map_of (rev (map (\<lambda>s. (sk_id s, s)) skus))"
  have "involved_rows skus (i # ids) = (case ?m i of None \<Rightarrow> [] | Some r \<Rightarrow> [r]) @ involved_rows skus ids"
    by (simp add: involved_rows_def)
  then show ?case
    using Cons set_involved [OF assms(1), of ids] map_of_rows [OF assms(1)] by (cases "?m i") auto
qed (simp add: involved_rows_def)

lemma sum_involved:
  fixes f :: "'p skuRow \<Rightarrow> rat"
  assumes "distinct (map sk_id skus)" "distinct ids"
  shows "sum_list (map f (involved_rows skus ids)) = sum_list (map f (filter (\<lambda>s. sk_id s \<in> set ids) skus))"
proof -
  have "distinct (filter (\<lambda>s. sk_id s \<in> set ids) skus)" using assms(1) by (simp add: distinct_map)
  then show ?thesis
    using distinct_involved [OF assms] set_involved [OF assms(1), of ids]
    by (simp add: sum_list_distinct_conv_sum_set)
qed

text \<open>Rounding down a quantity scaled to the capacity keeps the sum below it.\<close>

lemma scaled_sum:
  assumes "0 \<le> c" "c < sum_list (map x ys)" "\<And>y. y \<in> set ys \<Longrightarrow> 0 \<le> x y"
  shows "sum_list (map (\<lambda>y. of_int \<lfloor>x y * (c / sum_list (map x ys))\<rfloor>) ys) \<le> (c :: rat)"
proof -
  let ?T = "sum_list (map x ys)"
  have "sum_list (map (\<lambda>y. of_int \<lfloor>x y * (c / ?T)\<rfloor>) ys) \<le> sum_list (map (\<lambda>y. x y * (c / ?T)) ys)"
    by (intro sum_list_mono) simp
  also have "\<dots> = ?T * (c / ?T)" by (rule sum_list_mult_const)
  also have "\<dots> = c" using assms(1,2) by simp
  finally show ?thesis .
qed

definition nonneg_row :: "0 skuRow \<Rightarrow> bool" where
  "nonneg_row s = (is_fin (sku_demand (sk_params s)) \<and> 0 \<le> sku_demand (sk_params s))"

definition quantity :: "0 skuRow \<Rightarrow> rat" where
  "quantity s = (case sk_q s of Fin r \<Rightarrow> r | _ \<Rightarrow> 0)"

definition good_quantity :: "0 skuRow \<Rightarrow> bool" where
  "good_quantity s = (sk_q s = Fin (quantity s) \<and> 0 \<le> quantity s)"

lemma good_quantityI: "sk_q s = Fin r \<Longrightarrow> 0 \<le> r \<Longrightarrow> good_quantity s \<and> quantity s = r"
  by (simp add: good_quantity_def quantity_def)

lemma optimum_good: "nonneg_row s \<Longrightarrow> good_quantity (sku_optimum s)"
  by (auto simp: nonneg_row_def sku_optimum_def zero_jsnum_def elim!: is_finE intro: good_quantityI [THEN conjunct1])

lemma jsum_quantities:
  "\<forall>s \<in> set xs. good_quantity s \<Longrightarrow> jsum (map sk_q xs) = Fin (sum_list (map quantity xs))"
  by (rule jsum_exact_map) (simp add: good_quantity_def)

lemma sk_id_optimum [simp]: "sk_id (sku_optimum s) = sk_id s"
  by (simp add: sku_optimum_def)

lemma optimal_ids [simp]: "map sk_id (optimalBuyPlan skus rels) = map sk_id skus"
  by (simp add: optimalBuyPlan_def Let_def comp_def split: option.splits cong: map_cong)

lemma filter_map_keep: "(\<And>x. P (f x) = P x) \<Longrightarrow> filter P (map f xs) = map f (filter P xs)"
  by (induction xs) simp_all

lemma optimal_fits:
  assumes find: "List.find (\<lambda>r. rl_kind r = SharedCapacity) rels = Some cap"
    and c: "rl_strength cap = Fin c" "0 \<le> c" and rows: "\<forall>s \<in> set skus. nonneg_row s"
  shows "(\<forall>s \<in> set (optimalBuyPlan skus rels). good_quantity s)
    \<and> sum_list (map quantity (filter (\<lambda>s. sk_id s \<in> set (rl_skuIds cap)) (optimalBuyPlan skus rels))) \<le> c"
proof -
  let ?in = "\<lambda>s. sk_id s \<in> set (rl_skuIds cap)"
  let ?res = "map sku_optimum skus"
  let ?ys = "filter ?in ?res"
  let ?T = "sum_list (map quantity ?ys)"
  have good: "\<forall>s \<in> set ?res. good_quantity s" using rows optimum_good by auto
  then have tot: "jsum (map sk_q ?ys) = Fin ?T" by (intro jsum_quantities) auto
  show ?thesis
  proof (cases "c < ?T \<and> 0 < ?T")
    case False
    then have "\<not> (Fin c < (Fin ?T :: exact) \<and> 0 < (Fin ?T :: exact))" by (simp add: zero_jsnum_def)
    then have "optimalBuyPlan skus rels = ?res"
      unfolding optimalBuyPlan_def find Let_def option.case tot c(1) by (rule if_not_P)
    then show ?thesis using False good c(2) by auto
  next
    case True
    let ?h = "\<lambda>s. if ?in s then s\<lparr>sk_q := jfloor (sk_q s * (rl_strength cap / Fin ?T))\<rparr> else s"
    have plan: "optimalBuyPlan skus rels = map ?h ?res"
      unfolding optimalBuyPlan_def find Let_def option.case tot c(1) using True
      by (intro if_P) (simp add: zero_jsnum_def)
    have h: "good_quantity (?h s) \<and> quantity (?h s) = (if ?in s then of_int \<lfloor>quantity s * (c / ?T)\<rfloor> else quantity s)"
      if "s \<in> set ?res" for s
    proof (cases "?in s")
      case False
      then show ?thesis using good that by auto
    next
      case in_cap: True
      have g: "sk_q s = Fin (quantity s)" "0 \<le> quantity s" using good that by (auto simp: good_quantity_def)
      have "sk_q (?h s) = Fin (of_int \<lfloor>quantity s * (c / ?T)\<rfloor>)" using in_cap True c(1) by (simp add: g(1) exact_eval)
      moreover have "0 \<le> (of_int \<lfloor>quantity s * (c / ?T)\<rfloor> :: rat)" using g(2) c(2) True by simp
      ultimately show ?thesis using in_cap good_quantityI by simp
    qed
    have "filter ?in (map ?h ?res) = map ?h ?ys"
      by (rule filter_map_keep) simp
    moreover have "map quantity (map ?h ?ys) = map (\<lambda>s. of_int \<lfloor>quantity s * (c / ?T)\<rfloor>) ?ys"
    proof -
      have "quantity (?h s) = of_int \<lfloor>quantity s * (c / ?T)\<rfloor>" if "s \<in> set ?ys" for s
        using h [of s] that by (simp only: set_filter mem_Collect_eq if_True simp_thms)
      then show ?thesis unfolding map_map comp_def by (intro map_cong refl)
    qed
    ultimately have "sum_list (map quantity (filter ?in (map ?h ?res))) = sum_list (map (\<lambda>s. of_int \<lfloor>quantity s * (c / ?T)\<rfloor>) ?ys)"
      by (simp only:)
    also have "\<dots> \<le> c" using c(2) True good by (intro scaled_sum) (auto simp: good_quantity_def)
    finally show ?thesis unfolding plan using h by (simp only: set_map image_iff) blast
  qed
qed


definition tight_capacity :: "0 relationship" where
  "tight_capacity = \<lparr>rl_id = ''cap'', rl_kind = SharedCapacity, rl_skuIds = [''sku-a'', ''sku-b'', ''sku-c''], rl_strength = Fin 700\<rparr>"


end
