(* ===== verification/Convergence.thy ===== *)
theory Convergence
  imports TransferPricing
begin

text \<open>
  \<^verbatim>\<open>packages/engine/src/learn/convergencePlayground.ts\<close>: rounds of proposals by which vendors with
  private ideals approach a common quantity, by four methods. \<open>finite_or\<close> and \<open>cents\<close> are the
  helpers \<^verbatim>\<open>finite\<close> and \<^verbatim>\<open>round\<close>, which the file words like \<^verbatim>\<open>transferPricing.ts\<close>.
\<close>

section \<open>Data\<close>

datatype convergenceMethod = ConsensusAdmm | DampedAveraging | PriceTatonnement | Lagrangian

definition CONVERGENCE_METHODS :: "convergenceMethod list" where
  "CONVERGENCE_METHODS = [ConsensusAdmm, DampedAveraging, PriceTatonnement, Lagrangian]"

record convergenceGuide =
  cg_id :: string
  cg_label :: string
  simulatedMethod :: "convergenceMethod option"

definition CONVERGENCE_GUIDES :: "convergenceGuide list" where
  "CONVERGENCE_GUIDES =
     [\<lparr>cg_id = ''consensus-admm'', cg_label = ''Consensus / ADMM'', simulatedMethod = Some ConsensusAdmm\<rparr>,
      \<lparr>cg_id = ''damped-averaging'', cg_label = ''Damped averaging'', simulatedMethod = Some DampedAveraging\<rparr>,
      \<lparr>cg_id = ''tatonnement'', cg_label = ''Price clearing'', simulatedMethod = Some PriceTatonnement\<rparr>,
      \<lparr>cg_id = ''lagrangian'', cg_label = ''Lagrangian updates'', simulatedMethod = Some Lagrangian\<rparr>,
      \<lparr>cg_id = ''progressive-hedging'', cg_label = ''Progressive hedging'', simulatedMethod = None\<rparr>,
      \<lparr>cg_id = ''gossip'', cg_label = ''Gossip consensus'', simulatedMethod = None\<rparr>,
      \<lparr>cg_id = ''federated-averaging'', cg_label = ''Federated averaging'', simulatedMethod = None\<rparr>,
      \<lparr>cg_id = ''projection'', cg_label = ''Projection methods'', simulatedMethod = None\<rparr>,
      \<lparr>cg_id = ''no-regret'', cg_label = ''No-regret learning'', simulatedMethod = None\<rparr>,
      \<lparr>cg_id = ''auction'', cg_label = ''Auction / mechanism'', simulatedMethod = None\<rparr>,
      \<lparr>cg_id = ''voting'', cg_label = ''Voting / scoring'', simulatedMethod = None\<rparr>,
      \<lparr>cg_id = ''bayesian'', cg_label = ''Bayesian pooling'', simulatedMethod = None\<rparr>,
      \<lparr>cg_id = ''contract-menu'', cg_label = ''Contract menu'', simulatedMethod = None\<rparr>]"

record 'p vendorProfile =
  vp_id :: string
  vp_name :: string
  idealQuantity :: "'p jsnum"
  vp_minQuantity :: "'p jsnum"
  vp_maxQuantity :: "'p jsnum"
  privateWeight :: "'p jsnum"
  consensusPull :: "'p jsnum"
  shareWeight :: "'p jsnum"
  reservationPrice :: "'p jsnum"
  priceSensitivity :: "'p jsnum"

record 'p consensusConfig =
  cc_method :: convergenceMethod
  initialTarget :: "'p jsnum"
  targetDemand :: "'p jsnum"
  cc_rho :: "'p jsnum"
  cc_alpha :: "'p jsnum"
  cc_eta :: "'p jsnum"
  maxRounds :: "'p jsnum"
  cc_epsilon :: "'p jsnum"
  initialPrice :: "'p jsnum"

record 'p roundProposal =
  vr_vendorId :: string
  vr_name :: string
  vr_proposal :: "'p jsnum"
  vr_message :: "'p jsnum"
  vr_dual :: "'p jsnum"
  vr_feasible :: bool

record 'p convergenceRound =
  cr_round :: "'p jsnum"
  cr_consensus :: "'p jsnum"
  cr_price :: "'p jsnum"
  cr_lambda :: "'p jsnum"
  totalSupply :: "'p jsnum"
  demandGap :: "'p jsnum"
  primalResidual :: "'p jsnum"
  dualResidual :: "'p jsnum"
  cr_proposals :: "'p roundProposal list"

record 'p fallbackOption =
  fo_id :: string
  fo_label :: string
  fo_quantity :: "'p jsnum"
  fo_unitPrice :: "'p jsnum"
  flexPercent :: "'p jsnum"
  penaltyPerLateDay :: "'p jsnum"

record 'p convergenceResult =
  cv_method :: convergenceMethod
  cv_converged :: bool
  cv_rounds :: "'p convergenceRound list"
  finalConsensus :: "'p jsnum"
  finalPrice :: "'p jsnum"
  finalResidual :: "'p jsnum"
  cv_messagesShared :: "string list"
  cv_privacyNote :: string
  cv_fallbackMenu :: "'p fallbackOption list"

definition DEFAULT_CONSENSUS_VENDORS :: "('p::len0) vendorProfile list" where
  "DEFAULT_CONSENSUS_VENDORS =
     [\<lparr>vp_id = ''vendor-a'', vp_name = ''Aster Components'', idealQuantity = lit 920, vp_minQuantity = lit 520,
       vp_maxQuantity = lit 1300, privateWeight = lit 1.4, consensusPull = lit 0.35, shareWeight = lit 1.2,
       reservationPrice = lit 10.4, priceSensitivity = lit 48\<rparr>,
      \<lparr>vp_id = ''vendor-b'', vp_name = ''Boreal Systems'', idealQuantity = lit 680, vp_minQuantity = lit 350,
       vp_maxQuantity = lit 980, privateWeight = lit 1, consensusPull = lit 0.28, shareWeight = lit 1,
       reservationPrice = lit 9.8, priceSensitivity = lit 62\<rparr>,
      \<lparr>vp_id = ''vendor-c'', vp_name = ''Cinder Supply'', idealQuantity = lit 440, vp_minQuantity = lit 180,
       vp_maxQuantity = lit 760, privateWeight = lit 1.8, consensusPull = lit 0.22, shareWeight = lit 0.8,
       reservationPrice = lit 11.1, priceSensitivity = lit 38\<rparr>]"

definition DEFAULT_CONSENSUS_CONFIG :: "('p::len0) consensusConfig" where
  "DEFAULT_CONSENSUS_CONFIG =
     \<lparr>cc_method = ConsensusAdmm, initialTarget = lit 700, targetDemand = lit 2100, cc_rho = lit 1, cc_alpha = lit 0.35,
      cc_eta = lit 0.04, maxRounds = lit 6, cc_epsilon = lit 18, initialPrice = lit 10\<rparr>"

section \<open>Helpers\<close>

definition positive_or :: "('p::len0) jsnum \<Rightarrow> 'p jsnum \<Rightarrow> 'p jsnum" where
  "positive_or value fallback = jmax (lit 0.0001) (finite_or value fallback)"

definition weightedAverage :: "('p::len0) jsnum list \<Rightarrow> 'p jsnum list \<Rightarrow> 'p jsnum" where
  "weightedAverage values weights =
     (let totalWeight = jsum (map (\<lambda>w. positive_or w 1) weights)
      in if totalWeight \<le> 0 then 0
         else jsum (map2 (\<lambda>value w. value * positive_or w 1) values weights) / totalWeight)"

definition fallbackMenu :: "('p::len0) jsnum \<Rightarrow> 'p jsnum \<Rightarrow> 'p fallbackOption list" where
  "fallbackMenu finalQuantity price =
     (let q = jmax 1 finalQuantity; p = jmax (lit 0.01) price in
      [\<lparr>fo_id = ''fast-flexible'', fo_label = ''Fast & Flexible'', fo_quantity = jround (q * lit 0.85),
        fo_unitPrice = cents (p + lit 0.55), flexPercent = lit 25, penaltyPerLateDay = lit 0.03\<rparr>,
       \<lparr>fo_id = ''balanced'', fo_label = ''Balanced'', fo_quantity = jround q, fo_unitPrice = cents p,
        flexPercent = lit 12, penaltyPerLateDay = lit 0.08\<rparr>,
       \<lparr>fo_id = ''lean-firm'', fo_label = ''Lean & Firm'', fo_quantity = jround (q * lit 1.12),
        fo_unitPrice = cents (jmax (lit 0.01) (p - lit 0.35)), flexPercent = lit 4, penaltyPerLateDay = lit 0.16\<rparr>])"

fun methodPrivacyNote :: "convergenceMethod \<Rightarrow> string" where
  "methodPrivacyNote ConsensusAdmm = ''Vendors send proposal-plus-dual messages. Raw costs and constraints stay local, but the transcript can still reveal marginal behavior.''"
| "methodPrivacyNote DampedAveraging = ''Vendors send proposed quantities. The coordinator only dampens the average, so privacy is practical rather than formal.''"
| "methodPrivacyNote PriceTatonnement = ''The coordinator posts prices and observes supply. Vendors reveal less plan detail, but repeated responses expose elasticity.''"
| "methodPrivacyNote Lagrangian = ''Vendors respond to a shadow price. Constraint scarcity is visible through the dual path, while local objectives stay private.''"

fun messagesShared :: "convergenceMethod \<Rightarrow> string list" where
  "messagesShared ConsensusAdmm = [''z target'', ''rho'', ''x_i + u_i'', ''dual update'']"
| "messagesShared DampedAveraging = [''z target'', ''proposal x_i'', ''damped average'']"
| "messagesShared PriceTatonnement = [''posted price'', ''quantity response'', ''excess demand'']"
| "messagesShared Lagrangian = [''shadow price lambda'', ''quantity response'', ''constraint gap'']"

section \<open>A round\<close>

record 'p convState =
  st_consensus :: "'p jsnum"
  st_price :: "'p jsnum"
  st_lambda :: "'p jsnum"
  st_duals :: "string \<Rightarrow> 'p jsnum option"

text \<open>The parameters of a run after their defaults are filled in.\<close>

record 'p convSetup =
  su_method :: convergenceMethod
  su_rho :: "'p jsnum"
  su_alpha :: "'p jsnum"
  su_eta :: "'p jsnum"
  su_target :: "'p jsnum"
  su_epsilon :: "'p jsnum"

definition dual_of :: "(string \<Rightarrow> 'p jsnum option) \<Rightarrow> string \<Rightarrow> 'p jsnum" where
  "dual_of duals i = nullish (duals i) 0"

definition vendor_proposal :: "('p::len0) convSetup \<Rightarrow> 'p convState \<Rightarrow> 'p vendorProfile \<Rightarrow> 'p roundProposal" where
  "vendor_proposal su st vendor =
     (let mn = jmin (vp_minQuantity vendor) (vp_maxQuantity vendor);
          mx = jmax (vp_minQuantity vendor) (vp_maxQuantity vendor);
          dual = dual_of (st_duals st) (vp_id vendor);
          localWeight = positive_or (privateWeight vendor) 1;
          wish = (case su_method su of
              ConsensusAdmm \<Rightarrow> (localWeight * idealQuantity vendor + su_rho su * (st_consensus st - dual)) / (localWeight + su_rho su)
            | DampedAveraging \<Rightarrow> idealQuantity vendor + positive_or (consensusPull vendor) (lit 0.25) * (st_consensus st - idealQuantity vendor)
            | PriceTatonnement \<Rightarrow> idealQuantity vendor + positive_or (priceSensitivity vendor) (lit 40) * (st_price st - reservationPrice vendor)
            | Lagrangian \<Rightarrow> idealQuantity vendor - positive_or (priceSensitivity vendor) (lit 40) * st_lambda st);
          proposal = clamp wish mn mx;
          message = (if su_method su = ConsensusAdmm then proposal + dual else proposal)
      in \<lparr>vr_vendorId = vp_id vendor, vr_name = vp_name vendor, vr_proposal = cents proposal, vr_message = cents message,
          vr_dual = cents dual, vr_feasible = (mn \<le> proposal \<and> proposal \<le> mx)\<rparr>)"

definition update_dual ::
    "('p::len0) jsnum \<Rightarrow> (string \<Rightarrow> 'p jsnum option) \<Rightarrow> 'p roundProposal \<Rightarrow> string \<Rightarrow> 'p jsnum option" where
  "update_dual consensus duals p =
     duals(vr_vendorId p \<mapsto> dual_of duals (vr_vendorId p) + vr_proposal p - consensus)"

definition coordinate ::
    "('p::len0) convSetup \<Rightarrow> 'p vendorProfile list \<Rightarrow> 'p roundProposal list \<Rightarrow> 'p convState \<Rightarrow> 'p convState" where
  "coordinate su vendors proposals st =
     (let weights = map shareWeight vendors;
          raw = map vr_proposal proposals;
          supply = jsum raw;
          gap = su_target su - supply;
          n = of_count (length vendors)
      in case su_method su of
           ConsensusAdmm \<Rightarrow>
             (let c = weightedAverage (map vr_message proposals) weights
              in st\<lparr>st_consensus := c, st_duals := foldl (update_dual c) (st_duals st) proposals\<rparr>)
         | DampedAveraging \<Rightarrow>
             st\<lparr>st_consensus := (1 - su_alpha su) * st_consensus st + su_alpha su * weightedAverage raw weights\<rparr>
         | PriceTatonnement \<Rightarrow>
             st\<lparr>st_price := jmax (lit 0.01) (st_price st + su_eta su * gap / n), st_consensus := supply / jmax 1 n\<rparr>
         | Lagrangian \<Rightarrow>
             st\<lparr>st_lambda := st_lambda st + su_eta su * (supply - su_target su) / n, st_consensus := supply / jmax 1 n\<rparr>)"

text \<open>The state after a round, its record, and the residual the loop compares.\<close>

definition converge_round ::
    "('p::len0) convSetup \<Rightarrow> 'p vendorProfile list \<Rightarrow> 'p jsnum \<Rightarrow> 'p convState
      \<Rightarrow> 'p convState \<times> 'p convergenceRound \<times> 'p jsnum" where
  "converge_round su vendors roundIndex st =
     (let proposals = map (vendor_proposal su st) vendors;
          raw = map vr_proposal proposals;
          supply = jsum raw;
          gap = su_target su - supply;
          st' = coordinate su vendors proposals st;
          primal = (if su_method su = PriceTatonnement \<or> su_method su = Lagrangian then \<bar>gap\<bar>
                    else jmaxs (map (\<lambda>x. \<bar>x - st_consensus st'\<bar>) raw));
          dual = \<bar>st_consensus st' - st_consensus st\<bar> * su_rho su
      in (st',
          \<lparr>cr_round = roundIndex, cr_consensus = cents (st_consensus st'), cr_price = cents (st_price st'),
           cr_lambda = cents (st_lambda st'), totalSupply = cents supply, demandGap = cents gap,
           primalResidual = cents primal, dualResidual = cents dual, cr_proposals = proposals\<rparr>,
          primal))"

section \<open>The simulation\<close>

text \<open>\<^verbatim>\<open>for (let roundIndex = 1; roundIndex <= maxRounds; roundIndex += 1)\<close>, left when the residual is
  small enough. A loop that does not end is \<open>None\<close>.\<close>

partial_function (option) converge_loop ::
    "('p::len0) convSetup \<Rightarrow> 'p vendorProfile list \<Rightarrow> 'p jsnum \<Rightarrow> 'p jsnum \<Rightarrow> 'p convState \<Rightarrow> 'p convergenceRound list
      \<Rightarrow> ('p convState \<times> 'p convergenceRound list) option" where
  "converge_loop su vendors maxR roundIndex st rounds =
     (if roundIndex \<le> maxR
      then let out = converge_round su vendors roundIndex st;
               rounds' = rounds @ [fst (snd out)]
        in if snd (snd out) \<le> su_epsilon su then Some (fst out, rounds')
           else converge_loop su vendors maxR (roundIndex + 1) (fst out) rounds'
      else Some (st, rounds))"

definition convergence_setup :: "('p::len0) consensusConfig \<Rightarrow> 'p convSetup" where
  "convergence_setup cfg =
     \<lparr>su_method = cc_method cfg, su_rho = positive_or (cc_rho cfg) 1, su_alpha = clamp (finite_or (cc_alpha cfg) (lit 0.35)) (lit 0.01) 1,
      su_eta = positive_or (cc_eta cfg) (lit 0.04), su_target = positive_or (targetDemand cfg) (lit 2100),
      su_epsilon = positive_or (cc_epsilon cfg) (lit 18)\<rparr>"

definition initial_state :: "('p::len0) consensusConfig \<Rightarrow> 'p vendorProfile list \<Rightarrow> 'p convState" where
  "initial_state cfg vendors =
     \<lparr>st_consensus = finite_or (initialTarget cfg) (lit 700), st_price = finite_or (initialPrice cfg) (lit 10), st_lambda = 0,
      st_duals = map_of (map (\<lambda>v. (vp_id v, 0)) vendors)\<rparr>"

definition round_limit :: "('p::len0) consensusConfig \<Rightarrow> 'p jsnum" where
  "round_limit cfg = jmax 1 (jfloor (finite_or (maxRounds cfg) (lit 6)))"

text \<open>\<open>f\<close> overwrites fields of the default configuration.\<close>

definition simulateConvergence ::
    "('p::len0) vendorProfile list \<Rightarrow> ('p consensusConfig \<Rightarrow> 'p consensusConfig) \<Rightarrow> 'p convergenceResult option" where
  "simulateConvergence vendors f =
     (let cfg = f DEFAULT_CONSENSUS_CONFIG;
          su = convergence_setup cfg
      in map_option (\<lambda>(st, rounds).
           let final = last rounds;
               consensus = (if su_method su = PriceTatonnement \<or> su_method su = Lagrangian
                            then totalSupply final / jmax 1 (of_count (length vendors)) else cr_consensus final)
           in \<lparr>cv_method = su_method su, cv_converged = (primalResidual final \<le> su_epsilon su), cv_rounds = rounds,
               finalConsensus = cents consensus, finalPrice = cents (st_price st), finalResidual = primalResidual final,
               cv_messagesShared = messagesShared (su_method su), cv_privacyNote = methodPrivacyNote (su_method su),
               cv_fallbackMenu = fallbackMenu consensus (st_price st)\<rparr>)
         (converge_loop su vendors (round_limit cfg) 1 (initial_state cfg vendors) []))"

section \<open>Invariants of the loop\<close>

text \<open>What every round keeps holds in every state, and what every round records holds of all records.\<close>

lemma converge_loop_invariant:
  fixes st st' :: "('p::len0) convState"
  assumes ret: "converge_loop su vendors maxR k st rounds = Some (st', rounds')"
    and "I st" "list_all Q rounds"
    and round: "\<And>k st. I st \<Longrightarrow> I (fst (converge_round su vendors k st)) \<and> Q (fst (snd (converge_round su vendors k st)))"
  shows "I st' \<and> list_all Q rounds'"
proof -
  have "su = su \<longrightarrow> vendors = vendors \<longrightarrow> I st \<longrightarrow> list_all Q rounds \<longrightarrow> I (fst (st', rounds')) \<and> list_all Q (snd (st', rounds'))"
  proof (rule converge_loop.raw_induct [where P = "\<lambda>su' vs maxR k st rounds r.
        su' = su \<longrightarrow> vs = vendors \<longrightarrow> I st \<longrightarrow> list_all Q rounds \<longrightarrow> I (fst r) \<and> list_all Q (snd r)", OF _ ret])
    fix loop su' vs and maxR k :: "'p jsnum" and st rounds r
    let ?out = "converge_round su' vs k st"
    assume IH: "\<And>su' vs maxR k st rounds r. loop su' vs maxR k st rounds = Some r \<Longrightarrow>
        su' = su \<longrightarrow> vs = vendors \<longrightarrow> I st \<longrightarrow> list_all Q rounds \<longrightarrow> I (fst r) \<and> list_all Q (snd r)"
      and eq: "(if k \<le> maxR
        then let out = ?out; rounds' = rounds @ [fst (snd out)]
          in if snd (snd out) \<le> su_epsilon su' then Some (fst out, rounds') else loop su' vs maxR (k + 1) (fst out) rounds'
        else Some (st, rounds)) = Some r"
    show "su' = su \<longrightarrow> vs = vendors \<longrightarrow> I st \<longrightarrow> list_all Q rounds \<longrightarrow> I (fst r) \<and> list_all Q (snd r)"
    proof (intro impI)
      assume a: "su' = su" "vs = vendors" "I st" "list_all Q rounds"
      have r: "I (fst ?out)" "Q (fst (snd ?out))" using round [OF a(3)] a(1,2) by auto
      show "I (fst r) \<and> list_all Q (snd r)"
        using eq r a IH [of su' vs maxR "k + 1" "fst ?out" "rounds @ [fst (snd ?out)]" r]
        by (auto simp: Let_def split: if_splits)
    qed
  qed
  then show ?thesis using assms(2,3) by simp
qed

section \<open>The duals of the consensus method\<close>

definition fin_val :: "0 jsnum \<Rightarrow> rat" where
  "fin_val x = (case x of Fin r \<Rightarrow> r | _ \<Rightarrow> 0)"

lemma fin_val [simp]: "fin_val (Fin r) = r"
  by (simp add: fin_val_def)

lemma is_fin_val: "is_fin x \<Longrightarrow> x = Fin (fin_val x)"
  by (cases x) simp_all

definition weight :: "0 vendorProfile \<Rightarrow> rat" where
  "weight v = fin_val (positive_or (shareWeight v) 1)"

lemma positive_or_exact: "is_fin d \<Longrightarrow> \<exists>w. positive_or x d = (Fin w :: exact) \<and> 0 < w"
  by (cases x; cases d) (auto simp: positive_or_def finite_or_def exact_eval)

lemma weight: "positive_or (shareWeight v) 1 = (Fin (weight v) :: exact)" "0 < weight v"
  using positive_or_exact [of 1 "shareWeight v"] by (auto simp: weight_def zero_jsnum_def)

lemma cents_exact: "\<exists>c. cents (Fin x) = (Fin c :: exact) \<and> \<bar>c - x\<bar> \<le> 1 / 200"
proof -
  have "\<bar>of_int \<lfloor>x * 100 + 1 / 2\<rfloor> / 100 - x\<bar> \<le> 1 / 200" by linarith
  moreover have "cents (Fin x) = (Fin (of_int \<lfloor>x * 100 + 1 / 2\<rfloor> / 100) :: exact)"
    by (simp add: cents_def exact_eval)
  ultimately show ?thesis by blast
qed

lemma dual_of_update [simp]:
  "dual_of (update_dual c D p) i = (if i = vr_vendorId p then dual_of D i + vr_proposal p - c else dual_of D i)"
  by (simp add: dual_of_def update_dual_def)

lemma update_duals_other: "i \<notin> set (map vr_vendorId ps) \<Longrightarrow> dual_of (foldl (update_dual c) D ps) i = dual_of D i"
  by (induction ps arbitrary: D) auto

lemma update_duals:
  "distinct (map vr_vendorId ps) \<Longrightarrow> p \<in> set ps \<Longrightarrow>
   dual_of (foldl (update_dual c) D ps) (vr_vendorId p) = dual_of D (vr_vendorId p) + vr_proposal p - c"
proof (induction ps arbitrary: D)
  case (Cons q ps)
  then have "p = q \<or> vr_vendorId p \<noteq> vr_vendorId q \<and> p \<in> set ps"
    by (auto simp: image_iff)
  then show ?case using Cons update_duals_other [of "vr_vendorId q" ps] by auto
qed simp

text \<open>The state between two rounds: everything is finite and the weighted duals cancel up to a cent per
  unit of weight.\<close>

definition finite_vendor :: "0 vendorProfile \<Rightarrow> bool" where
  "finite_vendor v = (is_fin (idealQuantity v) \<and> is_fin (vp_minQuantity v) \<and> is_fin (vp_maxQuantity v))"

definition balanced :: "0 vendorProfile list \<Rightarrow> 0 convState \<Rightarrow> bool" where
  "balanced vendors st =
     (is_fin (st_consensus st) \<and> list_all (\<lambda>v. is_fin (dual_of (st_duals st) (vp_id v))) vendors
      \<and> \<bar>\<Sum>v\<leftarrow>vendors. weight v * fin_val (dual_of (st_duals st) (vp_id v))\<bar> \<le> (\<Sum>v\<leftarrow>vendors. weight v) / 100)"

lemma proposal_exact:
  assumes "finite_vendor v" "su_method su = ConsensusAdmm" "su_rho su = Fin \<rho>" "0 < \<rho>"
    and "st_consensus st = Fin z" "dual_of (st_duals st) (vp_id v) = Fin d"
  shows "\<exists>p m e. vr_proposal (vendor_proposal su st v) = Fin p \<and> vr_message (vendor_proposal su st v) = Fin m
    \<and> vr_dual (vendor_proposal su st v) = Fin e \<and> \<bar>d + p - m\<bar> \<le> 1 / 100 \<and> \<bar>e - d\<bar> \<le> 1 / 200"
proof -
  obtain i lo hi where v: "idealQuantity v = Fin i" "vp_minQuantity v = Fin lo" "vp_maxQuantity v = Fin hi"
    using assms(1) by (auto simp: finite_vendor_def elim!: is_finE)
  obtain w where w: "positive_or (privateWeight v) 1 = (Fin w :: exact)" "0 < w"
    using positive_or_exact [of 1 "privateWeight v"] by auto
  define x where "x = min (max lo hi) (max (min lo hi) ((w * i + \<rho> * (z - d)) / (w + \<rho>)))"
  have p: "vr_proposal (vendor_proposal su st v) = cents (Fin x)" "vr_message (vendor_proposal su st v) = cents (Fin (x + d))"
    "vr_dual (vendor_proposal su st v) = cents (Fin d)"
    using assms w(2) by (simp_all add: vendor_proposal_def Let_def v w(1) [simplified] x_def exact_eval)
  obtain a b c where "cents (Fin x) = (Fin a :: exact)" "\<bar>a - x\<bar> \<le> 1 / 200" "cents (Fin (x + d)) = (Fin b :: exact)"
    "\<bar>b - (x + d)\<bar> \<le> 1 / 200" "cents (Fin d) = (Fin c :: exact)" "\<bar>c - d\<bar> \<le> 1 / 200"
    using cents_exact [of x] cents_exact [of "x + d"] cents_exact [of d] by blast
  moreover from this have "\<bar>d + a - b\<bar> \<le> 1 / 100" by linarith
  ultimately show ?thesis unfolding p by blast
qed

lemma weightedAverage_exact:
  assumes "\<And>v. v \<in> set vendors \<Longrightarrow> f v = Fin (g v)" "vendors \<noteq> []"
  shows "weightedAverage (map f vendors) (map shareWeight vendors)
    = (Fin ((\<Sum>v\<leftarrow>vendors. weight v * g v) / (\<Sum>v\<leftarrow>vendors. weight v)) :: exact)"
proof -
  have W: "0 < (\<Sum>v\<leftarrow>vendors. weight v)" using assms(2) weight(2) by (induction vendors rule: list_nonempty_induct) (simp_all add: add_pos_pos)
  have "jsum (map (\<lambda>w. positive_or w 1) (map shareWeight vendors)) = (Fin (\<Sum>v\<leftarrow>vendors. weight v) :: exact)"
    unfolding map_map comp_def by (rule jsum_exact_map) (rule weight(1))
  moreover have "map2 (\<lambda>value w. value * positive_or w 1) (map f vendors) (map shareWeight vendors)
      = map (\<lambda>v. f v * positive_or (shareWeight v) 1) vendors"
    by (induction vendors) simp_all
  moreover have "jsum (map (\<lambda>v. f v * positive_or (shareWeight v) 1) vendors) = (Fin (\<Sum>v\<leftarrow>vendors. weight v * g v) :: exact)"
    by (rule jsum_exact_map) (simp add: assms(1) weight(1) [simplified] exact_eval mult.commute)
  ultimately show ?thesis using W by (simp add: weightedAverage_def Let_def exact_eval)
qed

lemma weighted_sum_le:
  assumes "\<And>v. v \<in> set vs \<Longrightarrow> \<bar>g v\<bar> \<le> c"
  shows "\<bar>\<Sum>v\<leftarrow>vs. weight v * g v\<bar> \<le> (\<Sum>v\<leftarrow>vs. weight v) * c"
  using assms
proof (induction vs)
  case (Cons v vs)
  have "\<bar>weight v * g v\<bar> \<le> weight v * c"
    using Cons.prems [of v] weight(2) [of v] by (simp add: abs_mult mult_left_mono)
  then show ?case using Cons by (simp add: distrib_right)
qed simp

lemma fin_sum: "is_fin x \<Longrightarrow> is_fin y \<Longrightarrow> is_fin z \<Longrightarrow> x + y - z = (Fin (fin_val x + fin_val y - fin_val z) :: exact)"
  by (cases x; cases y; cases z) (simp_all add: exact_eval)

text \<open>A bound on the weighted sum of the duals that a round records.\<close>

definition duals_cancel :: "0 vendorProfile list \<Rightarrow> 0 convergenceRound \<Rightarrow> bool" where
  "duals_cancel vendors r =
     (length (cr_proposals r) = length vendors \<and> list_all (\<lambda>p. is_fin (vr_dual p)) (cr_proposals r)
      \<and> \<bar>\<Sum>(v, p)\<leftarrow>zip vendors (cr_proposals r). weight v * fin_val (vr_dual p)\<bar> \<le> (\<Sum>v\<leftarrow>vendors. weight v) * (3 / 200))"

lemma converge_round_balanced:
  assumes su: "su_method su = ConsensusAdmm" "su_rho su = Fin \<rho>" "0 < \<rho>"
    and vs: "list_all finite_vendor vendors" "distinct (map vp_id vendors)" and bal: "balanced vendors st"
  shows "balanced vendors (fst (converge_round su vendors k st))
    \<and> duals_cancel vendors (fst (snd (converge_round su vendors k st)))"
proof -
  let ?P = "vendor_proposal su st" and ?d = "\<lambda>v. fin_val (dual_of (st_duals st) (vp_id v))"
  let ?p = "\<lambda>v. fin_val (vr_proposal (?P v))" and ?m = "\<lambda>v. fin_val (vr_message (?P v))" and ?e = "\<lambda>v. fin_val (vr_dual (?P v))"
  let ?W = "\<Sum>v\<leftarrow>vendors. weight v"
  define c where "c = weightedAverage (map (\<lambda>v. vr_message (?P v)) vendors) (map shareWeight vendors)"
  obtain z where z: "st_consensus st = Fin z" using bal by (auto simp: balanced_def elim: is_finE)
  have d: "dual_of (st_duals st) (vp_id v) = Fin (?d v)" if "v \<in> set vendors" for v
    using bal that by (simp add: balanced_def list_all_iff is_fin_val)
  have V: "vr_proposal (?P v) = Fin (?p v) \<and> vr_message (?P v) = Fin (?m v) \<and> vr_dual (?P v) = Fin (?e v)
      \<and> \<bar>?d v + ?p v - ?m v\<bar> \<le> 1 / 100 \<and> \<bar>?e v - ?d v\<bar> \<le> 1 / 200" if "v \<in> set vendors" for v
    using proposal_exact [OF _ su z d [OF that]] vs(1) that by (auto simp: list_all_iff)
  have ids: "vr_vendorId (?P v) = vp_id v" for v by (simp add: vendor_proposal_def Let_def)
  have st': "fst (converge_round su vendors k st)
      = st\<lparr>st_consensus := c, st_duals := foldl (update_dual c) (st_duals st) (map ?P vendors)\<rparr>"
    by (simp add: converge_round_def coordinate_def Let_def su(1) c_def comp_def)
  have rec: "cr_proposals (fst (snd (converge_round su vendors k st))) = map ?P vendors"
    by (simp add: converge_round_def Let_def)
  have fin: "is_fin c"
  proof (cases "vendors = []")
    case False
    have "c = Fin ((\<Sum>v\<leftarrow>vendors. weight v * ?m v) / ?W)" unfolding c_def by (rule weightedAverage_exact) (use V False in auto)
    then show ?thesis by simp
  qed (simp add: c_def weightedAverage_def)
  have d': "dual_of (foldl (update_dual c) (st_duals st) (map ?P vendors)) (vp_id v) = Fin (?d v + ?p v - fin_val c)"
    if "v \<in> set vendors" for v
  proof -
    have "is_fin (dual_of (st_duals st) (vp_id v))" "is_fin (vr_proposal (?P v))"
      using d [OF that] V [OF that] by (metis is_fin.simps(1))+
    from fin_sum [OF this fin] show ?thesis
      using update_duals [of "map ?P vendors" "?P v" c "st_duals st"] vs(2) that by (simp add: comp_def ids)
  qed
  have total: "(\<Sum>v\<leftarrow>vendors. weight v * (?d v + ?p v - fin_val c)) = (\<Sum>v\<leftarrow>vendors. weight v * (?d v + ?p v - ?m v))"
  proof (cases "vendors = []")
    case False
    then have W: "0 < ?W" using weight(2) by (induction vendors rule: list_nonempty_induct) (simp_all add: add_pos_pos)
    have c: "fin_val c = (\<Sum>v\<leftarrow>vendors. weight v * ?m v) / ?W"
      unfolding c_def by (subst weightedAverage_exact [where g = ?m]) (use V False in auto)
    have "(\<Sum>v\<leftarrow>vendors. weight v * (?d v + ?p v - fin_val c)) = (\<Sum>v\<leftarrow>vendors. weight v * (?d v + ?p v)) - ?W * fin_val c"
      by (simp add: right_diff_distrib sum_list_subtractf sum_list_mult_const)
    also have "?W * fin_val c = (\<Sum>v\<leftarrow>vendors. weight v * ?m v)" using W by (simp add: c)
    finally show ?thesis by (simp add: right_diff_distrib sum_list_subtractf)
  qed simp
  have "\<bar>\<Sum>v\<leftarrow>vendors. weight v * (?d v + ?p v - ?m v)\<bar> \<le> ?W * (1 / 100)" by (rule weighted_sum_le) (use V in blast)
  then have "balanced vendors (fst (converge_round su vendors k st))"
    using fin total d' by (simp add: balanced_def st' list_all_iff cong: map_cong)
  moreover have "duals_cancel vendors (fst (snd (converge_round su vendors k st)))"
  proof -
    have "\<bar>\<Sum>v\<leftarrow>vendors. weight v * (?e v - ?d v)\<bar> \<le> ?W * (1 / 200)" by (rule weighted_sum_le) (use V in blast)
    moreover have "(\<Sum>v\<leftarrow>vendors. weight v * ?e v) = (\<Sum>v\<leftarrow>vendors. weight v * (?e v - ?d v)) + (\<Sum>v\<leftarrow>vendors. weight v * ?d v)"
      by (simp add: right_diff_distrib sum_list_subtractf)
    moreover have "\<bar>\<Sum>v\<leftarrow>vendors. weight v * ?d v\<bar> \<le> ?W / 100" using bal by (simp add: balanced_def)
    ultimately have "\<bar>\<Sum>v\<leftarrow>vendors. weight v * ?e v\<bar> \<le> ?W * (3 / 200)" by linarith
    moreover have "map (\<lambda>(v, p). weight v * fin_val (vr_dual p)) (zip vendors (map ?P vendors)) = map (\<lambda>v. weight v * ?e v) vendors"
      by (simp add: zip_map2 zip_same_conv_map)
    moreover have "list_all (\<lambda>p. is_fin (vr_dual p)) (map ?P vendors)" using V by (auto simp: list_all_iff) (metis is_fin.simps(1))
    ultimately show ?thesis by (simp add: duals_cancel_def rec)
  qed
  ultimately show ?thesis ..
qed

section \<open>The loop returns\<close>

lemma converge_loop_returns:
  fixes st :: "('p::len0) convState"
  assumes count: "\<And>j. j \<le> n \<Longrightarrow> Fin (of_nat j) + 1 = (Fin (of_nat (Suc j)) :: 'p jsnum)"
  shows "k \<le> Suc n \<Longrightarrow> \<exists>st' rs. converge_loop su vendors (Fin (of_nat n)) (Fin (of_nat k)) st rounds = Some (st', rounds @ rs)
    \<and> map cr_round rs = map (\<lambda>i. Fin (of_nat i)) [k..<k + length rs] \<and> length rs \<le> Suc n - k \<and> (k \<le> n \<longrightarrow> rs \<noteq> [])
    \<and> (length rs < Suc n - k \<longrightarrow> (\<exists>p. p \<le> su_epsilon su \<and> primalResidual (last rs) = cents p))"
proof (induction "Suc n - k" arbitrary: k st rounds)
  case 0
  then show ?case by (subst converge_loop.simps) simp
next
  case (Suc m)
  then have k: "k \<le> n" by simp
  let ?out = "converge_round su vendors (Fin (of_nat k)) st"
  have rec: "cr_round (fst (snd ?out)) = Fin (of_nat k)" "primalResidual (fst (snd ?out)) = cents (snd (snd ?out))"
    by (simp_all add: converge_round_def Let_def)
  show ?case
  proof (cases "snd (snd ?out) \<le> su_epsilon su")
    case True
    have "converge_loop su vendors (Fin (of_nat n)) (Fin (of_nat k)) st rounds = Some (fst ?out, rounds @ [fst (snd ?out)])"
      using k True by (subst converge_loop.simps) (simp add: Let_def)
    then show ?thesis using k True rec by (intro exI [of _ "fst ?out"] exI [of _ "[fst (snd ?out)]"]) auto
  next
    case False
    have "m = Suc n - Suc k" "Suc k \<le> Suc n" using Suc.hyps(2) k by simp_all
    from Suc.hyps(1) [OF this, of "fst ?out" "rounds @ [fst (snd ?out)]"]
    obtain st' rs where rs: "converge_loop su vendors (Fin (of_nat n)) (Fin (of_nat (Suc k))) (fst ?out) (rounds @ [fst (snd ?out)])
        = Some (st', (rounds @ [fst (snd ?out)]) @ rs)" "map cr_round rs = map (\<lambda>i. Fin (of_nat i)) [Suc k..<Suc k + length rs]"
      "length rs \<le> Suc n - Suc k" "Suc k \<le> n \<longrightarrow> rs \<noteq> []"
      "length rs < Suc n - Suc k \<longrightarrow> (\<exists>p. p \<le> su_epsilon su \<and> primalResidual (last rs) = cents p)"
      by blast
    have "converge_loop su vendors (Fin (of_nat n)) (Fin (of_nat k)) st rounds = Some (st', rounds @ (fst (snd ?out) # rs))"
      using k False rs(1) count [OF k] by (subst converge_loop.simps) (simp add: Let_def)
    moreover have "map cr_round (fst (snd ?out) # rs) = map (\<lambda>i. Fin (of_nat i)) [k..<k + length (fst (snd ?out) # rs)]"
      using rs(2) rec(1) by (simp add: upt_conv_Cons del: upt_Suc)
    moreover have "length (fst (snd ?out) # rs) \<le> Suc n - k" using rs(3) k by simp
    moreover have "length (fst (snd ?out) # rs) < Suc n - k \<longrightarrow> (\<exists>p. p \<le> su_epsilon su \<and> primalResidual (last (fst (snd ?out) # rs)) = cents p)"
      using rs(4,5) k by auto
    ultimately show ?thesis by blast
  qed
qed

lemma round_limit_eq:
  assumes "maxRounds cfg = Fin r" "1 \<le> r \<Longrightarrow> lit (of_int \<lfloor>r\<rfloor>) = (Fin (of_int \<lfloor>r\<rfloor>) :: ('p::len0) jsnum)"
  shows "round_limit (cfg :: 'p consensusConfig) = Fin (of_nat (max 1 (nat \<lfloor>r\<rfloor>)))"
proof (cases "1 \<le> r")
  case True
  then have "1 \<le> \<lfloor>r\<rfloor>" "Suc 0 \<le> nat \<lfloor>r\<rfloor>" by linarith+
  then show ?thesis using assms(1) assms(2) [OF True] by (simp add: round_limit_def finite_or_def)
next
  case False
  then have "\<lfloor>r\<rfloor> \<le> 0" by linarith
  then have "lit (of_int \<lfloor>r\<rfloor>) \<le> (Fin 0 :: 'p jsnum)" by (intro lit_nonpos) simp
  then have "lit (of_int \<lfloor>r\<rfloor>) \<le> (Fin 1 :: 'p jsnum)" by (rule num_trans) simp
  then show ?thesis using \<open>\<lfloor>r\<rfloor> \<le> 0\<close> assms(1) by (simp add: round_limit_def finite_or_def jmax_absorb)
qed

lemma simulation_returns:
  fixes f :: "('p::len0) consensusConfig \<Rightarrow> 'p consensusConfig"
  assumes "\<And>j. j \<le> max 1 (nat \<lfloor>r\<rfloor>) \<Longrightarrow> Fin (of_nat j) + 1 = (Fin (of_nat (Suc j)) :: 'p jsnum)"
    and "maxRounds (f DEFAULT_CONSENSUS_CONFIG) = Fin r"
    and "1 \<le> r \<Longrightarrow> lit (of_int \<lfloor>r\<rfloor>) = (Fin (of_int \<lfloor>r\<rfloor>) :: 'p jsnum)"
  shows "\<exists>res. simulateConvergence vendors f = Some res \<and> 1 \<le> length (cv_rounds res) \<and> length (cv_rounds res) \<le> max 1 (nat \<lfloor>r\<rfloor>)
    \<and> map cr_round (cv_rounds res) = map (\<lambda>i. Fin (of_nat i)) [1..<Suc (length (cv_rounds res))]
    \<and> (length (cv_rounds res) < max 1 (nat \<lfloor>r\<rfloor>) \<longrightarrow>
        (\<exists>p. p \<le> su_epsilon (convergence_setup (f DEFAULT_CONSENSUS_CONFIG)) \<and> finalResidual res = cents p))"
proof -
  let ?cfg = "f DEFAULT_CONSENSUS_CONFIG" and ?n = "max 1 (nat \<lfloor>r\<rfloor>)"
  have one: "1 \<le> Suc ?n" by simp
  obtain st' rs where rs: "converge_loop (convergence_setup ?cfg) vendors (Fin (of_nat ?n)) (Fin (of_nat 1))
      (initial_state ?cfg vendors) [] = Some (st', [] @ rs)" "map cr_round rs = map (\<lambda>i. Fin (of_nat i)) [1..<1 + length rs]"
    "length rs \<le> Suc ?n - 1" "1 \<le> ?n \<longrightarrow> rs \<noteq> []"
    "length rs < Suc ?n - 1 \<longrightarrow> (\<exists>p. p \<le> su_epsilon (convergence_setup ?cfg) \<and> primalResidual (last rs) = cents p)"
    using converge_loop_returns [of ?n 1 "convergence_setup ?cfg" vendors "initial_state ?cfg vendors" "[]", OF assms(1) one]
    unfolding append_Nil by blast
  have loop: "converge_loop (convergence_setup ?cfg) vendors (round_limit ?cfg) 1 (initial_state ?cfg vendors) [] = Some (st', rs)"
    using rs(1) round_limit_eq [of ?cfg r, OF assms(2,3)] by simp
  have len: "1 \<le> length rs" using rs(4) by (cases rs) auto
  show ?thesis unfolding simulateConvergence_def Let_def loop using rs(2,3,5) len by simp
qed

text \<open>C21: In binary64, with a finite limit below \<open>2 ^ 53\<close>, a run returns. Its rounds are numbered
  from 1 to at least 1 and at most the limit rounded down, and when it stops early, the last residual
  it reports is the rounding of one that is within the tolerance.\<close>

theorem convergence_returns:
  fixes vendors :: "53 vendorProfile list"
  assumes "maxRounds (f DEFAULT_CONSENSUS_CONFIG) = Fin r" "r < 2 ^ 53"
  shows "\<exists>res. simulateConvergence vendors f = Some res \<and> 1 \<le> length (cv_rounds res) \<and> length (cv_rounds res) \<le> max 1 (nat \<lfloor>r\<rfloor>)
    \<and> map cr_round (cv_rounds res) = map (\<lambda>i. Fin (of_nat i)) [1..<Suc (length (cv_rounds res))]
    \<and> (length (cv_rounds res) < max 1 (nat \<lfloor>r\<rfloor>) \<longrightarrow>
        (\<exists>p. p \<le> su_epsilon (convergence_setup (f DEFAULT_CONSENSUS_CONFIG)) \<and> finalResidual res = cents p))"
proof (rule simulation_returns [where r = r and f = f and vendors = vendors, OF _ assms(1)])
  have fl: "\<lfloor>r\<rfloor> < 2 ^ 53" using assms(2) by (simp add: floor_less_iff)
  show "Fin (of_nat j) + 1 = (Fin (of_nat (Suc j)) :: js)" if "j \<le> max 1 (nat \<lfloor>r\<rfloor>)" for j
  proof -
    have "int j \<le> max 1 \<lfloor>r\<rfloor>" using that by linarith
    also have "\<dots> < 2 ^ 53" using fl by simp
    finally have "int j < 2 ^ 53" .
    then show ?thesis using lit_int [of "int j + 1", where 'p = 53] by (simp add: add.commute)
  qed
  show "lit (of_int \<lfloor>r\<rfloor>) = (Fin (of_int \<lfloor>r\<rfloor>) :: js)" if "1 \<le> r"
    using lit_int [of "\<lfloor>r\<rfloor>", where 'p = 53] that fl by (simp add: abs_if)
qed

theorem convergence_returns_witness:
  "\<exists>res. simulateConvergence DEFAULT_CONSENSUS_VENDORS (\<lambda>c. c\<lparr>maxRounds := Fin (7 / 2)\<rparr> :: 53 consensusConfig) = Some res
    \<and> length (cv_rounds res) \<le> 3"
proof -
  have fl: "\<lfloor>7 / 2 :: rat\<rfloor> = 3" by (simp add: floor_eq_iff)
  show ?thesis
    using convergence_returns [of "\<lambda>c. c\<lparr>maxRounds := Fin (7 / 2)\<rparr>" "7 / 2" DEFAULT_CONSENSUS_VENDORS] by (auto simp: fl)
qed


definition demo_vendors :: "0 vendorProfile list" where
  "demo_vendors = DEFAULT_CONSENSUS_VENDORS"


text \<open>A run can stop because the residual is within the tolerance and still be reported as not converged:
  the loop compares the residual, the result its rounding to cents.\<close>

definition one_vendor :: "0 vendorProfile list" where
  "one_vendor = [\<lparr>vp_id = ''v'', vp_name = ''V'', idealQuantity = Fin 100, vp_minQuantity = Fin 0, vp_maxQuantity = Fin 200,
     privateWeight = Fin 1, consensusPull = Fin 1, shareWeight = Fin 1, reservationPrice = Fin 10, priceSensitivity = Fin 1\<rparr>]"

lemma stops_unconverged:
  "\<exists>res. simulateConvergence one_vendor (\<lambda>c. c\<lparr>cc_method := PriceTatonnement, targetDemand := Fin (100 + 6 / 1000),
      cc_epsilon := Fin (7 / 1000)\<rparr>) = Some res \<and> length (cv_rounds res) = 1 \<and> \<not> cv_converged res"
proof -
  define cfg :: "0 consensusConfig" where
    "cfg = DEFAULT_CONSENSUS_CONFIG\<lparr>cc_method := PriceTatonnement, targetDemand := Fin (100 + 6 / 1000), cc_epsilon := Fin (7 / 1000)\<rparr>"
  have fl: "\<lfloor>6 :: rat\<rfloor> = 6" "\<lfloor>20001 / 2 :: rat\<rfloor> = 10000" "\<lfloor>11 / 10 :: rat\<rfloor> = 1" by (simp_all add: floor_eq_iff)
  have su: "convergence_setup cfg = \<lparr>su_method = PriceTatonnement, su_rho = Fin 1, su_alpha = Fin (7 / 20), su_eta = Fin (1 / 25),
      su_target = Fin (50003 / 500), su_epsilon = Fin (7 / 1000)\<rparr>"
    by (simp add: convergence_setup_def cfg_def DEFAULT_CONSENSUS_CONFIG_def positive_or_def finite_or_def exact_eval)
  have out: "snd (snd (converge_round (convergence_setup cfg) one_vendor 1 (initial_state cfg one_vendor))) = Fin (3 / 500)"
    "primalResidual (fst (snd (converge_round (convergence_setup cfg) one_vendor 1 (initial_state cfg one_vendor)))) = Fin (1 / 100)"
    unfolding su
    by (simp_all add: converge_round_def one_vendor_def initial_state_def cfg_def DEFAULT_CONSENSUS_CONFIG_def vendor_proposal_def
        coordinate_def positive_or_def finite_or_def dual_of_def cents_def jsum_def exact_eval Let_def fl)
  have "1 \<le> round_limit cfg" by (simp add: round_limit_def cfg_def DEFAULT_CONSENSUS_CONFIG_def finite_or_def exact_eval fl)
  then have "converge_loop (convergence_setup cfg) one_vendor (round_limit cfg) 1 (initial_state cfg one_vendor) []
      = Some (fst (converge_round (convergence_setup cfg) one_vendor 1 (initial_state cfg one_vendor)),
          [fst (snd (converge_round (convergence_setup cfg) one_vendor 1 (initial_state cfg one_vendor)))])"
    using out(1) by (subst converge_loop.simps) (simp add: Let_def su)
  then show ?thesis
    unfolding simulateConvergence_def Let_def cfg_def [symmetric] using out(2) by (simp add: su)
qed

end
