(* ===== verification/ShareEncoder.thy ===== *)
theory ShareEncoder
  imports NegotiationSession Participants JsBounds
begin

text \<open>
  \<^verbatim>\<open>packages/engine/src/learn/shareEncoder.ts\<close>: a participant in a link. The texts are Latin-1, the
  ones \<^verbatim>\<open>btoa\<close> accepts; \<^verbatim>\<open>JSON.stringify\<close> and \<^verbatim>\<open>JSON.parse\<close> are arguments.
\<close>

section \<open>Encoding and decoding\<close>

definition SHARE_VERSION :: "('p::len0) jsnum" where
  "SHARE_VERSION = 1"

record 'p sharedParticipant =
  sh_role :: participantRole
  sh_formula :: string
  sh_params :: "'p agentParameters"

definition ROLE_VALUES :: "participantRole list" where
  "ROLE_VALUES = [Buyer, Supplier, Packager, Logistics, Distributor, Coordinator]"

definition PARAM_KEYS :: "string list" where
  "PARAM_KEYS = [''urgency'', ''flexibility'', ''truthfulness'', ''privacyPreference'', ''riskAversion'']"

definition clamp01 :: "('p::len0) jsnum \<Rightarrow> 'p jsnum" where
  "clamp01 value = (if \<not> is_fin value then lit 0.5 else jmax 0 (jmin 1 value))"

definition clean_params :: "('p::len0) agentParameters \<Rightarrow> 'p agentParameters" where
  "clean_params ps =
     \<lparr>urgency = clamp01 (urgency ps), flexibility = clamp01 (flexibility ps), truthfulness = clamp01 (truthfulness ps),
      privacyPreference = clamp01 (privacyPreference ps), riskAversion = clamp01 (riskAversion ps)\<rparr>"

definition clean_participant :: "('p::len0) sharedParticipant \<Rightarrow> 'p sharedParticipant" where
  "clean_participant payload =
     \<lparr>sh_role = sh_role payload, sh_formula = take 2000 (sh_formula payload), sh_params = clean_params (sh_params payload)\<rparr>"

definition params_json :: "'p agentParameters \<Rightarrow> 'p json" where
  "params_json ps =
     JObj [(''urgency'', JNum (urgency ps)), (''flexibility'', JNum (flexibility ps)),
           (''truthfulness'', JNum (truthfulness ps)), (''privacyPreference'', JNum (privacyPreference ps)),
           (''riskAversion'', JNum (riskAversion ps))]"

definition participant_json :: "('p::len0) sharedParticipant \<Rightarrow> 'p json" where
  "participant_json p =
     JObj [(''v'', JNum SHARE_VERSION), (''role'', JStr (role_text (sh_role p))), (''formula'', JStr (sh_formula p)),
           (''params'', params_json (sh_params p))]"

definition encodeParticipant :: "('p json \<Rightarrow> string) \<Rightarrow> ('p::len0) sharedParticipant \<Rightarrow> string" where
  "encodeParticipant stringify payload = base64UrlEncode (stringify (participant_json (clean_participant payload)))"

definition shared_role :: "'p json option \<Rightarrow> participantRole option" where
  "shared_role v = List.find (\<lambda>r. v = Some (JStr (role_text r))) ROLE_VALUES"

definition param_value :: "'p json \<Rightarrow> string \<Rightarrow> 'p jsnum option" where
  "param_value v k = (case field v k of Some (JNum x) \<Rightarrow> Some x | _ \<Rightarrow> None)"

text \<open>The loop over the keys of the parameters; what it accepts is then read by key.\<close>

definition read_params :: "('p::len0) json \<Rightarrow> 'p agentParameters option" where
  "read_params v =
     (case read_all (param_value v) PARAM_KEYS of
        Some [u, f, t, p, r] \<Rightarrow>
          Some \<lparr>urgency = u, flexibility = f, truthfulness = t, privacyPreference = p, riskAversion = r\<rparr>
      | _ \<Rightarrow> None)"

definition read_participant :: "('p::len0) json \<Rightarrow> 'p sharedParticipant option" where
  "read_participant parsed =
     (if \<not> is_object parsed then None
      else if field parsed ''v'' \<noteq> Some (JNum SHARE_VERSION) then None
      else (case (shared_role (field parsed ''role''), field parsed ''formula'', field parsed ''params'') of
        (Some r, Some (JStr fm), Some ps) \<Rightarrow>
          if \<not> is_object ps then None
          else map_option (\<lambda>ps. clean_participant \<lparr>sh_role = r, sh_formula = fm, sh_params = ps\<rparr>) (read_params ps)
      | _ \<Rightarrow> None))"

definition decodeParticipant :: "(string \<Rightarrow> 'p json option) \<Rightarrow> string \<Rightarrow> ('p::len0) sharedParticipant option" where
  "decodeParticipant parse encoded =
     (case base64UrlDecode encoded of None \<Rightarrow> None
      | Some txt \<Rightarrow> (case parse txt of None \<Rightarrow> None | Some v \<Rightarrow> read_participant v))"

section \<open>Laws\<close>

lemma lit_half: "\<exists>r. (lit (1 / 2) :: ('p::len0) jsnum) = Fin r \<and> 0 \<le> r \<and> r \<le> 1"
proof -
  have "(lit (1 / 2) :: 'p jsnum) = Fin (rnd LENGTH('p) (pow2 (- 1)))"
    using lit_is_fin [of "1 / 2", where 'p = 'p] by (simp add: pow2_def)
  then show ?thesis by (simp add: rnd_pow2) (simp add: pow2_def)
qed

lemma clamp01_unit: "is_fin (clamp01 x) \<and> 0 \<le> clamp01 x \<and> clamp01 x \<le> (1 :: ('p::len0) jsnum)"
  using lit_half [where 'p = 'p] by (cases x) (auto simp: clamp01_def)

lemma clamp01_idem [simp]: "clamp01 (clamp01 x) = (clamp01 x :: ('p::len0) jsnum)"
  using clamp01_unit [of x] by (cases "clamp01 x") (auto simp: clamp01_def [of "Fin _"])

lemma clean_idem [simp]: "clean_participant (clean_participant p) = clean_participant p"
  by (simp add: clean_participant_def clean_params_def)

lemma shared_role_text [simp]: "shared_role (Some (JStr (role_text r))) = Some r"
  by (cases r) (simp_all add: shared_role_def ROLE_VALUES_def)

lemma read_params_json [simp]: "read_params (params_json ps) = Some ps"
  by (simp add: read_params_def params_json_def PARAM_KEYS_def param_value_def)

lemma read_participant_json [simp]: "read_participant (participant_json p) = Some (clean_participant p)"
  by (cases p) (simp add: read_participant_def participant_json_def, simp add: params_json_def)

definition host_reads :: "('p json \<Rightarrow> string) \<Rightarrow> (string \<Rightarrow> 'p json option) \<Rightarrow> ('p::len0) sharedParticipant \<Rightarrow> bool" where
  "host_reads stringify parse p =
     (parse (stringify (participant_json (clean_participant p))) = Some (participant_json (clean_participant p)))"

interpretation participant_link: link_codec "encodeParticipant stringify" "decodeParticipant parse" clean_participant
    "host_reads stringify parse"
  by unfold_locales (simp_all add: encodeParticipant_def decodeParticipant_def host_reads_def)

definition in_unit :: "('p::len0) agentParameters \<Rightarrow> bool" where
  "in_unit ps = list_all (\<lambda>x. is_fin x \<and> 0 \<le> x \<and> x \<le> 1)
     [urgency ps, flexibility ps, truthfulness ps, privacyPreference ps, riskAversion ps]"

lemma clean_participant_sane: "in_unit (sh_params (clean_participant p)) \<and> length (sh_formula (clean_participant p)) \<le> 2000"
  by (simp add: clean_participant_def clean_params_def in_unit_def clamp01_unit [simplified])


definition demo_shared :: "0 sharedParticipant" where
  "demo_shared = \<lparr>sh_role = Logistics, sh_formula = ''q - 1'', sh_params =
     \<lparr>urgency = Fin 7, flexibility = Fin (1 / 4), truthfulness = Fin (- 2), privacyPreference = PInf, riskAversion = Fin 1\<rparr>\<rparr>"


end
