(* ===== verification/CsvImport.thy ===== *)
theory CsvImport
  imports Formula Types
begin

text \<open>
  \<^verbatim>\<open>packages/engine/src/model/bridges/csvImport.ts\<close>: scenario seeds from a table. The CSV parser
  \<^verbatim>\<open>papaparse\<close>, the words of \<^verbatim>\<open>zod\<close>'s issues and \<^verbatim>\<open>Number(text)\<close> are arguments; texts are Latin-1.
\<close>

section \<open>Checks of raw rows\<close>

text \<open>A raw row gives the text of a column, if there is one. The checks return their issues or the value.\<close>

type_synonym raw_row = "string \<Rightarrow> string option"

datatype zodIssue = InvalidType | TooSmall | TooBig

type_synonym 'a checked = "(string \<times> zodIssue) list + 'a"

definition z_string :: "string \<Rightarrow> raw_row \<Rightarrow> string checked" where
  "z_string k r = (case r k of None \<Rightarrow> Inl [(k, InvalidType)] | Some s \<Rightarrow> Inr s)"

definition z_string_min1 :: "string \<Rightarrow> raw_row \<Rightarrow> string checked" where
  "z_string_min1 k r = ebind (z_string k r) (\<lambda>s. if s = [] then Inl [(k, TooSmall)] else Inr s)"

text \<open>\<^verbatim>\<open>z.coerce.number()\<close>: \<^verbatim>\<open>Number\<close> of the text, which must be finite, between the bounds there are.\<close>

definition z_number ::
    "(string \<Rightarrow> 'p jsnum) \<Rightarrow> 'p jsnum option \<Rightarrow> 'p jsnum option \<Rightarrow> string \<Rightarrow> raw_row \<Rightarrow> ('p::len0) jsnum checked" where
  "z_number to_number lo hi k r =
     (let v = (case r k of None \<Rightarrow> NaN | Some s \<Rightarrow> to_number s) in
      if \<not> is_fin v then Inl [(k, InvalidType)]
      else if (case lo of None \<Rightarrow> False | Some b \<Rightarrow> v < b) then Inl [(k, TooSmall)]
      else if (case hi of None \<Rightarrow> False | Some b \<Rightarrow> b < v) then Inl [(k, TooBig)]
      else Inr v)"

definition z_optional :: "(string \<Rightarrow> raw_row \<Rightarrow> 'a checked) \<Rightarrow> string \<Rightarrow> raw_row \<Rightarrow> 'a option checked" where
  "z_optional z k r = (if r k = None then Inr None else map_sum id Some (z k r))"

definition issues :: "'a checked \<Rightarrow> (string \<times> zodIssue) list" where
  "issues c = (case c of Inl i \<Rightarrow> i | Inr _ \<Rightarrow> [])"

section \<open>The import\<close>

record 'p csvRow =
  supplier_id :: string
  buyer_id :: string
  product_id :: string
  period :: string
  cr_quantity :: "'p jsnum"
  cr_unit_price :: "'p jsnum"
  cr_capacity :: "'p jsnum option"
  cr_reliability :: "'p jsnum option"
  cr_outside_option :: "'p jsnum option"
  cr_risk_score :: "'p jsnum option"
  cr_source :: "string option"

definition csvRowSchema :: "(string \<Rightarrow> 'p jsnum) \<Rightarrow> raw_row \<Rightarrow> ('p::len0) csvRow checked" where
  "csvRowSchema to_number r =
     (let nonneg = z_number to_number (Some 0) None;
          unit = z_number to_number (Some 0) (Some 1);
          s = z_string_min1 ''supplier_id'' r;
          b = z_string_min1 ''buyer_id'' r;
          p = z_string_min1 ''product_id'' r;
          t = z_string_min1 ''period'' r;
          q = nonneg ''quantity'' r;
          u = nonneg ''unit_price'' r;
          c = z_optional nonneg ''capacity'' r;
          rel = z_optional unit ''reliability'' r;
          out = z_optional (z_number to_number None None) ''outside_option'' r;
          risk = z_optional unit ''risk_score'' r;
          src = z_optional z_string ''source'' r;
          all = issues s @ issues b @ issues p @ issues t @ issues q @ issues u @ issues c @ issues rel @ issues out
                @ issues risk @ issues src
      in if all = [] then
           Inr \<lparr>supplier_id = projr s, buyer_id = projr b, product_id = projr p, period = projr t, cr_quantity = projr q,
                cr_unit_price = projr u, cr_capacity = projr c, cr_reliability = projr rel, cr_outside_option = projr out,
                cr_risk_score = projr risk, cr_source = projr src\<rparr>
         else Inl all)"

record importError =
  ie_row :: nat
  ie_field :: string
  ie_message :: string

record 'p scenarioSeed =
  buyerIds :: "string list"
  supplierIds :: "string list"
  productIds :: "string list"
  periods :: "string list"
  totalQuantity :: "'p jsnum"
  meanUnitPrice :: "'p jsnum"
  sd_rows :: "'p csvRow list"
  derivedParticipants :: "'p participant list"

record 'p importResult =
  im_ok :: bool
  im_seed :: "'p scenarioSeed option"
  im_errors :: "importError list"

definition DEFAULT_PARAMS :: "('p::len0) agentParameters" where
  "DEFAULT_PARAMS = \<lparr>urgency = lit 0.6, flexibility = lit 0.5, truthfulness = lit 0.7, privacyPreference = lit 0.6, riskAversion = lit 0.6\<rparr>"

text \<open>\<^verbatim>\<open>Array.from(new Set(values))\<close>: the first occurrences, in order.\<close>

definition uniq :: "'a list \<Rightarrow> 'a list" where
  "uniq values = foldl (\<lambda>acc x. if x \<in> set acc then acc else acc @ [x]) [] values"

definition average_of :: "('p csvRow \<Rightarrow> 'p jsnum option) \<Rightarrow> ('p::len0) csvRow list \<Rightarrow> 'p jsnum option" where
  "average_of column rows =
     (let valid = concat (map (\<lambda>row. case column row of None \<Rightarrow> [] | Some v \<Rightarrow> [v]) rows) in
      if valid = [] then None else Some (jsum valid / of_count (length valid)))"

definition buyer_party :: "('p::len0) csvRow list \<Rightarrow> string \<Rightarrow> 'p participant" where
  "buyer_party rows buyerId =
     (let mine = filter (\<lambda>r. buyer_id r = buyerId) rows in
      \<lparr>p_id = buyerId, p_role = Buyer, p_name = buyerId, strategyId = ''jit-buyer'',
       reliability = nullish (average_of cr_reliability mine) 1, capacity = None,
       outsideOption = Some (nullish (average_of cr_outside_option mine) (lit 8000)), parameters = DEFAULT_PARAMS\<rparr>)"

definition supplier_party :: "('p::len0) csvRow list \<Rightarrow> string \<Rightarrow> 'p participant" where
  "supplier_party rows supplierId =
     (let supplierRows = filter (\<lambda>r. supplier_id r = supplierId) rows in
      \<lparr>p_id = supplierId, p_role = Supplier, p_name = supplierId, strategyId = ''capacity-guard-supplier'',
       reliability = nullish (average_of cr_reliability supplierRows) (lit 0.9),
       capacity = average_of cr_capacity supplierRows,
       outsideOption = Some (nullish (average_of cr_outside_option supplierRows) (lit 4800)),
       parameters = DEFAULT_PARAMS\<lparr>flexibility := lit 0.45\<rparr>\<rparr>)"

definition buildSeed :: "('p::len0) csvRow list \<Rightarrow> 'p scenarioSeed" where
  "buildSeed rows =
     (let buyers = uniq (map buyer_id rows); suppliers = uniq (map supplier_id rows) in
      \<lparr>buyerIds = buyers, supplierIds = suppliers, productIds = uniq (map product_id rows), periods = uniq (map period rows),
       totalQuantity = jsum (map cr_quantity rows),
       meanUnitPrice = jsum (map cr_unit_price rows) / jmax 1 (of_count (length rows)),
       sd_rows = rows,
       derivedParticipants = map (buyer_party rows) buyers @ map (supplier_party rows) suppliers\<rparr>)"

definition row_errors :: "(string \<times> zodIssue \<Rightarrow> string) \<Rightarrow> nat \<Rightarrow> (string \<times> zodIssue) list \<Rightarrow> importError list" where
  "row_errors zod_message line iss =
     map (\<lambda>i. \<lparr>ie_row = line, ie_field = (if fst i = [] then ''$'' else fst i), ie_message = zod_message i\<rparr>) iss"

text \<open>\<open>papa\<close> gives the rows and its own errors, with the row if it knows it.\<close>

definition parseImport ::
    "(string \<Rightarrow> raw_row list \<times> (nat option \<times> string) list) \<Rightarrow> (string \<times> zodIssue \<Rightarrow> string) \<Rightarrow> (string \<Rightarrow> 'p jsnum)
      \<Rightarrow> string \<Rightarrow> ('p::len0) importResult" where
  "parseImport papa zod_message to_number csv =
     (let parsed = papa (trim csv);
          papa_errors = map (\<lambda>(r, m). \<lparr>ie_row = nullish r 0, ie_field = ''$'', ie_message = m\<rparr>) (snd parsed);
          step = (\<lambda>(errors, rows) (idx, raw).
            case csvRowSchema to_number raw of
              Inl iss \<Rightarrow> (errors @ row_errors zod_message (idx + 2) iss, rows)
            | Inr row \<Rightarrow> (errors, rows @ [row]));
          (errors, rows) = foldl step (papa_errors, []) (enumerate 0 (fst parsed))
      in if rows = [] \<or> errors \<noteq> [] then \<lparr>im_ok = False, im_seed = None, im_errors = errors\<rparr>
         else \<lparr>im_ok = True, im_seed = Some (buildSeed rows), im_errors = errors\<rparr>)"

definition CSV_COLUMN_CONVENTION :: "string list" where
  "CSV_COLUMN_CONVENTION = [''supplier_id'', ''buyer_id'', ''product_id'', ''period'', ''quantity'', ''unit_price'',
     ''capacity'', ''reliability'', ''outside_option'', ''risk_score'', ''source'']"

section \<open>What is accepted\<close>

lemma uniq_props: "distinct (uniq xs) \<and> set (uniq xs) = set xs"
proof -
  have "distinct acc \<Longrightarrow> distinct (foldl (\<lambda>acc x. if x \<in> set acc then acc else acc @ [x]) acc xs)
      \<and> set (foldl (\<lambda>acc x. if x \<in> set acc then acc else acc @ [x]) acc xs) = set acc \<union> set xs" for acc
    by (induction xs arbitrary: acc) auto
  then show ?thesis by (simp add: uniq_def)
qed

definition row_ok :: "0 csvRow \<Rightarrow> bool" where
  "row_ok r = (supplier_id r \<noteq> [] \<and> buyer_id r \<noteq> [] \<and> product_id r \<noteq> [] \<and> period r \<noteq> []
     \<and> is_fin (cr_quantity r) \<and> 0 \<le> cr_quantity r \<and> is_fin (cr_unit_price r) \<and> 0 \<le> cr_unit_price r
     \<and> pred_option (\<lambda>c. is_fin c \<and> 0 \<le> c) (cr_capacity r)
     \<and> pred_option (\<lambda>c. is_fin c \<and> 0 \<le> c \<and> c \<le> 1) (cr_reliability r)
     \<and> pred_option is_fin (cr_outside_option r)
     \<and> pred_option (\<lambda>c. is_fin c \<and> 0 \<le> c \<and> c \<le> 1) (cr_risk_score r))"

lemma z_string_min1_ok: "issues (z_string_min1 k r) = [] \<Longrightarrow> projr (z_string_min1 k r) \<noteq> []"
  by (auto simp: issues_def z_string_min1_def z_string_def split: option.splits if_splits)

lemma z_number_ok:
  "issues (z_number tn lo hi k r) = [] \<Longrightarrow> is_fin (projr (z_number tn lo hi k r))
    \<and> pred_option (\<lambda>b. b \<noteq> NaN \<longrightarrow> b \<le> projr (z_number tn lo hi k r)) lo \<and> pred_option (\<lambda>b. b \<noteq> NaN \<longrightarrow> projr (z_number tn lo hi k r) \<le> b) hi"
  by (auto simp: issues_def z_number_def Let_def num_not_less elim!: is_finE split: option.splits if_splits)

lemma z_number_not_Nil [simp]: "z_number tn lo hi k r \<noteq> Inl []"
  by (auto simp: z_number_def Let_def split: option.splits)

lemma z_optional_ok:
  assumes "issues (z_optional z k r) = []" "z k r \<noteq> Inl []" "issues (z k r) = [] \<Longrightarrow> P (projr (z k r))"
  shows "pred_option P (projr (z_optional z k r))"
  using assms by (cases "z k r") (auto simp: z_optional_def issues_def)

lemma csvRowSchema_ok:
  assumes "csvRowSchema to_number raw = Inr row"
  shows "row_ok (row :: 0 csvRow)"
proof -
  note n = z_number_ok [of to_number _ _ _ raw] and o = z_optional_ok [where r = raw]
  show ?thesis
    using assms unfolding csvRowSchema_def Let_def
    by (auto simp: row_ok_def z_string_min1_ok zero_jsnum_def one_jsnum_def dest!: n intro!: o split: if_splits)
qed

text \<open>An empty cell is not a missing one: \<^verbatim>\<open>Number("")\<close> is 0, so the reliability of a row without one is 0
  and the default never applies.\<close>

lemma empty_cell_is_zero:
  fixes to_number :: "string \<Rightarrow> ('p::len0) jsnum"
  assumes "to_number [] = 0" "raw ''reliability'' = Some []" "csvRowSchema to_number raw = Inr row"
  shows "cr_reliability row = Some 0"
proof -
  have "z_optional (z_number to_number (Some 0) (Some 1)) ''reliability'' raw = Inr (Some 0)"
    using assms(1,2) by (simp add: z_optional_def z_number_def)
  then show ?thesis using assms(3) by (auto simp: csvRowSchema_def Let_def split: if_splits)
qed

section \<open>What a successful import delivers\<close>

definition import_step ::
    "(string \<times> zodIssue \<Rightarrow> string) \<Rightarrow> (string \<Rightarrow> 'p jsnum) \<Rightarrow> importError list \<times> 'p csvRow list \<Rightarrow> nat \<times> raw_row
      \<Rightarrow> importError list \<times> ('p::len0) csvRow list" where
  "import_step zod_message to_number = (\<lambda>(errors, rows) (idx, raw).
     case csvRowSchema to_number raw of
       Inl iss \<Rightarrow> (errors @ row_errors zod_message (idx + 2) iss, rows)
     | Inr row \<Rightarrow> (errors, rows @ [row]))"

lemma csvRowSchema_not_Nil: "csvRowSchema tn raw \<noteq> Inl []"
  unfolding csvRowSchema_def Let_def by (rule if_split [THEN iffD2]) blast

lemma import_steps:
  "foldl (import_step zm tn) (e, rows) xs = ([], rows') \<Longrightarrow>
   e = [] \<and> rows' = rows @ map (\<lambda>x. projr (csvRowSchema tn (snd x))) xs
     \<and> list_all (\<lambda>x. \<exists>row. csvRowSchema tn (snd x) = Inr row) xs"
proof (induction xs arbitrary: e rows)
  case (Cons x xs)
  obtain idx raw where x: "x = (idx, raw)" by (cases x)
  show ?case
  proof (cases "csvRowSchema tn raw")
    case (Inl iss)
    then have "iss \<noteq> []" using csvRowSchema_not_Nil by metis
    then show ?thesis using Cons.IH [of "e @ row_errors zm (idx + 2) iss" rows] Cons.prems
      by (simp add: import_step_def x Inl row_errors_def)
  next
    case (Inr row)
    then show ?thesis using Cons.IH [of e "rows @ [row]"] Cons.prems by (simp add: import_step_def x)
  qed
qed simp

lemma parseImport_ok:
  assumes "im_ok (parseImport papa zm tn csv)"
  shows "\<exists>rows. rows \<noteq> [] \<and> im_seed (parseImport papa zm tn csv) = Some (buildSeed rows) \<and> im_errors (parseImport papa zm tn csv) = []
    \<and> map Inr rows = map (csvRowSchema tn) (fst (papa (trim csv))) \<and> snd (papa (trim csv)) = []"
proof -
  let ?raws = "fst (papa (trim csv))"
  obtain errors rows where f: "foldl (import_step zm tn) (map (\<lambda>(r, m). \<lparr>ie_row = nullish r 0, ie_field = ''$'', ie_message = m\<rparr>)
      (snd (papa (trim csv))), []) (enumerate 0 ?raws) = (errors, rows)" by (cases "foldl (import_step zm tn) (map (\<lambda>(r, m). \<lparr>ie_row = nullish r 0, ie_field = ''$'', ie_message = m\<rparr>)
      (snd (papa (trim csv))), []) (enumerate 0 ?raws)")
  have p: "parseImport papa zm tn csv = (if rows = [] \<or> errors \<noteq> [] then \<lparr>im_ok = False, im_seed = None, im_errors = errors\<rparr>
      else \<lparr>im_ok = True, im_seed = Some (buildSeed rows), im_errors = errors\<rparr>)"
    using f unfolding parseImport_def Let_def import_step_def by simp
  then have ok: "rows \<noteq> []" "errors = []" using assms by (auto split: if_splits)
  from import_steps [OF f [unfolded ok(2)]]
  have "snd (papa (trim csv)) = []" "rows = map (\<lambda>x. projr (csvRowSchema tn (snd x))) (enumerate 0 ?raws)"
    "list_all (\<lambda>x. \<exists>row. csvRowSchema tn (snd x) = Inr row) (enumerate 0 ?raws)" by auto
  moreover from this(3) have "map (\<lambda>x. Inr (projr (csvRowSchema tn (snd x)))) (enumerate 0 ?raws)
      = map (\<lambda>x. csvRowSchema tn (snd x)) (enumerate 0 ?raws)" by (auto simp: list_all_iff)
  moreover have "map (\<lambda>x. csvRowSchema tn (snd x)) (enumerate 0 ?raws) = map (csvRowSchema tn) ?raws"
    by (subst (2) map_snd_enumerate [of 0, symmetric]) (simp add: comp_def del: map_snd_enumerate)
  ultimately show ?thesis using p ok by (intro exI [of _ rows]) (simp add: comp_def)
qed

definition in_range :: "0 participant \<Rightarrow> bool" where
  "in_range p = (is_fin (reliability p) \<and> 0 \<le> reliability p \<and> reliability p \<le> 1
     \<and> pred_option (\<lambda>c. is_fin c \<and> 0 \<le> c) (capacity p) \<and> pred_option is_fin (outsideOption p))"

definition between :: "rat option \<Rightarrow> rat option \<Rightarrow> exact \<Rightarrow> bool" where
  "between lo hi c = (is_fin c \<and> (\<forall>l. lo = Some l \<longrightarrow> Fin l \<le> c) \<and> (\<forall>h. hi = Some h \<longrightarrow> c \<le> Fin h))"

lemma average_between:
  assumes "\<And>row. row \<in> set rows \<Longrightarrow> pred_option (between lo hi) (column row)"
  shows "pred_option (between lo hi) (average_of column rows)"
proof -
  define valid where "valid = concat (map (\<lambda>row. case column row of None \<Rightarrow> [] | Some v \<Rightarrow> [v]) rows)"
  define val where "val = (\<lambda>x :: exact. case x of Fin r \<Rightarrow> r | _ \<Rightarrow> 0)"
  have v: "x = Fin (val x) \<and> (\<forall>l. lo = Some l \<longrightarrow> l \<le> val x) \<and> (\<forall>h. hi = Some h \<longrightarrow> val x \<le> h)" if x: "x \<in> set valid" for x
  proof -
    have "x \<in> set (case q of None \<Rightarrow> [] | Some v \<Rightarrow> [v]) \<longleftrightarrow> q = Some x" for q by (cases q) auto
    then obtain row where "row \<in> set rows" "column row = Some x" using x unfolding valid_def by auto
    then have "between lo hi x" using assms [of row] by simp
    then show ?thesis by (auto simp: between_def val_def elim!: is_finE)
  qed
  have s: "jsum valid = Fin (\<Sum>x\<leftarrow>valid. val x)" using jsum_exact_map [of valid "\<lambda>x. x" val] v by simp
  show ?thesis
  proof (cases "valid = []")
    case False
    have lo: "of_nat (length valid) * l \<le> (\<Sum>x\<leftarrow>valid. val x)" if "lo = Some l" for l
      using sum_list_mono [of valid "\<lambda>_. l" val] v that by (simp add: sum_list_triv)
    have hi: "(\<Sum>x\<leftarrow>valid. val x) \<le> of_nat (length valid) * h" if "hi = Some h" for h
      using sum_list_mono [of valid val "\<lambda>_. h"] v that by (simp add: sum_list_triv)
    have "average_of column rows = Some (Fin ((\<Sum>x\<leftarrow>valid. val x) / of_nat (length valid)))"
      using False s by (simp add: average_of_def valid_def [symmetric] Let_def of_count_def exact_eval)
    then show ?thesis using lo hi False by (simp add: between_def field_simps)
  qed (simp add: average_of_def valid_def [symmetric])
qed

lemma row_okD:
  assumes "row_ok r"
  shows "pred_option (between (Some 0) (Some 1)) (cr_reliability r)" "pred_option (between (Some 0) None) (cr_capacity r)"
    "pred_option (between None None) (cr_outside_option r)"
  using assms by (cases "cr_reliability r"; cases "cr_capacity r"; cases "cr_outside_option r"; simp add: row_ok_def between_def)+

lemma party_in_range:
  assumes "list_all row_ok rows"
  shows "in_range (buyer_party rows i)" "in_range (supplier_party rows i)"
proof -
  have ok: "row_ok row" if "row \<in> set (filter P rows)" for P row using assms that by (simp add: list_all_iff)
  have rel: "pred_option (between (Some 0) (Some 1)) (average_of cr_reliability (filter P rows))" for P
    by (rule average_between) (use ok row_okD in blast)
  have cap: "pred_option (between (Some 0) None) (average_of cr_capacity (filter P rows))" for P
    by (rule average_between) (use ok row_okD in blast)
  have out: "pred_option (between None None) (average_of cr_outside_option (filter P rows))" for P
    by (rule average_between) (use ok row_okD in blast)
  have default: "between lo hi d \<Longrightarrow> pred_option (between lo hi) q \<Longrightarrow> between lo hi (nullish q d)" for lo hi d q
    by (cases q) simp_all
  have r: "in_range \<lparr>p_id = a, p_role = b, p_name = c, strategyId = s, reliability = nullish q d, capacity = k,
      outsideOption = Some (nullish x y), parameters = z\<rparr>"
    if "pred_option (between (Some 0) (Some 1)) q" "pred_option (between (Some 0) None) k" "pred_option (between None None) x"
      "between (Some 0) (Some 1) d" "is_fin y" for a b c s q d k x y z
    using default [OF that(4,1)] default [OF _ that(3), of y] that(2,5)
    by (auto simp: in_range_def between_def elim!: option.pred_mono_strong)
  show "in_range (buyer_party rows i)" "in_range (supplier_party rows i)"
    unfolding buyer_party_def supplier_party_def Let_def using rel cap out
    by (auto intro!: r simp: between_def exact_eval)
qed


definition demo_row :: raw_row where
  "demo_row = map_of [(''supplier_id'', ''s''), (''buyer_id'', ''b''), (''product_id'', ''p''), (''period'', ''1''),
     (''quantity'', ''2''), (''unit_price'', ''2''), (''reliability'', [])]"

definition demo_number :: "string \<Rightarrow> exact" where
  "demo_number s = (if s = [] then 0 else Fin 2)"


end
