(* ===== verification/ChipMap.thy ===== *)
theory ChipMap
  imports CsvImport Provenance NumText
begin

text \<open>
  \<^verbatim>\<open>packages/engine/src/model/bridges/chipMap.ts\<close>: a scenario seed from the tables of the chip supply
  map. The network, the clock and \<^verbatim>\<open>Number(text)\<close> are arguments; texts are Latin-1. The session storage
  holds one text, represented by what it parses to.
\<close>

section \<open>Tables\<close>

record 'p chipMapNode =
  cn_id :: string
  cn_name :: string
  cn_type :: string
  cn_country :: "string option"
  short_description :: "string option"
  chokepoint_score :: "'p jsnum option"

record chipMapEdge =
  ce_source :: string
  ce_target :: string
  ce_relation :: string
  ce_strength :: "string option"

record 'p chipMapData =
  cm_nodes :: "'p chipMapNode list"
  cm_edges :: "chipMapEdge list"
  cm_fetchedAt :: string

definition chipMapNodeSchema :: "(string \<Rightarrow> 'p jsnum) \<Rightarrow> raw_row \<Rightarrow> ('p::len0) chipMapNode checked" where
  "chipMapNodeSchema to_number r =
     (let i = z_string_min1 ''id'' r; n = z_string_min1 ''name'' r; t = z_string_min1 ''type'' r;
          c = z_optional z_string ''country'' r; d = z_optional z_string ''short_description'' r;
          s = z_optional (z_number to_number (Some 0) (Some 1)) ''chokepoint_score'' r;
          all = issues i @ issues n @ issues t @ issues c @ issues d @ issues s
      in if all = [] then Inr \<lparr>cn_id = projr i, cn_name = projr n, cn_type = projr t, cn_country = projr c,
           short_description = projr d, chokepoint_score = projr s\<rparr>
         else Inl all)"

definition chipMapEdgeSchema :: "raw_row \<Rightarrow> chipMapEdge checked" where
  "chipMapEdgeSchema r =
     (let s = z_string ''source'' r; t = z_string ''target'' r; rel = z_string ''relation'' r; st = z_optional z_string ''strength'' r;
          all = issues s @ issues t @ issues rel @ issues st
      in if all = [] then Inr \<lparr>ce_source = projr s, ce_target = projr t, ce_relation = projr rel, ce_strength = projr st\<rparr>
         else Inl all)"

text \<open>\<^verbatim>\<open>text.split(/\r?\n/)\<close>; the second argument is the line so far, reversed.\<close>

fun split_lines :: "string \<Rightarrow> string \<Rightarrow> string list" where
  "split_lines [] cur = [rev cur]"
| "split_lines (c # cs) cur =
     (if c = CHR 0x0A
      then rev (case cur of d # ds \<Rightarrow> if d = CHR 0x0D then ds else cur | [] \<Rightarrow> []) # split_lines cs []
      else split_lines cs (c # cur))"

text \<open>\<^verbatim>\<open>text.split(",")\<close>.\<close>

fun split_commas :: "string \<Rightarrow> string \<Rightarrow> string list" where
  "split_commas [] cur = [rev cur]"
| "split_commas (c # cs) cur = (if c = CHR '','' then rev cur # split_commas cs [] else split_commas cs (c # cur))"

definition QUOTE :: char where "QUOTE = CHR 0x22"

definition csv_step :: "string list \<times> string \<times> bool \<Rightarrow> char \<Rightarrow> string list \<times> string \<times> bool" where
  "csv_step = (\<lambda>(result, current, inQuotes) c.
     if c = QUOTE then (result, current, \<not> inQuotes)
     else if c = CHR '','' \<and> \<not> inQuotes then (result @ [trim current], [], inQuotes)
     else (result, current @ [c], inQuotes))"

definition splitCsvLine :: "string \<Rightarrow> string list" where
  "splitCsvLine line = (case foldl csv_step ([], [], False) line of (result, current, _) \<Rightarrow> result @ [trim current])"

definition csv_row :: "string list \<Rightarrow> string list \<Rightarrow> raw_row" where
  "csv_row header values =
     foldl (\<lambda>row (idx, key). row(key \<mapsto> (if idx < length values then values ! idx else []))) Map.empty (enumerate 0 header)"

definition parseCsv :: "(raw_row \<Rightarrow> 'a checked) \<Rightarrow> string \<Rightarrow> 'a list" where
  "parseCsv schema txt =
     (case filter (\<lambda>line. trim line \<noteq> []) (split_lines txt []) of
        [] \<Rightarrow> []
      | h # ls \<Rightarrow>
          (let header = map trim (split_commas h []) in
           concat (map (\<lambda>line. case schema (csv_row header (splitCsvLine line)) of Inl _ \<Rightarrow> [] | Inr x \<Rightarrow> [x]) ls)))"

section \<open>Fetching\<close>

text \<open>The session storage, if there is one: empty, a text that does not parse, or data. An answer of
  the network is \<open>None\<close> when the request fails or is not ok.\<close>

datatype 'd cache = NoStorage | Empty | Corrupt | Cached 'd

definition clearCache :: "'d cache \<Rightarrow> 'd cache" where
  "clearCache c = (if c = NoStorage then NoStorage else Empty)"

definition CHIP_MAP_NODES_URL :: string where
  "CHIP_MAP_NODES_URL = ''https://raw.githubusercontent.com/AthenaTheOwl/chip-supply-chain-map/main/src/data/nodes.csv''"
definition CHIP_MAP_EDGES_URL :: string where
  "CHIP_MAP_EDGES_URL = ''https://raw.githubusercontent.com/AthenaTheOwl/chip-supply-chain-map/main/src/data/edges.csv''"

definition fetchChipMapData ::
    "(string \<Rightarrow> 'p jsnum) \<Rightarrow> (string \<Rightarrow> string option) \<Rightarrow> string \<Rightarrow> ('p::len0) chipMapData cache
      \<Rightarrow> (string + 'p chipMapData) \<times> 'p chipMapData cache" where
  "fetchChipMapData to_number fetcher now_text c =
     (case c of Cached d \<Rightarrow> (Inr d, c)
      | _ \<Rightarrow>
        (let c = (if c = Corrupt then Empty else c) in
         case (fetcher CHIP_MAP_NODES_URL, fetcher CHIP_MAP_EDGES_URL) of
           (Some nodesText, Some edgesText) \<Rightarrow>
             (let data = \<lparr>cm_nodes = parseCsv (chipMapNodeSchema to_number) nodesText,
                          cm_edges = parseCsv chipMapEdgeSchema edgesText, cm_fetchedAt = now_text\<rparr>
              in (Inr data, if c = NoStorage then NoStorage else Cached data))
         | _ \<Rightarrow> (Inl ''chip-supply-chain-map fetch failed'', c)))"

section \<open>Seeds\<close>

record 'p chipMapSeed =
  cs_participants :: "'p participant list"
  cs_provenance :: dataProvenance
  centerNode :: "'p chipMapNode"
  cs_neighbors :: "'p chipMapNode list"

definition neighbor_ids :: "chipMapEdge list \<Rightarrow> string \<Rightarrow> string set" where
  "neighbor_ids edges centerId =
     foldl (\<lambda>ids e. let ids = (if ce_source e = centerId then insert (ce_target e) ids else ids)
       in if ce_target e = centerId then insert (ce_source e) ids else ids) {} edges"

definition center_party :: "('p::len0) chipMapNode \<Rightarrow> 'p participant" where
  "center_party center =
     \<lparr>p_id = cn_id center @ ''-buyer'', p_role = Buyer, p_name = cn_name center @ '' (buyer)'',
      strategyId = ''launch-protector-buyer'',
      reliability = 1 - nullish (chokepoint_score center) (lit 0.2) * lit 0.3, capacity = None, outsideOption = Some (lit 8400),
      parameters = \<lparr>urgency = lit 0.75, flexibility = lit 0.5, truthfulness = lit 0.78, privacyPreference = lit 0.55,
        riskAversion = lit 0.7\<rparr>\<rparr>"

definition neighbor_party :: "nat \<Rightarrow> ('p::len0) chipMapNode \<Rightarrow> 'p participant" where
  "neighbor_party idx node =
     \<lparr>p_id = cn_id node, p_role = (if cn_type node = ''foundry'' \<or> cn_type node = ''supplier'' then Supplier else Packager),
      p_name = cn_name node, strategyId = (if idx = 0 then ''capacity-guard-supplier'' else ''yield-optimizer-supplier''),
      reliability = 1 - nullish (chokepoint_score node) (lit 0.25) * lit 0.35,
      capacity = Some (lit 600 - of_count idx * lit 40), outsideOption = Some (lit 4800 - of_count idx * lit 200),
      parameters = \<lparr>urgency = lit 0.45, flexibility = lit 0.55, truthfulness = lit 0.75, privacyPreference = lit 0.7,
        riskAversion = lit 0.65\<rparr>\<rparr>"

definition seedFromChipMap :: "string \<Rightarrow> ('p::len0) chipMapData \<Rightarrow> string \<Rightarrow> string + 'p chipMapSeed" where
  "seedFromChipMap now_text data centerId =
     (case List.find (\<lambda>n. cn_id n = centerId) (cm_nodes data) of
        None \<Rightarrow> Inl (''chip-map node '' @ centerId @ '' not found'')
      | Some center \<Rightarrow>
          (let ids = neighbor_ids (cm_edges data) centerId;
               neighbors = filter (\<lambda>n. cn_id n \<in> ids) (cm_nodes data);
               cites = map (\<lambda>n. \<lparr>cite_source = ''chip-supply-chain-map'', cite_sourceId = Some (cn_id n),
                 cite_span = short_description n, cite_url = Some ''https://github.com/AthenaTheOwl/chip-supply-chain-map''\<rparr>) neighbors
           in Inr \<lparr>cs_participants = center_party center # map (\<lambda>(idx, n). neighbor_party idx n) (enumerate 0 (take 4 neighbors)),
                cs_provenance = tag now_text ChipMap (Some (cn_id center)) (Some cites) (Some (''seeded around '' @ cn_name center)),
                centerNode = center, cs_neighbors = neighbors\<rparr>))"

section \<open>Lines of a table\<close>

lemma csv_plain:
  "QUOTE \<notin> set f \<Longrightarrow> inQuotes \<or> CHR '','' \<notin> set f \<Longrightarrow>
   foldl csv_step (result, current, inQuotes) f = (result, current @ f, inQuotes)"
  by (induction f arbitrary: current) (auto simp: csv_step_def)

definition written :: "bool \<times> string \<Rightarrow> string" where
  "written f = (if fst f then QUOTE # snd f @ [QUOTE] else snd f)"

definition writable :: "bool \<times> string \<Rightarrow> bool" where
  "writable f = (QUOTE \<notin> set (snd f) \<and> (fst f \<or> CHR '','' \<notin> set (snd f)))"

lemma csv_field:
  "writable f \<Longrightarrow> foldl csv_step (result, current, False) (written f) = (result, current @ snd f, False)"
  using csv_plain [of "snd f"] by (auto simp: writable_def written_def csv_step_def)

lemma csv_line:
  "fs \<noteq> [] \<Longrightarrow> list_all writable fs \<Longrightarrow>
   foldl csv_step (result, [], False) (join_with '','' (map written fs))
     = (result @ map (trim \<circ> snd) (butlast fs), snd (last fs), False)"
proof (induction fs arbitrary: result rule: list_nonempty_induct)
  case (single f)
  then show ?case by (simp add: csv_field)
next
  case (cons f fs)
  have "join_with '','' (map written (f # fs)) = written f @ '','' @ join_with '','' (map written fs)"
    using cons.hyps by (cases fs) simp_all
  then show ?case using cons by (simp add: csv_field) (simp add: csv_step_def QUOTE_def)
qed

text \<open>A line is read back: whether its fields are quoted or, having no comma, plain, splitting it
  gives the fields, up to the white space around them, as long as no field contains a quote.\<close>

lemma csv_line_roundtrip:
  assumes "fs \<noteq> []" "list_all writable fs"
  shows "splitCsvLine (join_with '','' (map written fs)) = map (trim \<circ> snd) fs"
proof -
  have "fs = butlast fs @ [last fs]" using assms(1) by simp
  then have "map (trim \<circ> snd) fs = map (trim \<circ> snd) (butlast fs) @ [trim (snd (last fs))]"
    by (metis comp_apply list.map(1) list.map(2) map_append)
  then show ?thesis using csv_line [OF assms, of "[]"] by (simp add: splitCsvLine_def)
qed

theorem csv_line_roundtrip_witness:
  "splitCsvLine (QUOTE # ''a, b'' @ [QUOTE] @ '', c'') = [''a, b'', ''c'']"
  using csv_line_roundtrip [of "[(True, ''a, b''), (False, '' c'')]"]
  by (simp add: writable_def written_def QUOTE_def trim_def is_space_def)

text \<open>A quote inside a quoted field is written twice; here both disappear.\<close>

lemma quotes_lost:
  "splitCsvLine (QUOTE # ''say '' @ [QUOTE, QUOTE] @ ''hi'' @ [QUOTE, QUOTE, QUOTE]) = [''say hi'']"
  by (simp add: splitCsvLine_def csv_step_def QUOTE_def trim_def is_space_def)

section \<open>Laws of seeds and of the cache\<close>

lemma neighbor_ids: "neighbor_ids edges c = {i. \<exists>e \<in> set edges. ce_source e = c \<and> ce_target e = i \<or> ce_target e = c \<and> ce_source e = i}"
proof -
  have "foldl (\<lambda>ids e. let ids = (if ce_source e = c then insert (ce_target e) ids else ids)
       in if ce_target e = c then insert (ce_source e) ids else ids) ids edges
    = ids \<union> {i. \<exists>e \<in> set edges. ce_source e = c \<and> ce_target e = i \<or> ce_target e = c \<and> ce_source e = i}" for ids
    by (induction edges arbitrary: ids) auto
  then show ?thesis by (simp add: neighbor_ids_def)
qed

text \<open>Once data was fetched with a storage at hand, the network is not asked again; a fetch that fails
  leaves no corrupt text behind.\<close>

lemma fetch_cached:
  "fetchChipMapData tn fetcher t c = (Inr d, c') \<Longrightarrow> c \<noteq> NoStorage \<Longrightarrow> fetchChipMapData tn' fetcher' t' c' = (Inr d, c')"
  "snd (fetchChipMapData tn fetcher t c) \<noteq> Corrupt"
  by (auto simp: fetchChipMapData_def Let_def split: cache.splits option.splits if_splits)

text \<open>A seed holds the centre as a buyer and up to four of the nodes an edge joins to it, in the order of
  the table; the reliabilities stay between 0.65 and 1, and the ids are distinct unless a node is named
  like the buyer. An edge from the centre to itself makes it its own neighbour.\<close>

lemma chip_seed:
  fixes data :: "0 chipMapData"
  assumes seed: "seedFromChipMap t data c = Inr seed" and dist: "distinct (map cn_id (cm_nodes data))"
    and scores: "list_all (\<lambda>n. pred_option (between (Some 0) (Some 1)) (chokepoint_score n)) (cm_nodes data)"
  shows "set (cs_neighbors seed) = {n \<in> set (cm_nodes data). \<exists>e \<in> set (cm_edges data).
      ce_source e = c \<and> ce_target e = cn_id n \<or> ce_target e = c \<and> ce_source e = cn_id n}"
    and "map p_id (cs_participants seed) = (c @ ''-buyer'') # map cn_id (take 4 (cs_neighbors seed))"
    and "list_all (\<lambda>p. between (Some (13 / 20)) (Some 1) (reliability p)) (cs_participants seed)"
    and "c @ ''-buyer'' \<notin> cn_id ` set (cm_nodes data) \<Longrightarrow> distinct (map p_id (cs_participants seed))"
proof -
  obtain center where center: "List.find (\<lambda>n. cn_id n = c) (cm_nodes data) = Some center"
    using seed by (auto simp: seedFromChipMap_def split: option.splits)
  have c: "center \<in> set (cm_nodes data)" "cn_id center = c" using find_Some_iff_props [OF center] by auto
  define ns where "ns = filter (\<lambda>n. cn_id n \<in> neighbor_ids (cm_edges data) c) (cm_nodes data)"
  have s: "cs_neighbors seed = ns"
    "cs_participants seed = center_party center # map (\<lambda>(idx, n). neighbor_party idx n) (enumerate 0 (take 4 ns))"
    using seed by (auto simp: seedFromChipMap_def center Let_def ns_def)
  show "set (cs_neighbors seed) = {n \<in> set (cm_nodes data). \<exists>e \<in> set (cm_edges data).
      ce_source e = c \<and> ce_target e = cn_id n \<or> ce_target e = c \<and> ce_source e = cn_id n}"
    by (auto simp: s ns_def neighbor_ids)
  show ids: "map p_id (cs_participants seed) = (c @ ''-buyer'') # map cn_id (take 4 (cs_neighbors seed))"
    using map_enumerate_snd [of cn_id 0 "take 4 ns"] by (simp add: s center_party_def neighbor_party_def c(2) case_prod_beta' comp_def)
  have rel: "between (Some 0) (Some 1) (nullish q d)" if "pred_option (between (Some 0) (Some 1)) q" "between (Some 0) (Some 1) d" for q d
    using that by (cases q) simp_all
  have "between (Some (13 / 20)) (Some 1) (1 - x * lit r)" if x: "between (Some 0) (Some 1) x" and r: "0 \<le> r" "r \<le> 7 / 20" for x r
  proof -
    obtain a where a: "x = Fin a" "0 \<le> a" "a \<le> 1" using x by (auto simp: between_def elim!: is_finE)
    have "0 \<le> a * r" "a * r \<le> 1 * (7 / 20)" using a r mult_mono [of a 1 r "7 / 20"] by simp_all
    then show ?thesis by (simp add: between_def a(1) exact_eval)
  qed
  then show "list_all (\<lambda>p. between (Some (13 / 20)) (Some 1) (reliability p)) (cs_participants seed)"
    using scores c(1) rel
    by (auto simp: s list_all_iff center_party_def neighbor_party_def ns_def enumerate_eq_zip between_def
        dest!: set_zip_rightD in_set_takeD)
  show "distinct (map p_id (cs_participants seed))" if "c @ ''-buyer'' \<notin> cn_id ` set (cm_nodes data)"
  proof -
    have "distinct (map cn_id (take 4 ns))" using dist by (simp add: ns_def distinct_map_filter take_map [symmetric] distinct_take)
    moreover have "c @ ''-buyer'' \<notin> cn_id ` set (take 4 ns)" using that by (auto simp: ns_def dest: in_set_takeD)
    ultimately show ?thesis by (simp add: ids s(1))
  qed
qed

text \<open>A node whose score cell is empty gets the score 0, the best there is, not the default.\<close>

lemma empty_score_is_zero:
  fixes to_number :: "string \<Rightarrow> ('p::len0) jsnum"
  assumes "to_number [] = 0" "raw ''chokepoint_score'' = Some []" "chipMapNodeSchema to_number raw = Inr n"
  shows "chokepoint_score n = Some 0"
proof -
  have "z_optional (z_number to_number (Some 0) (Some 1)) ''chokepoint_score'' raw = Inr (Some 0)"
    using assms(1,2) by (simp add: z_optional_def z_number_def)
  then show ?thesis using assms(3) by (auto simp: chipMapNodeSchema_def Let_def split: if_splits)
qed

end
