(* ===== verification/SupplierRisk.thy ===== *)
theory SupplierRisk
  imports ChipMap NegotiationSession
begin

text \<open>
  \<^verbatim>\<open>packages/engine/src/model/bridges/supplierRisk.ts\<close>: risk scores and citations from a corpus of text
  chunks. The network, the clock and \<^verbatim>\<open>JSON.parse\<close> are arguments; texts are Latin-1.
\<close>

section \<open>The corpus\<close>

record riskChunk =
  cik :: "string option"
  accession :: "string option"
  ticker :: "string option"
  company :: "string option"
  rk_section :: "string option"
  rk_text :: string
  risk_category :: "string option"
  rk_tags :: "string list option"

record riskCorpus =
  rc_chunks :: "riskChunk list"
  rc_fetchedAt :: string

text \<open>An optional field is absent or passes its check; \<open>None\<close> is a failure.\<close>

definition opt_field :: "('p json \<Rightarrow> 'a option) \<Rightarrow> 'p json \<Rightarrow> string \<Rightarrow> 'a option option" where
  "opt_field check v k = (case field v k of None \<Rightarrow> Some None | Some x \<Rightarrow> map_option Some (check x))"

fun json_string :: "'p json \<Rightarrow> string option" where
  "json_string (JStr s) = Some s"
| "json_string _ = None"

fun json_strings :: "'p json \<Rightarrow> string list option" where
  "json_strings (JArr xs) = read_all json_string xs"
| "json_strings _ = None"

definition riskChunkSchema :: "'p json \<Rightarrow> riskChunk option" where
  "riskChunkSchema v =
     (case (opt_field json_string v ''cik'', opt_field json_string v ''accession'', opt_field json_string v ''ticker'',
            opt_field json_string v ''company'', opt_field json_string v ''section'', field v ''text'',
            opt_field json_string v ''risk_category'', opt_field json_strings v ''tags'') of
        (Some c, Some a, Some t, Some co, Some s, Some (JStr txt0), Some r, Some ts) \<Rightarrow>
          if txt0 = [] then None
          else Some \<lparr>cik = c, accession = a, ticker = t, company = co, rk_section = s, rk_text = txt0, risk_category = r, rk_tags = ts\<rparr>
      | _ \<Rightarrow> None)"

definition SUPPLIER_RISK_CHUNKS_URL :: string where
  "SUPPLIER_RISK_CHUNKS_URL =
     ''https://raw.githubusercontent.com/AthenaTheOwl/supplier-risk-rag-agent/main/data/sample_corpus/chunks.jsonl''"

definition read_chunk :: "(string \<Rightarrow> 'p json option) \<Rightarrow> string \<Rightarrow> riskChunk list" where
  "read_chunk parse line =
     (let trimmed = trim line in
      if trimmed = [] then []
      else (case parse trimmed of None \<Rightarrow> []
        | Some v \<Rightarrow> (case riskChunkSchema v of None \<Rightarrow> [] | Some c \<Rightarrow> [c])))"

definition fetchRiskCorpus ::
    "(string \<Rightarrow> 'p json option) \<Rightarrow> (string \<Rightarrow> string option) \<Rightarrow> string \<Rightarrow> riskCorpus cache \<Rightarrow> (string + riskCorpus) \<times> riskCorpus cache" where
  "fetchRiskCorpus parse fetcher now_text c =
     (case c of Cached d \<Rightarrow> (Inr d, c)
      | _ \<Rightarrow>
        (let c = (if c = Corrupt then Empty else c) in
         case fetcher SUPPLIER_RISK_CHUNKS_URL of
           None \<Rightarrow> (Inl ''supplier-risk-rag-agent fetch failed'', c)
         | Some body \<Rightarrow>
             (let corpus = \<lparr>rc_chunks = concat (map (read_chunk parse) (split_lines body [])), rc_fetchedAt = now_text\<rparr>
              in (Inr corpus, if c = NoStorage then NoStorage else Cached corpus))))"

section \<open>Scores\<close>

definition RISK_CATEGORY_WEIGHT :: "(string \<times> rat) list" where
  "RISK_CATEGORY_WEIGHT = [(''export-controls'', 0.85), (''customer-concentration'', 0.55), (''advanced-packaging'', 0.65),
     (''supplier-capacity'', 0.6), (''lithography-equipment'', 0.7), (''default'', 0.4)]"

text \<open>\<^verbatim>\<open>RISK_CATEGORY_WEIGHT[name]\<close>: the table inherits the properties of \<^verbatim>\<open>Object.prototype\<close>, which are not
  numbers. Every sum and quotient they enter is a text and then \<open>NaN\<close>.\<close>

datatype 'p looked_up = Weight "'p jsnum" | HostValue | Missing

definition weight_of :: "string \<Rightarrow> ('p::len0) looked_up" where
  "weight_of name =
     (case map_of RISK_CATEGORY_WEIGHT name of
        Some w \<Rightarrow> Weight (lit w)
      | None \<Rightarrow> if name \<in> set object_prototype then HostValue else Missing)"

definition as_number :: "'p looked_up \<Rightarrow> 'p jsnum" where
  "as_number v = (case v of Weight w \<Rightarrow> w | _ \<Rightarrow> NaN)"

definition deriveRiskScore :: "riskChunk \<Rightarrow> ('p::len0) looked_up" where
  "deriveRiskScore chunk =
     (let category = trim (nullish (risk_category chunk) []) in
      if weight_of category \<noteq> (Missing :: 'p looked_up) then weight_of category
      else (case rk_tags chunk of
        None \<Rightarrow> weight_of ''default''
      | Some tags \<Rightarrow>
          if tags = [] then weight_of ''default''
          else (let tagged = filter (\<lambda>v. v \<noteq> Missing) (map weight_of tags) in
            if tagged = [] then weight_of ''default''
            else Weight (jsum (map as_number tagged) / of_count (length tagged)))))"

record 'p evidence =
  riskScore :: "'p jsnum"
  ev_provenance :: dataProvenance
  ev_citations :: "citation list"
  excerpts :: "(string \<times> string \<times> string) list"

definition chunk_id :: "riskChunk \<Rightarrow> string" where
  "chunk_id chunk =
     nullish (or_else (cik chunk) (company chunk)) ''unknown'' @ ''|'' @ nullish (or_else (accession chunk) (rk_section chunk)) ''n/a''"

definition used_chunks :: "riskCorpus \<Rightarrow> string list \<Rightarrow> riskChunk list" where
  "used_chunks corpus chunkIds =
     (let selected = filter (\<lambda>c. chunk_id c \<in> set chunkIds) (rc_chunks corpus) in
      if selected \<noteq> [] then selected else take (min (length (rc_chunks corpus)) (length chunkIds)) (rc_chunks corpus))"

definition attachEvidence :: "string \<Rightarrow> riskCorpus \<Rightarrow> string list \<Rightarrow> ('p::len0) evidence" where
  "attachEvidence now_text corpus chunkIds =
     (let useChunks = used_chunks corpus chunkIds;
          score = (if useChunks = [] then as_number (weight_of ''default'')
                   else jsum (map (\<lambda>c. as_number (deriveRiskScore c)) useChunks) / of_count (length useChunks));
          cites = map (\<lambda>c. \<lparr>cite_source = ''supplier-risk-rag-agent'', cite_sourceId = Some (chunk_id c),
            cite_span = Some (take 240 (rk_text c)), cite_url = Some ''https://github.com/AthenaTheOwl/supplier-risk-rag-agent''\<rparr>) useChunks
      in \<lparr>riskScore = score,
          ev_provenance = tag now_text SupplierRiskRag None (Some cites) (Some (nat_text (length useChunks) @ '' chunk(s) attached'')),
          ev_citations = cites,
          excerpts = map (\<lambda>c. (nullish (or_else (or_else (company c) (ticker c)) (cik c)) ''unknown'',
            nullish (or_else (rk_section c) (risk_category c)) ''n/a'', take 320 (rk_text c))) useChunks\<rparr>)"

section \<open>The range of the score\<close>

definition in_weights :: "exact \<Rightarrow> bool" where
  "in_weights x = (\<exists>r. x = Fin r \<and> 2 / 5 \<le> r \<and> r \<le> 17 / 20)"

lemma in_weights_simps [simp]: "in_weights (Fin r) \<longleftrightarrow> 2 / 5 \<le> r \<and> r \<le> 17 / 20" "\<not> in_weights NaN"
  by (simp_all add: in_weights_def)

lemma weight_of_cases: "(\<exists>w. weight_of name = Weight w \<and> in_weights w) \<or> weight_of name = (HostValue :: 0 looked_up) \<or> weight_of name = (Missing :: 0 looked_up)"
proof (cases "map_of RISK_CATEGORY_WEIGHT name")
  case (Some w)
  then have "(name, w) \<in> set RISK_CATEGORY_WEIGHT" by (rule map_of_SomeD)
  then have "2 / 5 \<le> w \<and> w \<le> 17 / 20" by (auto simp: RISK_CATEGORY_WEIGHT_def)
  then show ?thesis by (simp add: weight_of_def Some in_weights_def)
qed (simp add: weight_of_def)

lemma mean_in_weights:
  assumes "xs \<noteq> []" "\<And>x. x \<in> set xs \<Longrightarrow> in_weights (f x) \<or> f x = NaN"
  shows "in_weights (jsum (map f xs) / of_count (length xs)) \<longleftrightarrow> (\<forall>x \<in> set xs. in_weights (f x))"
    and "jsum (map f xs) / of_count (length xs) = NaN \<or> (\<forall>x \<in> set xs. in_weights (f x))"
proof -
  have nan: "x \<in> set ys \<Longrightarrow> f x = NaN \<Longrightarrow> jsum (map f ys) = NaN" for x ys
  proof (induction ys rule: rev_induct)
    case (snoc y ys)
    then show ?case by (cases "jsum (map f ys)") auto
  qed simp
  have "in_weights (jsum (map f xs) / of_count (length xs))" if all: "\<forall>x \<in> set xs. in_weights (f x)"
  proof -
    obtain g where g: "\<And>x. x \<in> set xs \<Longrightarrow> f x = Fin (g x) \<and> 2 / 5 \<le> g x \<and> g x \<le> 17 / 20"
      using all unfolding in_weights_def by metis
    have "jsum (map f xs) = Fin (\<Sum>x\<leftarrow>xs. g x)" by (rule jsum_exact_map) (simp add: g)
    then have "jsum (map f xs) / of_count (length xs) = Fin ((\<Sum>x\<leftarrow>xs. g x) / of_nat (length xs))"
      using assms(1) by (simp add: of_count_def exact_eval)
    moreover have "of_nat (length xs) * (2 / 5) \<le> (\<Sum>x\<leftarrow>xs. g x)" "(\<Sum>x\<leftarrow>xs. g x) \<le> of_nat (length xs) * (17 / 20)"
      using sum_list_mono [of xs "\<lambda>_. 2 / 5" g] sum_list_mono [of xs g "\<lambda>_. 17 / 20"] g by (simp_all add: sum_list_triv)
    ultimately show ?thesis using assms(1) unfolding in_weights_def by (intro exI [of _ "(\<Sum>x\<leftarrow>xs. g x) / of_nat (length xs)"]) (simp add: field_simps)
  qed
  moreover have "jsum (map f xs) / of_count (length xs) = NaN" if "x \<in> set xs" "f x = NaN" for x
    using nan [OF that] by simp
  ultimately show "in_weights (jsum (map f xs) / of_count (length xs)) \<longleftrightarrow> (\<forall>x \<in> set xs. in_weights (f x))"
    and "jsum (map f xs) / of_count (length xs) = NaN \<or> (\<forall>x \<in> set xs. in_weights (f x))"
    using assms(2) by (auto, metis in_weights_simps(2))
qed

text \<open>A chunk is spoiled if its category is a property of every object, or, with a category that has no weight,
  one of its tags is.\<close>

definition spoiled :: "riskChunk \<Rightarrow> bool" where
  "spoiled chunk =
     (let category = trim (nullish (risk_category chunk) []) in
      category \<in> set object_prototype
      \<or> category \<notin> fst ` set RISK_CATEGORY_WEIGHT \<and> (\<exists>t \<in> set (nullish (rk_tags chunk) []). t \<in> set object_prototype))"

lemma derived_score:
  "if spoiled chunk then as_number (deriveRiskScore chunk) = (NaN :: exact) else in_weights (as_number (deriveRiskScore chunk))"
proof -
  let ?c = "trim (nullish (risk_category chunk) [])"
  have lookup: "weight_of n = (Missing :: 0 looked_up) \<longleftrightarrow> n \<notin> fst ` set RISK_CATEGORY_WEIGHT \<and> n \<notin> set object_prototype"
    "weight_of n = (HostValue :: 0 looked_up) \<longleftrightarrow> n \<in> set object_prototype" for n
  proof -
    have "n \<in> set object_prototype \<Longrightarrow> map_of RISK_CATEGORY_WEIGHT n = None"
      by (auto simp: object_prototype_def RISK_CATEGORY_WEIGHT_def)
    then show "weight_of n = (Missing :: 0 looked_up) \<longleftrightarrow> n \<notin> fst ` set RISK_CATEGORY_WEIGHT \<and> n \<notin> set object_prototype"
      "weight_of n = (HostValue :: 0 looked_up) \<longleftrightarrow> n \<in> set object_prototype"
      using map_of_eq_None_iff [of RISK_CATEGORY_WEIGHT n] by (cases "map_of RISK_CATEGORY_WEIGHT n"; auto simp: weight_of_def)+
  qed
  have default: "in_weights (as_number (weight_of ''default''))"
    by (simp add: weight_of_def RISK_CATEGORY_WEIGHT_def as_number_def)
  have found: "if n \<in> set object_prototype then as_number (weight_of n) = (NaN :: exact) else in_weights (as_number (weight_of n))"
    if "weight_of n \<noteq> (Missing :: 0 looked_up)" for n
    using weight_of_cases [of n] that lookup(2) [of n] by (auto simp: as_number_def)
  show ?thesis
  proof (cases "weight_of ?c = (Missing :: 0 looked_up)")
    case False
    then have "deriveRiskScore chunk = (weight_of ?c :: 0 looked_up)" by (simp add: deriveRiskScore_def Let_def)
    moreover have "spoiled chunk \<longleftrightarrow> ?c \<in> set object_prototype" using False lookup(1) [of ?c] by (auto simp: spoiled_def Let_def)
    ultimately show ?thesis using found [OF False] by simp
  next
    case True
    define tagged where "tagged = filter (\<lambda>v :: 0 looked_up. v \<noteq> Missing) (map weight_of (nullish (rk_tags chunk) []))"
    have sp: "spoiled chunk \<longleftrightarrow> HostValue \<in> set tagged"
    proof -
      have "HostValue \<in> set tagged \<longleftrightarrow> (\<exists>n \<in> set (nullish (rk_tags chunk) []). weight_of n = (HostValue :: 0 looked_up))"
        unfolding tagged_def by (auto simp: image_iff) (metis)+
      then show ?thesis using True lookup(1) [of ?c] unfolding lookup(2) by (auto simp: spoiled_def Let_def)
    qed
    have d: "deriveRiskScore chunk = (if tagged = [] then weight_of ''default''
        else Weight (jsum (map as_number tagged) / of_count (length tagged)))"
      using True by (cases "rk_tags chunk") (auto simp: deriveRiskScore_def Let_def tagged_def)
    have tags: "in_weights (as_number v) \<and> v \<noteq> HostValue \<or> as_number v = NaN \<and> v = HostValue" if v: "v \<in> set tagged" for v
    proof -
      obtain n where "v = weight_of n" "v \<noteq> Missing" using v by (auto simp: tagged_def)
      then show ?thesis using weight_of_cases [of n] by (auto simp: as_number_def)
    qed
    show ?thesis
    proof (cases "tagged = []")
      case True
      then show ?thesis using d default sp by simp
    next
      case False
      have t: "in_weights (as_number v) \<or> as_number v = NaN" if "v \<in> set tagged" for v using tags [OF that] by blast
      have "(\<forall>v \<in> set tagged. in_weights (as_number v)) \<longleftrightarrow> HostValue \<notin> set tagged"
        using tags by fastforce
      then show ?thesis using False d sp mean_in_weights [of tagged as_number, OF False t] by (auto simp: as_number_def [of "Weight _"])
    qed
  qed
qed

text \<open>The risk score of attached evidence is between the least and the greatest weight, 0.4 and 0.85,
  unless a chunk that is used names a property of \<^verbatim>\<open>Object.prototype\<close> (\<^verbatim>\<open>constructor\<close>, say) as its
  category or, its category having no weight, among its tags: then, and only then, the score is \<open>NaN\<close>.\<close>

lemma risk_score_range:
  "if list_ex spoiled (used_chunks corpus ids) then riskScore (attachEvidence t corpus ids) = (NaN :: exact)
   else in_weights (riskScore (attachEvidence t corpus ids))"
proof (cases "used_chunks corpus ids = []")
  case True
  then show ?thesis by (simp add: attachEvidence_def Let_def weight_of_def RISK_CATEGORY_WEIGHT_def as_number_def)
next
  case False
  have d: "in_weights (as_number (deriveRiskScore c)) \<and> \<not> spoiled c \<or> as_number (deriveRiskScore c) = (NaN :: exact) \<and> spoiled c" for c
    using derived_score [of c] by (auto split: if_splits)
  have s: "riskScore (attachEvidence t corpus ids)
      = jsum (map (\<lambda>c. as_number (deriveRiskScore c)) (used_chunks corpus ids)) / (of_count (length (used_chunks corpus ids)) :: exact)"
    using False by (simp add: attachEvidence_def Let_def)
  have "(\<forall>c \<in> set (used_chunks corpus ids). in_weights (as_number (deriveRiskScore c))) \<longleftrightarrow> \<not> list_ex spoiled (used_chunks corpus ids)"
    using d by (fastforce simp: list_ex_iff)
  then show ?thesis
    unfolding s using mean_in_weights [OF False, of "\<lambda>c. as_number (deriveRiskScore c)"] d by metis
qed

end
