(* ===== verification/LearnState.thy ===== *)
theory LearnState
  imports Types
begin

text \<open>
  \<^verbatim>\<open>apps/web/src/state/learnProgress.ts\<close> and \<^verbatim>\<open>streak.ts\<close>, with the gate of
  \<^verbatim>\<open>apps/web/src/surfaces/learn/LearnShell.tsx\<close> as a step relation. A stored text is represented by
  what it parses to, \<open>None\<close> if it is absent or rejected. Levels are natural numbers; the time stamps
  and the calendar day of one, in the user's time zone, come from the host.
\<close>

section \<open>Progress\<close>

definition TOTAL_LEVELS :: nat where
  "TOTAL_LEVELS = 12"

record 'p learnProgress =
  highest_completed :: "'p jsnum"
  completion_timestamps :: "nat \<Rightarrow> string option"
  last_seen_level :: "'p jsnum"

definition emptyProgress :: "'p learnProgress" where
  "emptyProgress = \<lparr>highest_completed = 0, completion_timestamps = Map.empty, last_seen_level = 1\<rparr>"

definition isValidProgress :: "('p::len0) learnProgress \<Rightarrow> bool" where
  "isValidProgress v =
     (0 \<le> highest_completed v \<and> highest_completed v \<le> of_count TOTAL_LEVELS
      \<and> 1 \<le> last_seen_level v \<and> last_seen_level v \<le> of_count TOTAL_LEVELS)"

definition loadProgress :: "('p::len0) learnProgress option \<Rightarrow> 'p learnProgress" where
  "loadProgress stored =
     (case stored of None \<Rightarrow> emptyProgress | Some parsed \<Rightarrow> if \<not> isValidProgress parsed then emptyProgress else parsed)"

definition saveProgress :: "'p learnProgress \<Rightarrow> 'p learnProgress option" where
  "saveProgress progress = Some progress"

definition clearProgress :: "'p learnProgress option" where
  "clearProgress = None"

definition markComplete :: "string \<Rightarrow> ('p::len0) learnProgress \<Rightarrow> nat \<Rightarrow> 'p learnProgress" where
  "markComplete now_text previous level =
     (let alreadyDone = of_count level \<le> highest_completed previous in
      \<lparr>highest_completed = jmax (highest_completed previous) (of_count level),
       completion_timestamps = (if alreadyDone then completion_timestamps previous
         else (completion_timestamps previous)(level \<mapsto> now_text)),
       last_seen_level = jmin (of_count TOTAL_LEVELS) (of_count (level + 1))\<rparr>)"

definition setLastSeen :: "('p::len0) learnProgress \<Rightarrow> nat \<Rightarrow> 'p learnProgress" where
  "setLastSeen previous level = previous\<lparr>last_seen_level := of_count level\<rparr>"

definition canEnter :: "('p::len0) learnProgress \<Rightarrow> nat \<Rightarrow> bool" where
  "canEnter progress level = (level = 1 \<or> of_count (level - 1) \<le> highest_completed progress)"

definition nextUnlocked :: "('p::len0) learnProgress \<Rightarrow> 'p jsnum" where
  "nextUnlocked progress =
     (let candidate = highest_completed progress + 1 in if of_count TOTAL_LEVELS < candidate then of_count TOTAL_LEVELS else candidate)"

section \<open>The shell of the lessons\<close>

text \<open>The page shows \<open>at_level\<close>, \<open>None\<close> when it is left for the sandbox. \<open>identity\<close> tells objects
  apart: every \<^verbatim>\<open>setProgress\<close> of a new object changes it. \<open>effect_ran\<close> holds the dependencies the effect
  last ran with; it runs again when they differ from the current ones. \<open>writes\<close> counts the stores.\<close>

record shell =
  at_level :: "nat option"
  progress :: "0 learnProgress"
  identity :: nat
  effect_ran :: "(nat \<times> nat) option"
  stored :: "0 learnProgress option"
  writes :: nat

definition open_shell :: "0 learnProgress option \<Rightarrow> nat \<Rightarrow> shell" where
  "open_shell st level =
     \<lparr>at_level = Some level, progress = loadProgress st, identity = 0, effect_ran = None, stored = st, writes = 0\<rparr>"

definition effect_pending :: "shell \<Rightarrow> bool" where
  "effect_pending s = (case at_level s of None \<Rightarrow> False | Some l \<Rightarrow> effect_ran s \<noteq> Some (l, identity s))"

definition set_progress :: "0 learnProgress \<Rightarrow> shell \<Rightarrow> shell" where
  "set_progress p s = s\<lparr>progress := p, identity := Suc (identity s), stored := saveProgress p, writes := Suc (writes s)\<rparr>"

definition level_of :: "exact \<Rightarrow> nat" where
  "level_of x = (case x of Fin r \<Rightarrow> nat \<lfloor>r\<rfloor> | _ \<Rightarrow> 0)"

definition run_effect :: "shell \<Rightarrow> shell" where
  "run_effect s =
     (case at_level s of None \<Rightarrow> s
      | Some level \<Rightarrow>
          (let s = s\<lparr>effect_ran := Some (level, identity s)\<rparr> in
           if \<not> canEnter (progress s) level
           then (let allowed = level_of (nextUnlocked (progress s)) in if allowed \<noteq> level then s\<lparr>at_level := Some allowed\<rparr> else s)
           else set_progress (setLastSeen (progress s) level) s))"

definition handleComplete :: "string \<Rightarrow> shell \<Rightarrow> shell" where
  "handleComplete now_text s =
     (case at_level s of None \<Rightarrow> s
      | Some level \<Rightarrow>
          (let s = set_progress (markComplete now_text (progress s) level) s
           in if level + 1 \<le> TOTAL_LEVELS then s\<lparr>at_level := Some (level + 1)\<rparr> else s\<lparr>at_level := None\<rparr>))"

definition handleJumpTo :: "nat \<Rightarrow> shell \<Rightarrow> shell" where
  "handleJumpTo target s =
     (if target < 1 \<or> TOTAL_LEVELS < target then s
      else if canEnter (progress s) target then s\<lparr>at_level := Some target\<rparr> else s)"

text \<open>What can happen: the address changes, the effect runs, the reader completes a level the effect has let
  through, jumps, or reloads the page.\<close>

inductive shell_step :: "shell \<Rightarrow> shell \<Rightarrow> bool" where
  address: "1 \<le> l \<Longrightarrow> l \<le> TOTAL_LEVELS \<Longrightarrow> shell_step s (s\<lparr>at_level := Some l\<rparr>)"
| effect: "effect_pending s \<Longrightarrow> shell_step s (run_effect s)"
| complete: "at_level s = Some l \<Longrightarrow> canEnter (progress s) l \<Longrightarrow> shell_step s (handleComplete t s)"
| jump: "shell_step s (handleJumpTo target s)"
| reload: "1 \<le> l \<Longrightarrow> l \<le> TOTAL_LEVELS \<Longrightarrow> shell_step s (open_shell (stored s) l)"

inductive_cases shell_stepE: "shell_step s s'"

abbreviation shell_run :: "shell \<Rightarrow> shell \<Rightarrow> bool" where
  "shell_run \<equiv> shell_step\<^sup>*\<^sup>*"

section \<open>Levels are completed in order\<close>

definition completed_through :: "nat \<Rightarrow> 0 learnProgress \<Rightarrow> bool" where
  "completed_through n p =
     (n \<le> TOTAL_LEVELS \<and> highest_completed p = Fin (of_nat n) \<and> dom (completion_timestamps p) = {1..n}
      \<and> (\<exists>l. last_seen_level p = Fin (of_nat l) \<and> 1 \<le> l \<and> l \<le> TOTAL_LEVELS))"

lemma completed_empty: "completed_through 0 emptyProgress"
  unfolding completed_through_def emptyProgress_def by (auto simp: TOTAL_LEVELS_def intro!: exI [of _ 1])

lemma canEnter_iff: "completed_through n p \<Longrightarrow> canEnter p l \<longleftrightarrow> l \<le> Suc n"
  by (auto simp: completed_through_def canEnter_def of_count_def)

lemma completed_setLastSeen:
  "completed_through n p \<Longrightarrow> 1 \<le> l \<Longrightarrow> l \<le> TOTAL_LEVELS \<Longrightarrow> completed_through n (setLastSeen p l)"
  by (auto simp: completed_through_def setLastSeen_def of_count_def)

lemma completed_markComplete:
  assumes "completed_through n p" "1 \<le> l" "l \<le> TOTAL_LEVELS" "l \<le> Suc n"
  shows "completed_through (max n l) (markComplete t p l)"
proof -
  have "\<exists>k. jmin (of_count TOTAL_LEVELS) (of_count (l + 1)) = (Fin (of_nat k) :: exact) \<and> 1 \<le> k \<and> k \<le> TOTAL_LEVELS"
    by (rule exI [of _ "min TOTAL_LEVELS (l + 1)"]) (simp add: of_count_def exact_eval TOTAL_LEVELS_def of_nat_min)
  then show ?thesis using assms
    by (cases "l \<le> n") (auto simp: completed_through_def markComplete_def Let_def of_count_def exact_eval max_def atLeastAtMostSuc_conv
        le_Suc_eq)
qed

lemma completed_load: "completed_through n p \<Longrightarrow> loadProgress (Some p) = p"
  by (auto simp: completed_through_def loadProgress_def isValidProgress_def of_count_def exact_eval)

definition shell_ok :: "nat \<Rightarrow> shell \<Rightarrow> bool" where
  "shell_ok n s =
     (completed_through n (progress s) \<and> (stored s = None \<and> n = 0 \<or> (\<exists>p. stored s = Some p \<and> completed_through n p))
      \<and> (\<forall>l. at_level s = Some l \<longrightarrow> 1 \<le> l \<and> l \<le> TOTAL_LEVELS))"

lemma shell_ok_set: "completed_through n p \<Longrightarrow> (\<forall>l. at_level s = Some l \<longrightarrow> 1 \<le> l \<and> l \<le> TOTAL_LEVELS) \<Longrightarrow> shell_ok n (set_progress p s)"
  by (simp add: shell_ok_def set_progress_def saveProgress_def)

lemma next_level:
  "completed_through n p \<Longrightarrow> level_of (nextUnlocked p) = min TOTAL_LEVELS (Suc n)"
  by (auto simp: completed_through_def nextUnlocked_def Let_def of_count_def level_of_def exact_eval TOTAL_LEVELS_def min_def)

lemma shell_step_ok:
  assumes "shell_step s s'" "shell_ok n s"
  shows "\<exists>m. n \<le> m \<and> shell_ok m s'"
  using assms
proof (cases rule: shell_step.cases)
  case (effect)
  show ?thesis
  proof (cases "at_level s")
    case None
    then show ?thesis using assms(2) effect by (auto simp: run_effect_def)
  next
    case (Some l)
    have l: "1 \<le> l" "l \<le> TOTAL_LEVELS" and p: "completed_through n (progress s)" using assms(2) Some by (auto simp: shell_ok_def)
    show ?thesis
    proof (cases "canEnter (progress s) l")
      case True
      then show ?thesis using effect(1) Some l p shell_ok_set [OF completed_setLastSeen [OF p l]]
        by (intro exI [of _ n]) (simp add: run_effect_def Let_def)
    next
      case False
      then show ?thesis using effect(1) Some assms(2) next_level [OF p]
        by (intro exI [of _ n]) (auto simp: run_effect_def Let_def shell_ok_def TOTAL_LEVELS_def)
    qed
  qed
next
  case (complete l t)
  have l: "1 \<le> l" "l \<le> TOTAL_LEVELS" and p: "completed_through n (progress s)" using assms(2) complete by (auto simp: shell_ok_def)
  have "l \<le> Suc n" using complete(3) canEnter_iff [OF p] by simp
  from completed_markComplete [OF p l this, of t] show ?thesis using complete(1,2) l
    by (intro exI [of _ "max n l"]) (auto simp: handleComplete_def Let_def shell_ok_def set_progress_def saveProgress_def)
next
  case (reload l)
  then show ?thesis using assms(2) completed_empty
    by (intro exI [of _ n]) (auto simp: shell_ok_def open_shell_def completed_load, simp add: loadProgress_def)
qed (auto simp: shell_ok_def handleJumpTo_def)

lemma shell_run_ok: "shell_run s s' \<Longrightarrow> shell_ok n s \<Longrightarrow> \<exists>m. n \<le> m \<and> shell_ok m s'"
proof (induction rule: rtranclp_induct)
  case (step s' s'')
  then show ?case using shell_step_ok le_trans by blast
qed blast



text \<open>The effect of the page never comes to rest. Once it is pending at a level that may be entered, it is
  pending again after every run: each run stores the same progress once more, in a new object, which is
  what the effect depends on.\<close>

lemma effect_never_settles:
  assumes "at_level s = Some l" "canEnter (progress s) l" "effect_pending s"
  shows "effect_pending ((run_effect ^^ k) s) \<and> writes ((run_effect ^^ k) s) = writes s + k
    \<and> progress ((run_effect ^^ Suc k) s) = setLastSeen (progress s) l"
proof -
  have one: "at_level (run_effect s) = Some l \<and> canEnter (progress (run_effect s)) l \<and> effect_pending (run_effect s)
      \<and> writes (run_effect s) = Suc (writes s) \<and> progress (run_effect s) = setLastSeen (progress s) l"
    if "at_level s = Some l" "canEnter (progress s) l" for s
    using that by (simp add: run_effect_def Let_def set_progress_def effect_pending_def canEnter_def setLastSeen_def)
  have "at_level ((run_effect ^^ j) s) = Some l \<and> canEnter (progress ((run_effect ^^ j) s)) l \<and> effect_pending ((run_effect ^^ j) s)
      \<and> writes ((run_effect ^^ j) s) = writes s + j \<and> (j = 0 \<or> progress ((run_effect ^^ j) s) = setLastSeen (progress s) l)" for j
  proof (induction j)
    case (Suc j)
    then show ?case using one [of "(run_effect ^^ j) s"] by (auto simp: setLastSeen_def)
  qed (use assms in simp)
  from this [of k] this [of "Suc k"] show ?thesis by blast
qed

theorem effect_never_settles_witness:
  "effect_pending ((run_effect ^^ 1000) (open_shell None 1)) \<and> writes ((run_effect ^^ 1000) (open_shell None 1)) = 1000"
  using effect_never_settles [of "open_shell None 1" 1 1000]
  by (simp add: open_shell_def effect_pending_def canEnter_def)

section \<open>Streaks\<close>

record 'p streak =
  current :: "'p jsnum"
  longest :: "'p jsnum"
  lastTouchedISO :: string

definition emptyStreak :: "string \<Rightarrow> 'p streak" where
  "emptyStreak epoch = \<lparr>current = 0, longest = 0, lastTouchedISO = epoch\<rparr>"

text \<open>\<open>day\<close> is the day on the user's calendar of a time stamp, \<open>None\<close> for an invalid one; \<open>epoch\<close> is the
  text of \<^verbatim>\<open>new Date(0)\<close>.\<close>

definition dayDiff :: "(string \<Rightarrow> int option) \<Rightarrow> string \<Rightarrow> string \<Rightarrow> ('p::len0) jsnum" where
  "dayDiff day a b = (case (day a, day b) of (Some x, Some y) \<Rightarrow> lit (of_int (y - x)) | _ \<Rightarrow> NaN)"

definition readRaw :: "string \<Rightarrow> 'p streak option \<Rightarrow> 'p streak" where
  "readRaw epoch st = (case st of None \<Rightarrow> emptyStreak epoch | Some s \<Rightarrow> s)"

definition loadStreak :: "(string \<Rightarrow> int option) \<Rightarrow> string \<Rightarrow> 'p streak option \<Rightarrow> string \<Rightarrow> ('p::len0) streak" where
  "loadStreak day epoch st now_text =
     (let raw = readRaw epoch st in
      if lastTouchedISO raw = [] then raw
      else let diff = dayDiff day (lastTouchedISO raw) now_text :: 'p jsnum
        in if 1 < diff then raw\<lparr>current := 0\<rparr> else raw)"

text \<open>The streak returned and the text stored afterwards.\<close>

definition touchStreak ::
    "(string \<Rightarrow> int option) \<Rightarrow> string \<Rightarrow> 'p streak option \<Rightarrow> string \<Rightarrow> ('p::len0) streak \<times> 'p streak option" where
  "touchStreak day epoch st now_text =
     (let raw = readRaw epoch st in
      if current raw = 0
      then let updated = \<lparr>current = 1, longest = jmax (longest raw) 1, lastTouchedISO = now_text\<rparr> in (updated, Some updated)
      else let diff = dayDiff day (lastTouchedISO raw) now_text :: 'p jsnum in
        if diff = 0 then (raw, st)
        else let nextCurrent = (if diff = 1 then current raw + 1 else 1);
                 updated = \<lparr>current = nextCurrent, longest = jmax (longest raw) nextCurrent, lastTouchedISO = now_text\<rparr>
          in (updated, Some updated))"

definition clearStreak :: "'p streak option" where
  "clearStreak = None"

text \<open>What a streak means: the days visited, newest first, and how many of them end the list without a gap;
  the best streak of the past.\<close>

fun run_of :: "int list \<Rightarrow> nat" where
  "run_of [] = 0"
| "run_of [d] = 1"
| "run_of (d # e # ds) = (if d = e then run_of (e # ds) else if d = e + 1 then Suc (run_of (e # ds)) else 1)"

fun best_run :: "int list \<Rightarrow> nat" where
  "best_run [] = 0"
| "best_run (d # ds) = max (run_of (d # ds)) (best_run ds)"

lemma run_of_pos: "ds \<noteq> [] \<Longrightarrow> 0 < run_of ds"
  by (induction ds rule: run_of.induct) auto

definition shows_days :: "(string \<Rightarrow> int option) \<Rightarrow> int list \<Rightarrow> 0 streak option \<Rightarrow> bool" where
  "shows_days day ds st =
     (case st of None \<Rightarrow> ds = []
      | Some s \<Rightarrow> ds \<noteq> [] \<and> day (lastTouchedISO s) = Some (hd ds) \<and> current s = Fin (of_nat (run_of ds))
          \<and> longest s = Fin (of_nat (best_run ds)))"

lemma touch_shows_days:
  assumes "shows_days day ds st" "day now_text = Some d"
  shows "shows_days day (d # ds) (snd (touchStreak day epoch st now_text))
    \<and> current (fst (touchStreak day epoch st now_text)) = Fin (of_nat (run_of (d # ds)))
    \<and> longest (fst (touchStreak day epoch st now_text)) = Fin (of_nat (best_run (d # ds)))"
proof (cases st)
  case None
  then show ?thesis using assms by (simp add: shows_days_def touchStreak_def readRaw_def emptyStreak_def Let_def)
next
  case (Some s)
  then obtain e es where ds: "ds = e # es" using assms(1) by (cases ds) (auto simp: shows_days_def)
  have s: "day (lastTouchedISO s) = Some e" "current s = Fin (of_nat (run_of ds))" "longest s = Fin (of_nat (best_run ds))"
    using assms(1) Some ds by (simp_all add: shows_days_def)
  have pos: "0 < run_of ds" using run_of_pos [of ds] ds by simp
  have best: "best_run (d # ds) = max (run_of (d # ds)) (best_run ds)" "run_of ds \<le> best_run ds" by (simp_all add: ds)
  have diff: "dayDiff day (lastTouchedISO s) now_text = (Fin (of_int (d - e)) :: exact)"
    by (simp add: dayDiff_def s(1) assms(2))
  show ?thesis using Some s pos best assms(2)
    by (auto simp: shows_days_def touchStreak_def readRaw_def Let_def diff ds exact_eval max_def of_nat_max)
qed

text \<open>C25: The streak counts consecutive days. Starting without a record, after visits on any days, in any
  order and any number on a day, the stored streak is the number of consecutive days that end with the last
  visit, and the longest streak is the greatest value the streak ever had.\<close>

theorem streak_counts_days:
  assumes "list_all2 (\<lambda>t d. day t = Some d) ts ds" "ds \<noteq> []"
  shows "\<exists>s. foldl (\<lambda>st t. snd (touchStreak day epoch st t)) None ts = Some (s :: 0 streak)
    \<and> current s = Fin (of_nat (run_of (rev ds))) \<and> longest s = Fin (of_nat (best_run (rev ds)))"
proof -
  have "shows_days day (rev ds) (foldl (\<lambda>st t. snd (touchStreak day epoch st t)) None ts)"
    using assms(1)
  proof (induction ts arbitrary: ds rule: rev_induct)
    case Nil
    then show ?case by (simp add: shows_days_def)
  next
    case (snoc t ts)
    then obtain ds' d where ds: "ds = ds' @ [d]" "list_all2 (\<lambda>t d. day t = Some d) ts ds'" "day t = Some d"
      by (auto simp: list_all2_append1 list_all2_Cons1)
    then show ?case using touch_shows_days [OF snoc.IH [OF ds(2)] ds(3)] by simp
  qed
  then show ?thesis using assms(2) by (auto simp: shows_days_def split: option.splits)
qed

theorem streak_counts_days_witness:
  "\<exists>s. foldl (\<lambda>st t. snd (touchStreak (\<lambda>t. Some (int (length t))) ''epoch'' st t)) None [''a'', ''ab'', ''ab'', ''abcd''] = Some (s :: 0 streak)
    \<and> current s = Fin 1 \<and> longest s = Fin 2"
  using streak_counts_days [of "\<lambda>t. Some (int (length t))" "[''a'', ''ab'', ''ab'', ''abcd'']" "[1, 2, 2, 4]" "''epoch''"] by simp

end
