(* ===== verification/Story.thy ===== *)
theory Story
  imports Types
begin

text \<open>
  \<^verbatim>\<open>packages/engine/src/data/story.ts\<close>: the authored case of the play page, six beats of three
  choices each, with the texts as they are.
\<close>

record 'p story =
  st_title :: string
  st_role :: string
  st_buyer :: string
  st_supplier :: string
  st_job :: string
  st_stakes :: string
  beats :: "'p beat list"

definition beat_open_forecast :: "('p::len0) beat" where
  "beat_open_forecast = \<lparr>beat_id = ''open-forecast'', week = 1, beat_title = ''Open with a forecast'',
     briefing = ''Your customer pulled demand forward by three months. The forecast is noisy, but the supplier wants a signal that your demand is real before reserving scarce capacity.'',
     decisionPrompt = ''What opening commitment do you send to Cinder?'',
     supplierPrivate = ''Cinder has some room, but not enough for every customer. A vague forecast asks them to hold risk for free.'',
     lesson = ''Long-lead buying starts before certainty. Your first commitment decides how much uncertainty you carry and how much you ask the supplier to absorb.'',
     choices =
      [\<lparr>ch_id = ''cautious-forecast'', ch_label = ''Send a cautious forecast'',
        ch_say = ''We may need capacity, but we are not ready to commit much yet.'',
        ch_upside = ''Protects your budget while demand is still uncertain.'',
        ch_risk = ''Cinder may reserve capacity for someone who sounds more committed.'',
        quantityMultiplier = lit 0.72, ch_infoMode = InfoPrivate, relationshipDelta = 1, coverageRiskDelta = lit 0.8,
        budgetPressureDelta = lit (- 0.2), privacyDelta = lit 0.05\<rparr>,
       \<lparr>ch_id = ''balanced-forecast'', ch_label = ''Send a balanced forecast band'',
        ch_say = ''Here is our expected range. We are not certain, but this is real demand.'',
        ch_upside = ''Gives Cinder enough signal without pretending the forecast is exact.'',
        ch_risk = ''You reveal more demand information than a pure bargaining stance would.'',
        quantityMultiplier = lit 0.98, ch_infoMode = ForecastBand, relationshipDelta = 1, coverageRiskDelta = lit 0.1,
        budgetPressureDelta = lit 0.1, privacyDelta = lit 0.25\<rparr>,
       \<lparr>ch_id = ''aggressive-forecast'', ch_label = ''Over-reserve to protect the launch'',
        ch_say = ''We need priority capacity. Assume the high end of demand.'',
        ch_upside = ''Reduces launch shortage risk if the pull-forward is real.'',
        ch_risk = ''Cinder sees a capacity grab and your CFO sees the budget spike.'',
        quantityMultiplier = lit 1.25, ch_infoMode = InfoPrivate, relationshipDelta = lit (- 1), coverageRiskDelta = lit (- 0.3),
        budgetPressureDelta = lit 0.6, privacyDelta = lit 0.05\<rparr>],
     beat_terms = [''long-lead planning'', ''information mode'']\<rparr>"

definition beat_counteroffer :: "('p::len0) beat" where
  "beat_counteroffer = \<lparr>beat_id = ''counteroffer'', week = lit 3, beat_title = ''Cinder counters'',
     briefing = ''Cinder offers a smaller capacity band at a premium. Another customer is trying to lock the same weeks.'',
     decisionPrompt = ''Do you pay for priority, push back, or hedge?'',
     supplierPrivate = ''Cinder can support you, but not if you ask them to carry all the optionality without compensation.'',
     lesson = ''A supplier counteroffer can be rational even when it feels adversarial.'',
     choices =
      [\<lparr>ch_id = ''accept-premium'', ch_label = ''Accept Cinder's premium'',
        ch_say = ''Reserve the capacity now. We will pay for priority.'',
        ch_upside = ''Improves coverage and signals seriousness.'',
        ch_risk = ''Raises budget pressure before demand is fully settled.'',
        quantityMultiplier = lit 1.02, ch_infoMode = CapacityBand, relationshipDelta = 1, coverageRiskDelta = lit (- 0.3),
        budgetPressureDelta = lit 0.7, privacyDelta = lit 0.15\<rparr>,
       \<lparr>ch_id = ''push-back'', ch_label = ''Push back on price'',
        ch_say = ''The quantity is real, but the premium is too high.'',
        ch_upside = ''Protects local margin if Cinder yields.'',
        ch_risk = ''Cinder may slow-walk you while allocating scarce capacity elsewhere.'',
        quantityMultiplier = 1, ch_infoMode = InfoPrivate, relationshipDelta = lit (- 1), coverageRiskDelta = lit 0.4,
        budgetPressureDelta = lit (- 0.1), privacyDelta = lit 0.05\<rparr>,
       \<lparr>ch_id = ''split-source'', ch_label = ''Hedge with a split-source option'',
        ch_say = ''We will lock part with you and keep a backup option.'',
        ch_upside = ''Reduces single-supplier exposure.'',
        ch_risk = ''Cinder hears less commitment and may give priority to another buyer.'',
        quantityMultiplier = lit 0.88, ch_infoMode = RiskOnly, relationshipDelta = 0, coverageRiskDelta = lit 0.2,
        budgetPressureDelta = lit 0.2, privacyDelta = lit 0.2\<rparr>],
     beat_terms = [''utility'', ''CBT'']\<rparr>"

definition beat_risk_evidence :: "('p::len0) beat" where
  "beat_risk_evidence = \<lparr>beat_id = ''risk-evidence'', week = lit 5, beat_title = ''Risk evidence drops'',
     briefing = ''A public filing-style note points to tighter advanced-packaging capacity and longer qualification cycles. Your old forecast assumed smoother supply.'',
     decisionPrompt = ''How do you use the new risk evidence?'',
     supplierPrivate = ''Cinder knows the bottleneck is real. They are watching whether you treat risk as shared planning data or as a bargaining chip.'',
     lesson = ''Risk evidence earns its keep when it changes a decision. A footnote that doesn't change the order is decoration.'',
     choices =
      [\<lparr>ch_id = ''increase-buffer'', ch_label = ''Add a risk buffer'',
        ch_say = ''The risk looks real. Reserve more while we still can.'',
        ch_upside = ''Improves launch protection.'',
        ch_risk = ''You may pay for units that demand does not need.'',
        quantityMultiplier = lit 1.14, ch_infoMode = RiskOnly, relationshipDelta = 0, coverageRiskDelta = lit (- 0.4),
        budgetPressureDelta = lit 0.5, privacyDelta = lit 0.1\<rparr>,
       \<lparr>ch_id = ''hold-line'', ch_label = ''Hold the line'',
        ch_say = ''Do not chase every signal. Keep the current ask.'',
        ch_upside = ''Avoids panic-buying.'',
        ch_risk = ''Underprices a real supply shock.'',
        quantityMultiplier = lit 0.96, ch_infoMode = InfoPrivate, relationshipDelta = lit (- 1), coverageRiskDelta = lit 0.5,
        budgetPressureDelta = lit (- 0.1), privacyDelta = lit 0.05\<rparr>,
       \<lparr>ch_id = ''ask-transparency'', ch_label = ''Ask for a capacity band'',
        ch_say = ''We will share forecast range if you share rough capacity.'',
        ch_upside = ''Better coordination without requiring full disclosure.'',
        ch_risk = ''Both sides reveal more than they would in a hard bargain.'',
        quantityMultiplier = lit 1.02, ch_infoMode = ForecastBand, relationshipDelta = 1, coverageRiskDelta = lit (- 0.1),
        budgetPressureDelta = lit 0.2, privacyDelta = lit 0.35\<rparr>],
     beat_terms = [''risk score'', ''information mode'']\<rparr>"

definition beat_oscillation :: "('p::len0) beat" where
  "beat_oscillation = \<lparr>beat_id = ''oscillation'', week = lit 7, beat_title = ''The negotiation oscillates'',
     briefing = ''Your team keeps asking for protection. Cinder keeps pulling quantity back toward a safer reservation. The number is bouncing instead of settling.'',
     decisionPrompt = ''How do you stabilize the negotiation?'',
     supplierPrivate = ''Cinder still wants the business. What they are refusing is unlimited uncertainty without a firmer commitment or a transfer to compensate them for carrying it.'',
     lesson = ''Averaging the asks doesn't produce agreement. If neither side can sign the result, the plan stays on paper instead of becoming an order.'',
     choices =
      [\<lparr>ch_id = ''offer-cbt'', ch_label = ''Offer a surplus transfer'',
        ch_say = ''Keep the physical plan and use money to split the burden fairly.'',
        ch_upside = ''Turns a fight over quantity into a clearer value-sharing problem.'',
        ch_risk = ''Requires both sides to trust the ledger enough to accept a transfer.'',
        quantityMultiplier = 1, ch_infoMode = CostBand, relationshipDelta = 1, coverageRiskDelta = lit (- 0.1),
        budgetPressureDelta = lit 0.3, privacyDelta = lit 0.25\<rparr>,
       \<lparr>ch_id = ''stand-firm'', ch_label = ''Stand firm'',
        ch_say = ''We need the launch-protecting quantity. Take it or leave it.'',
        ch_upside = ''Maximizes your local launch posture if Cinder folds.'',
        ch_risk = ''Can destroy joint value and trigger no-deal.'',
        quantityMultiplier = lit 1.2, ch_infoMode = InfoPrivate, relationshipDelta = lit (- 2), coverageRiskDelta = lit 0.6,
        budgetPressureDelta = 0, privacyDelta = 0\<rparr>,
       \<lparr>ch_id = ''reduce-scope'', ch_label = ''Reduce scope'',
        ch_say = ''Lower the ask and preserve the relationship.'',
        ch_upside = ''Makes agreement easier.'',
        ch_risk = ''Raises customer shortage exposure.'',
        quantityMultiplier = lit 0.82, ch_infoMode = CapacityBand, relationshipDelta = 1, coverageRiskDelta = lit 0.6,
        budgetPressureDelta = lit (- 0.2), privacyDelta = lit 0.15\<rparr>],
     beat_terms = [''residual'', ''ADMM'', ''CBT'']\<rparr>"

definition beat_demand_revision :: "('p::len0) beat" where
  "beat_demand_revision = \<lparr>beat_id = ''demand-revision'', week = lit 10, beat_title = ''Demand moves earlier'',
     briefing = ''The customer confirms demand, but the needed date moves two weeks earlier. Certainty arrived, but late.'',
     decisionPrompt = ''Do you firm the band, pay to expedite, or accept shortage exposure?'',
     supplierPrivate = ''Cinder can pull in some capacity only if the economics compensate for disrupting other customers.'',
     lesson = ''More certainty helps, but timing matters. Information that arrives after capacity disappears has lower value.'',
     choices =
      [\<lparr>ch_id = ''firm-band'', ch_label = ''Firm the forecast band'',
        ch_say = ''Convert the shared band into a firm reservation.'',
        ch_upside = ''Locks a credible plan.'',
        ch_risk = ''You give up optionality.'',
        quantityMultiplier = 1, ch_infoMode = ForecastBand, relationshipDelta = 1, coverageRiskDelta = lit (- 0.2),
        budgetPressureDelta = lit 0.2, privacyDelta = lit 0.2\<rparr>,
       \<lparr>ch_id = ''pay-expedite'', ch_label = ''Pay for expediting'',
        ch_say = ''Spend to pull the date in.'',
        ch_upside = ''Protects the launch window.'',
        ch_risk = ''Expediting can be locally rational and globally expensive.'',
        quantityMultiplier = lit 1.08, ch_infoMode = CostBand, relationshipDelta = 0, coverageRiskDelta = lit (- 0.5),
        budgetPressureDelta = lit 0.8, privacyDelta = lit 0.15\<rparr>,
       \<lparr>ch_id = ''accept-shortage'', ch_label = ''Accept some shortage exposure'',
        ch_say = ''Do not chase every unit. Protect margin.'',
        ch_upside = ''Preserves budget.'',
        ch_risk = ''Customer pain increases.'',
        quantityMultiplier = lit 0.84, ch_infoMode = InfoPrivate, relationshipDelta = 0, coverageRiskDelta = lit 0.9,
        budgetPressureDelta = lit (- 0.3), privacyDelta = 0\<rparr>],
     beat_terms = [''long-lead planning'', ''oracle gap'']\<rparr>"

definition beat_settle :: "('p::len0) beat" where
  "beat_settle = \<lparr>beat_id = ''settle'', week = lit 12, beat_title = ''Settle the plan'',
     briefing = ''Friday arrives. The CFO needs the plan. Cinder needs a signed commitment. Your customer needs confidence that launch supply is covered.'',
     decisionPrompt = ''What final posture do you take?'',
     supplierPrivate = ''Cinder will sign a balanced firm plan, tolerate a shared-risk option, or walk away from a one-sided demand.'',
     lesson = ''The final deal needs an operational plan and a participation proof: both parties should be no worse off than walking away.'',
     choices =
      [\<lparr>ch_id = ''settle-balanced'', ch_label = ''Settle balanced'',
        ch_say = ''Sign near the negotiated quantity and use CBT for the split.'',
        ch_upside = ''Best chance of mutual acceptance.'',
        ch_risk = ''Requires accepting that neither side gets its perfect local plan.'',
        quantityMultiplier = 1, ch_infoMode = ForecastBand, relationshipDelta = 1, coverageRiskDelta = lit (- 0.3),
        budgetPressureDelta = lit 0.2, privacyDelta = lit 0.1\<rparr>,
       \<lparr>ch_id = ''settle-hard'', ch_label = ''Push a hard final demand'',
        ch_say = ''Force the launch-protecting quantity through.'',
        ch_upside = ''Looks decisive locally.'',
        ch_risk = ''Can become globally brittle or trigger walk-away.'',
        quantityMultiplier = lit 1.22, ch_infoMode = InfoPrivate, relationshipDelta = lit (- 2), coverageRiskDelta = lit 0.4,
        budgetPressureDelta = 0, privacyDelta = 0\<rparr>,
       \<lparr>ch_id = ''settle-option'', ch_label = ''Settle with an option band'',
        ch_say = ''Keep flexibility and share risk.'',
        ch_upside = ''Preserves option value.'',
        ch_risk = ''May not fully protect the launch.'',
        quantityMultiplier = lit 0.9, ch_infoMode = CostBand, relationshipDelta = 0, coverageRiskDelta = lit 0.3,
        budgetPressureDelta = lit (- 0.1), privacyDelta = lit 0.2\<rparr>],
     beat_terms = [''utility'', ''CBT'', ''no worse off'']\<rparr>"

definition substrateCrunch :: "('p::len0) story" where
  "substrateCrunch = \<lparr>st_title = ''The Substrate Crunch'', st_role = ''Maya Chen, lead procurement planner'',
     st_buyer = ''Northstar Substrates'', st_supplier = ''Cinder Lithography Services'',
     st_job = ''Reserve enough long-lead capacity for an AI accelerator launch without overcommitting before demand is certain.'',
     st_stakes = ''If you wait for certainty, Cinder may allocate capacity elsewhere. If you overcommit, you spend budget and carry excess risk.'',
     beats = [beat_open_forecast,
       beat_counteroffer,
       beat_risk_evidence,
       beat_oscillation,
       beat_demand_revision,
       beat_settle]\<rparr>"

end
