(* ===== verification/PlayPage.thy ===== *)
theory PlayPage
  imports Story SimulationLaws
begin

text \<open>
  The play page of \<^verbatim>\<open>surfaces/sandbox/SandboxApp.tsx\<close> (\<^verbatim>\<open>PlaySurface\<close>): a beat, a phase, the scores and
  the results so far. The page offers the choices of the beat while briefing, the next week while
  revealing, and a restart at any time. A run refines a fold of the engine over the choices made, and
  the last round of the authored case is bounded in binary64.
\<close>

section \<open>The page\<close>

datatype playPhase = Briefing | Reveal | Finished

record 'p playState =
  beatIndex :: nat
  phase :: playPhase
  pl_scores :: "'p scoreState"
  pl_results :: "'p roundResult list"

definition open_play :: "('p::len0) playState" where
  "open_play = \<lparr>beatIndex = 0, phase = Briefing, pl_scores = initialScores, pl_results = []\<rparr>"

definition currentBeat :: "('p::len0) playState \<Rightarrow> 'p beat" where
  "currentBeat p = beats substrateCrunch ! beatIndex p"

definition play_choose :: "('p::len0) choice \<Rightarrow> 'p playState \<Rightarrow> 'p playState" where
  "play_choose ch p =
     (let result = evaluateRound (currentBeat p) ch (pl_scores p)
      in p\<lparr>pl_results := pl_results p @ [result], pl_scores := nextScores result,
           phase := (if beatIndex p = length (beats (substrateCrunch :: 'p story)) - 1 then Finished else Reveal)\<rparr>)"

definition continueToNextBeat :: "('p::len0) playState \<Rightarrow> 'p playState" where
  "continueToNextBeat p =
     p\<lparr>beatIndex := min (beatIndex p + 1) (length (beats (substrateCrunch :: 'p story)) - 1), phase := Briefing\<rparr>"

definition restart :: "('p::len0) playState \<Rightarrow> 'p playState" where
  "restart p = \<lparr>beatIndex = 0, phase = Briefing, pl_scores = initialScores, pl_results = []\<rparr>"

definition play_ending :: "('p::len0) playState \<Rightarrow> ending" where
  "play_ending p = detectEnding (pl_results p) (pl_scores p)"

text \<open>The buttons on the page in each phase.\<close>

inductive play_step :: "('p::len0) playState \<Rightarrow> 'p playState \<Rightarrow> bool" where
  choice: "phase p = Briefing \<Longrightarrow> ch \<in> set (choices (currentBeat p)) \<Longrightarrow> play_step p (play_choose ch p)"
| continue_: "phase p = Reveal \<Longrightarrow> pl_results p \<noteq> [] \<Longrightarrow> play_step p (continueToNextBeat p)"
| restart: "play_step p (restart p)"

inductive play_reachable :: "('p::len0) playState \<Rightarrow> bool" where
  start: "play_reachable open_play"
| step: "play_reachable p \<Longrightarrow> play_step p q \<Longrightarrow> play_reachable q"

section \<open>A run is a fold\<close>

text \<open>The rounds that the engine gives for choices made one after the other.\<close>

fun rounds :: "('p::len0) scoreState \<Rightarrow> 'p choice list \<Rightarrow> 'p beat list \<Rightarrow> 'p roundResult list" where
  "rounds sc (ch # chs) (b # bs) = evaluateRound b ch sc # rounds (scoreAfterChoice sc ch) chs bs"
| "rounds sc _ _ = []"

definition offered :: "('p::len0) choice list \<Rightarrow> bool" where
  "offered chs = (length chs \<le> length (beats (substrateCrunch :: 'p story))
     \<and> list_all2 (\<lambda>ch b. ch \<in> set (choices b)) chs (take (length chs) (beats substrateCrunch)))"

definition play_after :: "('p::len0) choice list \<Rightarrow> 'p playState \<Rightarrow> bool" where
  "play_after chs p =
     (pl_results p = rounds initialScores chs (beats substrateCrunch)
      \<and> pl_scores p = foldl scoreAfterChoice initialScores chs
      \<and> (case phase p of
           Briefing \<Rightarrow> beatIndex p = length chs \<and> length chs < length (beats (substrateCrunch :: 'p story))
         | Reveal \<Rightarrow> beatIndex p + 1 = length chs \<and> length chs < length (beats (substrateCrunch :: 'p story))
         | Finished \<Rightarrow> beatIndex p + 1 = length chs \<and> length chs = length (beats (substrateCrunch :: 'p story))))"

lemma six_beats [simp]: "length (beats substrateCrunch) = 6"
  by (simp add: substrateCrunch_def)

lemma nextScores_evaluateRound [simp]: "nextScores (evaluateRound b ch sc) = scoreAfterChoice sc ch"
  by (simp add: evaluateRound_def Let_def)

lemma rr_evaluateRound [simp]: "rr_beat (evaluateRound b ch sc) = b" "rr_choice (evaluateRound b ch sc) = ch"
  by (simp_all add: evaluateRound_def Let_def)

lemma rounds_snoc:
  "length chs < length bs \<Longrightarrow>
     rounds sc (chs @ [ch]) bs = rounds sc chs bs @ [evaluateRound (bs ! length chs) ch (foldl scoreAfterChoice sc chs)]"
proof (induction chs arbitrary: sc bs)
  case Nil then show ?case by (cases bs) auto
next
  case (Cons c cs) then show ?case by (cases bs) auto
qed

lemma length_rounds: "length chs \<le> length bs \<Longrightarrow> length (rounds sc chs bs) = length chs"
  by (induction sc chs bs rule: rounds.induct) auto

lemma offered_snoc:
  fixes chs :: "('p::len0) choice list"
  shows "length chs < 6 \<Longrightarrow> offered (chs @ [ch]) \<longleftrightarrow> offered chs \<and> ch \<in> set (choices (beats substrateCrunch ! length chs))"
  using list_all2_append [of chs "take (length chs) (beats (substrateCrunch :: 'p story))"]
  by (simp add: offered_def take_Suc_conv_app_nth)

lemma play_step_after:
  assumes "play_step p q" "offered chs" "play_after chs p"
  shows "\<exists>chs'. offered chs' \<and> play_after chs' q"
  using assms(1)
proof cases
  case (choice ch)
  with assms have n: "beatIndex p = length chs" "length chs < 6" by (simp_all add: play_after_def)
  have "offered (chs @ [ch])" using n assms(2) choice by (simp add: offered_snoc currentBeat_def)
  moreover have "play_after (chs @ [ch]) q"
    using n assms(3) choice by (auto simp: play_after_def play_choose_def currentBeat_def Let_def rounds_snoc)
  ultimately show ?thesis by blast
next
  case continue_
  then show ?thesis using assms(2,3) by (intro exI [of _ chs]) (auto simp: play_after_def continueToNextBeat_def)
next
  case restart
  then show ?thesis by (intro exI [of _ "[]"]) (simp add: play_after_def restart_def offered_def)
qed

lemma reachable_after: "play_reachable p \<Longrightarrow> \<exists>chs. offered chs \<and> play_after chs p"
proof (induction rule: play_reachable.induct)
  case start
  show ?case by (intro exI [of _ "[]"]) (simp add: play_after_def open_play_def offered_def)
next
  case (step p q) then show ?case using play_step_after by blast
qed

declare lit_numeral [simp]

section \<open>The settled quantity and the utilities\<close>

lemma final_asks:
  assumes "ch \<in> set (choices beat_settle)"
  shows "\<exists>a. jround (lit 500 * quantityMultiplier ch) = (Fin (of_int a) :: js) \<and> 449 \<le> a \<and> a \<le> 611"
proof -
  have "bounded_by 0.899 1.221 1" "bounded_by 0.899 1.221 (lit 1.22)" "bounded_by 0.899 1.221 (lit 0.9)"
    by code_simp+
  then have "bounded_by 0.899 1.221 (quantityMultiplier ch)"
    using assms by (auto simp: beat_settle_def)
  from bounded_times(2) [OF this, of 500 449 611] show ?thesis
    by (intro bounded_jround) simp_all
qed

lemma settled_range:
  assumes "449 \<le> a" "a \<le> 611" "280 \<le> c" "c \<le> 680"
  shows "\<exists>k. jround ((Fin (of_int a) * lit 0.52 + Fin (of_int c) * lit 0.48) / lit 5) * lit 5 = (Fin (of_int k) :: js)
    \<and> 365 \<le> k \<and> k \<le> 645"
proof -
  have c: "bounded_by 0.5199 0.5201 (lit 0.52)" "bounded_by 0.4799 0.4801 (lit 0.48)" by code_simp+
  have i: "bounded_by 449 611 (Fin (of_int a))" "bounded_by 280 680 (Fin (of_int c))"
    using assms of_int_le_iff [where 'a = rat, of 449 a] of_int_le_iff [where 'a = rat, of a 611]
      of_int_le_iff [where 'a = rat, of 280 c] of_int_le_iff [where 'a = rat, of c 680] by simp_all
  have "bounded_by (of_int 233) (of_int 318) (Fin (of_int a) * lit 0.52)"
    by (rule bounded_scale(1) [OF i(1) c(1)]) simp_all
  moreover have "bounded_by (of_int 134) (of_int 327) (Fin (of_int c) * lit 0.48)"
    by (rule bounded_scale(1) [OF i(2) c(2)]) simp_all
  ultimately have "bounded_by (of_int 367) (of_int 645) (Fin (of_int a) * lit 0.52 + Fin (of_int c) * lit 0.48)"
    by (rule bounded_add) simp_all
  then have "bounded_by (of_int 73) (of_int 129) ((Fin (of_int a) * lit 0.52 + Fin (of_int c) * lit 0.48) / Fin 5)"
    by (rule bounded_fifth) simp_all
  from bounded_jround [OF this] obtain k where
    "jround ((Fin (of_int a) * lit 0.52 + Fin (of_int c) * lit 0.48) / Fin 5) = (Fin (of_int k) :: js)" "73 \<le> k" "k \<le> 129"
    by auto
  moreover have "(lit (of_int (k * 5)) :: js) = Fin (of_int (k * 5))"
    using calculation by (intro lit_integer) simp
  ultimately show ?thesis by (intro exI [of _ "k * 5"]) simp
qed

lemma whole_lits:
  "(lit 500 :: js) = Fin (of_int 500)" "(lit 125 :: js) = Fin (of_int 125)" "(lit 55 :: js) = Fin (of_int 55)"
  "(lit 92 :: js) = Fin (of_int 92)" "(lit 7 :: js) = Fin (of_int 7)" "(lit 610 :: js) = Fin (of_int 610)"
  "(lit 34 :: js) = Fin (of_int 34)" "(lit 5 :: js) = Fin (of_int 5)" "(0 :: js) = Fin (of_int 0)"
  by simp_all

lemma buyer_part:
  assumes "365 \<le> k" "k \<le> 645"
  shows "lit 125 * jmin (Fin (of_int k)) (lit 500) - lit 55 * Fin (of_int k) - lit 92 * jmax 0 (lit 500 - Fin (of_int k))
      - lit 7 * jmax 0 (Fin (of_int k) - lit 500)
    = (Fin (of_int (125 * min k 500 - 55 * k - 92 * max 0 (500 - k) - 7 * max 0 (k - 500))) :: js)"
  using assms unfolding whole_lits
  by (simp add: whole_ops whole_max max_def min_def del: whole_unfold)

lemma supplier_part:
  assumes "365 \<le> k" "k \<le> 645"
  shows "(lit 55 - lit 34) * Fin (of_int k) - lit 5 * jmax 0 (lit 500 - Fin (of_int k))
    = (Fin (of_int (21 * k - 5 * max 0 (500 - k))) :: js)"
  using assms unfolding whole_lits
  by (simp add: whole_ops whole_max max_def min_def del: whole_unfold)

lemma over_part:
  assumes "365 \<le> k" "k \<le> 645"
  shows "bounded_by (of_int 0) (of_int (3 * max 0 (k - 610)))
    (jmax 0 (Fin (of_int k) - lit 610) * jmax 0 (Fin (of_int k) - lit 610) * (lit 0.07 :: js))"
proof -
  define j where "j = max 0 (k - 610)"
  have e: "jmax 0 (Fin (of_int k) - lit 610) = (Fin (of_int j) :: js)"
    using assms unfolding whole_lits j_def by (simp add: whole_ops whole_max del: whole_unfold)
  have j: "0 \<le> j" "j \<le> 35" using assms by (auto simp: j_def)
  then have "j * j \<le> 35 * j" by (intro mult_right_mono)
  then have q: "of_int (j * j) \<le> (35 * of_int j :: rat)"
    using of_int_le_iff [where 'a = rat, of "j * j" "35 * j"] by simp
  have "Fin (of_int j) * Fin (of_int j) = (Fin (of_int (j * j)) :: js)"
    using j \<open>j * j \<le> 35 * j\<close> by (intro whole_ops(1)) simp
  then have b: "bounded_by 0 (of_int (j * j)) (Fin (of_int j) * Fin (of_int j))"
    using j by (simp del: of_int_mult)
  have c: "bounded_by 0.0699 0.0701 (lit 0.07)" by code_simp
  have "of_int (j * j) * 0.0701 \<le> (of_int (3 * j) :: rat)" using q j by simp
  then show ?thesis unfolding e j_def [symmetric]
    using bounded_scale(1) [OF b c, of 0 "3 * j"] j by simp
qed

lemma scores_bounded:
  fixes sc :: "53 scoreState"
  assumes "scores_ok sc"
  shows "bounded_by (- 6) 8 (relationship sc)" "bounded_by 0 4.5 (coverageRisk sc)" "bounded_by 0 5 (budgetPressure sc)"
proof -
  have l: "(lit (- 6) :: js) = Fin (- 6)" "(lit 8 :: js) = Fin 8" "(lit (9 / 2) :: js) = Fin (9 / 2)" "(lit 5 :: js) = Fin 5"
    by code_simp+
  have c: "Fin a \<le> x \<Longrightarrow> x \<le> Fin b \<Longrightarrow> bounded_by a b x" for a b x by (cases x) auto
  show "bounded_by (- 6) 8 (relationship sc)" "bounded_by 0 4.5 (coverageRisk sc)" "bounded_by 0 5 (budgetPressure sc)"
    using assms by (auto simp: scores_ok_def inrange_def l intro!: c)
qed

lemma buyer_range:
  assumes "365 \<le> k" "k \<le> 645" "scores_ok sc"
  shows "bounded_by (of_int 9460) (of_int 35000) (buyerUtilityFor (Fin (of_int k)) sc)"
proof -
  note sc = scores_bounded [OF assms(3)]
  let ?n = "125 * min k 500 - 55 * k - 92 * max 0 (500 - k) - 7 * max 0 (k - 500)"
  have "13130 \<le> ?n" "?n \<le> 35000" using assms(1,2) by (auto simp: max_def min_def)
  then have "bounded_by 13130 35000 (Fin (of_int ?n))"
    using of_int_le_iff [where 'a = rat, of 13130 ?n] of_int_le_iff [where 'a = rat, of ?n 35000] by simp
  moreover have "bounded_by (of_int 0) (of_int 2070) (coverageRisk sc * lit 460)"
    using bounded_times(1) [OF sc(2), of 460 0 2070] by simp
  ultimately have "bounded_by (of_int 11060) (of_int 35000) (Fin (of_int ?n) - coverageRisk sc * lit 460)"
    by (rule bounded_diff) simp_all
  moreover have "bounded_by (of_int 0) (of_int 1600) (budgetPressure sc * lit 320)"
    using bounded_times(1) [OF sc(3), of 320 0 1600] by simp
  ultimately have "bounded_by (of_int 9460) (of_int 35000)
      (Fin (of_int ?n) - coverageRisk sc * lit 460 - budgetPressure sc * lit 320)"
    by (rule bounded_diff) simp_all
  then show ?thesis unfolding buyerUtilityFor_def Let_def buyer_part [OF assms(1,2)] .
qed

lemma supplier_range:
  assumes "365 \<le> k" "k \<le> 645" "scores_ok sc"
  shows "bounded_by (of_int 5010) (of_int 14505) (supplierUtilityFor (Fin (of_int k)) sc)"
proof -
  note sc = scores_bounded [OF assms(3)]
  let ?n = "21 * k - 5 * max 0 (500 - k)"
  let ?over = "jmax 0 (Fin (of_int k) - lit 610) * jmax 0 (Fin (of_int k) - lit 610) * lit 0.07 :: js"
  have n: "6990 + 3 * max 0 (k - 610) \<le> ?n" "?n \<le> 13545" using assms(1,2) by (auto simp: max_def)
  have "bounded_by (of_int ?n) (of_int ?n) (Fin (of_int ?n))" by simp
  from bounded_diff [OF this over_part [OF assms(1,2)], of 6990 13545]
  have "bounded_by (of_int 6990) (of_int 13545) (Fin (of_int ?n) - ?over)"
    using n of_int_le_iff [where 'a = rat, of "6990 + 3 * max 0 (k - 610)" ?n] of_int_le_iff [where 'a = rat, of ?n 13545]
    by simp
  moreover have "bounded_by (of_int 0) (of_int 1260) (coverageRisk sc * lit 280)"
    using bounded_times(1) [OF sc(2), of 280 0 1260] by simp
  ultimately have "bounded_by (of_int 5730) (of_int 13545) (Fin (of_int ?n) - ?over - coverageRisk sc * lit 280)"
    by (rule bounded_diff) simp_all
  moreover have "bounded_by (of_int (- 720)) (of_int 960) (relationship sc * lit 120)"
    using bounded_times(1) [OF sc(1), of 120 "- 720" 960] by simp
  ultimately have "bounded_by (of_int 5010) (of_int 14505)
      (Fin (of_int ?n) - ?over - coverageRisk sc * lit 280 + relationship sc * lit 120)"
    by (rule bounded_add) simp_all
  then show ?thesis unfolding supplierUtilityFor_def Let_def supplier_part [OF assms(1,2)] .
qed

section \<open>The last round\<close>

lemma last_round:
  fixes sc :: "53 scoreState"
  assumes "scores_ok sc" "ch \<in> set (choices beat_settle)"
  shows "Fin 0 < rr_surplus (evaluateRound b ch sc) \<and> transferFeasible (evaluateRound b ch sc)"
proof -
  have ok: "scores_ok (scoreAfterChoice sc ch)"
    using assms by (intro scoreAfterChoice_ok) (auto simp: beat_settle_def numeric_choice_def)
  obtain a where a: "jround (lit 500 * quantityMultiplier ch) = Fin (of_int a)" "449 \<le> a" "a \<le> 611"
    using final_asks [OF assms(2)] by blast
  have l: "(lit 280 :: js) = Fin 280" "(lit 680 :: js) = Fin 680" by simp_all
  have "Fin 280 \<le> supplierComfortQuantity ch sc" "supplierComfortQuantity ch sc \<le> Fin 680"
    using comfort_range [OF assms(1), of ch] unfolding inrange_def l by simp_all
  then have "bounded_by (of_int 280) (of_int 680) (supplierComfortQuantity ch sc)"
    by (cases "supplierComfortQuantity ch sc") simp_all
  from bounded_jround [OF this] obtain c where
    c: "supplierComfortQuantity ch sc = Fin (of_int c)" "280 \<le> c" "c \<le> 680"
    unfolding supplierComfortQuantity_def Let_def jround_jround by auto
  obtain k where k: "jround ((Fin (of_int a) * lit 0.52 + Fin (of_int c) * lit 0.48) / lit 5) * lit 5 = (Fin (of_int k) :: js)"
    "365 \<le> k" "k \<le> 645"
    using settled_range [OF a(2,3) c(2,3)] by blast
  let ?bu = "buyerUtilityFor (Fin (of_int k)) (scoreAfterChoice sc ch)"
  let ?su = "supplierUtilityFor (Fin (of_int k)) (scoreAfterChoice sc ch)"
  note bu = buyer_range [OF k(2,3) ok] and su = supplier_range [OF k(2,3) ok]
  have "bounded_by (of_int 14470) (of_int 49505) (?bu + ?su)"
    by (rule bounded_add [OF bu su]) simp_all
  then have "bounded_by (of_int 6070) (of_int 41105) (?bu + ?su - Fin 8400)"
    by (rule bounded_diff [where c = 8400 and d = 8400]) simp_all
  then have s: "bounded_by (of_int 870) (of_int 35905) (?bu + ?su - Fin 8400 - Fin 5200)"
    by (rule bounded_diff [where c = 5200 and d = 5200]) simp_all
  have f: "bounded_by 0.4199 0.4201 (lit 0.42)" "bounded_by 0.5799 0.5801 (lit 0.58)" by code_simp+
  have "bounded_by (of_int 365) (of_int 16000) ((?bu + ?su - Fin 8400 - Fin 5200) * lit 0.42)"
    by (rule bounded_scale(1) [OF s f(1)]) simp_all
  from bounded_add [OF bu this, of 9825 51000]
  have b: "bounded_by 9825 51000 (?bu + (?bu + ?su - Fin 8400 - Fin 5200) * lit 0.42)" by simp
  have "bounded_by (of_int 504) (of_int 21000) ((?bu + ?su - Fin 8400 - Fin 5200) * lit 0.58)"
    by (rule bounded_scale(1) [OF s f(2)]) simp_all
  from bounded_add [OF su this, of 5514 36000]
  have u: "bounded_by 5514 36000 (?su + (?bu + ?su - Fin 8400 - Fin 5200) * lit 0.58)" by simp
  have g: "bounded_by x y z \<Longrightarrow> w < x \<Longrightarrow> Fin w < z" "bounded_by x y z \<Longrightarrow> w < x \<Longrightarrow> Fin w \<le> z" for x y z w
    by (cases z; simp)+
  have h: "(lit 8400 :: js) = Fin 8400" "(lit 5200 :: js) = Fin 5200" by simp_all
  show ?thesis
    unfolding evaluateRound_def Let_def roundResult.simps a(1) c(1) k(1) h zero_jsnum_def
    using g(1) [OF s, of 0] g(2) [OF b, of 8400] g(2) [OF u, of 5200] by simp
qed

lemma authored_choices: "ch \<in> set (choices b) \<Longrightarrow> b \<in> set (beats substrateCrunch) \<Longrightarrow> numeric_choice ch"
  by (auto simp: substrateCrunch_def numeric_choice_def beat_open_forecast_def beat_counteroffer_def
      beat_risk_evidence_def beat_oscillation_def beat_demand_revision_def beat_settle_def)

lemma offered_numeric:
  assumes "offered chs" shows "\<forall>ch \<in> set chs. numeric_choice ch"
proof
  fix ch assume "ch \<in> set chs"
  then obtain i where i: "i < length chs" "ch = chs ! i" by (auto simp: in_set_conv_nth)
  with assms have "ch \<in> set (choices (beats substrateCrunch ! i))" "i < length (beats (substrateCrunch :: 'a story))"
    by (auto simp: offered_def list_all2_conv_all_nth)
  then show "numeric_choice ch" by (blast intro: authored_choices nth_mem)
qed

lemma last_beat: "beats substrateCrunch ! 5 = beat_settle"
  by (simp add: substrateCrunch_def)

lemma finished_run:
  fixes p :: "53 playState"
  assumes "play_reachable p" "phase p = Finished"
  shows "\<exists>ch sc. at_last (pl_results p) = Some (evaluateRound beat_settle ch sc)
    \<and> scores_ok sc \<and> ch \<in> set (choices beat_settle)"
proof -
  obtain chs where chs: "offered chs" "play_after chs p" using reachable_after [OF assms(1)] by blast
  then have n: "length chs = 6" using assms(2) by (simp add: play_after_def)
  then obtain cs ch where e: "chs = cs @ [ch]" "length cs = 5" by (cases chs rule: rev_cases) auto
  have "offered cs" "ch \<in> set (choices beat_settle)"
    using chs(1) e by (simp_all add: offered_snoc last_beat)
  moreover have "scores_ok (foldl scoreAfterChoice initialScores cs)"
    using play_ok [OF scores_ok_initial offered_numeric] calculation(1) .
  moreover have "at_last (pl_results p) = Some (evaluateRound beat_settle ch (foldl scoreAfterChoice initialScores cs))"
    using chs(2) e by (simp add: play_after_def rounds_snoc last_beat at_last_def)
  ultimately show ?thesis by blast
qed

text \<open>In every state the play page can reach, the results are the engine's rounds for choices
  that the authored beats offered, one after the other, the scores are the fold of these choices, and
  the phase says how many there are: as many as the beats before the present one while briefing, one
  more while revealing, all six when finished.\<close>

lemma play_is_a_fold:
  assumes "play_reachable p"
  shows "\<exists>chs. offered chs \<and> play_after chs p"
  using reachable_after [OF assms] .

definition pick :: "nat \<Rightarrow> ('p::len0) playState \<Rightarrow> 'p playState" where
  "pick i p = play_choose (choices (currentBeat p) ! i) p"

definition hard_line :: "('p::len0) playState" where
  "hard_line = foldl (\<lambda>p i. pick i (continueToNextBeat p)) (pick 2 open_play) [1, 1, 1, 2, 1]"

lemma pick_fields [simp]:
  "beatIndex (pick i p) = beatIndex p" "pl_results (pick i p) \<noteq> []"
  "phase (pick i p) = (if beatIndex p = 5 then Finished else Reveal)"
  "relationship (pl_scores (pick i p)) =
     clamp (relationship (pl_scores p) + relationshipDelta (choices (currentBeat p) ! i)) (lit (- 6)) (lit 8)"
  by (simp_all add: pick_def play_choose_def Let_def scoreAfterChoice_def)

lemma continue_fields [simp]:
  "beatIndex (continueToNextBeat p) = min (beatIndex p + 1) 5" "phase (continueToNextBeat p) = Briefing"
  "pl_scores (continueToNextBeat p) = pl_scores p"
  by (simp_all add: continueToNextBeat_def)

lemma reachable_pick:
  "play_reachable p \<Longrightarrow> phase p = Briefing \<Longrightarrow> i < length (choices (currentBeat p)) \<Longrightarrow> play_reachable (pick i p)"
  unfolding pick_def by (rule play_reachable.step) (auto intro: play_step.choice nth_mem)

lemma reachable_continue:
  "play_reachable p \<Longrightarrow> phase p = Reveal \<Longrightarrow> pl_results p \<noteq> [] \<Longrightarrow> play_reachable (continueToNextBeat p)"
  by (rule play_reachable.step) (auto intro: play_step.continue_)

lemmas beat_defs = beat_open_forecast_def beat_counteroffer_def beat_risk_evidence_def beat_oscillation_def
  beat_demand_revision_def beat_settle_def

lemma hard_line_reachable: "play_reachable hard_line" "phase hard_line = Finished"
proof -
  have o: "play_reachable open_play" "phase open_play = Briefing" "beatIndex open_play = 0"
    by (rule play_reachable.start) (simp_all add: open_play_def)
  show "play_reachable hard_line" unfolding hard_line_def
    by (simp, intro reachable_pick reachable_continue o)
      (simp_all add: o currentBeat_def substrateCrunch_def beat_defs)
  show "phase hard_line = Finished" by (simp add: hard_line_def o)
qed

theorem play_is_a_fold_witness: "\<exists>chs. offered chs \<and> play_after chs (hard_line :: 53 playState)"
  by (rule play_is_a_fold [OF hard_line_reachable(1)])


lemma hard_line_relationship: "relationship (pl_scores hard_line) \<le> (lit (- 3) :: js)"
proof -
  have "relationship (pl_scores hard_line) =
    foldl (\<lambda>x d. clamp (x + d) (lit (- 6)) (lit 8)) (0 :: js) [lit (- 1), lit (- 1), lit (- 1), lit (- 2), 0, lit (- 2)]"
    by (simp add: hard_line_def open_play_def initialScores_def currentBeat_def substrateCrunch_def beat_defs)
  also have "\<dots> \<le> lit (- 3)" by code_simp
  finally show ?thesis .
qed


text \<open>The opening over-reservation is worth far more than the \<open>oracle\<close> allows, and its gap reads 0.\<close>

lemma oracle_outdone:
  "let r = evaluateRound beat_open_forecast (choices beat_open_forecast ! 2) initialScores :: 53 roundResult
   in oracleUtilityFor (nextScores r) InfoPrivate < rr_globalUtility r \<and> rr_oracleGap r = 0"
  by code_simp

end
