(* ===== verification/LabPage.thy ===== *)
theory LabPage
  imports SimulationLaws SupplierRisk RunReport Views CsvImport ChipMap
begin

text \<open>
  The lab page of \<^verbatim>\<open>surfaces/sandbox/SandboxApp.tsx\<close> (\<^verbatim>\<open>LabSurface\<close>) with the panels that change its
  scenario: the sliders, the participant builder (\<^verbatim>\<open>ParticipantBuilder.tsx\<close>), the CSV and bridge
  panels, the scenario panel and the run report panel. The clock is an argument, and the page's state is
  explicit. The lemmas say which controls leave a scenario that the schema still accepts.
\<close>

section \<open>The participant builder\<close>

text \<open>\<^verbatim>\<open>name.toLowerCase()\<close>, of which only the letters A to Z matter, since every other character
  outside a-z and 0-9 becomes a dash.\<close>

definition lower_char :: "char \<Rightarrow> char" where
  "lower_char c = (if CHR ''A'' \<le> c \<and> c \<le> CHR ''Z'' then char_of (of_char c + 32 :: nat) else c)"

definition slug_char :: "char \<Rightarrow> bool" where
  "slug_char c = (CHR ''a'' \<le> c \<and> c \<le> CHR ''z'' \<or> CHR ''0'' \<le> c \<and> c \<le> CHR ''9'')"

function squeeze :: "string \<Rightarrow> string" where
  "squeeze [] = []"
| "squeeze (c # cs) =
     (if slug_char c then c # squeeze cs else CHR ''-'' # squeeze (dropWhile (\<lambda>d. \<not> slug_char d) cs))"
  by pat_completeness auto
termination
  by (relation "measure length") (auto simp: length_dropWhile_le le_imp_less_Suc)

definition strip_dashes :: "string \<Rightarrow> string" where
  "strip_dashes s = rev (dropWhile (\<lambda>c. c = CHR ''-'') (rev (dropWhile (\<lambda>c. c = CHR ''-'') s)))"

definition id_base :: "string \<Rightarrow> string" where
  "id_base name =
     (let b = take 24 (strip_dashes (squeeze (map lower_char name))) in if b = [] then ''participant'' else b)"

partial_function (option) free_number :: "string \<Rightarrow> string list \<Rightarrow> nat \<Rightarrow> string option" where
  "free_number base taken n =
     (if base @ ''-'' @ nat_text n \<in> set taken then free_number base taken (n + 1)
      else Some (base @ ''-'' @ nat_text n))"

definition makeIdFromName :: "string \<Rightarrow> string list \<Rightarrow> string option" where
  "makeIdFromName name taken =
     (let base = id_base name in if base \<notin> set taken then Some base else free_number base taken 2)"

definition instantiate :: "'p strategy \<Rightarrow> string list \<Rightarrow> 'p participant option" where
  "instantiate st taken =
     map_option (\<lambda>i. \<lparr>p_id = i, p_role = strategy_role st, p_name = strategy_shortName st, strategyId = strategy_id st,
       reliability = defaultReliability st, capacity = defaultCapacity st, outsideOption = defaultOutsideOption st,
       parameters = defaultParameters st\<rparr>) (makeIdFromName (strategy_shortName st) taken)"

text \<open>A handler returns the list it hands to the page, if it does; a loop that never ends would be the
  outer \<open>None\<close>.\<close>

datatype 'p builderAction = Add "'p strategy" | Remove string

fun builder :: "'p builderAction \<Rightarrow> 'p participant list \<Rightarrow> 'p participant list option option" where
  "builder (Add st) ps =
     (if 8 \<le> length ps then Some None
      else map_option (\<lambda>p. Some (ps @ [p])) (instantiate st (map p_id ps)))"
| "builder (Remove i) ps =
     (if length ps \<le> 2 then Some None else Some (Some (filter (\<lambda>p. p_id p \<noteq> i) ps)))"

definition strategies_shown :: "participantRole option \<Rightarrow> ('p::len0) strategy list" where
  "strategies_shown role_filter =
     (case role_filter of None \<Rightarrow> strategies | Some r \<Rightarrow> filter (\<lambda>s. strategy_role s = r) strategies)"

section \<open>The sliders\<close>

datatype knob =
  Volatility | CapacityTightness | LeadTime | Centers | Parties | Products | Periods | BuyerReliability
| SupplierReliability | BuyerUrgency | SupplierFlexibility | Truthfulness | PrivacyPreference | RiskAversion
| Alpha | Epsilon

text \<open>The least and the greatest position, and whether the step is 1.\<close>

fun knob_range :: "knob \<Rightarrow> rat \<times> rat \<times> bool" where
  "knob_range Volatility = (0.05, 0.6, False)"
| "knob_range CapacityTightness = (0.2, 1, False)"
| "knob_range LeadTime = (2, 24, True)"
| "knob_range Centers = (1, 8, True)"
| "knob_range Parties = (2, 5, True)"
| "knob_range Products = (1, 4, True)"
| "knob_range Periods = (1, 6, True)"
| "knob_range Epsilon = (0, 0.12, False)"
| "knob_range _ = (0, 1, False)"

fun set_knob :: "knob \<Rightarrow> 'p jsnum \<Rightarrow> 'p labScenario \<Rightarrow> 'p labScenario" where
  "set_knob Volatility v s = s\<lparr>volatility := v\<rparr>"
| "set_knob CapacityTightness v s = s\<lparr>capacityTightness := v\<rparr>"
| "set_knob LeadTime v s = s\<lparr>leadTimeWeeks := v\<rparr>"
| "set_knob Centers v s = s\<lparr>fulfillmentCenterCount := v\<rparr>"
| "set_knob Parties v s = s\<lparr>participantCount := v\<rparr>"
| "set_knob Products v s = s\<lparr>productCount := v\<rparr>"
| "set_knob Periods v s = s\<lparr>periodCount := v\<rparr>"
| "set_knob BuyerReliability v s = s\<lparr>buyerReliability := v\<rparr>"
| "set_knob SupplierReliability v s = s\<lparr>supplierReliability := v\<rparr>"
| "set_knob BuyerUrgency v s = s\<lparr>customBuyerUrgency := v\<rparr>"
| "set_knob SupplierFlexibility v s = s\<lparr>customSupplierFlexibility := v\<rparr>"
| "set_knob Truthfulness v s = s\<lparr>customTruthfulness := v\<rparr>"
| "set_knob PrivacyPreference v s = s\<lparr>customPrivacyPreference := v\<rparr>"
| "set_knob RiskAversion v s = s\<lparr>customRiskAversion := v\<rparr>"
| "set_knob Alpha v s = s\<lparr>alpha := v\<rparr>"
| "set_knob Epsilon v s = s\<lparr>epsilon := v\<rparr>"

text \<open>A value the range input can have.\<close>

definition position :: "knob \<Rightarrow> ('p::len0) jsnum \<Rightarrow> bool" where
  "position k v = (case knob_range k of (lo, hi, stepped) \<Rightarrow> z_range lo hi v \<and> (stepped \<longrightarrow> z_int v))"

section \<open>The page\<close>

record 'p labState =
  lab_scenario :: "'p labScenario"
  selectedPlanId :: string
  lab_audit :: bool
  lab_view :: viewMode
  lab_evidence :: "'p evidence option"
  importSummary :: "'p importResult option"
  graphOpen :: bool

definition open_lab :: "('p::len0) labState" where
  "open_lab = \<lparr>lab_scenario = makeScenario no_patch, selectedPlanId = [], lab_audit = False, lab_view = CoordinatorView,
     lab_evidence = None, importSummary = None, graphOpen = False\<rparr>"

definition plain_tag :: "string \<Rightarrow> provenanceSource \<Rightarrow> dataProvenance" where
  "plain_tag now_text src = tag now_text src None None None"

definition clamp_count :: "nat \<Rightarrow> ('p::len0) jsnum" where
  "clamp_count n = jmin (lit 8) (jmax (lit 2) (of_count n))"

definition applyPreset :: "string \<Rightarrow> string \<Rightarrow> ('p::len0) labState \<Rightarrow> 'p labState" where
  "applyPreset now_text preset l =
     l\<lparr>lab_scenario := makeScenario (no_patch\<lparr>q_presetId := Some preset\<rparr>)\<lparr>provenance := Some (plain_tag now_text Synthetic)\<rparr>,
       selectedPlanId := [], lab_evidence := None, importSummary := None\<rparr>"

definition applySplitRule :: "splitRule \<Rightarrow> 'p labState \<Rightarrow> 'p labState" where
  "applySplitRule r l = l\<lparr>lab_scenario := (lab_scenario l)\<lparr>splitRule := Some r\<rparr>\<rparr>"

definition slide :: "knob \<Rightarrow> 'p jsnum \<Rightarrow> 'p labState \<Rightarrow> 'p labState" where
  "slide k v l =
     (let m = l\<lparr>lab_scenario := set_knob k v (lab_scenario l)\<rparr> in if k = Epsilon then m\<lparr>selectedPlanId := []\<rparr> else m)"

definition applyImport :: "string \<Rightarrow> 'p importResult \<Rightarrow> ('p::len0) labState \<Rightarrow> 'p labState" where
  "applyImport now_text r l =
     (case im_seed r of
        None \<Rightarrow> l
      | Some seed \<Rightarrow> if \<not> im_ok r then l else
          l\<lparr>importSummary := Some r,
            lab_scenario := (lab_scenario l)
              \<lparr>participantCount := clamp_count (length (derivedParticipants seed)),
               participants := Some (take 8 (derivedParticipants seed)),
               provenance := Some (tag now_text CsvImported
                 (Some (''csv-'' @ nat_text (length (sd_rows seed)) @ ''-rows'')) None
                 (Some (''CSV import: '' @ nat_text (length (sd_rows seed)) @ '' row(s), '' @ nat_text (length (buyerIds seed))
                   @ '' buyer(s), '' @ nat_text (length (supplierIds seed)) @ '' supplier(s)'')))\<rparr>\<rparr>)"

definition merged :: "string \<Rightarrow> dataProvenance option \<Rightarrow> dataProvenance \<Rightarrow> dataProvenance option" where
  "merged now_text old add = Some (mergeProvenance (nullish old (plain_tag now_text Synthetic)) add)"

definition applyChipMapSeed :: "string \<Rightarrow> 'p chipMapSeed \<Rightarrow> ('p::len0) labState \<Rightarrow> 'p labState" where
  "applyChipMapSeed now_text seed l =
     l\<lparr>lab_scenario := (lab_scenario l)
         \<lparr>participantCount := clamp_count (length (cs_participants seed)),
          participants := Some (take 8 (cs_participants seed)),
          provenance := merged now_text (provenance (lab_scenario l)) (cs_provenance seed)\<rparr>\<rparr>"

definition applyRiskEvidence :: "string \<Rightarrow> 'p evidence \<Rightarrow> 'p labState \<Rightarrow> 'p labState" where
  "applyRiskEvidence now_text attachment l =
     l\<lparr>lab_evidence := Some attachment,
       lab_scenario := (lab_scenario l)
         \<lparr>provenance := merged now_text (provenance (lab_scenario l)) (ev_provenance attachment)\<rparr>\<rparr>"

definition with_participants :: "'p participant list \<Rightarrow> ('p::len0) labScenario \<Rightarrow> 'p labScenario" where
  "with_participants updated s =
     s\<lparr>participants := Some (take 8 updated), participantCount := clamp_count (length updated)\<rparr>"

definition applyParticipantChange :: "'p participant list \<Rightarrow> ('p::len0) labState \<Rightarrow> 'p labState" where
  "applyParticipantChange updated l = l\<lparr>lab_scenario := with_participants updated (lab_scenario l)\<rparr>"

definition applyScenarioLoad :: "string \<Rightarrow> 'p labScenario \<Rightarrow> 'p labState \<Rightarrow> 'p labState" where
  "applyScenarioLoad now_text loaded l =
     l\<lparr>lab_scenario := loaded\<lparr>provenance := Some (nullish (provenance loaded) (plain_tag now_text UserImported))\<rparr>,
       selectedPlanId := [], lab_evidence := None, importSummary := None\<rparr>"

definition replayed :: "string \<Rightarrow> ('p::len0) runReport \<Rightarrow> 'p labScenario" where
  "replayed now_text r =
     (let rebuilt = makeScenario (patch_of (rep_scenario r))
      in rebuilt\<lparr>alpha := par_alpha (rep_parameters r), epsilon := par_epsilon (rep_parameters r),
           splitRule := Some (nullish (par_splitRule (rep_parameters r)) Proportional),
           provenance := Some (nullish (or_else (rep_provenance r) (provenance rebuilt)) (plain_tag now_text UserImported))\<rparr>)"

definition applyReplay :: "string \<Rightarrow> ('p::len0) runReport \<Rightarrow> 'p labState \<Rightarrow> 'p labState" where
  "applyReplay now_text r l =
     l\<lparr>lab_scenario := replayed now_text r, lab_audit := auditMode (rep_parameters r), selectedPlanId := []\<rparr>"

text \<open>The effect that leaves the seat of a participant who is gone.\<close>

definition view_effect :: "('p::len0) labState \<Rightarrow> 'p labState" where
  "view_effect l =
     (case lab_view l of
        CoordinatorView \<Rightarrow> l
      | PartyView _ i \<Rightarrow>
          if List.find (\<lambda>p. p_id p = i) (deriveParticipants (lab_scenario l)) = None
          then l\<lparr>lab_view := CoordinatorView\<rparr> else l)"

definition selectedPlan :: "'p frontierPlan list \<Rightarrow> 'p labState \<Rightarrow> 'p frontierPlan option" where
  "selectedPlan fplans l =
     or_else (List.find (\<lambda>plan. fp_id plan = selectedPlanId l) fplans) (case fplans of [] \<Rightarrow> None | p # _ \<Rightarrow> Some p)"

section \<open>Fresh ids\<close>

lemma free_number_fresh:
  assumes "base @ ''-'' @ nat_text m \<notin> set taken" "n \<le> m"
  shows "\<exists>k. n \<le> k \<and> k \<le> m \<and> free_number base taken n = Some (base @ ''-'' @ nat_text k)
    \<and> base @ ''-'' @ nat_text k \<notin> set taken"
  using assms(2)
proof (induction "m - n" arbitrary: n)
  case 0
  then show ?case using assms(1) by (subst free_number.simps) auto
next
  case (Suc d)
  show ?case
  proof (cases "base @ ''-'' @ nat_text n \<in> set taken")
    case True
    then have "n + 1 \<le> m" "d = m - (n + 1)" using Suc.hyps(2) Suc.prems by auto
    with Suc.hyps(1) [of "n + 1"] obtain k where "n + 1 \<le> k" "k \<le> m"
      "free_number base taken (n + 1) = Some (base @ ''-'' @ nat_text k)" "base @ ''-'' @ nat_text k \<notin> set taken" by blast
    then show ?thesis using True by (intro exI [of _ k]) (subst free_number.simps, simp)
  qed (use Suc.prems in \<open>subst free_number.simps, auto\<close>)
qed

lemma some_number_free: "\<exists>m \<ge> 2. base @ ''-'' @ nat_text m \<notin> set taken \<and> m \<le> length taken + 2"
proof (rule ccontr)
  assume "\<not> ?thesis"
  then have "(\<lambda>m. base @ ''-'' @ nat_text m) ` {2..length taken + 2} \<subseteq> set taken" by auto
  then have "card ((\<lambda>m. base @ ''-'' @ nat_text m) ` {2..length taken + 2}) \<le> card (set taken)"
    by (intro card_mono) auto
  moreover have "inj_on (\<lambda>m. base @ ''-'' @ nat_text m) {2..length taken + 2}"
    by (rule inj_onI) (simp add: nat_text_inj)
  ultimately show False using card_length [of taken] by (simp add: card_image)
qed

lemma id_base_nonempty [simp]: "id_base name \<noteq> []"
  by (simp add: id_base_def Let_def)

text \<open>The search for an id ends for every name and every list of ids in use, with a new one.\<close>

lemma fresh_id: "\<exists>i. makeIdFromName name taken = Some i \<and> i \<notin> set taken \<and> i \<noteq> []"
proof (cases "id_base name \<in> set taken")
  case True
  obtain m where "2 \<le> m" "id_base name @ ''-'' @ nat_text m \<notin> set taken" using some_number_free by blast
  from free_number_fresh [OF this(2,1)] show ?thesis using True by (auto simp: makeIdFromName_def)
qed (simp add: makeIdFromName_def)

section \<open>Controls and the schema\<close>

lemma clamp_count_js:
  assumes "2 \<le> n" "n \<le> 8" shows "clamp_count n = (of_count n :: js)"
proof -
  have m: "of_nat 2 \<le> (of_nat n :: rat)" "of_nat n \<le> (of_nat 8 :: rat)" using assms by (simp_all only: of_nat_le_iff)
  then have "(lit 2 :: js) \<le> of_count n" "of_count n \<le> (lit 8 :: js)"
    unfolding of_count_def by (auto intro!: lit_mono)
  then show ?thesis unfolding clamp_count_def by (simp add: jmax_absorb jmin_absorb)
qed

lemma count_ok:
  assumes "2 \<le> n" "n \<le> 8"
  shows "z_int (of_count n :: js)" "z_range 2 8 (of_count n :: js)" "js_eq (of_count n :: js) (of_count n)"
proof -
  have m: "of_nat 2 \<le> (of_nat n :: rat)" "of_nat n \<le> (of_nat 8 :: rat)" using assms by (simp_all only: of_nat_le_iff)
  show "z_int (of_count n :: js)" using assms z_int_lit [of n] by (simp add: of_count_def)
  show r: "z_range 2 8 (of_count n :: js)" unfolding of_count_def using m by (intro z_range_lit) auto
  show "js_eq (of_count n :: js) (of_count n)" by (simp add: js_eq_def of_count_def)
qed

definition has_buyer :: "'p participant list \<Rightarrow> bool" where
  "has_buyer ps = (\<exists>p \<in> set ps. p_role p = Buyer)"

lemma superRefine_iff:
  "superRefine f s = [] \<longleftrightarrow> (case participants s of None \<Rightarrow> True
     | Some ps \<Rightarrow> js_eq (of_count (length ps)) (participantCount s) \<and> has_buyer ps)"
  by (auto simp: superRefine_def has_buyer_def filter_empty_conv Suc_le_eq split: option.splits)

lemma accepted_with_participants:
  fixes s :: "53 labScenario"
  assumes "scenario_accepted s" "list_all participantSchema ps" "2 \<le> length ps" "length ps \<le> 8"
  shows "scenario_accepted (with_participants ps s) \<longleftrightarrow> has_buyer ps"
  using assms count_ok [of "length ps"]
  by (simp add: scenario_accepted_def scenario_fields_ok_def with_participants_def superRefine_iff clamp_count_js)

lemma z_min_lit: "a \<le> r \<Longrightarrow> \<bar>r\<bar> \<le> 2 ^ 20 \<Longrightarrow> z_min a (lit r :: ('p::len0) jsnum)"
  using mag_lit [of r 20, where 'p = 'p] lit_mono [of a r, where 'p = 'p] by (simp add: z_min_def mag_is_fin)

lemma z_range_one: "z_range 0 1 (Fin 1 :: ('p::len0) jsnum)"
  using z_range_lit [of 0 1 1, where 'p = 'p] by simp

lemma strategy_schema: "st \<in> set (strategies :: 53 strategy list) \<Longrightarrow>
   strategy_id st \<noteq> [] \<and> strategy_shortName st \<noteq> [] \<and> z_range 0 1 (defaultReliability st)
   \<and> (case defaultCapacity st of None \<Rightarrow> True | Some c \<Rightarrow> z_min 0 c)
   \<and> (case defaultOutsideOption st of None \<Rightarrow> True | Some c \<Rightarrow> z_min 0 c)
   \<and> agentParametersSchema (defaultParameters st)"
  by (auto simp: strategies_def strategy_launch_protector_buyer_def strategy_jit_buyer_def strategy_capacity_guard_supplier_def strategy_relationship_supplier_def strategy_yield_optimizer_supplier_def strategy_packager_cowos_def strategy_logistics_customs_def strategy_distributor_channel_def strategy_neutral_coordinator_def strategy_custom_bargainer_def agentParametersSchema_def intro!: z_range_lit z_min_lit z_range_one)

lemma instantiate_ok:
  assumes "st \<in> set (strategies :: 53 strategy list)"
  shows "\<exists>p. instantiate st taken = Some p \<and> participantSchema p \<and> p_id p \<notin> set taken \<and> p_role p = strategy_role st"
proof -
  obtain i where "makeIdFromName (strategy_shortName st) taken = Some i" "i \<notin> set taken" "i \<noteq> []"
    using fresh_id by blast
  then show ?thesis using strategy_schema [OF assms]
    by (auto simp: instantiate_def participantSchema_def split: option.splits)
qed

lemma length_remove:
  assumes "distinct (map f xs)" shows "length xs \<le> Suc (length (filter (\<lambda>x. f x \<noteq> i) xs))"
  using assms
proof (induction xs)
  case (Cons x xs)
  show ?case
  proof (cases "f x = i")
    case True
    then have "filter (\<lambda>y. f y \<noteq> i) xs = xs" using Cons.prems by (intro filter_True) (metis distinct.simps(2) imageI list.set_map list.simps(9))
    then show ?thesis by simp
  qed (use Cons in simp)
qed simp

lemma builder_result:
  fixes ps :: "53 participant list"
  assumes "builder a ps = Some (Some qs)" "distinct (map p_id ps)" "list_all participantSchema ps" "2 \<le> length ps" "length ps \<le> 8"
    "\<And>st. a = Add st \<Longrightarrow> st \<in> set strategies"
  shows "distinct (map p_id qs) \<and> list_all participantSchema qs \<and> 2 \<le> length qs \<and> length qs \<le> 8"
proof (cases a)
  case (Add st)
  then obtain p where "instantiate st (map p_id ps) = Some p" "participantSchema p" "p_id p \<notin> set (map p_id ps)"
    using assms(6) instantiate_ok by blast
  then show ?thesis using assms Add by (auto split: if_splits)
next
  case (Remove i)
  then show ?thesis
    using assms length_remove [OF assms(2), of i]
    by (auto simp: list_all_iff distinct_map inj_on_def le_trans [OF length_filter_le] split: if_splits)
qed

text \<open>C30: In a scenario the schema accepts, with distinct ids, a builder action that does something
  leaves distinct ids and between two and eight parties that the schema accepts, and the new scenario is
  accepted exactly if a buyer is left.\<close>

theorem builder_keeps_scenario:
  fixes s :: "53 labScenario"
  assumes "scenario_accepted s" "participants s = Some ps" "distinct (map p_id ps)"
    "builder a ps = Some (Some qs)" "\<forall>st. a = Add st \<longrightarrow> st \<in> set strategies"
  shows "distinct (map p_id qs) \<and> (scenario_accepted (with_participants qs s) \<longleftrightarrow> has_buyer qs)"
proof -
  have "list_all participantSchema ps" "2 \<le> length ps" "length ps \<le> 8"
    using assms(1,2) by (simp_all add: scenario_accepted_def scenario_fields_ok_def)
  from builder_result [OF assms(4,3) this] assms(5)
  have "distinct (map p_id qs)" "list_all participantSchema qs" "2 \<le> length qs" "length qs \<le> 8" by blast+
  then show ?thesis using accepted_with_participants [OF assms(1)] by blast
qed

definition demo_party :: "string \<Rightarrow> participantRole \<Rightarrow> 53 participant" where
  "demo_party i r = \<lparr>p_id = i, p_role = r, p_name = i, strategyId = ''jit-buyer'', reliability = lit 0.9, capacity = None,
     outsideOption = None, parameters = \<lparr>urgency = lit 0.5, flexibility = lit 0.5, truthfulness = lit 0.5,
       privacyPreference = lit 0.5, riskAversion = lit 0.5\<rparr>\<rparr>"

definition demo_parties :: "53 participant list" where
  "demo_parties = [demo_party ''b'' Buyer, demo_party ''s'' Supplier, demo_party ''t'' Supplier]"

lemma demo_accepted: "scenario_accepted (with_participants demo_parties standard)"
proof -
  have "scenario_accepted (standard :: 53 labScenario)" using lab_ok_standard by (simp add: lab_ok_def)
  moreover have "list_all participantSchema demo_parties"
    by (simp add: demo_parties_def demo_party_def participantSchema_def agentParametersSchema_def z_range_lit)
  ultimately show ?thesis
    using accepted_with_participants [of standard demo_parties]
    by (simp add: demo_parties_def has_buyer_def demo_party_def)
qed

text \<open>The builder removes the only buyer, and the page is left with a scenario the schema refuses.\<close>

theorem builder_keeps_scenario_witness:
  "\<not> scenario_accepted (with_participants [demo_party ''s'' Supplier, demo_party ''t'' Supplier]
      (with_participants demo_parties standard))"
proof -
  have "builder (Remove ''b'') demo_parties = Some (Some [demo_party ''s'' Supplier, demo_party ''t'' Supplier])"
    by (simp add: demo_parties_def demo_party_def)
  from builder_keeps_scenario [OF demo_accepted _ _ this] show ?thesis
    by (simp add: with_participants_def has_buyer_def) (simp add: demo_parties_def demo_party_def)
qed

lemma z_range_weaken: "z_range a b v \<Longrightarrow> c \<le> a \<Longrightarrow> b \<le> d \<Longrightarrow> z_range c d v" for v :: "('p::len0) jsnum"
  unfolding z_range_def using lit_mono [of c a, where 'p = 'p] lit_mono [of b d, where 'p = 'p] num_trans by blast

lemma set_knob_keeps [simp]: "participants (set_knob k v s) = participants s"
  by (cases k) simp_all

lemma slider_fields:
  assumes "scenario_fields_ok s" "position k v"
  shows "scenario_fields_ok (set_knob k v s)"
  using assms by (cases k) (auto simp: scenario_fields_ok_def position_def elim: z_range_weaken)

text \<open>C29: Moving a slider keeps a scenario that the schema accepts accepted, but for one: the slider
  of the participants, in a scenario that lists its parties, unless it is left at their number.\<close>

theorem slider_keeps_scenario:
  assumes "scenario_accepted s" "position k v"
  shows "scenario_accepted (set_knob k v s) \<longleftrightarrow>
    (k = Parties \<longrightarrow> (case participants s of None \<Rightarrow> True | Some ps \<Rightarrow> js_eq (of_count (length ps)) v))"
proof -
  have "superRefine f (set_knob k v s) = [] \<longleftrightarrow>
      (k = Parties \<longrightarrow> (case participants s of None \<Rightarrow> True | Some ps \<Rightarrow> js_eq (of_count (length ps)) v))" for f
    using assms(1) unfolding scenario_accepted_def superRefine_iff
    by (cases k) (auto split: option.splits)
  moreover have "scenario_fields_ok (set_knob k v s)"
    using assms(1) slider_fields [OF _ assms(2)] by (simp add: scenario_accepted_def)
  ultimately show ?thesis by (simp add: scenario_accepted_def)
qed

theorem slider_keeps_scenario_witness:
  "\<not> scenario_accepted (set_knob Parties (lit 5) (with_participants demo_parties standard))"
proof -
  have "position Parties (lit 5 :: js)"
    using z_int_lit [of 5] z_range_lit [of 2 5 5, where 'p = 53] by (simp add: position_def)
  from slider_keeps_scenario [OF demo_accepted this]
  have e: "scenario_accepted (set_knob Parties (lit 5) (with_participants demo_parties standard))
      \<longleftrightarrow> js_eq (of_count (length demo_parties)) (lit 5 :: js)"
    by (simp add: with_participants_def) (simp add: demo_parties_def)
  have "\<not> js_eq (of_count (length demo_parties)) (lit 5 :: js)" by code_simp
  with e show ?thesis by blast
qed

text \<open>A chip-map node without neighbours seeds a single party under a count of two.\<close>

lemma lone_seed_refused:
  "length (cs_participants seed) = 1 \<Longrightarrow> \<not> scenario_accepted (lab_scenario (applyChipMapSeed now_text seed l))"
  by (simp add: applyChipMapSeed_def scenario_accepted_def scenario_fields_ok_def)

text \<open>The effect never leaves the page in the seat of a party that is gone.\<close>

lemma view_effect_settles:
  "case lab_view (view_effect l) of CoordinatorView \<Rightarrow> True
   | PartyView _ i \<Rightarrow> i \<in> p_id ` set (deriveParticipants (lab_scenario (view_effect l)))"
  by (auto simp: view_effect_def find_None_iff split: viewMode.splits)

section \<open>Replay\<close>

text \<open>C31: A run exported from the page and replayed on any page gives back the scenario and the audit
  mode it was exported with, with the defaults for a missing split rule and provenance.\<close>

theorem replay_restores:
  fixes l :: "('p::len0) labState"
  shows "applyReplay now2
      (assembleReport run_id now1 \<lparr>as_scenario = lab_scenario l, as_auditMode = lab_audit l, as_label = None, as_notes = None\<rparr>) m
    = m\<lparr>lab_scenario := (lab_scenario l)\<lparr>splitRule := Some (nullish (splitRule (lab_scenario l)) Proportional),
          provenance := Some (nullish (provenance (lab_scenario l))
            \<lparr>prov_source = Synthetic, prov_sourceId = None, fetchedAt = None, citations = [], prov_notes = None\<rparr>)\<rparr>,
        lab_audit := lab_audit l, selectedPlanId := []\<rparr>"
  by (simp add: applyReplay_def replayed_def assembleReport_def Let_def makeScenario_patch_of)

text \<open>The report schema bounds neither number, so a report it accepts can replay into a scenario that the
  scenario schema refuses.\<close>

lemma replay_accepted:
  assumes "scenario_accepted (rep_scenario r)" "runReportSchema r"
  shows "scenario_accepted (replayed now_text r) \<longleftrightarrow>
    z_range 0 1 (par_alpha (rep_parameters r)) \<and> z_range 0 0.5 (par_epsilon (rep_parameters r))"
  using assms unfolding replayed_def Let_def makeScenario_patch_of scenario_accepted_def superRefine_iff scenario_fields_ok_def
  by (cases "rep_provenance r"; cases "provenance (rep_scenario r)"; cases "participants (rep_scenario r)")
    (simp_all add: runReportSchema_def plain_tag_def tag_def provenanceSchema_def)

section \<open>Evidence\<close>

text \<open>The panel's own id of a chunk, which the boxes tick.\<close>

definition panel_chunk_id :: "nat \<Rightarrow> riskChunk \<Rightarrow> string" where
  "panel_chunk_id idx chunk =
     nullish (or_else (cik chunk) (company chunk)) (''chunk-'' @ nat_text idx) @ ''|''
       @ nullish (or_else (accession chunk) (rk_section chunk)) ''n/a''"

definition toggleChunk :: "string \<Rightarrow> string list \<Rightarrow> string list" where
  "toggleChunk i current = (if i \<in> set current then filter (\<lambda>v. v \<noteq> i) current else current @ [i])"

text \<open>A chunk without a company is known to the engine as \<open>unknown\<close>: ticking its box alone attaches the
  first chunk of the corpus instead.\<close>

lemma wrong_chunk_attached:
  assumes "k < length (rc_chunks corpus)" "panel_chunk_id k (rc_chunks corpus ! k) \<notin> chunk_id ` set (rc_chunks corpus)"
  shows "used_chunks corpus (toggleChunk (panel_chunk_id k (rc_chunks corpus ! k)) []) = [rc_chunks corpus ! 0]"
proof -
  have e: "filter (\<lambda>c. chunk_id c = panel_chunk_id k (rc_chunks corpus ! k)) (rc_chunks corpus) = []"
    using assms(2) unfolding filter_empty_conv by (metis imageI)
  obtain c cs where "rc_chunks corpus = c # cs" using assms(1) by (cases "rc_chunks corpus") auto
  then show ?thesis using e by (simp add: used_chunks_def toggleChunk_def)
qed

end
