(* ===== verification/SplitLevel.thy ===== *)
theory SplitLevel
  imports LabPage PlayPage
begin

text \<open>
  Level 6 of the lessons, \<^verbatim>\<open>apps/web/src/surfaces/learn/Level06.tsx\<close>: three parties split one pie by one
  of three rules, and a switch seeds the packager's capacity from the chip map. React runs the page's
  effect after a render in which its dependencies changed; the fetch succeeds or fails at some later
  time.
\<close>

section \<open>Three parties\<close>

record 'p partyRow =
  pr_id :: string
  pr_name :: string
  pr_role :: participantRole
  pr_outside :: "'p jsnum"
  marginalShare :: "'p jsnum"
  proportionalShare :: "'p jsnum"
  plainRole :: string

definition PARTIES :: "('p::len0) partyRow list" where
  "PARTIES =
    [\<lparr>pr_id = ''buyer'', pr_name = ''Buyer'', pr_role = Buyer, pr_outside = lit 8400, marginalShare = lit 0.45,
       proportionalShare = lit 0.42, plainRole = ''the customer paying for finished chips''\<rparr>,
     \<lparr>pr_id = ''supplier'', pr_name = ''Supplier'', pr_role = Supplier, pr_outside = lit 5200, marginalShare = lit 0.3,
       proportionalShare = lit 0.34, plainRole = ''the foundry making the wafers''\<rparr>,
     \<lparr>pr_id = ''packager'', pr_name = ''Packager'', pr_role = Packager, pr_outside = lit 3200, marginalShare = lit 0.25,
       proportionalShare = lit 0.24, plainRole = ''the bottleneck shop that bonds + tests the chips''\<rparr>]"

record 'p shareRow =
  sr_share :: "'p jsnum"
  sr_party :: "'p partyRow"
  sr_utility :: "'p jsnum"

definition plan_utility :: "('p::len0) jsnum \<Rightarrow> 'p jsnum" where
  "plan_utility capacityRatio = lit 17000 * (lit 0.4 + lit 0.6 * capacityRatio)"

definition computeShares :: "splitRule \<Rightarrow> ('p::len0) jsnum \<Rightarrow> 'p shareRow list" where
  "computeShares rule capacityRatio =
     map (\<lambda>p. let share = (case rule of
             Proportional \<Rightarrow> proportionalShare p
           | EqualSplit \<Rightarrow> 1 / of_count (length (PARTIES :: 'p partyRow list))
           | ShapleySplit \<Rightarrow> marginalShare p)
       in \<lparr>sr_share = share, sr_party = p, sr_utility = share * plan_utility capacityRatio\<rparr>) PARTIES"

definition stays :: "'p shareRow \<Rightarrow> bool" where
  "stays r = (pr_outside (sr_party r) \<le> sr_utility r)"

definition allHappy :: "'p shareRow list \<Rightarrow> bool" where
  "allHappy rows = list_all stays rows"

definition failingParties :: "'p shareRow list \<Rightarrow> 'p shareRow list" where
  "failingParties rows = filter (\<lambda>r. sr_utility r < pr_outside (sr_party r)) rows"

definition totalUtility :: "('p::len0) shareRow list \<Rightarrow> 'p jsnum" where
  "totalUtility rows = jsum (map sr_utility rows)"

section \<open>The page\<close>

datatype 'p chipStatus = Idle | Loading | Loaded "'p jsnum" "'p chipMapNode list" | Failed string

record 'p level6 =
  capacityPct :: "'p jsnum"
  l6_rule :: splitRule
  triedRules :: "splitRule list"
  chipMapOn :: bool
  chipMapStatus :: "'p chipStatus"
  effectDeps :: "(bool \<times> string) option"

fun status_kind :: "'p chipStatus \<Rightarrow> string" where
  "status_kind Idle = ''idle''"
| "status_kind Loading = ''loading''"
| "status_kind (Loaded _ _) = ''ok''"
| "status_kind (Failed _) = ''error''"

definition open_level6 :: "('p::len0) level6" where
  "open_level6 = \<lparr>capacityPct = lit 100, l6_rule = Proportional, triedRules = [Proportional], chipMapOn = False,
     chipMapStatus = Idle, effectDeps = None\<rparr>"

definition handleRuleChange :: "splitRule \<Rightarrow> 'p level6 \<Rightarrow> 'p level6" where
  "handleRuleChange r l =
     l\<lparr>l6_rule := r, triedRules := (if r \<in> set (triedRules l) then triedRules l else triedRules l @ [r])\<rparr>"

definition l6_canContinue :: "'p level6 \<Rightarrow> bool" where
  "l6_canContinue l = (2 \<le> length (triedRules l))"

definition rows :: "('p::len0) level6 \<Rightarrow> 'p shareRow list" where
  "rows l = computeShares (l6_rule l) (capacityPct l / lit 100)"

text \<open>The effect with its dependencies. A run sets the status while the fetch is under way; the fetch
  comes back with the nodes or with a message.\<close>

definition deps :: "'p level6 \<Rightarrow> bool \<times> string" where
  "deps l = (chipMapOn l, status_kind (chipMapStatus l))"

definition effect_due :: "'p level6 \<Rightarrow> bool" where
  "effect_due l = (effectDeps l \<noteq> Some (deps l))"

definition run_fetch_effect :: "'p level6 \<Rightarrow> 'p level6" where
  "run_fetch_effect l =
     (let m = l\<lparr>effectDeps := Some (deps l)\<rparr> in
      if \<not> chipMapOn l then m
      else if status_kind (chipMapStatus l) = ''ok'' \<or> status_kind (chipMapStatus l) = ''loading'' then m
      else m\<lparr>chipMapStatus := Loading\<rparr>)"

fun contains :: "string \<Rightarrow> string \<Rightarrow> bool" where
  "contains part [] = (part = [])"
| "contains part (c # cs) = (take (length part) (c # cs) = part \<or> contains part cs)"

definition packagers :: "'p chipMapNode list \<Rightarrow> 'p chipMapNode list" where
  "packagers ns =
     filter (\<lambda>n. cn_type n = ''packager'' \<or> contains ''packag'' (map lower_char (nullish (short_description n) []))) ns"

definition average_chokepoint :: "('p::len0) chipMapNode list \<Rightarrow> 'p jsnum" where
  "average_chokepoint ns =
     (let scores = concat (map (\<lambda>n. case chokepoint_score n of None \<Rightarrow> [] | Some s \<Rightarrow> [s]) ns)
      in if scores \<noteq> [] then jsum scores / of_count (length scores) else lit 0.4)"

definition fetched :: "('p::len0) chipMapData \<Rightarrow> 'p level6 \<Rightarrow> 'p level6" where
  "fetched data l =
     (let ns = packagers (cm_nodes data); c = average_chokepoint ns
      in l\<lparr>chipMapStatus := Loaded c ns, capacityPct := jround (jmax (lit 20) (jmin (lit 100) ((1 - c) * lit 100)))\<rparr>)"

definition fetch_failed :: "string \<Rightarrow> 'p level6 \<Rightarrow> 'p level6" where
  "fetch_failed msg l = l\<lparr>chipMapStatus := Failed msg\<rparr>"

text \<open>The effects of a render run before the answer to a request arrives.\<close>

inductive level6_step :: "('p::len0) level6 \<Rightarrow> 'p level6 \<Rightarrow> bool" where
  knob: "lit 20 \<le> v \<Longrightarrow> v \<le> lit 100 \<Longrightarrow> level6_step l (l\<lparr>capacityPct := v\<rparr>)"
| rule_: "level6_step l (handleRuleChange r l)"
| toggle: "level6_step l (l\<lparr>chipMapOn := \<not> chipMapOn l\<rparr>)"
| effect: "effect_due l \<Longrightarrow> level6_step l (run_fetch_effect l)"
| success: "chipMapStatus l = Loading \<Longrightarrow> \<not> effect_due l \<Longrightarrow> level6_step l (fetched data l)"
| failure: "chipMapStatus l = Loading \<Longrightarrow> \<not> effect_due l \<Longrightarrow> level6_step l (fetch_failed msg l)"

inductive level6_reachable :: "('p::len0) level6 \<Rightarrow> bool" where
  start: "level6_reachable open_level6"
| step: "level6_reachable l \<Longrightarrow> level6_step l m \<Longrightarrow> level6_reachable m"

section \<open>The buyer always walks\<close>

lemma share_bounds:
  "lit 0.42 * plan_utility (Fin 1) < (lit 8400 :: js)" "lit 0.45 * plan_utility (Fin 1) < (lit 8400 :: js)"
  "Fin 1 / of_count 3 * plan_utility (Fin 1) < (lit 8400 :: js)"
  by code_simp+

lemma unit_plan:
  fixes r :: js
  assumes "Fin 0 \<le> r" "r \<le> Fin 1"
  shows "plan_utility r \<le> plan_utility (Fin 1)" "mag 500 (plan_utility r)" "Fin 0 \<le> plan_utility r"
proof -
  have "mag 1 r" using assms by (cases r) auto
  then have m: "mag k r" if "1 \<le> k" for k using that by (rule mag_mono)
  have n: "lit 0.6 * r \<noteq> NaN" "lit 0.6 * (Fin 1 :: js) \<noteq> NaN" "lit 0.4 + lit 0.6 * r \<noteq> NaN"
    "lit 0.4 + lit 0.6 * (Fin 1 :: js) \<noteq> NaN" "lit 17000 * (lit 0.4 + lit 0.6 * r) \<noteq> NaN"
    "lit 17000 * (lit 0.4 + lit 0.6 * (Fin 1 :: js)) \<noteq> NaN"
    by (rule mag_1000, simp add: js_mag m del: times_jsnum.simps plus_jsnum.simps)+
  show "mag 500 (plan_utility r)" unfolding plan_utility_def
    by (simp add: js_mag m)
  show "plan_utility r \<le> plan_utility (Fin 1)" unfolding plan_utility_def
    by (intro num_mult_left_mono num_add_mono assms(2) n lit_nonneg) simp_all
  show "Fin 0 \<le> plan_utility r" unfolding plan_utility_def
    by (intro num_mult_nonneg num_add_nonneg assms(1) n lit_nonneg) simp_all
qed

lemma buyer_walks:
  fixes r :: js
  assumes "Fin 0 \<le> r" "r \<le> Fin 1"
  shows "\<not> allHappy (computeShares rule r)"
proof -
  have n: "mag 500 x \<Longrightarrow> x * plan_utility r \<noteq> NaN" "mag 500 x \<Longrightarrow> x * plan_utility (Fin 1) \<noteq> NaN" for x
    using mag_mult [of 1000 x "plan_utility r"] mag_mult [of 1000 x "plan_utility (Fin 1)"] unit_plan(2) assms
    by (auto intro!: mag_1000)
  have "x * plan_utility r < lit 8400" if "x * plan_utility (Fin 1) < lit 8400" "Fin 0 \<le> x" "mag 500 x" for x
    using num_mult_left_mono [OF unit_plan(1) [OF assms] that(2) n [OF that(3)]] that(1) num_le_less_trans by blast
  note w = this [OF share_bounds(1)] this [OF share_bounds(2)] this [OF share_bounds(3)]
  have e: "Fin 0 \<le> (Fin 1 / of_count 3 :: js)" "mag 500 (Fin 1 / of_count 3 :: js)" by code_simp+
  have "\<not> stays (computeShares rule r ! 0)"
    using w(1) w(2) w(3) [OF e]
    by (cases rule) (auto simp: computeShares_def PARTIES_def stays_def Let_def numeral_3_eq_3 lit_nonneg js_mag dest: num_leD)
  then show ?thesis by (simp add: allHappy_def computeShares_def PARTIES_def)
qed

lemma seeded_capacity:
  fixes y :: js
  shows "jround (jmax (lit 20) (jmin (lit 100) y)) = NaN \<or>
    (lit 20 \<le> jround (jmax (lit 20) (jmin (lit 100) y)) \<and> jround (jmax (lit 20) (jmin (lit 100) y)) \<le> lit 100)"
proof (cases "y = NaN")
  case False
  then have "lit 20 \<le> jmax (lit 20) (jmin (lit 100) y)" "jmax (lit 20) (jmin (lit 100) y) \<le> lit 100"
    by (auto intro!: jmax_ge1 jmax_least jmin_le1 lit_mono simp del: lit_numeral)
  from this [THEN jround_mono] show ?thesis
    using jround_lit_int [of 20, where 'p = 53] jround_lit_int [of 100, where 'p = 53] by simp
qed (simp del: lit_numeral)

lemma capacity_range:
  "level6_reachable (l :: 53 level6) \<Longrightarrow> capacityPct l = NaN \<or> (lit 20 \<le> capacityPct l \<and> capacityPct l \<le> lit 100)"
proof (induction rule: level6_reachable.induct)
  case (step l m)
  from step.hyps(2) step.IH show ?case
    by cases (use seeded_capacity in \<open>auto simp: handleRuleChange_def run_fetch_effect_def fetched_def fetch_failed_def Let_def
      simp del: lit_numeral\<close>)
qed (simp add: open_level6_def)

text \<open>C32: The page asks to find a setting where all three leave better off than walking away. There is
  none: in every state the page can reach, under every rule and capacity, some party walks.\<close>

theorem level6_never_closes:
  assumes "level6_reachable (l :: 53 level6)"
  shows "\<not> allHappy (rows l)"
proof (cases "capacityPct l")
  case NaN
  then have "\<not> stays (rows l ! 0)"
    by (simp add: rows_def computeShares_def PARTIES_def stays_def plan_utility_def Let_def)
  then show ?thesis by (simp add: allHappy_def rows_def computeShares_def PARTIES_def)
next
  case (Fin c)
  then have c: "20 \<le> c" "c \<le> 100" using capacity_range [OF assms] by auto
  have "capacityPct l / lit 100 = (lit (c / 100) :: js)" using Fin by simp
  moreover have "Fin 0 \<le> (lit (c / 100) :: js)" "(lit (c / 100) :: js) \<le> Fin 1"
    using c lit_mono [of "c / 100" 1, where 'p = 53] by (simp_all add: lit_nonneg)
  ultimately show ?thesis using buyer_walks by (simp add: rows_def)
qed (use capacity_range [OF assms] in auto)

theorem level6_never_closes_witness:
  "\<not> allHappy (rows (handleRuleChange ShapleySplit (open_level6 :: 53 level6)))"
  by (rule level6_never_closes) (rule level6_reachable.step [OF level6_reachable.start level6_step.rule_])

text \<open>Yet at full capacity the pie covers the three outside options together.\<close>

lemma pie_is_enough:
  "jsum (map pr_outside PARTIES) \<le> totalUtility (computeShares Proportional (1 :: js))"
  by code_simp

section \<open>A fetch that fails\<close>

lemma no_settled_error:
  "level6_reachable l \<Longrightarrow> effectDeps l = Some (True, ''error'') \<Longrightarrow> chipMapStatus l = Loading"
proof (induction rule: level6_reachable.induct)
  case (step l m)
  from step.hyps(2) step.IH step.prems show ?case
    by cases (auto simp: handleRuleChange_def run_fetch_effect_def fetched_def fetch_failed_def effect_due_def deps_def Let_def
      split: if_splits)
qed (simp add: open_level6_def)

text \<open>A failed fetch is never left standing while the switch is on: the status that reports it makes
  the effect due again, which starts the next fetch, so against a failing network the page fetches without
  end and the message is gone as soon as it is shown.\<close>

lemma failed_fetch_retried:
  assumes "level6_reachable l" "chipMapOn l" "chipMapStatus l = Failed msg"
  shows "effect_due l \<and> chipMapStatus (run_fetch_effect l) = Loading
    \<and> effect_due (run_fetch_effect l) \<and> \<not> effect_due (run_fetch_effect (run_fetch_effect l))
    \<and> level6_step (run_fetch_effect (run_fetch_effect l)) (fetch_failed msg (run_fetch_effect (run_fetch_effect l)))"
proof -
  have "effectDeps l \<noteq> Some (True, ''error'')" using no_settled_error [OF assms(1)] assms(3) by auto
  then show ?thesis using assms(2,3)
    by (auto simp: effect_due_def deps_def run_fetch_effect_def Let_def intro!: level6_step.failure)
qed

definition offline :: "('p::len0) level6" where
  "offline = fetch_failed ''offline'' (run_fetch_effect (run_fetch_effect (open_level6\<lparr>chipMapOn := True\<rparr>)))"

lemma offline_reachable: "level6_reachable offline" "chipMapOn offline" "chipMapStatus offline = Failed ''offline''"
proof -
  let ?on = "open_level6\<lparr>chipMapOn := True\<rparr>"
  have "level6_reachable ?on"
    using level6_reachable.step [OF level6_reachable.start level6_step.toggle] by (simp add: open_level6_def)
  then have "level6_reachable (run_fetch_effect ?on)"
    by (rule level6_reachable.step) (rule level6_step.effect, simp add: effect_due_def open_level6_def)
  then have "level6_reachable (run_fetch_effect (run_fetch_effect ?on))"
    by (rule level6_reachable.step)
      (rule level6_step.effect, simp add: effect_due_def deps_def run_fetch_effect_def open_level6_def Let_def)
  then show "level6_reachable offline" unfolding offline_def
    by (rule level6_reachable.step)
      (rule level6_step.failure, simp_all add: effect_due_def deps_def run_fetch_effect_def open_level6_def Let_def)
qed (simp_all add: offline_def fetch_failed_def run_fetch_effect_def open_level6_def Let_def)

theorem failed_fetch_retried_witness:
  "effect_due (offline :: 53 level6) \<and> chipMapStatus (run_fetch_effect (offline :: 53 level6)) = Loading"
  using failed_fetch_retried [OF offline_reachable] by blast

end
