(* ===== verification/ArcPage.thy ===== *)
theory ArcPage
  imports SimulationLaws Formula Decoys
begin

text \<open>
  The guided arc, \<^verbatim>\<open>apps/web/src/surfaces/ArcSurface.tsx\<close>: the reducer with its actions, the handlers of
  the steps, and what each step computes from the state. \<^verbatim>\<open>JSON.stringify\<close> of a scenario, \<^verbatim>\<open>JSON.parse\<close>,
  the expression parser and the functions of \<^verbatim>\<open>Math\<close> are arguments.
\<close>

section \<open>The reducer\<close>

definition authoredFormulaKey :: string where
  "authoredFormulaKey = ''procurement-lab-authored-formula''"

definition defaultFormula :: string where
  "defaultFormula = ''100 * min(q, demand) - unit_price * q - 500 * risk_score''"

definition allowedFormulaVars :: "string list" where
  "allowedFormulaVars = [''q'', ''demand'', ''unit_price'', ''risk_score'', ''capacity'', ''lead_time'', ''volatility'']"

definition caseIds :: "string list" where
  "caseIds = [''joint-exists-admm-converges'', ''joint-exists-admm-oscillates'', ''joint-does-not-exist'']"

datatype arcStepId = ArcGap | ArcPrivacy | ArcTruth | ArcAdmm | ArcAlgorithms | ArcAuthor | ArcJointCases | ArcCbt

record arcStep =
  as_id :: arcStepId
  as_title :: string
  thesis :: string
  labLink :: string

definition arcSteps :: "arcStep list" where
  "arcSteps =
    [\<lparr>as_id = ArcGap, as_title = ''1. See the coordination gap'',
       thesis = ''You and the supplier can each make locally rational plans that are jointly wasteful. The gap is the money left between local JIT planning and the all-knowing oracle.'',
       labLink = ''Open the same scenario in Lab and inspect the so-what panel.''\<rparr>,
     \<lparr>as_id = ArcPrivacy, as_title = ''2. Price the cost of privacy'',
       thesis = ''More information usually improves the plan, but it also exposes bargaining posture. A coordination rule needs enough signal to move the plan before disclosure costs more than the welfare it creates.'',
       labLink = ''Use the information-mode sweep in Lab.''\<rparr>,
     \<lparr>as_id = ArcTruth, as_title = ''3. Make truthful behavior attractive'',
       thesis = ''VCG is useful because it changes incentives. If the transfer prices each party'' @ [CHR 0x27] @ ''s externality, truthful local optimization becomes the strategy to beat.'',
       labLink = ''Compare price-only coordination against CPP plus VCG/CBT.''\<rparr>,
     \<lparr>as_id = ArcAdmm, as_title = ''4. Watch CPP/ADMM coordinate agents'',
       thesis = ''CPP turns private objectives into an iterative protocol. Agents send best responses, the coordinator updates the consensus plan, and residuals show disagreement shrinking.'',
       labLink = ''Inspect the ADMM row and residual behavior.''\<rparr>,
     \<lparr>as_id = ArcAlgorithms, as_title = ''5. Compare convergence paths'',
       thesis = ''ADMM is not automatically best. Alternating response, price-only signals, and averaging can win on clarity or runtime while losing on welfare.'',
       labLink = ''Run the mechanism comparison table.''\<rparr>,
     \<lparr>as_id = ArcAuthor, as_title = ''6. Author your own agent'',
       thesis = ''A mechanism is only as good as the objectives it coordinates. Write a utility formula, adjust the scenario, and see whether the payoff logic behaves as intended.'',
       labLink = ''Bring the authored formula into Lab after this step.''\<rparr>,
     \<lparr>as_id = ArcJointCases, as_title = ''7. Test joint-optimality cases'',
       thesis = ''Sometimes a joint optimum exists and the update rule finds it. Sometimes it exists and the update rule bounces. Sometimes there is no surplus to split.'',
       labLink = ''Switch among the three seeded joint-optimality scenarios.''\<rparr>,
     \<lparr>as_id = ArcCbt, as_title = ''8. Split the surplus with CBT'',
       thesis = ''CBT is the money layer after the physical plan. It can keep both parties no worse off only when the operational plan creates enough surplus.'',
       labLink = ''Open the transfer ledger and change the split rule.''\<rparr>]"

record 'p arcState =
  currentStep :: int
  arc_scenario :: "'p labScenario"
  privacyModeIndex :: nat
  arc_formula :: string
  scenarioJson :: string
  jointCaseId :: string
  arc_splitRule :: splitRule
  copyStatus :: string
  arc_alpha :: "'p jsnum"
  arc_epsilon :: "'p jsnum"
  showDecoys :: bool

datatype 'p arcAction =
  Go int | Forth | Back | Privacy nat | SetFormula string | ResetFormula | SetScenario "'p labScenario"
| SetJson string | JointCase string | Split splitRule | CopyStatus string | SetAlpha "'p jsnum"
| SetEpsilon "'p jsnum" | ShowDecoys bool

definition initialArcState :: "('p labScenario \<Rightarrow> string) \<Rightarrow> string option \<Rightarrow> ('p::len0) arcState" where
  "initialArcState stringify stored =
     (let scenario = makeScenario no_patch
      in \<lparr>currentStep = 0, arc_scenario = scenario, privacyModeIndex = 4, arc_formula = nullish stored defaultFormula,
          scenarioJson = stringify scenario, jointCaseId = caseIds ! 0, arc_splitRule = Proportional, copyStatus = [],
          arc_alpha = alpha scenario, arc_epsilon = epsilon scenario, showDecoys = False\<rparr>)"

definition clamp_step :: "int \<Rightarrow> int" where
  "clamp_step i = min (int (length arcSteps) - 1) (max 0 i)"

fun reducer :: "('p labScenario \<Rightarrow> string) \<Rightarrow> ('p::len0) arcState \<Rightarrow> 'p arcAction \<Rightarrow> 'p arcState" where
  "reducer stringify st (Go i) = st\<lparr>currentStep := clamp_step i\<rparr>"
| "reducer stringify st Forth = st\<lparr>currentStep := clamp_step (currentStep st + 1)\<rparr>"
| "reducer stringify st Back = st\<lparr>currentStep := clamp_step (currentStep st - 1)\<rparr>"
| "reducer stringify st (Privacy i) = st\<lparr>privacyModeIndex := i\<rparr>"
| "reducer stringify st (SetFormula f) = st\<lparr>arc_formula := f\<rparr>"
| "reducer stringify st ResetFormula = st\<lparr>arc_formula := defaultFormula\<rparr>"
| "reducer stringify st (SetScenario s) = st\<lparr>arc_scenario := s, scenarioJson := stringify s\<rparr>"
| "reducer stringify st (SetJson v) = st\<lparr>scenarioJson := v\<rparr>"
| "reducer stringify st (JointCase i) = st\<lparr>jointCaseId := i\<rparr>"
| "reducer stringify st (Split r) = st\<lparr>arc_splitRule := r\<rparr>"
| "reducer stringify st (CopyStatus v) = st\<lparr>copyStatus := v\<rparr>"
| "reducer stringify st (SetAlpha v) =
     st\<lparr>arc_alpha := v, arc_scenario := makeScenario (patch_of (arc_scenario st)\<lparr>q_alpha := Some v\<rparr>)\<rparr>"
| "reducer stringify st (SetEpsilon v) =
     st\<lparr>arc_epsilon := v, arc_scenario := makeScenario (patch_of (arc_scenario st)\<lparr>q_epsilon := Some v\<rparr>)\<rparr>"
| "reducer stringify st (ShowDecoys b) = st\<lparr>showDecoys := b\<rparr>"

section \<open>What the steps compute\<close>

definition selectedSweep :: "('p::len0) arcState \<Rightarrow> 'p sweepRow" where
  "selectedSweep st = (let sweep = informationSweep (arc_scenario st) in
     if privacyModeIndex st < length sweep then sweep ! privacyModeIndex st else sweep ! 0)"

definition runs_of :: "mechanismId list \<Rightarrow> ('p::len0) labScenario \<Rightarrow> 'p algorithmResult list" where
  "runs_of wanted s = filter (\<lambda>r. ar_id r \<in> set wanted) (algorithmResults s)"

definition truth_runs :: "('p::len0) labScenario \<Rightarrow> 'p algorithmResult list" where
  "truth_runs s = concat (map (\<lambda>i. case find_run i (algorithmResults s) of None \<Rightarrow> [] | Some r \<Rightarrow> [r]) [PriceOnly, CppVcg])"

definition truth_ledger :: "('p::len0) arcState \<Rightarrow> 'p transferRow list" where
  "truth_ledger st = transferLedger (OfScenario (arc_scenario st)) (no_options\<lparr>lo_alpha := Some (arc_alpha st)\<rparr>)"

definition residualPath :: "('p::len0) mathlib \<Rightarrow> 'p labScenario \<Rightarrow> 'p jsnum list" where
  "residualPath m s =
     (let results = algorithmResults s; admm = nullish (find_run CppAdmm results) (results ! 0)
      in map (\<lambda>i. jmax 0 (jround (residual admm * m_pow m (lit 0.72) (of_count i)
           + (if convergence admm = Oscillating then of_count (i mod 2) * lit 45 else 0)))) [0..<8])"

definition author_sample :: "('p::len0) labScenario \<Rightarrow> 'p namespace" where
  "author_sample s =
     [(''q'', NumV (jround (demand s * lit 0.92))), (''demand'', NumV (demand s)), (''unit_price'', NumV (lit 56)),
      (''risk_score'', NumV (volatility s)),
      (''capacity'', NumV (jround (demand s * (lit 1.18 - capacityTightness s * lit 0.32)))),
      (''lead_time'', NumV (leadTimeWeeks s)), (''volatility'', NumV (volatility s))]"

text \<open>The value shown, with the error that is shown instead; every exception is caught.\<close>

definition formulaResult :: "'p parser \<Rightarrow> 'p mathlib \<Rightarrow> ('p::len0) arcState \<Rightarrow> 'p jsnum \<times> 'p ferror option" where
  "formulaResult p m st =
     (case ebind (compileFormula p (arc_formula st) (Some allowedFormulaVars))
         (\<lambda>cf. evaluate m cf (author_sample (arc_scenario st))) of
        Inr v \<Rightarrow> (v, None) | Inl e \<Rightarrow> (0, Some e))"

definition updateScenario ::
    "('p labScenario \<Rightarrow> string) \<Rightarrow> ('p scenarioPatch \<Rightarrow> 'p scenarioPatch) \<Rightarrow> ('p::len0) arcState \<Rightarrow> 'p arcState" where
  "updateScenario stringify overrides st =
     reducer stringify st (SetScenario (makeScenario (overrides (patch_of (arc_scenario st)))))"

definition loadScenario ::
    "('p labScenario \<Rightarrow> string) \<Rightarrow> (string \<Rightarrow> 'p scenarioPatch option) \<Rightarrow> ('p::len0) arcState \<Rightarrow> 'p arcState" where
  "loadScenario stringify parse st =
     (case parse (scenarioJson st) of
        Some q \<Rightarrow> reducer stringify (reducer stringify st (SetScenario (makeScenario q))) (CopyStatus ''Loaded scenario JSON.'')
      | None \<Rightarrow> reducer stringify st (CopyStatus ''Invalid JSON. Keep the saved object shape intact.''))"

definition joint_scenario :: "('p::len0) arcState \<Rightarrow> 'p labScenario" where
  "joint_scenario st = makeScenario (no_patch\<lparr>q_presetId := Some (jointCaseId st), q_alpha := Some (arc_alpha st),
     q_epsilon := Some (arc_epsilon st)\<rparr>)"

definition joint_feasible :: "('p::len0) arcState \<Rightarrow> bool" where
  "joint_feasible st =
     (let scenario = joint_scenario st;
          runs = runs_of [CppAdmm, AlternatingBestResponse, CppVcg] scenario;
          best = nullish (find_run CppVcg runs) (runs ! 0);
          near = plans (frontier scenario (ar_id best) (arc_epsilon st) 5);
          u = (case near of [] \<Rightarrow> globalUtility best | plan # _ \<Rightarrow> fp_globalUtility plan);
          ledger = transferLedger (OfScenario scenario) (no_options\<lparr>planUtility := Some u\<rparr>)
      in list_all noWorseOff ledger \<and> feasible best)"

definition transferRows_for :: "('p::len0) jsnum \<Rightarrow> splitRule \<Rightarrow> 'p transferRow list" where
  "transferRows_for gu rule =
     (let baseRows = transferLedger (OfUtility gu) no_options in
      if rule = Proportional then baseRows
      else let buyer = baseRows ! 0; supplier = baseRows ! 1;
               surplus = gu - row_outsideOption buyer - row_outsideOption supplier;
               half = (if 0 < surplus then surplus / lit 2 else 0);
               halved = (\<lambda>r. r\<lparr>transfer := half - jmax 0 (utilityBeforeTransfer r - row_outsideOption r),
                 utilityAfterTransfer := row_outsideOption r + half, noWorseOff := (0 < surplus)\<rparr>)
           in [halved buyer, halved supplier])"

definition cbt_rows :: "('p::len0) arcState \<Rightarrow> 'p transferRow list" where
  "cbt_rows st = transferRows_for (globalUtility (best_implementable (arc_scenario st))) (arc_splitRule st)"

section \<open>Laws\<close>

lemma step_in_range: "0 \<le> currentStep st \<Longrightarrow> currentStep st < 8 \<Longrightarrow>
   0 \<le> currentStep (reducer stringify st a) \<and> currentStep (reducer stringify st a) < 8"
  by (cases a) (auto simp: clamp_step_def arcSteps_def)

lemma sample_finite:
  fixes s :: "('p::len0) labScenario"
  assumes "lab_ok s"
  shows "\<forall>x \<in> set allowedFormulaVars. \<exists>v. map_of (author_sample s) x = Some v \<and> finite_value v"
proof -
  have "mag 900 (jround (demand s * lit 0.92))" "mag 900 (jround (demand s * (lit 1.18 - capacityTightness s * lit 0.32)))"
    by (simp_all add: js_mag assms)
  moreover have "mag 20 (lit 56 :: 'p jsnum)" by (rule mag_lit) simp_all
  moreover have "mag 20 (demand s)" "mag 20 (volatility s)" "mag 20 (leadTimeWeeks s)"
    by (simp_all add: lab_mag assms)
  ultimately show ?thesis
    by (simp add: allowedFormulaVars_def author_sample_def mag_is_fin)
qed

text \<open>Whatever formula is typed into the author's step and whatever the parser and \<^verbatim>\<open>Math\<close> return,
  in a scenario the schema accepts the value behind the result is a finite number, and a formula that
  compiles fails only with an error of its evaluation, never for an unknown name or construct.\<close>

lemma authored_formula_shown:
  assumes "lab_ok (arc_scenario st)"
  shows "is_fin (fst (formulaResult p m st))
    \<and> (case compileFormula p (arc_formula st) (Some allowedFormulaVars) of
         Inl e \<Rightarrow> snd (formulaResult p m st) = Some e
       | Inr cf \<Rightarrow> (case snd (formulaResult p m st) of None \<Rightarrow> True | Some e \<Rightarrow> runtime_error e))"
proof (cases "compileFormula p (arc_formula st) (Some allowedFormulaVars)")
  case (Inr cf)
  from formula_safe [OF this sample_finite [OF assms]]
  have "safe_outcome (evaluate m cf (author_sample (arc_scenario st)))" .
  then show ?thesis using Inr
    by (cases "evaluate m cf (author_sample (arc_scenario st))") (auto simp: formulaResult_def)
qed (simp add: formulaResult_def)

theorem authored_formula_shown_witness:
  "is_fin (fst (formulaResult (\<lambda>_. Inr (Identifier ''demand'', 99)) demo_math (initialArcState (\<lambda>_. []) None)))"
proof -
  have "lab_ok (arc_scenario (initialArcState (\<lambda>_. []) None :: 53 arcState))"
    by (simp add: initialArcState_def Let_def makeScenario_standard lab_ok_standard)
  from authored_formula_shown [OF this, of "\<lambda>_. Inr (Identifier ''demand'', 99)" demo_math] show ?thesis by blast
qed

text \<open>The sliders of the truth and joint-case steps leave the JSON text as it was. Loading it afterwards
  takes the scenario back to the old clipping, while the page's own clipping, which the ledger of the
  truth step uses, stays at the new one.\<close>

lemma load_undoes_alpha:
  assumes "parse (stringify (arc_scenario st)) = Some (patch_of (arc_scenario st))"
    "scenarioJson st = stringify (arc_scenario st)"
  shows "let after = loadScenario stringify parse (reducer stringify st (SetAlpha v))
    in alpha (arc_scenario after) = alpha (arc_scenario st) \<and> arc_alpha after = v"
  using assms by (simp add: loadScenario_def makeScenario_patch_of)

text \<open>The rows of the equal split add up, before plus transfer being after, exactly from a joint
  utility of 15000 on; below, although the split announces a surplus from 13600 on, the buyer's row does
  not, because a party below its outside option is credited the whole outside option for nothing. The
  utilities after always add up to the joint utility when there is a surplus.\<close>

lemma equal_split_adds_up:
  fixes u :: rat
  shows "(list_all (\<lambda>r. utilityAfterTransfer r = utilityBeforeTransfer r + transfer r)
           (transferRows_for (Fin u :: exact) EqualSplit) \<longleftrightarrow> 15000 \<le> u)
    \<and> (13600 < u \<longrightarrow> jsum (map utilityAfterTransfer (transferRows_for (Fin u :: exact) EqualSplit)) = Fin u)"
  by (auto simp: transferRows_for_def transferLedger_def twoPartyRows_def Let_def jsum_def max_def field_simps)

theorem equal_split_adds_up_witness:
  "\<not> list_all (\<lambda>r. utilityAfterTransfer r = utilityBeforeTransfer r + transfer r)
      (transferRows_for (Fin 14000 :: exact) EqualSplit)
    \<and> jsum (map utilityAfterTransfer (transferRows_for (Fin 14000 :: exact) EqualSplit)) = Fin 14000"
  using equal_split_adds_up [of 14000] by simp

end
