(* ===== verification/FactoryConsole.thy ===== *)
theory FactoryConsole
  imports RunReport SupplierRisk JsSort JsBounds
begin

text \<open>
  \<^verbatim>\<open>apps/web/src/surfaces/factory/factoryConsoleData.ts\<close>: the view model of the factory console, with its
  static fixture. \<^verbatim>\<open>localeCompare\<close>, \<^verbatim>\<open>JSON.stringify\<close> and \<^verbatim>\<open>encodeURIComponent\<close> are arguments.
\<close>

section \<open>Evidence\<close>

datatype factoryTaskStatus = Pending | Running | AwaitingApproval | Done | TaskFailed

record factoryTask =
  ft_id :: string
  ft_title :: string
  specPath :: string
  ft_status :: factoryTaskStatus
  ft_currentStep :: string
  traceId :: string
  awaitingCheckpoint :: "string option"
  lastThreadId :: "string option"
  lastRunId :: "string option"
  updatedAt :: string

record factoryArtifact =
  fa_taskId :: string
  fa_kind :: string
  fa_round :: nat
  fa_path :: string
  fa_sha1 :: string
  fa_size :: nat
  fa_summary :: string

record 'p factoryEvent =
  fe_taskId :: string
  fe_kind :: string
  fe_at :: string
  fe_traceId :: string
  payload :: "(string \<times> 'p json) list option"

record 'p factoryFixture =
  sourceLabel :: string
  generatedAt :: string
  fx_tasks :: "factoryTask list"
  fx_artifacts :: "factoryArtifact list"
  fx_events :: "'p factoryEvent list"
  fx_runReport :: "'p runReport"

section \<open>The view model\<close>

record factoryTaskView = factoryTask +
  statusLabel :: string
  artifactCount :: nat
  eventCount :: nat
  checkpointLabel :: string
  lastEventKind :: string

record factoryCheckpoint =
  fc_taskId :: string
  fc_kind :: string
  checkpoint :: string
  fc_at :: string
  fc_traceId :: string
  artifactPath :: "string option"

record 'p factoryReportSummary =
  rs_id :: string
  rs_label :: string
  rs_timestamp :: string
  scenarioId :: string
  rs_coordinationGap :: "'p jsnum"
  rs_bestNonOracle :: mechanismId
  rs_bestNonOracleGap :: "'p jsnum"
  algorithmCount :: nat

record 'p factoryView =
  fv_sourceLabel :: string
  fv_generatedAt :: string
  fv_tasks :: "factoryTaskView list"
  activeTask :: factoryTaskView
  fv_artifacts :: "factoryArtifact list"
  checkpoints :: "factoryCheckpoint list"
  eventCounts :: "(string \<times> 'p looked_up) list"
  reportSummary :: "'p factoryReportSummary"
  replayJson :: string
  replayHref :: string

fun STATUS_LABELS :: "factoryTaskStatus \<Rightarrow> string" where
  "STATUS_LABELS Pending = ''Pending''"
| "STATUS_LABELS Running = ''Running''"
| "STATUS_LABELS AwaitingApproval = ''Awaiting approval''"
| "STATUS_LABELS Done = ''Done''"
| "STATUS_LABELS TaskFailed = ''Failed''"

fun STATUS_ORDER :: "factoryTaskStatus \<Rightarrow> nat" where
  "STATUS_ORDER AwaitingApproval = 0"
| "STATUS_ORDER Running = 1"
| "STATUS_ORDER Pending = 2"
| "STATUS_ORDER TaskFailed = 3"
| "STATUS_ORDER Done = 4"

definition labelCheckpoint :: "string option \<Rightarrow> string" where
  "labelCheckpoint c = (case c of None \<Rightarrow> ''None''
     | Some s \<Rightarrow> if s = [] then ''None'' else map (\<lambda>ch. if ch = CHR ''_'' then CHR '' '' else ch) s)"

definition payloadString :: "'p factoryEvent \<Rightarrow> string \<Rightarrow> string option" where
  "payloadString e key =
     (case payload e of None \<Rightarrow> None
      | Some p \<Rightarrow> (case map_of p key of Some (JStr s) \<Rightarrow> Some s | _ \<Rightarrow> None))"

definition summarizeReport :: "'p runReport \<Rightarrow> 'p factoryReportSummary" where
  "summarizeReport r =
     \<lparr>rs_id = rep_id r, rs_label = rep_label r, rs_timestamp = timestamp r, scenarioId = presetId (rep_scenario r),
      rs_coordinationGap = com_coordinationGap (rep_computed r), rs_bestNonOracle = bestNonOracle (rep_computed r),
      rs_bestNonOracleGap = bestNonOracleGap (rep_computed r), algorithmCount = length (rep_algorithmResults r)\<rparr>"

text \<open>\<open>loc\<close> is \<^verbatim>\<open>localeCompare\<close>.\<close>

definition task_view ::
    "(string \<Rightarrow> string \<Rightarrow> 'p jsnum) \<Rightarrow> ('p::len0) factoryFixture \<Rightarrow> factoryTask \<Rightarrow> factoryTaskView" where
  "task_view loc fx t =
     (let taskArtifacts = filter (\<lambda>a. fa_taskId a = ft_id t) (fx_artifacts fx);
          taskEvents = filter (\<lambda>e. fe_taskId e = ft_id t) (fx_events fx);
          kind = (case js_sort (\<lambda>a b. loc (fe_at b) (fe_at a)) taskEvents of [] \<Rightarrow> ''none'' | e # _ \<Rightarrow> fe_kind e)
      in factoryTask.extend t
           (factoryTaskView.fields (STATUS_LABELS (ft_status t)) (length taskArtifacts) (length taskEvents)
              (labelCheckpoint (awaitingCheckpoint t)) kind))"

definition task_cmp :: "(string \<Rightarrow> string \<Rightarrow> 'p jsnum) \<Rightarrow> factoryTaskView \<Rightarrow> factoryTaskView \<Rightarrow> ('p::len0) jsnum" where
  "task_cmp loc a b =
     (let byStatus = of_count (STATUS_ORDER (ft_status a)) - of_count (STATUS_ORDER (ft_status b)) in
      if byStatus \<noteq> 0 then byStatus else loc (updatedAt b) (updatedAt a))"

definition artifact_cmp :: "(string \<Rightarrow> string \<Rightarrow> 'p jsnum) \<Rightarrow> factoryArtifact \<Rightarrow> factoryArtifact \<Rightarrow> ('p::len0) jsnum" where
  "artifact_cmp loc a b =
     (let byRound = of_count (fa_round a) - of_count (fa_round b) in
      if byRound \<noteq> 0 then byRound else loc (fa_kind a) (fa_kind b))"

definition starts_with :: "string \<Rightarrow> string \<Rightarrow> bool" where
  "starts_with p s = (take (length p) s = p)"

definition checkpoints_of :: "(string \<Rightarrow> string \<Rightarrow> 'p jsnum) \<Rightarrow> 'p factoryEvent list \<Rightarrow> factoryCheckpoint list" where
  "checkpoints_of loc es =
     js_sort (\<lambda>a b. loc (fc_at b) (fc_at a))
       (map (\<lambda>e. \<lparr>fc_taskId = fe_taskId e, fc_kind = fe_kind e, checkpoint = nullish (payloadString e ''checkpoint'') ''unknown'',
           fc_at = fe_at e, fc_traceId = fe_traceId e, artifactPath = payloadString e ''artifactPath''\<rparr>)
         (filter (\<lambda>e. starts_with ''checkpoint.'' (fe_kind e)) es))"

text \<open>\<^verbatim>\<open>(counts[kind] ?? 0) + 1\<close> on an object literal: a kind named like a property of
  \<^verbatim>\<open>Object.prototype\<close> finds that property first.\<close>

definition count_event :: "(string \<times> ('p::len0) looked_up) list \<Rightarrow> string \<Rightarrow> (string \<times> 'p looked_up) list" where
  "count_event counts kind =
     aput kind (case map_of counts kind of
         Some (Weight n) \<Rightarrow> Weight (n + 1)
       | Some v \<Rightarrow> HostValue
       | None \<Rightarrow> if kind \<in> set object_prototype then HostValue else Weight (0 + 1)) counts"

definition count_events :: "('p::len0) factoryEvent list \<Rightarrow> (string \<times> 'p looked_up) list" where
  "count_events es = foldl count_event [] (map fe_kind es)"

definition normalizeFactoryConsoleData ::
    "(string \<Rightarrow> string \<Rightarrow> 'p jsnum) \<Rightarrow> ('p runReport \<Rightarrow> string) \<Rightarrow> ('p runReport \<Rightarrow> string) \<Rightarrow> (string \<Rightarrow> string)
      \<Rightarrow> ('p::len0) factoryFixture \<Rightarrow> string + 'p factoryView" where
  "normalizeFactoryConsoleData loc compact_json pretty_json encodeURIComponent fx =
     (let tasks = js_sort (task_cmp loc) (map (task_view loc fx) (fx_tasks fx)) in
      case tasks of
        [] \<Rightarrow> Inl ''factory console fixture must include at least one task''
      | active # _ \<Rightarrow> Inr
          \<lparr>fv_sourceLabel = sourceLabel fx, fv_generatedAt = generatedAt fx, fv_tasks = tasks, activeTask = active,
           fv_artifacts = js_sort (artifact_cmp loc) (filter (\<lambda>a. fa_taskId a = ft_id active) (fx_artifacts fx)),
           checkpoints = checkpoints_of loc (fx_events fx), eventCounts = count_events (fx_events fx),
           reportSummary = summarizeReport (fx_runReport fx), replayJson = pretty_json (fx_runReport fx),
           replayHref = ''/?json='' @ encodeURIComponent (compact_json (fx_runReport fx))\<rparr>)"

section \<open>The fixture\<close>

definition buildReplayReport :: "string \<Rightarrow> string \<Rightarrow> ('p::len0) runReport" where
  "buildReplayReport run_id now_text =
     (assembleReport run_id now_text
        \<lparr>as_scenario = makeScenario (no_patch\<lparr>q_presetId := Some ''substrate-crunch'', q_alpha := Some (lit 0.9),
           q_epsilon := Some (lit 0.04), q_infoMode := Some ForecastBand\<rparr>),
         as_auditMode = False, as_label = Some ''Factory console replay'',
         as_notes = Some ''Static fixture used by the factory console.''\<rparr>)
      \<lparr>rep_id := ''run-factory-console-demo'', timestamp := ''2026-05-25T12:00:00.000Z'',
       rep_label := ''Factory console replay''\<rparr>"

definition fixture_tasks :: "factoryTask list" where
  "fixture_tasks =
     [\<lparr>ft_id = ''example-with-checkpoint'', ft_title = ''Add a single example test to scripts.factory'',
        specPath = ''specs/0009-factory-dev-control-plane/'', ft_status = AwaitingApproval, ft_currentStep = ''await:plan_review'',
        traceId = ''trace-example-checkpoint-2026-05-25'', awaitingCheckpoint = Some ''plan_review'',
        lastThreadId = Some ''tagged:stub-plan-example-with-checkpoint'',
        lastRunId = Some ''tagged:stub-run-example-with-checkpoint'', updatedAt = ''2026-05-25T12:00:00.000Z''\<rparr>,
      \<lparr>ft_id = ''real-cli-smoke'', ft_title = ''Add real CLI smoke test'',
        specPath = ''specs/0009-factory-dev-control-plane/'', ft_status = Done, ft_currentStep = ''push'',
        traceId = ''trace-real-cli-smoke-2026-05-24'', awaitingCheckpoint = None,
        lastThreadId = Some ''a18244d7-7b86-41d0-9f79-da946d05bc3b'',
        lastRunId = Some ''fbe57e64-5854-4e3b-a151-954d21c5bc42'', updatedAt = ''2026-05-24T18:40:00.000Z''\<rparr>]"

definition fixture_artifacts :: "factoryArtifact list" where
  "fixture_artifacts =
     [\<lparr>fa_taskId = ''example-with-checkpoint'', fa_kind = ''plan'', fa_round = 0,
        fa_path = ''ops/factory-artifacts/example-with-checkpoint/0-plan.txt'',
        fa_sha1 = ''3d6a1c0e7d18c22565b1a7c67d8a2d5501f09f31'', fa_size = 1284,
        fa_summary = ''Planner output waiting for human plan_review approval.''\<rparr>,
      \<lparr>fa_taskId = ''real-cli-smoke'', fa_kind = ''plan'', fa_round = 0,
        fa_path = ''ops/factory-artifacts/real-cli-smoke/0-plan.txt'',
        fa_sha1 = ''46b5710f203cf4d0d0915ef5dca6a58c8b1d1103'', fa_size = 3719,
        fa_summary = ''Claude CLI plan artifact captured with real session metadata.''\<rparr>,
      \<lparr>fa_taskId = ''real-cli-smoke'', fa_kind = ''gate-py-compile-smoke'', fa_round = 0,
        fa_path = ''ops/factory-artifacts/real-cli-smoke/0-gate-py-compile-smoke.txt'',
        fa_sha1 = ''a0a4d52a51f2228d63f3c5b0f84f359ec1aa302a'', fa_size = 96,
        fa_summary = ''py_compile gate passed for the smoke test file.''\<rparr>,
      \<lparr>fa_taskId = ''real-cli-smoke'', fa_kind = ''review'', fa_round = 0,
        fa_path = ''ops/factory-artifacts/real-cli-smoke/0-review.txt'',
        fa_sha1 = ''f8a08f30c51a6a7779b2f03610c9c44cc0a77ea2'', fa_size = 1809,
        fa_summary = ''Review artifact for the completed sample run.''\<rparr>]"

definition fixture_events :: "'p factoryEvent list" where
  "fixture_events =
     [\<lparr>fe_taskId = ''example-with-checkpoint'', fe_kind = ''task.started'', fe_at = ''2026-05-25T11:58:10.000Z'',
        fe_traceId = ''trace-example-checkpoint-2026-05-25'',
        payload = Some [(''step'', JStr ''plan'')]\<rparr>,
      \<lparr>fe_taskId = ''example-with-checkpoint'', fe_kind = ''artifact.written'', fe_at = ''2026-05-25T11:59:02.000Z'',
        fe_traceId = ''trace-example-checkpoint-2026-05-25'',
        payload = Some [(''kind'', JStr ''plan''), (''path'', JStr ''ops/factory-artifacts/example-with-checkpoint/0-plan.txt'')]\<rparr>,
      \<lparr>fe_taskId = ''example-with-checkpoint'', fe_kind = ''checkpoint.paused'', fe_at = ''2026-05-25T12:00:00.000Z'',
        fe_traceId = ''trace-example-checkpoint-2026-05-25'',
        payload = Some [(''checkpoint'', JStr ''plan_review''), (''artifactPath'', JStr ''ops/factory-artifacts/example-with-checkpoint/0-plan.txt'')]\<rparr>,
      \<lparr>fe_taskId = ''real-cli-smoke'', fe_kind = ''gate.done'', fe_at = ''2026-05-24T18:32:15.000Z'',
        fe_traceId = ''trace-real-cli-smoke-2026-05-24'',
        payload = Some [(''gate'', JStr ''py-compile-smoke''), (''ok'', JBool True)]\<rparr>,
      \<lparr>fe_taskId = ''real-cli-smoke'', fe_kind = ''review.done'', fe_at = ''2026-05-24T18:37:21.000Z'',
        fe_traceId = ''trace-real-cli-smoke-2026-05-24'',
        payload = Some [(''reviewer'', JStr ''claude_code''), (''status'', JStr ''clean'')]\<rparr>,
      \<lparr>fe_taskId = ''real-cli-smoke'', fe_kind = ''task.done'', fe_at = ''2026-05-24T18:40:00.000Z'',
        fe_traceId = ''trace-real-cli-smoke-2026-05-24'',
        payload = Some [(''branch'', JStr ''factory/real-cli-smoke'')]\<rparr>]"

definition factoryConsoleFixture :: "string \<Rightarrow> string \<Rightarrow> ('p::len0) factoryFixture" where
  "factoryConsoleFixture run_id now_text =
     \<lparr>sourceLabel = ''ops/factory-tasks/example-with-checkpoint.yaml'', generatedAt = ''2026-05-25T12:00:00.000Z'', fx_tasks = fixture_tasks,
      fx_artifacts = fixture_artifacts, fx_events = fixture_events, fx_runReport = buildReplayReport run_id now_text\<rparr>"

section \<open>Laws\<close>

lemma of_count_js: "n \<le> 2 ^ 53 \<Longrightarrow> (of_count n :: js) = Fin (of_int (int n))"
  using lit_integer [of "int n"] by (simp add: of_count_def)

lemma STATUS_ORDER_bound: "STATUS_ORDER x \<le> 4"
  by (cases x) simp_all

lemma status_diff:
  "(of_count (STATUS_ORDER x) - of_count (STATUS_ORDER y) :: js) = Fin (of_int (int (STATUS_ORDER x) - int (STATUS_ORDER y)))"
proof -
  have "STATUS_ORDER x \<le> 2 ^ 53" "STATUS_ORDER y \<le> 2 ^ 53" "\<bar>int (STATUS_ORDER x) - int (STATUS_ORDER y)\<bar> \<le> 2 ^ 53"
    using STATUS_ORDER_bound [of x] STATUS_ORDER_bound [of y] by auto
  then show ?thesis by (simp only: of_count_js whole_ops)
qed

lemma task_le:
  "cmp_le (task_cmp loc) a b \<longleftrightarrow> STATUS_ORDER (ft_status a) < STATUS_ORDER (ft_status b)
     \<or> STATUS_ORDER (ft_status a) = STATUS_ORDER (ft_status b) \<and> cmp_le loc (updatedAt b) (updatedAt a)"
  for loc :: "string \<Rightarrow> string \<Rightarrow> js"
  by (auto simp: cmp_le_def task_cmp_def Let_def status_diff)

lemma task_comparator:
  fixes loc :: "string \<Rightarrow> string \<Rightarrow> js"
  assumes "comparator loc (\<lambda>_. True)"
  shows "comparator (task_cmp loc) (\<lambda>_. True)"
proof
  fix x y z :: factoryTaskView
  show "cmp_le (task_cmp loc) x y \<or> cmp_le (task_cmp loc) y x"
    using comparator.le_total [OF assms, of "updatedAt x" "updatedAt y"] by (auto simp: task_le)
  show "cmp_le (task_cmp loc) x y \<Longrightarrow> cmp_le (task_cmp loc) y z \<Longrightarrow> cmp_le (task_cmp loc) x z"
    using comparator.le_trans [OF assms, of "updatedAt z" "updatedAt y" "updatedAt x"] by (auto simp: task_le)
qed

lemma task_view_fields [simp]: "ft_status (task_view loc fx t) = ft_status t" "ft_id (task_view loc fx t) = ft_id t"
  "updatedAt (task_view loc fx t) = updatedAt t"
  by (simp_all add: task_view_def Let_def factoryTask.extend_def factoryTaskView.fields_def)


text \<open>A collation by code units, to instantiate \<^verbatim>\<open>localeCompare\<close>.\<close>

definition code_unit_compare :: "string \<Rightarrow> string \<Rightarrow> ('p::len0) jsnum" where
  "code_unit_compare a b = (if a < b then Fin (- 1) else if b < a then Fin 1 else Fin 0)"

lemma code_unit_comparator: "comparator code_unit_compare (\<lambda>_. True)"
  by unfold_locales (auto simp: cmp_le_def code_unit_compare_def split: if_splits)


text \<open>The counts by kind, apart from kinds named like a property of \<^verbatim>\<open>Object.prototype\<close>.\<close>

definition tally :: "nat \<Rightarrow> 0 looked_up option" where
  "tally n = (if n = 0 then None else Some (Weight (Fin (of_nat n))))"

lemma tally_step:
  assumes "k \<notin> set object_prototype" "map_of counts k = tally n"
  shows "map_of (count_event counts x) k = tally (n + (if x = k then 1 else 0))"
  using assms by (auto simp: count_event_def tally_def add.commute)

lemma event_counts:
  assumes "k \<notin> set object_prototype"
  shows "map_of counts k = tally n \<Longrightarrow> map_of (foldl count_event counts ks) k = tally (n + count_list ks k)"
proof (induction ks arbitrary: counts n)
  case (Cons x ks)
  then show ?case using Cons.IH [OF tally_step [OF assms Cons.prems, of x]] by auto
qed simp

lemma count_events_tally:
  "k \<notin> set object_prototype \<Longrightarrow> map_of (count_events es) k = tally (count_list (map fe_kind es) k)"
  unfolding count_events_def using event_counts [of k "[]" 0 "map fe_kind es"] by (simp add: tally_def)

end
