(* ===== verification/AuthorLevel.thy ===== *)
theory AuthorLevel
  imports ShareEncoder Catalog BuyPlan
begin

text \<open>
  Level 8, \<^verbatim>\<open>apps/web/src/surfaces/learn/Level08.tsx\<close>: the level in which a participant is authored and
  shared. The parser, \<^verbatim>\<open>Math\<close>, \<^verbatim>\<open>JSON.stringify\<close> and \<^verbatim>\<open>JSON.parse\<close> are arguments; a participant in the
  address is the value of its parameter \<^verbatim>\<open>p\<close>.
\<close>

section \<open>Strategies of a role\<close>

definition strategiesForRole :: "participantRole \<Rightarrow> ('p::len0) strategy list" where
  "strategiesForRole r = filter (\<lambda>s. strategy_role s = r) strategies"

definition strategyCountByRole :: "participantRole \<Rightarrow> nat" where
  "strategyCountByRole = foldl (\<lambda>counts s. counts(strategy_role s := counts (strategy_role s) + 1)) (\<lambda>_. 0)
     (strategies :: 0 strategy list)"

section \<open>Constants\<close>

definition LEVEL8_ROLES :: "participantRole list" where
  "LEVEL8_ROLES = [Buyer, Supplier, Packager, Logistics, Distributor]"

definition LEVEL8_DEFAULT_PARAMS :: "('p::len0) agentParameters" where
  "LEVEL8_DEFAULT_PARAMS = \<lparr>urgency = lit 0.6, flexibility = lit 0.5, truthfulness = lit 0.7, privacyPreference = lit 0.6, riskAversion = lit 0.6\<rparr>"

definition REFERENCE_VALUES :: "(string \<times> rat) list" where
  "REFERENCE_VALUES =
     [(''q'', 425), (''demand'', 500), (''unit_cost'', 55), (''service_value'', 125), (''shortage_penalty'', 92),
      (''excess_penalty'', 7), (''holding'', 5), (''revenue_per_unit'', 60), (''production_cost'', 38), (''holding_cost'', 5),
      (''forecast'', 480), (''risk_premium'', 8), (''risk_score'', 0.3), (''loyalty_bonus'', 12), (''relationship_score'', 0.6),
      (''yield_value'', 180), (''effective_q'', 380), (''rework_cost'', 15), (''capacity'', 500), (''yield_rate'', 0.85),
      (''package_margin'', 45), (''bonding_cost'', 12), (''substrate_carry'', 7), (''substrate_pool'', 400),
      (''lane_margin'', 22), (''lane_cost'', 10), (''export_penalty'', 18), (''export_flag'', 0), (''delay_penalty'', 4),
      (''lead_time_days'', 28), (''channel_margin'', 28), (''committed_demand'', 450)]"

definition LEVEL8_VARS :: "string list" where
  "LEVEL8_VARS = map fst REFERENCE_VALUES @ [''urgency'', ''flexibility'', ''truthfulness'', ''privacy_preference'', ''risk_aversion'']"

definition SAFE_FALLBACK_FORMULA :: string where
  "SAFE_FALLBACK_FORMULA = ''service_value * min(q, demand) - unit_cost * q''"

definition VARIABLES_HELP :: string where
  "VARIABLES_HELP = concat (map (\<lambda>l. l @ [CHR 0x0A])
    ['''',
     ''allowed variables:'',
     ''  q, demand, unit_cost, service_value, shortage_penalty,'',
     ''  excess_penalty, holding                  (buyer-side defaults)'',
     '''',
     ''  revenue_per_unit, production_cost, holding_cost, forecast,'',
     ''  risk_premium, risk_score, loyalty_bonus,'',
     ''  relationship_score                       (supplier-side defaults)'',
     '''',
     ''  yield_value, effective_q, rework_cost, capacity, yield_rate'',
     ''                                            (foundry-side defaults)'',
     '''',
     ''  package_margin, bonding_cost, substrate_carry, substrate_pool'',
     ''                                            (packager-side defaults)'',
     '''',
     ''  lane_margin, lane_cost, export_penalty, export_flag,'',
     ''  delay_penalty, lead_time_days            (logistics-side defaults)'',
     '''',
     ''  channel_margin, committed_demand         (distributor-side defaults)'',
     '''',
     ''  urgency, flexibility, truthfulness,'',
     ''  privacy_preference, risk_aversion        (your sliders)'',
     '''',
     ''allowed functions: min, max, abs, sqrt, log, exp, clip, pow''])"

section \<open>The page\<close>

record 'p level8 =
  l8_role :: participantRole
  l8_formula :: string
  l8_params :: "'p agentParameters"
  editedFormula :: bool
  editedParams :: bool
  helpOpen :: bool
  shareCopied :: bool

definition strategy_of :: "participantRole \<Rightarrow> ('p::len0) strategy" where
  "strategy_of r = strategiesForRole r ! 0"

text \<open>The formula a role starts with: its own, or the fallback if it does not compile.\<close>

definition parseable :: "('p::len0) parser \<Rightarrow> string \<Rightarrow> string" where
  "parseable ps raw = (case compileFormula ps raw (Some LEVEL8_VARS) of Inr _ \<Rightarrow> raw | Inl _ \<Rightarrow> SAFE_FALLBACK_FORMULA)"

text \<open>The parameters of a strategy, spread over the defaults, replace all five.\<close>

definition spread_params :: "'p agentParameters \<Rightarrow> 'p agentParameters \<Rightarrow> 'p agentParameters" where
  "spread_params base over =
     base\<lparr>urgency := urgency over, flexibility := flexibility over, truthfulness := truthfulness over,
       privacyPreference := privacyPreference over, riskAversion := riskAversion over\<rparr>"

definition first_render :: "('p::len0) parser \<Rightarrow> 'p level8" where
  "first_render ps =
     \<lparr>l8_role = Buyer, l8_formula = parseable ps (defaultUtilityFormula (strategy_of Buyer :: 'p strategy)),
      l8_params = spread_params LEVEL8_DEFAULT_PARAMS (defaultParameters (strategy_of Buyer)),
      editedFormula = False, editedParams = False, helpOpen = False, shareCopied = False\<rparr>"

definition hydrate :: "(string \<Rightarrow> 'p json option) \<Rightarrow> string option \<Rightarrow> ('p::len0) level8 \<Rightarrow> 'p level8" where
  "hydrate parse encoded s =
     (case encoded of None \<Rightarrow> s
      | Some link \<Rightarrow> if link = [] then s else
          (case decodeParticipant parse link of None \<Rightarrow> s
           | Some d \<Rightarrow> s\<lparr>l8_role := sh_role d, l8_formula := sh_formula d, l8_params := sh_params d,
               editedFormula := True, editedParams := True\<rparr>))"

definition handleRoleChange :: "('p::len0) parser \<Rightarrow> participantRole \<Rightarrow> 'p level8 \<Rightarrow> 'p level8" where
  "handleRoleChange ps r s =
     s\<lparr>l8_role := r, l8_formula := parseable ps (defaultUtilityFormula (strategy_of r :: 'p strategy)),
       l8_params := spread_params LEVEL8_DEFAULT_PARAMS (defaultParameters (strategy_of r))\<rparr>"

definition handleFormulaChange :: "string \<Rightarrow> ('p::len0) level8 \<Rightarrow> 'p level8" where
  "handleFormulaChange v s =
     (let s' = s\<lparr>l8_formula := v\<rparr> in
      if v \<noteq> defaultUtilityFormula (strategy_of (l8_role s) :: 'p strategy) then s'\<lparr>editedFormula := True\<rparr> else s')"

datatype paramKey = UrgencyKey | FlexibilityKey | TruthfulnessKey | PrivacyKey | RiskKey

fun set_param :: "paramKey \<Rightarrow> 'p jsnum \<Rightarrow> 'p agentParameters \<Rightarrow> 'p agentParameters" where
  "set_param UrgencyKey v ps = ps\<lparr>urgency := v\<rparr>"
| "set_param FlexibilityKey v ps = ps\<lparr>flexibility := v\<rparr>"
| "set_param TruthfulnessKey v ps = ps\<lparr>truthfulness := v\<rparr>"
| "set_param PrivacyKey v ps = ps\<lparr>privacyPreference := v\<rparr>"
| "set_param RiskKey v ps = ps\<lparr>riskAversion := v\<rparr>"

definition handleParamChange :: "paramKey \<Rightarrow> 'p jsnum \<Rightarrow> 'p level8 \<Rightarrow> 'p level8" where
  "handleParamChange k v s = s\<lparr>l8_params := set_param k v (l8_params s), editedParams := True\<rparr>"

definition graduated :: "'p level8 \<Rightarrow> bool" where
  "graduated s = (editedFormula s \<or> editedParams s)"

section \<open>What the page shows\<close>

definition slider_namespace :: "('p::len0) agentParameters \<Rightarrow> 'p namespace" where
  "slider_namespace ps =
     map (\<lambda>(k, v). (k, NumV (lit v))) REFERENCE_VALUES
     @ [(''urgency'', NumV (urgency ps)), (''flexibility'', NumV (flexibility ps)), (''truthfulness'', NumV (truthfulness ps)),
        (''privacy_preference'', NumV (privacyPreference ps)), (''risk_aversion'', NumV (riskAversion ps))]"

definition evalResult :: "'p parser \<Rightarrow> 'p mathlib \<Rightarrow> ('p::len0) level8 \<Rightarrow> 'p jsnum \<times> 'p ferror option" where
  "evalResult ps m s =
     (case ebind (compileFormula ps (l8_formula s) (Some LEVEL8_VARS)) (\<lambda>cf. evaluate m cf (slider_namespace (l8_params s))) of
        Inr v \<Rightarrow> (v, None) | Inl e \<Rightarrow> (0, Some e))"

definition defaultEval :: "'p parser \<Rightarrow> 'p mathlib \<Rightarrow> participantRole \<Rightarrow> ('p::len0) jsnum" where
  "defaultEval ps m r =
     (case ebind (compileFormula ps (parseable ps (defaultUtilityFormula (strategy_of r :: 'p strategy))) (Some LEVEL8_VARS))
         (\<lambda>cf. evaluate m cf (slider_namespace (defaultParameters (strategy_of r)))) of
        Inr v \<Rightarrow> v | Inl _ \<Rightarrow> 0)"

definition surplusValue :: "'p parser \<Rightarrow> 'p mathlib \<Rightarrow> ('p::len0) level8 \<Rightarrow> 'p jsnum" where
  "surplusValue ps m s = jmax 0 (fst (evalResult ps m s))"

definition level8_lost :: "'p parser \<Rightarrow> 'p mathlib \<Rightarrow> ('p::len0) level8 \<Rightarrow> 'p jsnum" where
  "level8_lost ps m s = jmax 0 (defaultEval ps m (l8_role s) - surplusValue ps m s)"

text \<open>The address that is shared.\<close>

definition shared_of :: "'p level8 \<Rightarrow> 'p sharedParticipant" where
  "shared_of s = \<lparr>sh_role = l8_role s, sh_formula = l8_formula s, sh_params = l8_params s\<rparr>"

definition share_url :: "string \<Rightarrow> string \<Rightarrow> string \<Rightarrow> string" where
  "share_url origin pathname encoded = origin @ pathname @ ''?p='' @ encoded @ ''#/learn/8''"

text \<open>What sharing does: the address is copied and the button says so for two seconds, or a prompt shows it.\<close>

definition handleShare :: "('p json \<Rightarrow> string) \<Rightarrow> string \<Rightarrow> string \<Rightarrow> bool \<Rightarrow> ('p::len0) level8 \<Rightarrow> 'p level8 \<times> string" where
  "handleShare stringify origin pathname copied s =
     (if copied then s\<lparr>shareCopied := True\<rparr> else s,
      share_url origin pathname (encodeParticipant stringify (shared_of s)))"

text \<open>What can happen on the page. The sliders run from 0 to 1.\<close>

inductive level8_step :: "'p parser \<Rightarrow> ('p::len0) level8 \<Rightarrow> 'p level8 \<Rightarrow> bool" for ps where
  choose_role: "r \<in> set LEVEL8_ROLES \<Longrightarrow> level8_step ps s (handleRoleChange ps r s)"
| edit_formula: "level8_step ps s (handleFormulaChange v s)"
| slide: "is_fin v \<Longrightarrow> 0 \<le> v \<Longrightarrow> v \<le> 1 \<Longrightarrow> level8_step ps s (handleParamChange k v s)"
| toggle_help: "level8_step ps s (s\<lparr>helpOpen := \<not> helpOpen s\<rparr>)"
| share_link: "level8_step ps s (fst (handleShare stringify origin pathname copied s))"
| copied_timeout: "level8_step ps s (s\<lparr>shareCopied := False\<rparr>)"

inductive level8_reachable :: "'p parser \<Rightarrow> (string \<Rightarrow> 'p json option) \<Rightarrow> string option \<Rightarrow> ('p::len0) level8 \<Rightarrow> bool"
  for ps parse encoded where
  mounted: "level8_reachable ps parse encoded (hydrate parse encoded (first_render ps))"
| moved: "level8_reachable ps parse encoded s \<Longrightarrow> level8_step ps s s' \<Longrightarrow> level8_reachable ps parse encoded s'"

section \<open>Laws\<close>

lemma strategies_in_unit: "list_all (\<lambda>s. in_unit (defaultParameters s)) (strategies :: 53 strategy list)"
  by code_simp

lemma strategies_cover: "strategiesForRole r \<noteq> ([] :: ('p::len0) strategy list)"
  by (cases r) (simp_all add: strategiesForRole_def strategies_def strategy_launch_protector_buyer_def strategy_jit_buyer_def
    strategy_capacity_guard_supplier_def strategy_relationship_supplier_def strategy_yield_optimizer_supplier_def
    strategy_packager_cowos_def strategy_logistics_customs_def strategy_distributor_channel_def strategy_neutral_coordinator_def
    strategy_custom_bargainer_def)

lemma strategy_count: "strategyCountByRole r = length (strategiesForRole r :: 0 strategy list)"
proof -
  have "foldl (\<lambda>counts s. counts(strategy_role s := counts (strategy_role s) + 1)) c xs r
      = c r + length (filter (\<lambda>s. strategy_role s = r) xs)" for c :: "participantRole \<Rightarrow> nat" and xs :: "0 strategy list"
    by (induction xs arbitrary: c) auto
  then show ?thesis by (simp add: strategyCountByRole_def strategiesForRole_def)
qed

lemma default_in_unit: "in_unit (defaultParameters (strategy_of r :: 53 strategy))"
proof -
  have "(strategy_of r :: 53 strategy) \<in> set (strategiesForRole r)" 
    using strategies_cover [of r] unfolding strategy_of_def by (intro nth_mem) simp
  then show ?thesis using strategies_in_unit by (auto simp: strategiesForRole_def list_all_iff)
qed

lemma spread_all [simp]: "spread_params base (over :: 'p agentParameters) = over"
  by (simp add: spread_params_def)

lemma set_param_in_unit: "in_unit ps \<Longrightarrow> is_fin v \<Longrightarrow> 0 \<le> v \<Longrightarrow> v \<le> 1 \<Longrightarrow> in_unit (set_param k v ps)"
  by (cases k) (simp_all add: in_unit_def)

lemma reachable_in_unit:
  fixes ps :: "53 parser"
  assumes "level8_reachable ps parse encoded s" shows "in_unit (l8_params s)"
  using assms
proof induction
  case mounted
  have "in_unit (sh_params d)" if "decodeParticipant parse link = Some d" for link d
    using that clean_participant_sane
    by (auto simp: decodeParticipant_def read_participant_def Let_def split: option.splits json.splits if_splits)
  then show ?case by (auto simp: hydrate_def first_render_def default_in_unit split: option.splits)
next
  case (moved s s')
  from this(2,3) show ?case
    by cases (auto simp: handleRoleChange_def handleFormulaChange_def handleParamChange_def handleShare_def Let_def
      default_in_unit set_param_in_unit)
qed

lemma clamp01_in_unit: "is_fin x \<Longrightarrow> 0 \<le> x \<Longrightarrow> x \<le> 1 \<Longrightarrow> clamp01 x = x" for x :: "('p::len0) jsnum"
  by (cases x) (auto simp: clamp01_def)

lemma in_unit_clean: "in_unit ps \<Longrightarrow> clean_params ps = ps"
  by (simp add: in_unit_def clean_params_def clamp01_in_unit)

lemma shared_clean:
  "in_unit (l8_params s) \<Longrightarrow> length (l8_formula s) \<le> 2000 \<Longrightarrow> clean_participant (shared_of s) = shared_of s"
  by (simp add: clean_participant_def shared_of_def in_unit_clean)

lemma lit_fin: "\<bar>r\<bar> \<le> 2 ^ 20 \<Longrightarrow> is_fin (lit r :: ('p::len0) jsnum)"
  using mag_lit [of r 20, where 'p = 'p] by (simp add: mag_is_fin)

lemma reference_values_fin: "list_all (\<lambda>(k, v). \<bar>v\<bar> \<le> 2 ^ 20) REFERENCE_VALUES"
  by (simp add: REFERENCE_VALUES_def)

lemma namespace_complete:
  assumes "in_unit ps"
  shows "\<forall>x \<in> set LEVEL8_VARS. \<exists>v. map_of (slider_namespace ps) x = Some v \<and> finite_value v"
proof
  fix x assume x: "x \<in> set LEVEL8_VARS"
  have fin: "finite_value v" if "(x, v) \<in> set (slider_namespace ps)" for v
    using that assms reference_values_fin by (auto simp: slider_namespace_def in_unit_def list_all_iff intro!: lit_fin)
  have "fst ` set (slider_namespace ps) = set LEVEL8_VARS"
    by (simp add: slider_namespace_def LEVEL8_VARS_def image_Un image_image case_prod_unfold)
  then obtain v where "map_of (slider_namespace ps) x = Some v"
    using x by (metis (no_types) domD dom_map_of_conv_image_fst)
  then show "\<exists>v. map_of (slider_namespace ps) x = Some v \<and> finite_value v" using fin map_of_SomeD by fast
qed

text \<open>The help panel names every variable a formula may use.\<close>

fun words_of :: "string \<Rightarrow> string \<Rightarrow> string list" where
  "words_of w [] = [w]"
| "words_of w (c # cs) = (if c \<in> set '' ,:()'' \<or> c = CHR 0x0A then w # words_of [] cs else words_of (w @ [c]) cs)"

lemma help_names_all: "list_all (\<lambda>v. v \<in> set (words_of [] VARIABLES_HELP)) LEVEL8_VARS"
  by code_simp

text \<open>Choosing a role never opens the editor on an error, if the fallback compiles.\<close>

lemma role_default_compiles:
  "compileFormula ps SAFE_FALLBACK_FORMULA (Some LEVEL8_VARS) = Inr cf \<Longrightarrow>
     \<exists>cf. compileFormula ps (l8_formula (handleRoleChange ps r s)) (Some LEVEL8_VARS) = Inr cf"
  by (auto simp: handleRoleChange_def parseable_def split: sum.splits)

lemma bar_finite: "is_fin x \<Longrightarrow> is_fin (jmax 0 x) \<and> 0 \<le> jmax 0 x" for x :: "('p::len0) jsnum"
  by (cases x) auto

text \<open>C34: On every page of level 8 that can be reached, from whatever link, the surplus of the bar is a finite
  number that is not negative, whatever is typed and whatever the parser and \<^verbatim>\<open>Math\<close> return; a formula
  that compiles is evaluated where every variable the help panel names is bound, so it fails only with an
  error of its evaluation.\<close>

theorem level8_bar_finite:
  fixes ps :: "53 parser"
  assumes "level8_reachable ps parse encoded s"
  shows "is_fin (surplusValue ps m s) \<and> 0 \<le> surplusValue ps m s
    \<and> (case compileFormula ps (l8_formula s) (Some LEVEL8_VARS) of
         Inl e \<Rightarrow> evalResult ps m s = (0, Some e)
       | Inr cf \<Rightarrow> safe_outcome (evaluate m cf (slider_namespace (l8_params s))))"
proof (cases "compileFormula ps (l8_formula s) (Some LEVEL8_VARS)")
  case (Inr cf)
  have safe: "safe_outcome (evaluate m cf (slider_namespace (l8_params s)))"
    by (rule formula_safe [OF Inr namespace_complete [OF reachable_in_unit [OF assms]]])
  moreover have "is_fin (fst (evalResult ps m s))" using safe Inr
    by (cases "evaluate m cf (slider_namespace (l8_params s))") (simp_all add: evalResult_def)
  ultimately show ?thesis using Inr bar_finite [of "fst (evalResult ps m s)"] by (simp add: surplusValue_def)
qed (simp add: evalResult_def surplusValue_def)

theorem level8_bar_finite_witness:
  "is_fin (surplusValue (\<lambda>_. Inr (Identifier ''urgency'', 99)) demo_math (first_render (\<lambda>_. Inr (Identifier ''urgency'', 99))))"
proof -
  let ?ps = "\<lambda>_. Inr (Identifier ''urgency'', 99) :: string + (53 fnode \<times> nat)"
  have "level8_reachable ?ps (\<lambda>_. None) None (first_render ?ps)"
    using level8_reachable.mounted [of ?ps "\<lambda>_. None" None] by (simp add: hydrate_def)
  from level8_bar_finite [OF this, of demo_math] show ?thesis by blast
qed

lemma encode_not_empty: "t \<noteq> [] \<Longrightarrow> base64UrlEncode t \<noteq> []"
proof
  assume "t \<noteq> []" "base64UrlEncode t = []"
  moreover have "base64UrlDecode [] = Some []" by code_simp
  ultimately show False using base64Url_lemma [of t] by simp
qed


definition demo_author :: "53 level8" where
  "demo_author = handleFormulaChange ''q * 2'' (handleParamChange UrgencyKey 1 (first_render (\<lambda>_. Inl ''no parser'')))"

lemma demo_author_reachable: "level8_reachable (\<lambda>_. Inl ''no parser'') parse None demo_author"
proof -
  have "level8_reachable (\<lambda>_. Inl ''no parser'') parse None (first_render (\<lambda>_. Inl ''no parser'') :: 53 level8)"
    using level8_reachable.mounted [of "\<lambda>_. Inl ''no parser''" parse None] by (simp add: hydrate_def)
  then have "level8_reachable (\<lambda>_. Inl ''no parser'') parse None (handleParamChange UrgencyKey 1 (first_render (\<lambda>_. Inl ''no parser'')) :: 53 level8)"
    by (rule level8_reachable.moved) (rule slide, simp_all)
  then show ?thesis unfolding demo_author_def by (rule level8_reachable.moved) (rule edit_formula)
qed


end
