(* ===== verification/CoordinationCatalog.thy ===== *)
theory CoordinationCatalog
  imports Main
begin

text \<open>
  \<^verbatim>\<open>packages/engine/src/learn/coordinationCatalog.ts\<close>: the catalog of coordination mechanisms of level 11,
  with its lookups. A text with characters outside ASCII is the list of the bytes of its UTF-8
  encoding.
\<close>

datatype coordinationFamily =
  RuleBased | PostedPrice | Score | Rfq | SealedAuction | Matching | GreedyShadow | SmallLp | PriceLoop | Admm
| DpAdmm | SecureMpc

datatype confidentiality = ConfLow | ConfMedium | ConfMediumHigh | ConfHigh | ConfFormal

datatype welfareRating = FirstBest | NearFirstBest | WelfareGood | WelfareOk | WelfareWeak

datatype setupRating = SetupMinimal | SetupLow | SetupMedium | SetupHigh

datatype computeRating = CostConstant | CostLow | CostMedium | CostIterative

fun family_text :: "coordinationFamily \<Rightarrow> string" where
  "family_text RuleBased = ''rule''"
| "family_text PostedPrice = ''posted-price''"
| "family_text Score = ''score''"
| "family_text Rfq = ''rfq''"
| "family_text SealedAuction = ''sealed-auction''"
| "family_text Matching = ''matching''"
| "family_text GreedyShadow = ''greedy-with-shadow-prices''"
| "family_text SmallLp = ''small-lp''"
| "family_text PriceLoop = ''price-adjustment-loop''"
| "family_text Admm = ''admm''"
| "family_text DpAdmm = ''differentially-private-admm''"
| "family_text SecureMpc = ''secure-mpc''"

record coordinationEntry =
  ce_id :: coordinationFamily
  ce_name :: string
  ce_gist :: string
  exchanges :: string
  leaks :: string
  confidentiality :: confidentiality
  welfare_rating :: welfareRating
  setupEffort :: setupRating
  compute_cost :: computeRating
  incentiveCompatible :: bool
  bestFits :: "string list"
  weaknesses :: "string list"
  furtherReading :: "(string \<times> string) list"

definition entry_rule :: coordinationEntry where
  "entry_rule = \<lparr>ce_id = RuleBased, ce_name = ''Rule-based engine'',
     ce_gist = ''Hand-coded if/then rules. Cheapest, most explainable, never the best, but a sensible MVP.'',
     exchanges = ''Inputs to the rule engine (utilization, inventory cover, vendor reliability). Outputs are categorical decisions.'',
     leaks = ''The rule set itself, plus any state the engine reads. No iterative transcript.'',
     confidentiality = ConfMedium, welfare_rating = WelfareOk, setupEffort = SetupMinimal, compute_cost = CostConstant, incentiveCompatible = False,
     bestFits = [''MVPs'',
       ''operational guardrails'',
       ''business-owned policies'',
       ''exception handling''],
     weaknesses = [''Brittle as complexity grows'',
       ''Gameable once rules are public''],
     furtherReading = [(''Boyd & Vandenberghe, Convex Optimization (Ch. 4)'',
        ''https://web.stanford.edu/~boyd/cvxbook/'')]\<rparr>"

definition entry_posted_price :: coordinationEntry where
  "entry_posted_price = \<lparr>ce_id = PostedPrice, ce_name = ''Posted-price menu'',
     ce_gist = ''Platform publishes 3-5 priced options (fast / standard / flex). Parties pick. No iteration.'',
     exchanges = ''Platform publishes prices and feasibility envelopes. Party reveals only the chosen option.'',
     leaks = ''The chosen option reveals a preference; iterated choices over time can reveal a coarse demand curve.'',
     confidentiality = ConfHigh, welfare_rating = WelfareGood, setupEffort = SetupLow, compute_cost = CostConstant, incentiveCompatible = False,
     bestFits = [''SKU-level replenishment menus'',
       ''rebate-for-flexibility'',
       ''capacity reservation''],
     weaknesses = [''Optimum depends on menu design'',
       ''No iteration toward a tighter price''],
     furtherReading = [((''Mechanism Design 101 '' @ [CHR 0xE2, CHR 0x80, CHR 0x94] @ '' posted-price vs auction''),
        ''https://www.cs.cmu.edu/~sandholm/Lectures/AuctionMechanisms-Posted.pdf'')]\<rparr>"

definition entry_score :: coordinationEntry where
  "entry_score = \<lparr>ce_id = Score, ce_name = ''Score-based option ranking'',
     ce_gist = ''Generate candidate options, score each on margin / risk / cost / strategic value, take the best.'',
     exchanges = ''Each option carries a numeric score visible to the protocol. Scoring weights themselves can stay private.'',
     leaks = (''If weights are public, observers can reverse-engineer the platform'' @ [CHR 0x27] @ ''s preferences.''),
     confidentiality = ConfMedium, welfare_rating = WelfareGood, setupEffort = SetupLow, compute_cost = CostLow, incentiveCompatible = False,
     bestFits = [''ranking vendor offers'',
       ''selecting among ship windows'',
       ''triaging exceptions''],
     weaknesses = [''Scoring rules become gameable once known''],
     furtherReading = []\<rparr>"

definition entry_rfq :: coordinationEntry where
  "entry_rfq = \<lparr>ce_id = Rfq, ce_name = ''Contract-net / RFQ'',
     ce_gist = ''Platform announces a need; vendors propose; platform awards. Operational, not iterative.'',
     exchanges = ''Need spec out; offers in. Each offer reveals one (quantity, window, price/rebate) tuple.'',
     leaks = ''Bidders learn nothing about other bids unless results are published.'',
     confidentiality = ConfMediumHigh, welfare_rating = WelfareGood, setupEffort = SetupMedium, compute_cost = CostLow, incentiveCompatible = False,
     bestFits = [''procurement workflows'',
       ''spot capacity'',
       ''RFP-style awards''],
     weaknesses = [''Vendors can shade bids strategically'',
       (''Doesn'' @ [CHR 0x27] @ ''t scale to many small lots'')],
     furtherReading = [((''Smith (1980) '' @ [CHR 0xE2, CHR 0x80, CHR 0x94] @ '' The Contract Net Protocol''),
        ''https://ieeexplore.ieee.org/document/1675516'')]\<rparr>"

definition entry_sealed_auction :: coordinationEntry where
  "entry_sealed_auction = \<lparr>ce_id = SealedAuction, ce_name = ''Sealed-bid / reverse auction'',
     ce_gist = ''Bidders submit private valuations; platform clears. VCG-style mechanisms can make truth telling dominant.'',
     exchanges = ''Each bidder submits a bid (or, in VCG, a full valuation function). Clearing prices are derived by the mechanism.'',
     leaks = ''Sealed-bid VCG requires every bidder to fully reveal their type to the mechanism (not to other bidders).'',
     confidentiality = ConfMediumHigh, welfare_rating = FirstBest, setupEffort = SetupMedium, compute_cost = CostLow, incentiveCompatible = True,
     bestFits = [''scarce capacity allocation'',
       ''multi-vendor procurement for substitutable goods'',
       ''lane allocation''],
     weaknesses = [''Requires full type disclosure to the mechanism'',
       ''Vulnerable to collusion if not anonymized''],
     furtherReading = [((''Vickrey (1961) '' @ [CHR 0xE2, CHR 0x80, CHR 0x94] @ '' Counterspeculation, Auctions, and Competitive Sealed Tenders''),
        ''https://doi.org/10.1111/j.1540-6261.1961.tb02789.x''),
       (''Nisan et al., Algorithmic Game Theory (Ch. 9 VCG)'',
        ''http://www.cambridge.org/9780521872829'')]\<rparr>"

definition entry_matching :: coordinationEntry where
  "entry_matching = \<lparr>ce_id = Matching, ce_name = ''Matching / assignment'',
     ce_gist = (''Assign vendors '' @ [CHR 0xE2, CHR 0x86, CHR 0x92] @ '' SKUs, orders '' @ [CHR 0xE2, CHR 0x86, CHR 0x92] @ '' slots, carriers '' @ [CHR 0xE2, CHR 0x86, CHR 0x92] @ '' lanes by a global matching objective.''),
     exchanges = ''Each side submits a ranking (or a value per pair). Solver produces a feasible assignment.'',
     leaks = ''Ranking lists reveal preference order, not absolute valuations.'',
     confidentiality = ConfMedium, welfare_rating = NearFirstBest, setupEffort = SetupMedium, compute_cost = CostLow, incentiveCompatible = True,
     bestFits = [(''PO '' @ [CHR 0xE2, CHR 0x86, CHR 0x92] @ '' inbound slot assignment''),
       (''carrier '' @ [CHR 0xE2, CHR 0x86, CHR 0x92] @ '' lane''),
       (''SKU '' @ [CHR 0xE2, CHR 0x86, CHR 0x92] @ '' fulfillment center'')],
     weaknesses = [''Awkward when costs depend on quantities or are non-linear''],
     furtherReading = [((''Gale & Shapley (1962) '' @ [CHR 0xE2, CHR 0x80, CHR 0x94] @ '' College Admissions and the Stability of Marriage''),
        ''https://doi.org/10.2307/2312726'')]\<rparr>"

definition entry_greedy_with_shadow_prices :: coordinationEntry where
  "entry_greedy_with_shadow_prices = \<lparr>ce_id = GreedyShadow, ce_name = ''Greedy with shadow prices'',
     ce_gist = ''Maintain a price per scarce resource (capacity slot, storage). Charge / credit each option accordingly.'',
     exchanges = ''Resource prices are public; usage is metered. No iteration across parties needed.'',
     leaks = ''Prices over time reveal the rough scarcity surface.'',
     confidentiality = ConfMedium, welfare_rating = WelfareGood, setupEffort = SetupMedium, compute_cost = CostLow, incentiveCompatible = False,
     bestFits = [''FC capacity'',
       ''appointment slot allocation'',
       ''carrier capacity''],
     weaknesses = [''Greedy can miss global optima when interactions matter''],
     furtherReading = []\<rparr>"

definition entry_small_lp :: coordinationEntry where
  "entry_small_lp = \<lparr>ce_id = SmallLp, ce_name = ''Centralized small LP / MILP'',
     ce_gist = ''Parties submit ranges and valuations; the platform solves one optimization problem.'',
     exchanges = ''Each party gives the solver the data it needs (constraints, point valuations).'',
     leaks = ''Whatever was submitted to the solver. Privacy depends on what shape of data the protocol accepts.'',
     confidentiality = ConfLow, welfare_rating = FirstBest, setupEffort = SetupMedium, compute_cost = CostMedium, incentiveCompatible = False,
     bestFits = [''weekly batch planning'',
       ''SKU/vendor/window selection'',
       ''promotion allocation''],
     weaknesses = [''Requires centralized trust'',
       ''Cost data leaves the party''],
     furtherReading = []\<rparr>"

definition entry_price_adjustment_loop :: coordinationEntry where
  "entry_price_adjustment_loop = \<lparr>ce_id = PriceLoop, ce_name = ''Price-adjustment loop'',
     ce_gist = ''Lightweight dual decomposition: post a price, observe demand/supply, raise or lower it.'',
     exchanges = ''Prices broadcast; aggregate demand/supply observed back. No raw quantities per party.'',
     leaks = ''Aggregate behavior is observable but individual demand curves are not.'',
     confidentiality = ConfMediumHigh, welfare_rating = WelfareGood, setupEffort = SetupMedium, compute_cost = CostIterative, incentiveCompatible = False,
     bestFits = [''dynamic capacity fees'',
       ''rebates'',
       ''ship-window steering''],
     weaknesses = [''Can oscillate without rate caps''],
     furtherReading = []\<rparr>"

definition entry_admm :: coordinationEntry where
  "entry_admm = \<lparr>ce_id = Admm, ce_name = ''ADMM (vanilla)'',
     ce_gist = ''Decompose into local subproblems coordinated by a price. Parties solve their own optimization privately.'',
     exchanges = ''Each iteration exchanges local primal updates + a dual (price) variable. Cost functions stay local.'',
     leaks = (''Iterated x and dual updates trace out a party'' @ [CHR 0x27] @ ''s marginal-cost curve under standard differentiability assumptions.''),
     confidentiality = ConfMediumHigh, welfare_rating = NearFirstBest, setupEffort = SetupHigh, compute_cost = CostIterative, incentiveCompatible = False,
     bestFits = [''many parties with strong privacy preferences'',
       ''coupled constraints (shared capacity)'',
       ''repeated coordination''],
     weaknesses = [''Iterative transcript can leak marginal cost structure'',
       ''Operationally heavier than menus or auctions'',
       ''No formal privacy guarantee without DP / MPC layered on''],
     furtherReading = [((''Boyd et al. (2011) '' @ [CHR 0xE2, CHR 0x80, CHR 0x94] @ '' Distributed Optimization via ADMM''),
        ''https://web.stanford.edu/~boyd/papers/admm_distr_stats.html'')]\<rparr>"

definition entry_differentially_private_admm :: coordinationEntry where
  "entry_differentially_private_admm = \<lparr>ce_id = DpAdmm, ce_name = ''Differentially private ADMM'',
     ce_gist = (''ADMM + calibrated noise on the updates. Trades accuracy for a formal ('' @ [CHR 0xCE, CHR 0xB5] @ '', '' @ [CHR 0xCE, CHR 0xB4] @ '')-DP guarantee.''),
     exchanges = ''Same as ADMM, but each shared update is perturbed with calibrated noise.'',
     leaks = ''Each round burns a bounded amount of privacy budget; total leakage is bounded by composition theorems.'',
     confidentiality = ConfFormal, welfare_rating = WelfareGood, setupEffort = SetupHigh, compute_cost = CostIterative, incentiveCompatible = False,
     bestFits = [''regulated domains (health, finance)'',
       ''coalitions where formal privacy is contracted''],
     weaknesses = [''Convergence slowed by noise'',
       ([CHR 0xCE, CHR 0xB5] @ '' / '' @ [CHR 0xCE, CHR 0xB4] @ '' accounting is its own discipline'')],
     furtherReading = [((''Huang, Mitra & Vaidya (2019) '' @ [CHR 0xE2, CHR 0x80, CHR 0x94] @ '' DP-ADMM''),
        ''https://arxiv.org/abs/1808.10101'')]\<rparr>"

definition entry_secure_mpc :: coordinationEntry where
  "entry_secure_mpc = \<lparr>ce_id = SecureMpc, ce_name = ''Secure multiparty optimization'',
     ce_gist = ''Cryptographic primitives (secret sharing / HE) let parties jointly compute without revealing inputs.'',
     exchanges = (''Encrypted shares only. Plaintext never leaves a party'' @ [CHR 0x27] @ ''s boundary.''),
     leaks = ''Nothing beyond what the agreed output reveals.'',
     confidentiality = ConfFormal, welfare_rating = FirstBest, setupEffort = SetupHigh, compute_cost = CostIterative, incentiveCompatible = False,
     bestFits = [''cross-organization optimization with strict confidentiality'',
       ''auctions where bid secrecy is non-negotiable''],
     weaknesses = [''Order-of-magnitude more compute and communication'',
       ''Operational complexity is real''],
     furtherReading = [((''Naor, Pinkas & Sumner (1999) '' @ [CHR 0xE2, CHR 0x80, CHR 0x94] @ '' Privacy preserving auctions''),
        ''https://dl.acm.org/doi/10.1145/336992.337028'')]\<rparr>"

definition COORDINATION_CATALOG :: "coordinationEntry list" where
  "COORDINATION_CATALOG =
     [entry_rule,
      entry_posted_price,
      entry_score,
      entry_rfq,
      entry_sealed_auction,
      entry_matching,
      entry_greedy_with_shadow_prices,
      entry_small_lp,
      entry_price_adjustment_loop,
      entry_admm,
      entry_differentially_private_admm,
      entry_secure_mpc]"

definition entryById :: "coordinationFamily \<Rightarrow> string + coordinationEntry" where
  "entryById i =
     (case List.find (\<lambda>e. ce_id e = i) COORDINATION_CATALOG of
        None \<Rightarrow> Inl (''unknown coordination family: '' @ family_text i) | Some e \<Rightarrow> Inr e)"

record coordinationSummary =
  cm_id :: coordinationFamily
  cm_name :: string
  cm_setupEffort :: setupRating
  cm_confidentiality :: confidentiality
  cm_welfare :: welfareRating
  cm_incentiveCompatible :: bool

definition catalogSummary :: "coordinationSummary list" where
  "catalogSummary =
     map (\<lambda>e. \<lparr>cm_id = ce_id e, cm_name = ce_name e, cm_setupEffort = setupEffort e,
       cm_confidentiality = confidentiality e, cm_welfare = welfare_rating e,
       cm_incentiveCompatible = incentiveCompatible e\<rparr>) COORDINATION_CATALOG"

text \<open>Every family has exactly one entry, so the lookup never throws on a typed identifier, and the comparison
  table lists each family once.\<close>

lemmas entry_defs = entry_rule_def entry_posted_price_def entry_score_def entry_rfq_def entry_sealed_auction_def
  entry_matching_def entry_greedy_with_shadow_prices_def entry_small_lp_def entry_price_adjustment_loop_def
  entry_admm_def entry_differentially_private_admm_def entry_secure_mpc_def

lemma catalog_ids:
  "map ce_id COORDINATION_CATALOG =
     [RuleBased, PostedPrice, Score, Rfq, SealedAuction, Matching, GreedyShadow, SmallLp, PriceLoop, Admm, DpAdmm, SecureMpc]"
  by (simp add: COORDINATION_CATALOG_def entry_defs)

lemma catalog_distinct: "distinct (map ce_id COORDINATION_CATALOG)"
  by (simp add: catalog_ids)

lemma catalog_complete: "set (map ce_id COORDINATION_CATALOG) = UNIV"
proof -
  have "i \<in> set (map ce_id COORDINATION_CATALOG)" for i by (cases i) (simp_all add: catalog_ids)
  then show ?thesis by blast
qed

lemma entryById_total: "\<exists>e \<in> set COORDINATION_CATALOG. entryById i = Inr e \<and> ce_id e = i"
proof -
  have "i \<in> ce_id ` set COORDINATION_CATALOG" using catalog_complete by simp
  then have "List.find (\<lambda>e. ce_id e = i) COORDINATION_CATALOG \<noteq> None" by (auto simp: find_None_iff)
  then obtain e where "List.find (\<lambda>e. ce_id e = i) COORDINATION_CATALOG = Some e" by blast
  moreover from this have "e \<in> set COORDINATION_CATALOG \<and> ce_id e = i" by (auto simp: find_Some_iff in_set_conv_nth)
  ultimately show ?thesis by (auto simp: entryById_def)
qed

lemma entryById_inverse: "e \<in> set COORDINATION_CATALOG \<Longrightarrow> entryById (ce_id e) = Inr e"
  using entryById_total [of "ce_id e"] catalog_distinct by (auto simp: distinct_map inj_on_def)

end
