(* ===== verification/LevelGates.thy ===== *)
theory LevelGates
  imports Sampling MultiPeriod ModelStudio Decoys WeightedNash CoordinationCatalog SupplierRisk LearnState
begin

text \<open>
  The levels of \<^verbatim>\<open>apps/web/src/surfaces/learn/\<close> other than 6 and 8: for each the state of its page, what
  a click, a timer or an answer does to it, and the condition under which its button lets the reader on.
  A page is run on a list of actions; the milliseconds that pass are actions too. \<^verbatim>\<open>Date.now\<close> is a
  clock of the state.
\<close>

section \<open>Pages that are run on actions\<close>

locale lesson =
  fixes open_page :: 's and act :: "'a \<Rightarrow> 's \<Rightarrow> 's" and inv :: "'a list \<Rightarrow> 's \<Rightarrow> bool"
  assumes inv_open: "inv [] open_page"
    and inv_act: "inv as s \<Longrightarrow> inv (as @ [a]) (act a s)"
begin

lemma inv_run: "inv as (fold act as open_page)"
  by (induction as rule: rev_induct) (simp_all add: inv_open inv_act)

end

section \<open>Level 1: there is a gap\<close>

definition SETTLED_QUANTITY :: "('p::len0) jsnum" where
  "SETTLED_QUANTITY = lit 350"

definition REVEAL_BEAT_MS :: nat where
  "REVEAL_BEAT_MS = 600"

text \<open>The optimum of the default scenario, on a grid of 5; the scan returns.\<close>

definition lesson_optimum :: "('p::len0) jointPoint option" where
  "lesson_optimum =
     (let setup = defaultLearnScenario :: 'p learnDefaults
      in findJointOptimum (ld_qMin setup) (ld_qMax setup) (lit 5) (ld_demand setup) (ld_supplierCapacity setup))"

definition settledJoint :: "('p::len0) jsnum" where
  "settledJoint = jointUtilityAt SETTLED_QUANTITY (ld_demand defaultLearnScenario) (ld_supplierCapacity defaultLearnScenario)"

definition level1_lost :: "('p::len0) jsnum option" where
  "level1_lost = map_option (\<lambda>optimum. jmax 0 (jp_joint optimum - settledJoint)) lesson_optimum"

record level1 =
  settled :: bool
  revealReady :: bool
  l1_timer :: "nat option"

datatype level1_action = Settle | Wait1 nat

definition open_level1 :: level1 where
  "open_level1 = \<lparr>settled = False, revealReady = False, l1_timer = None\<rparr>"

fun level1_act :: "level1_action \<Rightarrow> level1 \<Rightarrow> level1" where
  "level1_act Settle s = (if settled s then s else s\<lparr>settled := True, l1_timer := Some REVEAL_BEAT_MS\<rparr>)"
| "level1_act (Wait1 ms) s =
     (case l1_timer s of None \<Rightarrow> s
      | Some left \<Rightarrow> if left \<le> ms then s\<lparr>revealReady := True, l1_timer := None\<rparr> else s\<lparr>l1_timer := Some (left - ms)\<rparr>)"

section \<open>Level 2: close the gap\<close>

definition TOLERANCE :: "('p::len0) jsnum" where
  "TOLERANCE = lit 25"

definition MIN_DRAG_MS :: nat where
  "MIN_DRAG_MS = 5000"

record 'p level2 =
  l2_q :: "'p jsnum"
  hasMoved :: bool
  l2_revealed :: bool
  foundOptimum :: bool
  dragTime :: nat

datatype 'p level2_action = MoveKnob "'p jsnum" | ReleaseKnob "'p jsnum" | Reveal2 | Interval2

definition open_level2 :: "('p::len0) level2" where
  "open_level2 = \<lparr>l2_q = ld_qMin defaultLearnScenario, hasMoved = False, l2_revealed = False, foundOptimum = False, dragTime = 0\<rparr>"

definition near_optimum :: "('p::len0) jsnum \<Rightarrow> 'p jsnum \<Rightarrow> bool" where
  "near_optimum best q = (\<bar>q - best\<bar> \<le> TOLERANCE)"

text \<open>\<open>best\<close> is the quantity of the optimum. The interval of 100 ms runs from the first move to the reveal;
  the button that reveals is disabled before the first move.\<close>

fun level2_act :: "'p jsnum \<Rightarrow> 'p level2_action \<Rightarrow> ('p::len0) level2 \<Rightarrow> 'p level2" where
  "level2_act best (MoveKnob v) s = s\<lparr>l2_q := v, hasMoved := True\<rparr>"
| "level2_act best (ReleaseKnob v) s = (if near_optimum best v then s\<lparr>foundOptimum := True\<rparr> else s)"
| "level2_act best Reveal2 s = (if hasMoved s then s\<lparr>l2_revealed := True\<rparr> else s)"
| "level2_act best Interval2 s = (if hasMoved s \<and> \<not> l2_revealed s then s\<lparr>dragTime := dragTime s + 100\<rparr> else s)"

definition level2_surplus :: "('p::len0) level2 \<Rightarrow> 'p jsnum" where
  "level2_surplus s = jointUtilityAt (l2_q s) (ld_demand defaultLearnScenario) (ld_supplierCapacity defaultLearnScenario)"

definition level2_lost :: "('p::len0) level2 \<Rightarrow> 'p jsnum option" where
  "level2_lost s = map_option (\<lambda>optimum. jmax 0 (jp_joint optimum - level2_surplus s)) lesson_optimum"

definition level2_canContinue :: "'p level2 \<Rightarrow> bool" where
  "level2_canContinue s = (l2_revealed s \<and> (foundOptimum s \<or> MIN_DRAG_MS \<le> dragTime s))"

section \<open>Level 3: information moves the sweet spot\<close>

definition SWEET_ZONE :: "infoMode list" where
  "SWEET_ZONE = [CostBand, ForecastBand]"

record modeExplainer =
  headline :: string
  reveals :: string
  tradeoff :: string

fun INFO_MODE_EXPLAINER :: "infoMode \<Rightarrow> modeExplainer" where
  "INFO_MODE_EXPLAINER InfoPrivate = \<lparr>
    headline = ''Private '' @ [CHR 0xE2, CHR 0x80, CHR 0x94] @ '' nothing shared'',
    reveals = ''Each party keeps their costs, capacity, and forecast to themselves. The supplier has no idea what the buyer wants; the buyer has no idea what the supplier can do.'',
    tradeoff = ''Maximum privacy, near-zero coordination. Surplus collapses because no one can plan against the other side.''\<rparr>"
| "INFO_MODE_EXPLAINER RiskOnly = \<lparr>
    headline = ''Risk-only '' @ [CHR 0xE2, CHR 0x80, CHR 0x94] @ '' share a single risk flag'',
    reveals = ''Each party shares one bit: '' @ [CHR 0x22] @ ''I'' @ [CHR 0x27] @ ''m at risk of shortage'' @ [CHR 0x22] @ '' or '' @ [CHR 0x22] @ ''I'' @ [CHR 0x27] @ ''m at risk of excess.'' @ [CHR 0x22] @ '' No numbers attached.'',
    tradeoff = ''Privacy still high, but the signal is too coarse to drive joint planning. Surplus barely moves.''\<rparr>"
| "INFO_MODE_EXPLAINER CapacityBand = \<lparr>
    headline = ''Capacity band '' @ [CHR 0xE2, CHR 0x80, CHR 0x94] @ '' share a rough capacity range'',
    reveals = ''The supplier shares '' @ [CHR 0x22] @ ''I can do roughly 200'' @ [CHR 0xE2, CHR 0x80, CHR 0x93] @ ''400 units.'' @ [CHR 0x22] @ '' Buyer shares '' @ [CHR 0x22] @ ''I roughly need 400'' @ [CHR 0xE2, CHR 0x80, CHR 0x93] @ ''600.'' @ [CHR 0x22] @ '' Ranges, not point values.'',
    tradeoff = ''Useful enough to size the deal directionally. Privacy still mostly intact '' @ [CHR 0xE2, CHR 0x80, CHR 0x94] @ '' no costs revealed.''\<rparr>"
| "INFO_MODE_EXPLAINER CostBand = \<lparr>
    headline = ''Cost band '' @ [CHR 0xE2, CHR 0x80, CHR 0x94] @ '' share rough cost / value bands'',
    reveals = ''Each party shares value/cost in bands ('' @ [CHR 0x22] @ ''my cost is between $40 and $55 per unit'' @ [CHR 0x22] @ ''). Detailed cost curves stay hidden.'',
    tradeoff = ''Sweet zone. Almost all the welfare gain of full disclosure, without revealing the exact economics.''\<rparr>"
| "INFO_MODE_EXPLAINER ForecastBand = \<lparr>
    headline = ''Forecast band '' @ [CHR 0xE2, CHR 0x80, CHR 0x94] @ '' share future demand range'',
    reveals = ''On top of cost bands, parties share rough forward-looking demand: '' @ [CHR 0x22] @ ''next quarter we expect 1500'' @ [CHR 0xE2, CHR 0x80, CHR 0x93] @ ''1800.'' @ [CHR 0x22],
    tradeoff = ''Even more welfare recovered. Privacy cost rises modestly.''\<rparr>"
| "INFO_MODE_EXPLAINER FullOracle = \<lparr>
    headline = ''Full oracle '' @ [CHR 0xE2, CHR 0x80, CHR 0x94] @ '' share everything to a coordinator'',
    reveals = ''Each party hands over full cost curves, capacity profiles, forecasts, and outside options to a trusted coordinator. The coordinator computes the best joint plan.'',
    tradeoff = ''Maximum welfare. The price: you need a coordinator you can trust without reservation, and any breach reveals everything.''\<rparr>"

record level3 =
  l3_mode :: infoMode
  l3_visited :: "infoMode list"
  l3_revealed :: bool

datatype level3_action = PickMode infoMode | Reveal3

definition open_level3 :: level3 where
  "open_level3 = \<lparr>l3_mode = InfoPrivate, l3_visited = [InfoPrivate], l3_revealed = False\<rparr>"

fun level3_act :: "level3_action \<Rightarrow> level3 \<Rightarrow> level3" where
  "level3_act (PickMode i) s = s\<lparr>l3_mode := i, l3_visited := set_add i (l3_visited s)\<rparr>"
| "level3_act Reveal3 s = (if length (l3_visited s) < 3 then s else s\<lparr>l3_revealed := True\<rparr>)"

definition level3_canContinue :: "level3 \<Rightarrow> bool" where
  "level3_canContinue s = (l3_revealed s \<and> 3 \<le> length (l3_visited s))"

definition level3_current :: "level3 \<Rightarrow> ('p::len0) sweepRow" where
  "level3_current s =
     (let sweep = informationSweep (makeScenario no_patch)
      in nullish (List.find (\<lambda>row. sw_mode row = l3_mode s) sweep) (sweep ! 0))"

definition recoveredPortion :: "level3 \<Rightarrow> ('p::len0) jsnum" where
  "recoveredPortion s =
     sw_globalUtility (level3_current s) / sw_globalUtility (last (informationSweep (makeScenario no_patch)))"

datatype mood = NeutralMood | HappyMood | WorriedMood | WalkedAway

definition moodFor :: "infoMode \<Rightarrow> party \<Rightarrow> mood" where
  "moodFor i sd =
     (if i = InfoPrivate then (if sd = SupplierParty then WorriedMood else NeutralMood)
      else if i = FullOracle then WorriedMood
      else if i \<in> set SWEET_ZONE then HappyMood else NeutralMood)"

section \<open>Level 4: splitting the surplus\<close>

definition FEASIBLE_HOLD_MS :: nat where
  "FEASIBLE_HOLD_MS = 500"

definition split_config :: "('p::len0) jsnum \<Rightarrow> 'p splitConfig" where
  "split_config joint =
     \<lparr>sp_globalUtility = joint, buyerOutside_opt = Some DEFAULT_BUYER_OUTSIDE, supplierOutside_opt = Some DEFAULT_SUPPLIER_OUTSIDE\<rparr>"

definition level4_point :: "('p::len0) splitConfig \<Rightarrow> nat \<Rightarrow> 'p splitPoint" where
  "level4_point config pct = splitOutcome (of_count pct / lit 100) config"

definition fairCenter :: "('p::len0) splitConfig \<Rightarrow> 'p jsnum" where
  "fairCenter config = (fst (feasibleBand config) + snd (feasibleBand config)) / lit 2"

text \<open>\<open>l4_deps\<close> are the dependencies the effect last ran with.\<close>

record level4 =
  sharePct :: nat
  feasibleStart :: "nat option"
  reachedFeasible :: bool
  l4_revealed :: bool
  l4_timer :: "nat option"
  l4_now :: nat
  l4_deps :: "(bool \<times> nat option) option"

datatype level4_action = SlideShare nat | Wait4 nat | Reveal4

text \<open>\<open>ok\<close> tells whether a share is feasible. The effect clears the timer of its last run, then starts the
  clock and a timer, or stops the clock.\<close>

definition level4_effect :: "(nat \<Rightarrow> bool) \<Rightarrow> level4 \<Rightarrow> level4" where
  "level4_effect ok s =
     (if l4_deps s = Some (ok (sharePct s), feasibleStart s) then s
      else let s = s\<lparr>l4_deps := Some (ok (sharePct s), feasibleStart s), l4_timer := None\<rparr> in
        if \<not> ok (sharePct s) then s\<lparr>feasibleStart := None\<rparr>
        else let s = (if feasibleStart s = None then s\<lparr>feasibleStart := Some (l4_now s)\<rparr> else s)
          in s\<lparr>l4_timer := Some FEASIBLE_HOLD_MS\<rparr>)"

text \<open>The first run may set the start of the clock, which is a dependency; a third run changes nothing.\<close>

definition level4_settle :: "(nat \<Rightarrow> bool) \<Rightarrow> level4 \<Rightarrow> level4" where
  "level4_settle ok s = level4_effect ok (level4_effect ok s)"

definition open_level4 :: "(nat \<Rightarrow> bool) \<Rightarrow> level4" where
  "open_level4 ok = level4_settle ok
     \<lparr>sharePct = 0, feasibleStart = None, reachedFeasible = False, l4_revealed = False, l4_timer = None, l4_now = 0, l4_deps = None\<rparr>"

fun level4_act :: "(nat \<Rightarrow> bool) \<Rightarrow> level4_action \<Rightarrow> level4 \<Rightarrow> level4" where
  "level4_act ok (SlideShare v) s = level4_settle ok (s\<lparr>sharePct := min v 100\<rparr>)"
| "level4_act ok (Wait4 ms) s =
     (let s = s\<lparr>l4_now := l4_now s + ms\<rparr> in
      case l4_timer s of None \<Rightarrow> s
      | Some left \<Rightarrow> if left \<le> ms then s\<lparr>reachedFeasible := True, l4_timer := None\<rparr> else s\<lparr>l4_timer := Some (left - ms)\<rparr>)"
| "level4_act ok Reveal4 s = (if reachedFeasible s then s\<lparr>l4_revealed := True\<rparr> else s)"

definition level4_canContinue :: "level4 \<Rightarrow> bool" where
  "level4_canContinue s = (l4_revealed s \<and> reachedFeasible s)"

definition split_moods :: "('p::len0) splitPoint \<Rightarrow> bool \<Rightarrow> mood \<times> mood" where
  "split_moods pt reached =
     (if \<not> sp_buyerFeasible pt then WalkedAway else if reached then HappyMood else NeutralMood,
      if \<not> sp_supplierFeasible pt then WalkedAway else if reached then HappyMood else NeutralMood)"

definition split_status :: "('p::len0) splitPoint \<Rightarrow> string" where
  "split_status pt =
     (if sp_feasible pt then ''both above outside option''
      else if \<not> sp_buyerFeasible pt then ''buyer would walk'' else ''supplier would walk'')"

section \<open>Level 5: how the rule changes the dance\<close>

datatype convergenceKind = OracleKind | AdmmKind | VcgKind

record mechanismPanel =
  panel_kind :: convergenceKind
  panel_id :: mechanismId
  panel_title :: string
  caption :: string
  panel_plainEnglish :: string
  panel_reveals :: string
  drawback :: string

definition PANELS :: "mechanismPanel list" where
  "PANELS =
    [\<lparr>panel_kind = OracleKind, panel_id = CentralizedOracle,
       panel_title = ''Centralized oracle'',
       caption = ''One planner picks q. Highest surplus, no privacy.'',
       panel_plainEnglish = ''Both sides hand over their full cost structure to a neutral planner. The planner computes the joint optimum and tells everyone what to do.'',
       panel_reveals = ''Every cost and capacity curve in full detail.'',
       drawback = ''Requires complete trust in the planner. Any breach exposes everything.''\<rparr>,
     \<lparr>panel_kind = AdmmKind, panel_id = CppAdmm,
       panel_title = ''CPP / ADMM'',
       caption = ''Buyer + supplier iterate by exchanging price + quantity signals.'',
       panel_plainEnglish = ''Each side keeps their cost curve private. They take turns: supplier proposes a quantity given the current price, buyer proposes a price given the current quantity. They converge on a deal without ever showing each other their cost math.'',
       panel_reveals = ''Local decisions and a coordinator price each round '' @ [CHR 0xE2, CHR 0x80, CHR 0x94] @ '' not the underlying cost curves.'',
       drawback = ''Many rounds of back-and-forth can still leak the shape of each side'' @ [CHR 0x27] @ ''s marginal-cost curve.''\<rparr>,
     \<lparr>panel_kind = VcgKind, panel_id = CppVcg,
       panel_title = ''CPP + VCG transfer'',
       caption = ''Same as ADMM, plus a transfer that prices each party'' @ [CHR 0x27] @ ''s externality on the other.'',
       panel_plainEnglish = ''ADMM-style iteration to find the quantity, plus an extra payment between the two sides that compensates each for the cost they impose on the other. Telling the truth becomes the strategy that maximizes your own payoff.'',
       panel_reveals = ''Same as ADMM '' @ [CHR 0xE2, CHR 0x80, CHR 0x94] @ '' iterates and a transfer amount.'',
       drawback = ''More complex to compute and explain. The transfer can be large in absolute terms.''\<rparr>]"

record level5 =
  running :: bool
  runKey :: nat
  finished :: "convergenceKind \<Rightarrow> bool"

datatype level5_action = RunAll | PanelComplete convergenceKind

definition open_level5 :: level5 where
  "open_level5 = \<lparr>running = False, runKey = 0, finished = (\<lambda>_. False)\<rparr>"

definition completedAll :: "level5 \<Rightarrow> bool" where
  "completedAll s = (finished s OracleKind \<and> finished s AdmmKind \<and> finished s VcgKind)"

definition handleRun :: "level5 \<Rightarrow> level5" where
  "handleRun s = (if running s \<and> \<not> completedAll s then s
     else \<lparr>running = True, runKey = runKey s + 1, finished = (\<lambda>_. False)\<rparr>)"

definition level5_effect :: "level5 \<Rightarrow> level5" where
  "level5_effect s = (if completedAll s \<and> running s then s\<lparr>running := False\<rparr> else s)"

text \<open>The button is disabled while the panels run; a panel completes only while they run.\<close>

fun level5_act :: "level5_action \<Rightarrow> level5 \<Rightarrow> level5" where
  "level5_act RunAll s = (if running s then s else level5_effect (handleRun s))"
| "level5_act (PanelComplete k) s =
     (if running s then level5_effect (s\<lparr>finished := (finished s)(k := True)\<rparr>) else s)"

text \<open>The row of a panel's mechanism in the map by name.\<close>

definition panel_data :: "mechanismPanel \<Rightarrow> ('p::len0) algorithmResult option" where
  "panel_data panel = find_run (panel_id panel) (algorithmResults (makeScenario no_patch))"

section \<open>Level 7: audit the inputs\<close>

datatype evidenceState = EvidenceIdle | EvidenceLoading | EvidenceOk "riskChunk list" | EvidenceError string

record level7 =
  honest :: bool
  toggled :: bool
  evidenceOn :: bool
  evidence :: evidenceState

datatype level7_action = ToggleHonest | ToggleEvidence | CorpusArrived "riskChunk list" | CorpusFailed string

definition open_level7 :: level7 where
  "open_level7 = \<lparr>honest = False, toggled = False, evidenceOn = False, evidence = EvidenceIdle\<rparr>"

definition evidence_effect :: "level7 \<Rightarrow> level7" where
  "evidence_effect s =
     (if \<not> evidenceOn s \<or> (case evidence s of EvidenceOk _ \<Rightarrow> True | EvidenceLoading \<Rightarrow> True | _ \<Rightarrow> False) then s
      else s\<lparr>evidence := EvidenceLoading\<rparr>)"

text \<open>An answer arrives only while one is awaited.\<close>

fun level7_act :: "level7_action \<Rightarrow> level7 \<Rightarrow> level7" where
  "level7_act ToggleHonest s = evidence_effect (s\<lparr>honest := \<not> honest s, toggled := True\<rparr>)"
| "level7_act ToggleEvidence s = evidence_effect (s\<lparr>evidenceOn := \<not> evidenceOn s\<rparr>)"
| "level7_act (CorpusArrived cs) s =
     (if evidence s = EvidenceLoading then evidence_effect (s\<lparr>evidence := EvidenceOk (take 3 cs)\<rparr>) else s)"
| "level7_act (CorpusFailed msg) s =
     (if evidence s = EvidenceLoading then evidence_effect (s\<lparr>evidence := EvidenceError msg\<rparr>) else s)"

definition level7_rows :: "level7 \<Rightarrow> ('p::len0) itself \<Rightarrow> decoyAuditResult list" where
  "level7_rows s _ =
     runDecoyAudit (makeScenario (if honest s
       then (no_patch :: 'p scenarioPatch)\<lparr>q_customTruthfulness := Some 1, q_customPrivacyPreference := Some (lit 0.2)\<rparr>
       else no_patch\<lparr>q_customTruthfulness := Some (lit 0.2), q_customPrivacyPreference := Some (lit 0.6)\<rparr>))"

definition level7_matched :: "decoyAuditResult list \<Rightarrow> nat" where
  "level7_matched audit = length (filter decoy_match audit)"

section \<open>Level 9: commitments over twelve weeks\<close>

record 'p level9 =
  l9_plan :: "'p weekPlan list"
  l9_revealed :: bool
  editedSomething :: bool

datatype 'p level9_action =
    ChooseCommitment nat commitmentKind
  | ChooseCommitted nat "'p jsnum"
  | ChooseQ nat "'p jsnum"
  | PresetPlan multiPeriodPreset
  | Reveal9

definition LEVEL9_PRESETS :: "(multiPeriodPreset \<times> string) list" where
  "LEVEL9_PRESETS =
     [(DefaultPreset, ''Reset''), (AllFirmPreset, ''All firm''), (DropFarWeeksPreset, ''Drop far weeks''),
      (OptimalPreset, ''Snap to optimum'')]"

definition open_level9 :: "('p::len0) level9" where
  "open_level9 = \<lparr>l9_plan = defaultMultiPeriodPlan DEFAULT_MULTI_PERIOD_CONFIG, l9_revealed = False, editedSomething = False\<rparr>"

text \<open>The index is one of a row that is shown.\<close>

definition updateWeek :: "nat \<Rightarrow> ('p weekPlan \<Rightarrow> 'p weekPlan) \<Rightarrow> 'p level9 \<Rightarrow> 'p level9" where
  "updateWeek i f s =
     (if i < length (l9_plan s) then s\<lparr>l9_plan := (l9_plan s)[i := f (l9_plan s ! i)], editedSomething := True\<rparr> else s)"

definition handlePreset :: "multiPeriodPreset \<Rightarrow> ('p::len0) level9 \<Rightarrow> 'p level9" where
  "handlePreset preset s =
     s\<lparr>l9_plan := applyPreset (l9_plan s) preset DEFAULT_MULTI_PERIOD_CONFIG, editedSomething := True\<rparr>"

fun level9_act :: "'p level9_action \<Rightarrow> ('p::len0) level9 \<Rightarrow> 'p level9" where
  "level9_act (ChooseCommitment i k) s = updateWeek i (\<lambda>w. w\<lparr>wp_commitment := k\<rparr>) s"
| "level9_act (ChooseCommitted i v) s = updateWeek i (\<lambda>w. w\<lparr>wp_committed := v\<rparr>) s"
| "level9_act (ChooseQ i v) s = updateWeek i (\<lambda>w. w\<lparr>wp_q := v\<rparr>) s"
| "level9_act (PresetPlan preset) s = handlePreset preset s"
| "level9_act Reveal9 s = (if l9_revealed s \<or> \<not> editedSomething s then s else s\<lparr>l9_revealed := True\<rparr>)"

definition level9_totals :: "('p::len0) level9 \<Rightarrow> 'p jsnum \<times> 'p jsnum" where
  "level9_totals s =
     (mr_total (evaluateMultiPeriodPlan (l9_plan s) DEFAULT_MULTI_PERIOD_CONFIG),
      mr_total (evaluateMultiPeriodPlan (optimalMultiPeriodPlan (l9_plan s) DEFAULT_MULTI_PERIOD_CONFIG) DEFAULT_MULTI_PERIOD_CONFIG))"

definition level9_lost :: "('p::len0) level9 \<Rightarrow> 'p jsnum" where
  "level9_lost s = (case level9_totals s of (reached, best) \<Rightarrow> jmax 0 (best - reached))"

definition level9_ratio :: "('p::len0) level9 \<Rightarrow> 'p jsnum" where
  "level9_ratio s = (case level9_totals s of (reached, best) \<Rightarrow> if 0 < best then reached / best else 1)"

text \<open>Continuing completes the level and then opens the sandbox, here and in level 10.\<close>

definition continue_to_sandbox :: "string \<Rightarrow> bool \<Rightarrow> shell \<Rightarrow> shell" where
  "continue_to_sandbox now_text canContinue s =
     (if \<not> canContinue then s else (handleComplete now_text s)\<lparr>at_level := None\<rparr>)"

section \<open>Level 10: the model studio\<close>

datatype scopePreset = SkuWeek | CategoryScope | GlobalScope

definition SCOPE_PRESETS :: "(scopePreset \<times> string \<times> coordinationScope) list" where
  "SCOPE_PRESETS =
     [(SkuWeek, ''SKU x FC x week'',
       empty_scope\<lparr>sc_vendor := Some ''vendor_123'', sc_sku := Some ''SKU-001'', sc_fc := Some ''ABE8'', sc_week := Some ''2026-W22'',
         sc_marketplace := Some ''US'', sc_category := Some ''electronics.accessories'', sc_contractType := Some ''replenishment''\<rparr>),
      (CategoryScope, ''Category default'',
       empty_scope\<lparr>sc_vendor := Some ''vendor_999'', sc_category := Some ''electronics.accessories'', sc_marketplace := Some ''US'',
         sc_contractType := Some ''replenishment''\<rparr>),
      (GlobalScope, ''Global fallback'', empty_scope\<lparr>sc_contractType := Some ''replenishment''\<rparr>)]"

record 'p level10 =
  scopeId :: scopePreset
  l10_capacity :: "'p jsnum"
  l10_lateness :: "'p jsnum"
  l10_holding :: "'p jsnum"
  certified :: bool

datatype 'p level10_action = PickScope scopePreset | SetCapacity "'p jsnum" | SetLateness "'p jsnum" | SetHolding "'p jsnum" | Certify

definition open_level10 :: "('p::len0) level10" where
  "open_level10 =
     \<lparr>scopeId = SkuWeek, l10_capacity = mc_capacityShadowPrice DEFAULT_MENU_SIGNALS,
      l10_lateness = latenessExternalityPerUnit DEFAULT_MENU_SIGNALS, l10_holding = holdingCostPerUnit DEFAULT_MENU_SIGNALS,
      certified = False\<rparr>"

fun level10_act :: "'p level10_action \<Rightarrow> 'p level10 \<Rightarrow> 'p level10" where
  "level10_act (PickScope i) s = s\<lparr>scopeId := i, certified := False\<rparr>"
| "level10_act (SetCapacity v) s = s\<lparr>l10_capacity := v, certified := False\<rparr>"
| "level10_act (SetLateness v) s = s\<lparr>l10_lateness := v, certified := False\<rparr>"
| "level10_act (SetHolding v) s = s\<lparr>l10_holding := v, certified := False\<rparr>"
| "level10_act Certify s = s\<lparr>certified := True\<rparr>"

definition level10_scope :: "'p level10 \<Rightarrow> coordinationScope" where
  "level10_scope s = (case map_of SCOPE_PRESETS (scopeId s) of Some (_, sc) \<Rightarrow> sc | None \<Rightarrow> snd (snd (SCOPE_PRESETS ! 0)))"

definition level10_signals :: "('p::len0) level10 \<Rightarrow> 'p menuCostSignals" where
  "level10_signals s = DEFAULT_MENU_SIGNALS\<lparr>mc_capacityShadowPrice := l10_capacity s, latenessExternalityPerUnit := l10_lateness s,
     holdingCostPerUnit := l10_holding s\<rparr>"

definition level10_menu :: "('p::len0) level10 \<Rightarrow> 'p menuOption list" where
  "level10_menu s = generateMenuOptions (level10_signals s)"

definition level10_checks :: "(string \<Rightarrow> string \<Rightarrow> exact) \<Rightarrow> ('p::len0) level10 \<Rightarrow> certificationCheck list" where
  "level10_checks loc s =
     (case sr_selected (resolveCoordinationModel loc SAMPLE_MODELS (level10_scope s)) of
        None \<Rightarrow> []
      | Some model \<Rightarrow> certifyCoordinationModel model (level10_menu s) DEFAULT_MENU_GUARDRAILS)"

definition allChecksPass :: "certificationCheck list \<Rightarrow> bool" where
  "allChecksPass cs = (cs \<noteq> [] \<and> list_all cc_pass cs)"

definition level10_agreement :: "('p::len0) level10 \<Rightarrow> 'p clearedAgreement" where
  "level10_agreement s = clearMenuAgreement (level10_menu s)
     [\<lparr>vr_optionId = ''A'', minimumCreditPerUnit = None, maximumFeePerUnit = Some (lit 0.2), hardBlock = False\<rparr>,
      \<lparr>vr_optionId = ''B'', minimumCreditPerUnit = Some (lit 0.02), maximumFeePerUnit = None, hardBlock = False\<rparr>,
      \<lparr>vr_optionId = ''C'', minimumCreditPerUnit = Some (lit 0.2), maximumFeePerUnit = None, hardBlock = False\<rparr>]
     DEFAULT_MENU_GUARDRAILS"

definition level10_canContinue :: "(string \<Rightarrow> string \<Rightarrow> exact) \<Rightarrow> ('p::len0) level10 \<Rightarrow> bool" where
  "level10_canContinue loc s = (certified s \<and> allChecksPass (level10_checks loc s))"

section \<open>Level 11: how to coordinate\<close>

record level11 =
  selectedId :: coordinationFamily
  l11_visited :: "coordinationFamily list"
  l11_accepted :: bool

datatype level11_action = SelectFamily coordinationFamily | Accept11

definition open_level11 :: level11 where
  "open_level11 = \<lparr>selectedId = PostedPrice, l11_visited = [PostedPrice], l11_accepted = False\<rparr>"

definition level11_selected :: "level11 \<Rightarrow> coordinationEntry" where
  "level11_selected s = nullish (List.find (\<lambda>e. ce_id e = selectedId s) COORDINATION_CATALOG) (COORDINATION_CATALOG ! 0)"

definition handleSelect :: "coordinationFamily \<Rightarrow> level11 \<Rightarrow> level11" where
  "handleSelect i s = s\<lparr>selectedId := i, l11_visited := set_add i (l11_visited s)\<rparr>"

fun level11_act :: "level11_action \<Rightarrow> level11 \<Rightarrow> level11" where
  "level11_act (SelectFamily i) s = handleSelect i s"
| "level11_act Accept11 s = (if l11_accepted s \<or> length (l11_visited s) < 4 then s else s\<lparr>l11_accepted := True\<rparr>)"

definition level11_canContinue :: "level11 \<Rightarrow> bool" where
  "level11_canContinue s = (l11_accepted s \<and> 4 \<le> length (l11_visited s))"

section \<open>Level 12: weighted Nash\<close>

datatype mechanismView = BoundedView | PlaintextView

definition LEVEL12_SCENARIO :: "('p::len0) nashScenario" where
  "LEVEL12_SCENARIO =
     \<lparr>ns_id = ''level12-substrate-crunch'', ns_title = ''Substrate crunch, single SKU'', n_periods = 1,
      ns_products = [\<lparr>prod_id = ''ai-substrate-A'', prod_name = ''AI accelerator substrate, generation A'', demand_mean = lit 500,
        demand_std = lit 80, unit_value = lit 100\<rparr>],
      ns_participants =
        [\<lparr>np_id = ''buyer-northstar'', np_name = ''Northstar Substrates'', np_role = NashBuyer,
          utility_formula = ''service_level_value * min(q, demand) '' @ ''- unit_price * q ''
            @ ''- shortage_penalty * max(demand - q, 0) '' @ ''- inventory_penalty * max(q - demand, 0)'',
          np_parameters = [(''service_level_value'', lit 100), (''unit_price'', lit 50), (''shortage_penalty'', lit 80),
            (''inventory_penalty'', lit 5)],
          outside_option = 0\<rparr>,
         \<lparr>np_id = ''supplier-cinder'', np_name = ''Cinder Lithography Services'', np_role = NashSupplier,
          utility_formula = ''revenue_per_unit * q '' @ ''- production_cost * q '' @ ''- holding_cost * max(q - demand, 0) ''
            @ ''- stockout_penalty * max(demand - q, 0) '' @ ''- risk_premium * risk_score * q'',
          np_parameters = [(''revenue_per_unit'', lit 50), (''production_cost'', lit 30), (''holding_cost'', lit 3),
            (''stockout_penalty'', lit 6), (''risk_premium'', lit 8)],
          outside_option = 0\<rparr>],
      ns_capacity = [(''ai-substrate-A'', lit 800)], risk_score = 0, evidence_ids = Some []\<rparr>"

definition level12_quantity :: "('p::len0) nashRun \<Rightarrow> 'p jsnum" where
  "level12_quantity run =
     (case nr_iterations run of [] \<Rightarrow> 0 | it # _ \<Rightarrow> (case consensus it of [] \<Rightarrow> 0 | q # _ \<Rightarrow> q))"

definition batnaPass :: "('p::len0) nashRun \<Rightarrow> bool" where
  "batnaPass run =
     list_all (\<lambda>(i, utility). nullish (map_of (outside_options (nr_ledger run)) i) 0 \<le> utility) (local (nr_ledger run))"

text \<open>The two runs the page compares; an exception of either takes the page down.\<close>

definition level12_runs :: "('p::len0) host \<Rightarrow> 'p nashError + 'p nashRun \<times> 'p nashRun" where
  "level12_runs h =
     ebind (runWeightedNashBounded h LEVEL12_SCENARIO None (Some ''level12-bounded-demo'')) (\<lambda>b.
     ebind (runWeightedNashPlaintext h LEVEL12_SCENARIO (Some NashFullOracle)) (\<lambda>pl. Inr (b, pl)))"

definition plaintextGap :: "('p::len0) nashRun \<times> 'p nashRun \<Rightarrow> 'p jsnum" where
  "plaintextGap runs = \<bar>level12_quantity (snd runs) - level12_quantity (fst runs)\<bar>"

record level12 =
  l12_selected :: mechanismView
  l12_visited :: "mechanismView list"
  l12_accepted :: bool

datatype level12_action = SelectView mechanismView | Accept12

definition open_level12 :: level12 where
  "open_level12 = \<lparr>l12_selected = BoundedView, l12_visited = [BoundedView], l12_accepted = False\<rparr>"

fun level12_act :: "level12_action \<Rightarrow> level12 \<Rightarrow> level12" where
  "level12_act (SelectView v) s = s\<lparr>l12_selected := v, l12_visited := set_add v (l12_visited s)\<rparr>"
| "level12_act Accept12 s = (if l12_accepted s \<or> length (l12_visited s) < 2 then s else s\<lparr>l12_accepted := True\<rparr>)"

definition level12_canContinue :: "level12 \<Rightarrow> bool" where
  "level12_canContinue s = (l12_accepted s \<and> length (l12_visited s) = 2)"

section \<open>What it takes to get through\<close>

fun waited :: "level1_action \<Rightarrow> nat" where
  "waited (Wait1 ms) = ms"
| "waited Settle = 0"

lemma distinct_set_add [simp]: "distinct (set_add x xs) = distinct xs"
  by (simp add: set_add_def)

definition level1_seen :: "level1_action list \<Rightarrow> level1 \<Rightarrow> bool" where
  "level1_seen as s \<longleftrightarrow>
     (settled s \<longrightarrow> Settle \<in> set as) \<and> (\<not> settled s \<longrightarrow> l1_timer s = None \<and> \<not> revealReady s)
     \<and> (settled s \<and> \<not> revealReady s \<longrightarrow> (\<exists>left. l1_timer s = Some left \<and> left \<le> 600 \<and> 600 \<le> left + sum_list (map waited as)))
     \<and> (revealReady s \<longrightarrow> settled s \<and> l1_timer s = None \<and> 600 \<le> sum_list (map waited as))"

interpretation level1: lesson open_level1 level1_act level1_seen
proof
  show "level1_seen [] open_level1" by (simp add: level1_seen_def open_level1_def)
  show "level1_seen (as @ [a]) (level1_act a s)" if "level1_seen as s" for as a s
    using that by (cases a) (auto simp: level1_seen_def REVEAL_BEAT_MS_def split: option.splits)
qed

definition level2_seen :: "'p jsnum \<Rightarrow> 'p level2_action list \<Rightarrow> ('p::len0) level2 \<Rightarrow> bool" where
  "level2_seen best as s \<longleftrightarrow>
     (hasMoved s \<longrightarrow> (\<exists>v. MoveKnob v \<in> set as)) \<and> (l2_revealed s \<longrightarrow> hasMoved s \<and> Reveal2 \<in> set as)
     \<and> (foundOptimum s \<longrightarrow> (\<exists>v. ReleaseKnob v \<in> set as \<and> near_optimum best v)) \<and> dragTime s \<le> 100 * count_list as Interval2"

interpretation level2: lesson open_level2 "level2_act best" "level2_seen best"
proof
  show "level2_seen best [] open_level2" by (simp add: level2_seen_def open_level2_def)
  show "level2_seen best (as @ [a]) (level2_act best a s)" if "level2_seen best as s" for as a s
    using that by (cases a) (auto simp: level2_seen_def)
qed

definition level3_seen :: "level3_action list \<Rightarrow> level3 \<Rightarrow> bool" where
  "level3_seen as s \<longleftrightarrow>
     set (l3_visited s) = insert InfoPrivate {i. PickMode i \<in> set as} \<and> distinct (l3_visited s)
     \<and> (l3_revealed s \<longrightarrow> Reveal3 \<in> set as)"

interpretation level3: lesson open_level3 level3_act level3_seen
proof
  show "level3_seen [] open_level3" by (simp add: level3_seen_def open_level3_def)
  show "level3_seen (as @ [a]) (level3_act a s)" if "level3_seen as s" for as a s
    using that by (cases a) (auto simp: level3_seen_def)
qed

definition level5_seen :: "level5_action list \<Rightarrow> level5 \<Rightarrow> bool" where
  "level5_seen as s \<longleftrightarrow>
     (\<forall>k. finished s k \<longrightarrow> PanelComplete k \<in> set as) \<and> (running s \<longrightarrow> RunAll \<in> set as \<and> \<not> completedAll s)
     \<and> (completedAll s \<longrightarrow> RunAll \<in> set as)"

interpretation level5: lesson open_level5 level5_act level5_seen
proof
  show "level5_seen [] open_level5" by (simp add: level5_seen_def open_level5_def completedAll_def)
  show "level5_seen (as @ [a]) (level5_act a s)" if "level5_seen as s" for as a s
    using that by (cases a) (auto simp: level5_seen_def level5_effect_def handleRun_def completedAll_def)
qed

definition level7_seen :: "level7_action list \<Rightarrow> level7 \<Rightarrow> bool" where
  "level7_seen as s \<longleftrightarrow>
     (toggled s \<longrightarrow> ToggleHonest \<in> set as)
     \<and> (evidenceOn s \<longrightarrow> evidence s = EvidenceLoading \<or> (\<exists>cs. evidence s = EvidenceOk cs))"

interpretation level7: lesson open_level7 level7_act level7_seen
proof
  show "level7_seen [] open_level7" by (simp add: level7_seen_def open_level7_def)
  show "level7_seen (as @ [a]) (level7_act a s)" if "level7_seen as s" for as a s
    using that by (cases a) (auto simp: level7_seen_def evidence_effect_def split: evidenceState.splits)
qed

definition level9_seen :: "'p level9_action list \<Rightarrow> ('p::len0) level9 \<Rightarrow> bool" where
  "level9_seen as s \<longleftrightarrow>
     (editedSomething s \<longrightarrow> (\<exists>a \<in> set as. a \<noteq> Reveal9)) \<and> (l9_revealed s \<longrightarrow> editedSomething s \<and> Reveal9 \<in> set as)
     \<and> length (l9_plan s) = 12"

lemma default_plan_length: "length (defaultMultiPeriodPlan DEFAULT_MULTI_PERIOD_CONFIG) = 12"
  by (simp add: defaultMultiPeriodPlan_def DEFAULT_MULTI_PERIOD_CONFIG_def)

lemma preset_length: "length plan = 12 \<Longrightarrow> length (applyPreset plan preset DEFAULT_MULTI_PERIOD_CONFIG) = 12"
  by (cases preset) (simp_all add: default_plan_length optimalMultiPeriodPlan_def)

interpretation level9: lesson open_level9 level9_act level9_seen
proof
  show "level9_seen [] open_level9" by (simp add: level9_seen_def open_level9_def default_plan_length)
  show "level9_seen (as @ [a]) (level9_act a s)" if "level9_seen as s" for as a s
    using that by (cases a) (auto simp: level9_seen_def updateWeek_def handlePreset_def preset_length)
qed

definition level11_seen :: "level11_action list \<Rightarrow> level11 \<Rightarrow> bool" where
  "level11_seen as s \<longleftrightarrow>
     set (l11_visited s) = insert PostedPrice {i. SelectFamily i \<in> set as} \<and> distinct (l11_visited s)
     \<and> (l11_accepted s \<longrightarrow> Accept11 \<in> set as)"

interpretation level11: lesson open_level11 level11_act level11_seen
proof
  show "level11_seen [] open_level11" by (simp add: level11_seen_def open_level11_def)
  show "level11_seen (as @ [a]) (level11_act a s)" if "level11_seen as s" for as a s
    using that by (cases a) (auto simp: level11_seen_def handleSelect_def)
qed

definition level12_seen :: "level12_action list \<Rightarrow> level12 \<Rightarrow> bool" where
  "level12_seen as s \<longleftrightarrow>
     set (l12_visited s) = insert BoundedView {v. SelectView v \<in> set as} \<and> distinct (l12_visited s)
     \<and> (l12_accepted s \<longrightarrow> Accept12 \<in> set as)"

interpretation level12: lesson open_level12 level12_act level12_seen
proof
  show "level12_seen [] open_level12" by (simp add: level12_seen_def open_level12_def)
  show "level12_seen (as @ [a]) (level12_act a s)" if "level12_seen as s" for as a s
    using that by (cases a) (auto simp: level12_seen_def)
qed



section \<open>Level 4: the timer measures an uninterrupted stretch\<close>

text \<open>The specification: how long the current feasible stretch has lasted, and the longest so far.\<close>

fun hold_step :: "(nat \<Rightarrow> bool) \<Rightarrow> level4_action \<Rightarrow> nat \<times> nat \<times> nat \<Rightarrow> nat \<times> nat \<times> nat" where
  "hold_step ok (SlideShare v) (shr, cur, best) = (min v 100, if ok (min v 100) then cur else 0, best)"
| "hold_step ok (Wait4 ms) (shr, cur, best) = (if ok shr then (shr, cur + ms, max best (cur + ms)) else (shr, cur, best))"
| "hold_step ok Reveal4 h = h"

definition longest_hold :: "(nat \<Rightarrow> bool) \<Rightarrow> level4_action list \<Rightarrow> nat" where
  "longest_hold ok as = snd (snd (fold (hold_step ok) as (0, 0, 0)))"

definition level4_seen :: "(nat \<Rightarrow> bool) \<Rightarrow> level4_action list \<Rightarrow> level4 \<Rightarrow> bool" where
  "level4_seen ok as s \<longleftrightarrow>
     (case fold (hold_step ok) as (0, 0, 0) of (shr, cur, best) \<Rightarrow>
        sharePct s = shr \<and> l4_deps s = Some (ok shr, feasibleStart s) \<and> cur \<le> best
        \<and> reachedFeasible s = (FEASIBLE_HOLD_MS \<le> best)
        \<and> (if ok shr then feasibleStart s \<noteq> None \<and> l4_timer s = (if FEASIBLE_HOLD_MS \<le> cur then None else Some (FEASIBLE_HOLD_MS - cur))
           else feasibleStart s = None \<and> l4_timer s = None \<and> cur = 0)
        \<and> (l4_revealed s \<longrightarrow> reachedFeasible s \<and> Reveal4 \<in> set as))"

interpretation level4: lesson "open_level4 ok" "level4_act ok" "level4_seen ok"
proof
  show "level4_seen ok [] (open_level4 ok)"
    by (simp add: level4_seen_def open_level4_def level4_settle_def level4_effect_def FEASIBLE_HOLD_MS_def Let_def)
  show "level4_seen ok (as @ [a]) (level4_act ok a s)" if "level4_seen ok as s" for as a s
    using that
    by (cases a; cases "fold (hold_step ok) as (0, 0, 0)")
      (auto simp: level4_seen_def level4_settle_def level4_effect_def FEASIBLE_HOLD_MS_def Let_def split: option.splits if_splits)
qed

text \<open>C37: Level 4 counts as held exactly when the share has stayed feasible for 500 ms without a break: the
  effect that stops and restarts the timer whenever feasibility changes implements the longest
  uninterrupted feasible stretch, however the slider is moved inside or across the feasible band.\<close>

theorem hold_is_longest_stretch:
  "reachedFeasible (fold (level4_act ok) as (open_level4 ok)) \<longleftrightarrow> FEASIBLE_HOLD_MS \<le> longest_hold ok as"
  using level4.inv_run [of ok as] by (auto simp: level4_seen_def longest_hold_def split: prod.splits)

section \<open>Level 10: what certification stands for\<close>

definition level10_seen :: "'p level10_action list \<Rightarrow> 'p level10 \<Rightarrow> bool" where
  "level10_seen as s \<longleftrightarrow> (certified s \<longrightarrow> (\<exists>bs cs. as = bs @ Certify # cs \<and> set cs \<subseteq> {Certify}))"

interpretation level10: lesson open_level10 level10_act level10_seen
proof
  show "level10_seen [] open_level10" by (simp add: level10_seen_def open_level10_def)
  show "level10_seen (as @ [a]) (level10_act a s)" if seen: "level10_seen as s" for as :: "('p::len0) level10_action list" and a s
  proof (cases "a = Certify")
    case True
    then have "as @ [a] = as @ Certify # [] \<and> set [] \<subseteq> {Certify :: 'p level10_action}" by simp
    then show ?thesis unfolding level10_seen_def by blast
  next
    case False
    then show ?thesis by (cases a) (simp_all add: level10_seen_def)
  qed
qed

text \<open>Every sample model is certified as far as the model is concerned; only the menu can fail.\<close>

definition model_ok :: "coordinationModel \<Rightarrow> bool" where
  "model_ok m = (cm_modelId m \<noteq> [] \<and> cm_owner m \<noteq> [] \<and> cm_objective m \<noteq> [] \<and> 0 < scopeSpecificity (cm_scope m)
     \<and> ''ranked_options'' \<in> set (cm_outputs m) \<and> ''explanation'' \<in> set (cm_outputs m))"

lemma sample_models_ok: "list_all model_ok SAMPLE_MODELS"
  by code_simp

lemma level10_contract: "sc_contractType (level10_scope s) = Some ''replenishment''"
  by (cases "scopeId s") (simp_all add: level10_scope_def SCOPE_PRESETS_def)

lemma level10_model: "\<exists>m \<in> set SAMPLE_MODELS. sr_selected (resolveCoordinationModel loc SAMPLE_MODELS (level10_scope s)) = Some m"
proof -
  let ?xs = "filter (\<lambda>m. matchesScope (cm_scope m) (level10_scope s)) SAMPLE_MODELS"
  have "matchesScope (empty_scope\<lparr>sc_contractType := Some ''replenishment''\<rparr>) (level10_scope s)"
    by (simp add: matchesScope_def SCOPE_KEYS_def empty_scope_def level10_contract)
  then have "hd SAMPLE_MODELS \<in> set ?xs" by (simp add: SAMPLE_MODELS_def)
  then have "js_sort (resolve_cmp loc) ?xs \<noteq> []" using set_js_sort [of "resolve_cmp loc" ?xs] by force
  then obtain m ms where m: "js_sort (resolve_cmp loc) ?xs = m # ms" by (cases "js_sort (resolve_cmp loc) ?xs") auto
  then have "m \<in> set ?xs" using set_js_sort [of "resolve_cmp loc" ?xs] by (metis list.set_intros(1))
  then show ?thesis using m by (auto simp: resolveCoordinationModel_def Let_def)
qed

lemma cents_le:
  "(cents (Fin x) :: exact) \<le> Fin y \<longleftrightarrow> of_int \<lfloor>x * 100 + 1 / 2\<rfloor> \<le> y * 100"
  by (simp add: cents_def exact_eval)

lemma certify_model_ok:
  "model_ok m \<Longrightarrow> list_all cc_pass (certifyCoordinationModel m options g) \<longleftrightarrow>
     list_all (\<lambda>x. 0 < mo_quantity x \<and> fst (shipWindowDays x) \<le> snd (shipWindowDays x)) options
     \<and> jmaxs (map feePerUnit options) \<le> maxFastFeePerUnit g \<and> jmaxs (map creditPerUnit options) \<le> maxCreditPerUnit g
     \<and> minPlatformMarginPerUnit g \<le> jmins (map platformMarginPerUnit options)
     \<and> jmaxs (map feePerUnit options) - jmins (map feePerUnit options) \<le> maxFeeVariancePerUnit g
     \<and> list_all (\<lambda>x. mo_chips x \<noteq> []) options"
  by (auto simp: certifyCoordinationModel_def model_ok_def Let_def)

definition in_cents :: "rat \<Rightarrow> int" where
  "in_cents x = \<lfloor>x * 100 + 1 / 2\<rfloor>"

lemma menu_cents_exact: "(cents (Fin x) :: exact) = Fin (of_int (in_cents x) / 100)"
  by (simp add: cents_def exact_eval in_cents_def)

lemma in_cents_whole: "in_cents (of_int n / 100) = n"
  by (simp add: in_cents_def floor_eq_iff)

lemma exact_sums: "(Fin a + Fin b :: exact) = Fin (a + b)" "(Fin a - Fin b :: exact) = Fin (a - b)" "(0 :: exact) = Fin 0"
  by (simp_all add: exact_eval)

lemma cents_sum:
  "(cents (Fin 10 + Fin (of_int j / 100)) :: exact) = Fin (of_int (1000 + j) / 100)"
  "(cents (Fin (of_int i / 100) - Fin 7.8) :: exact) = Fin (of_int (i - 780) / 100)"
proof -
  have "in_cents (10 + of_int j / 100) = 1000 + j" "in_cents (of_int i / 100 - 7.8) = i - 780"
    using in_cents_whole [of "1000 + j"] in_cents_whole [of "i - 780"] by (simp_all add: add_divide_distrib diff_divide_distrib)
  moreover have "(Fin 10 + Fin (of_int j / 100) :: exact) = Fin (10 + of_int j / 100)"
    "(Fin (of_int i / 100) - Fin 7.8 :: exact) = Fin (of_int i / 100 - 7.8)" by (simp_all only: exact_sums)
  ultimately show "(cents (Fin 10 + Fin (of_int j / 100)) :: exact) = Fin (of_int (1000 + j) / 100)"
    "(cents (Fin (of_int i / 100) - Fin 7.8) :: exact) = Fin (of_int (i - 780) / 100)" by (simp_all only: menu_cents_exact)
qed

lemma jmax_NInf: "jmax NInf (Fin x) = Fin x" "jmin PInf (Fin x) = Fin x"
  by (simp_all add: jmax_def jmin_def)

lemma menu_option_terms:
  fixes signals :: "0 menuCostSignals"
  assumes "basePoPerUnit signals = Fin 10" "marginalCostPerUnit signals = Fin 7.8"
  shows "feePerUnit (menu_option i kind label q w (Fin a) (Fin b) chips signals) = Fin (of_int (in_cents a) / 100)"
    "creditPerUnit (menu_option i kind label q w (Fin a) (Fin b) chips signals) = Fin (of_int (in_cents b) / 100)"
    "platformMarginPerUnit (menu_option i kind label q w (Fin a) (Fin b) chips signals)
       = Fin (of_int (220 + in_cents (a - b)) / 100)"
proof -
  have net: "(cents (Fin a - Fin b) :: exact) = Fin (of_int (in_cents (a - b)) / 100)"
    by (simp only: exact_sums menu_cents_exact)
  show "platformMarginPerUnit (menu_option i kind label q w (Fin a) (Fin b) chips signals)
       = Fin (of_int (220 + in_cents (a - b)) / 100)"
    unfolding menu_option_def Let_def menuOption.simps assms net cents_sum by simp
qed (simp_all add: menu_option_def Let_def menu_cents_exact)

text \<open>With the sliders in their ranges the credits, the margins and the ceiling of 0.50 on the fee never bind;
  the spread of the fees does.\<close>

lemma level10_menu_ok:
  fixes s :: "0 level10"
  assumes "l10_capacity s = Fin c" "l10_lateness s = Fin l" "l10_holding s = Fin h"
    and "0 \<le> c" "0 \<le> l" "0 \<le> h" "h \<le> 1 / 5" "model_ok m"
  shows "list_all cc_pass (certifyCoordinationModel m (level10_menu s) DEFAULT_MENU_GUARDRAILS) \<longleftrightarrow> c + l < 0.455"
proof -
  have "0 \<le> in_cents (c + l)" "in_cents (c + l) \<le> 45 \<longleftrightarrow> c + l < 0.455"
    unfolding in_cents_def using assms by (auto simp: floor_le_iff)
  then have f: "0 \<le> (of_int (in_cents (c + l)) :: rat)" "(of_int (in_cents (c + l)) :: rat) \<le> 45 \<longleftrightarrow> c + l < 0.455"
    using of_int_le_iff [of "in_cents (c + l)" 45, where 'a = rat] by simp_all
  have "0 \<le> in_cents (0.12 + h)" "in_cents (0.12 + h) \<le> 32" "- 32 \<le> in_cents (- 0.12 - h)"
    unfolding in_cents_def using assms by (auto simp: le_floor_iff floor_le_iff)
  then have k: "0 \<le> (of_int (in_cents (0.12 + h)) :: rat)" "(of_int (in_cents (0.12 + h)) :: rat) \<le> 32"
    "- 32 \<le> (of_int (in_cents (- 0.12 - h)) :: rat)"
    using of_int_le_iff [of "in_cents (0.12 + h)" 32, where 'a = rat] of_int_le_iff [of "- 32" "in_cents (- 0.12 - h)", where 'a = rat]
    by simp_all
  have n: "in_cents 0 = 0" "in_cents 0.03 = 3" "in_cents (- 0.03) = - 3" by (simp_all add: in_cents_def floor_eq_iff)
  let ?sg = "level10_signals s"
  have sg: "basePoPerUnit ?sg = Fin 10" "marginalCostPerUnit ?sg = Fin 7.8" "standardRebatePerUnit ?sg = Some (Fin 0.03)"
    "flexibilityCreditPerUnit ?sg = Some (Fin 0.12)" "mc_capacityShadowPrice ?sg = Fin c" "latenessExternalityPerUnit ?sg = Fin l"
    "holdingCostPerUnit ?sg = Fin h"
    by (simp_all add: level10_signals_def DEFAULT_MENU_SIGNALS_def assms exact_eval)
  note terms = menu_option_terms [OF sg(1,2)]
  have fees: "map feePerUnit (level10_menu s) = [Fin (of_int (in_cents (c + l)) / 100), Fin 0, Fin 0]"
    and credits: "map creditPerUnit (level10_menu s) = [Fin 0, Fin 0.03, Fin (of_int (in_cents (0.12 + h)) / 100)]"
    and margins: "map platformMarginPerUnit (level10_menu s)
      = [Fin (of_int (220 + in_cents (c + l)) / 100), Fin 2.17, Fin (of_int (220 + in_cents (- 0.12 - h)) / 100)]"
    unfolding level10_menu_def generateMenuOptions_def Let_def
    using n by (simp_all add: sg [simplified] terms)
  show ?thesis
    unfolding certify_model_ok [OF assms(8)] fees credits margins
    using f k by (simp add: level10_menu_def generateMenuOptions_def menu_option_def Let_def DEFAULT_MENU_GUARDRAILS_def
      jmaxs_def jmins_def exact_eval jmax_NInf max_absorb1) (auto simp: max_def min_def)
qed

lemma level10_checks_iff:
  fixes s :: "0 level10"
  assumes "l10_capacity s = Fin c" "l10_lateness s = Fin l" "l10_holding s = Fin h"
    and "0 \<le> c" "0 \<le> l" "0 \<le> h" "h \<le> 1 / 5"
  shows "allChecksPass (level10_checks loc s) \<longleftrightarrow> c + l < 0.455"
proof -
  obtain m where m: "m \<in> set SAMPLE_MODELS"
    "sr_selected (resolveCoordinationModel loc SAMPLE_MODELS (level10_scope s)) = Some m" using level10_model by blast
  have "model_ok m" using m(1) sample_models_ok by (simp add: list_all_iff)
  from level10_menu_ok [OF assms this] m(2) show ?thesis
    by (simp add: allChecksPass_def level10_checks_def) (simp add: certifyCoordinationModel_def Let_def)
qed

text \<open>C38: With its sliders in their ranges level 10 lets the reader on exactly when certification was run and nothing
  was changed since, and the capacity price and the lateness charge add up to less than 0.455: of the seven
  checks only the spread of the fees, at most 0.45, ever fails, in every scope; the ceiling of 0.50 on the
  fast fee never decides.\<close>

theorem certification_decides:
  fixes as :: "0 level10_action list"
  assumes "fold level10_act as open_level10 = s" "l10_capacity s = Fin c" "l10_lateness s = Fin l" "l10_holding s = Fin h"
    and "0 \<le> c" "0 \<le> l" "0 \<le> h" "h \<le> 1 / 5"
  shows "level10_canContinue loc s \<longleftrightarrow>
    (\<exists>bs cs. as = bs @ Certify # cs \<and> set cs \<subseteq> {Certify}) \<and> c + l < 0.455"
proof -
  have "allChecksPass (level10_checks loc s) \<longleftrightarrow> c + l < 0.455" by (rule level10_checks_iff [OF assms(2-8)])
  moreover have "certified s \<longleftrightarrow> (\<exists>bs cs. as = bs @ Certify # cs \<and> set cs \<subseteq> {Certify})"
  proof
    have "certified (fold level10_act cs t)" if "certified t" "set cs \<subseteq> {Certify}" for t :: "0 level10" and cs
      using that by (induction cs arbitrary: t) auto
    then show "certified s" if "\<exists>bs cs. as = bs @ Certify # cs \<and> set cs \<subseteq> {Certify}"
      using that assms(1) by force
  qed (use level10.inv_run [of as] assms(1) in \<open>simp add: level10_seen_def\<close>)
  ultimately show ?thesis by (auto simp: level10_canContinue_def)
qed

theorem certification_decides_witness:
  "level10_canContinue (\<lambda>_ _. 0) (fold level10_act [Certify] (open_level10 :: 0 level10))
   \<and> \<not> level10_canContinue (\<lambda>_ _. 0) (fold level10_act [SetCapacity (Fin 0.4), Certify] (open_level10 :: 0 level10))
   \<and> \<not> level10_canContinue (\<lambda>_ _. 0) (fold level10_act [Certify, PickScope GlobalScope] (open_level10 :: 0 level10))"
proof (intro conjI)
  have s: "l10_capacity (open_level10 :: 0 level10) = Fin 0.18" "l10_lateness (open_level10 :: 0 level10) = Fin 0.07"
    "l10_holding (open_level10 :: 0 level10) = Fin 0.05"
    by (simp_all add: open_level10_def DEFAULT_MENU_SIGNALS_def exact_eval)
  have "\<exists>bs cs. [Certify] = bs @ Certify # cs \<and> set cs \<subseteq> {Certify}" by (rule exI [of _ "[]"]) simp
  then show "level10_canContinue (\<lambda>_ _. 0) (fold level10_act [Certify] (open_level10 :: 0 level10))"
    using certification_decides [of "[Certify]", OF refl, of "0.18" "0.07" "0.05" "\<lambda>_ _. 0"] s by simp
  show "\<not> level10_canContinue (\<lambda>_ _. 0) (fold level10_act [SetCapacity (Fin 0.4), Certify] (open_level10 :: 0 level10))"
    using certification_decides [of "[SetCapacity (Fin 0.4), Certify]", OF refl, of "0.4" "0.07" "0.05" "\<lambda>_ _. 0"] s by simp
  show "\<not> level10_canContinue (\<lambda>_ _. 0) (fold level10_act [Certify, PickScope GlobalScope] (open_level10 :: 0 level10))"
    using certification_decides [of "[Certify, PickScope GlobalScope]", OF refl, of "0.18" "0.07" "0.05" "\<lambda>_ _. 0"] s
    by (auto simp: Cons_eq_append_conv)
qed

section \<open>Levels 1 and 2: the gap\<close>

definition joint_at :: "rat \<Rightarrow> rat" where
  "joint_at q = 125 * min q 500 - 55 * q - 92 * max 0 (500 - q) - 7 * max 0 (q - 500)
     + (21 * q - 5 * max 0 (500 - q) - max 0 (q - 350) * max 0 (q - 350) * 0.07)"

lemma joint_at: "(jointUtilityAt (Fin q) (Fin 500) (Fin 350) :: exact) = Fin (joint_at q)"
  by (simp add: jointUtilityAt_def buyerUtilityAt_def supplierUtilityAt_def joint_at_def Let_def exact_eval)

lemma joint_at_peak:
  assumes "q \<noteq> 500" "q \<le> 600" shows "joint_at q < joint_at 500"
proof -
  have peak: "joint_at 500 = 43925" by (simp add: joint_at_def)
  consider "q \<le> 350" | "350 \<le> q" "q < 500" | "500 < q" using assms by linarith
  then show ?thesis
  proof cases
    case 1
    then show ?thesis unfolding peak by (simp add: joint_at_def)
  next
    case 2
    have e: "joint_at q = 43925 - (500 - q) * (188 - 0.07 * (q + 500 - 700))"
      using 2 by (simp add: joint_at_def max_def min_def field_simps)
    have "0 < (500 - q) * (188 - 0.07 * (q + 500 - 700))" using 2 by (intro mult_pos_pos) simp_all
    then show ?thesis unfolding peak e by linarith
  next
    case 3
    have e: "joint_at q = 43925 - (q - 500) * (41 + 0.07 * (q + 500 - 700))"
      using 3 by (simp add: joint_at_def max_def min_def field_simps)
    have "0 < (q - 500) * (41 + 0.07 * (q + 500 - 700))" using 3 by (intro mult_pos_pos) (simp_all add: field_simps)
    then show ?thesis unfolding peak e by linarith
  qed
qed

lemma lesson_optimum_500: "lesson_optimum = Some (joint_point (Fin 500) (Fin 350) (Fin 500) :: 0 jointPoint)"
proof -
  let ?qs = "map (\<lambda>k. 0 + of_nat k * 5 :: rat) [0..<visited 0 5 600]"
  have n: "visited 0 5 600 = 121" by (simp add: visited_def)
  have eq: "lesson_optimum = map_option (\<lambda>best. case best of Some b \<Rightarrow> b | None \<Rightarrow> \<lparr>jp_q = Fin 0, jp_buyer = Fin 0, jp_supplier = Fin 0, jp_joint = Fin 0\<rparr>)
      (Some (foldl (better_joint (Fin 500) (Fin 350 :: exact)) None (map Fin ?qs)))"
    unfolding lesson_optimum_def Let_def defaultLearnScenario_def findJointOptimum_def
    using for_steps_exact [of 5 "better_joint (Fin 500) (Fin 350)" 600 0 None] by (simp add: exact_eval comp_def)
  have "?qs \<noteq> []" by (simp add: n)
  from better_joint_fold [OF this, of 500 350] obtain q where q: "q \<in> set ?qs"
    "foldl (better_joint (Fin 500) (Fin 350 :: exact)) None (map Fin ?qs) = Some (joint_point (Fin 500) (Fin 350) (Fin q))"
    "\<forall>x \<in> set ?qs. jointUtilityAt (Fin x) (Fin 500) (Fin 350 :: exact) \<le> jointUtilityAt (Fin q) (Fin 500) (Fin 350)" by blast
  have "500 \<in> set ?qs" unfolding n by (auto intro!: image_eqI [of _ _ 100])
  then have "joint_at 500 \<le> joint_at q" using bspec [OF q(3), of 500] by (simp only: joint_at less_eq_jsnum.simps)
  moreover have "q \<le> 600" using q(1) unfolding n by auto
  ultimately have "q = 500" using joint_at_peak [of q] by linarith
  then show ?thesis unfolding eq q(2) by simp
qed



section \<open>Every level can be finished\<close>

lemma visited_enough: "distinct xs \<Longrightarrow> A \<subseteq> set xs \<Longrightarrow> card A \<le> length xs"
  by (metis List.finite_set card_mono distinct_card)

lemma half_is_feasible: "sp_feasible (level4_point (split_config (Fin g) :: 0 splitConfig) 50)"
  by (simp add: level4_point_def split_config_def splitOutcome_def Let_def of_count_def exact_eval DEFAULT_BUYER_OUTSIDE_def
    DEFAULT_SUPPLIER_OUTSIDE_def)

lemma level1_finish: "revealReady (fold level1_act (as @ [Settle, Wait1 600]) open_level1)"
  using level1.inv_run [of as] by (auto simp: level1_seen_def REVEAL_BEAT_MS_def split: option.splits)

lemma level2_finish:
  "level2_canContinue (fold (level2_act (Fin b)) (as @ [MoveKnob (Fin b), ReleaseKnob (Fin b), Reveal2]) (open_level2 :: 0 level2))"
  by (simp add: level2_canContinue_def near_optimum_def TOLERANCE_def exact_eval)

lemma level3_finish: "level3_canContinue (fold level3_act (as @ [PickMode RiskOnly, PickMode CapacityBand, Reveal3]) open_level3)"
proof -
  let ?bs = "as @ [PickMode RiskOnly, PickMode CapacityBand]"
  have "card {InfoPrivate, RiskOnly, CapacityBand} \<le> length (l3_visited (fold level3_act ?bs open_level3))"
    using level3.inv_run [of ?bs] by (intro visited_enough) (simp_all add: level3_seen_def)
  then show ?thesis by (simp add: level3_canContinue_def)
qed

lemma level4_finish:
  assumes "ok pct" "pct \<le> 100"
  shows "level4_canContinue (fold (level4_act ok) (as @ [SlideShare pct, Wait4 500, Reveal4]) (open_level4 ok))"
proof -
  let ?bs = "as @ [SlideShare pct, Wait4 500]"
  have "reachedFeasible (fold (level4_act ok) ?bs (open_level4 ok))"
    using level4.inv_run [of ok ?bs] assms
    by (cases "fold (hold_step ok) as (0, 0, 0)") (simp add: level4_seen_def FEASIBLE_HOLD_MS_def min_absorb1)
  then show ?thesis by (simp add: level4_canContinue_def)
qed

lemma level5_finish:
  "completedAll (fold level5_act (as @ [RunAll, PanelComplete OracleKind, PanelComplete AdmmKind, PanelComplete VcgKind]) open_level5)"
  using level5.inv_run [of as] by (auto simp: level5_seen_def completedAll_def level5_effect_def handleRun_def)

lemma level9_finish: "l9_revealed (fold level9_act (as @ [PresetPlan OptimalPreset, Reveal9]) (open_level9 :: 0 level9))"
  by (simp add: handlePreset_def)

lemma level10_finish:
  "level10_canContinue loc (fold level10_act (as @ [SetCapacity 0, SetLateness 0, SetHolding 0, Certify]) (open_level10 :: 0 level10))"
  using level10_checks_iff [of "fold level10_act (as @ [SetCapacity 0, SetLateness 0, SetHolding 0, Certify]) open_level10" 0 0 0]
  by (simp add: level10_canContinue_def exact_eval)

lemma level11_finish:
  "level11_canContinue (fold level11_act (as @ [SelectFamily RuleBased, SelectFamily Score, SelectFamily Rfq, Accept11]) open_level11)"
proof -
  let ?bs = "as @ [SelectFamily RuleBased, SelectFamily Score, SelectFamily Rfq]"
  have "card {PostedPrice, RuleBased, Score, Rfq} \<le> length (l11_visited (fold level11_act ?bs open_level11))"
    using level11.inv_run [of ?bs] by (intro visited_enough) (simp_all add: level11_seen_def)
  then show ?thesis by (simp add: level11_canContinue_def handleSelect_def)
qed

lemma level12_finish: "level12_canContinue (fold level12_act (as @ [SelectView PlaintextView, Accept12]) open_level12)"
proof -
  let ?bs = "as @ [SelectView PlaintextView]"
  have seen: "level12_seen ?bs (fold level12_act ?bs open_level12)" by (rule level12.inv_run)
  have views: "set (l12_visited (fold level12_act ?bs open_level12)) = {BoundedView, PlaintextView}"
  proof -
    have "v = BoundedView \<or> v = PlaintextView" for v by (cases v) simp_all
    then show ?thesis using seen unfolding level12_seen_def by auto
  qed
  then have "length (l12_visited (fold level12_act ?bs open_level12)) = 2"
  proof -
    have "length (l12_visited (fold level12_act ?bs open_level12)) = card (set (l12_visited (fold level12_act ?bs open_level12)))"
      using seen unfolding level12_seen_def by (metis distinct_card)
    then show ?thesis unfolding views by simp
  qed
  then show ?thesis by (simp add: level12_canContinue_def)
qed

text \<open>C40: Every level other than 6 and 8 can be finished from wherever the reader has taken it: after any actions a
  few more let the reader on, for level 2 whatever the optimum and for level 4 whatever the joint utility.\<close>

theorem levels_can_be_finished:
  "(\<exists>bs. revealReady (fold level1_act (as1 @ bs) open_level1))
   \<and> (\<exists>bs. level2_canContinue (fold (level2_act (Fin best)) (as2 @ bs) (open_level2 :: 0 level2)))
   \<and> (\<exists>bs. level3_canContinue (fold level3_act (as3 @ bs) open_level3))
   \<and> (let ok = (\<lambda>pct. sp_feasible (level4_point (split_config (Fin g) :: 0 splitConfig) pct))
      in \<exists>bs. level4_canContinue (fold (level4_act ok) (as4 @ bs) (open_level4 ok)))
   \<and> (\<exists>bs. completedAll (fold level5_act (as5 @ bs) open_level5))
   \<and> (\<exists>bs. toggled (fold level7_act (as7 @ bs) open_level7))
   \<and> (\<exists>bs. l9_revealed (fold level9_act (as9 @ bs) (open_level9 :: 0 level9)))
   \<and> (\<exists>bs. level10_canContinue loc (fold level10_act (as10 @ bs) (open_level10 :: 0 level10)))
   \<and> (\<exists>bs. level11_canContinue (fold level11_act (as11 @ bs) open_level11))
   \<and> (\<exists>bs. level12_canContinue (fold level12_act (as12 @ bs) open_level12))"
proof -
  let ?ok = "\<lambda>pct. sp_feasible (level4_point (split_config (Fin g) :: 0 splitConfig) pct)"
  have "level4_canContinue (fold (level4_act ?ok) (as4 @ [SlideShare 50, Wait4 500, Reveal4]) (open_level4 ?ok))"
    by (rule level4_finish) (simp_all add: half_is_feasible)
  moreover have "toggled (fold level7_act (as7 @ [ToggleHonest]) open_level7)" by (simp add: evidence_effect_def)
  ultimately show ?thesis
    using level1_finish level2_finish level3_finish level5_finish level9_finish level10_finish
      level11_finish level12_finish
    unfolding Let_def by blast
qed

section \<open>After levels 9 and 10\<close>

text \<open>Both leave for the sandbox although the shell has just moved on to the next level, which may now be
  entered.\<close>

lemma level9_leaves:
  assumes "at_level s = Some 9" "highest_completed (progress s) = Fin 8"
  shows "at_level (handleComplete t s) = Some 10 \<and> at_level (continue_to_sandbox t True s) = None
    \<and> canEnter (progress (continue_to_sandbox t True s)) 10"
  using assms
  by (simp add: continue_to_sandbox_def handleComplete_def set_progress_def markComplete_def canEnter_def Let_def TOTAL_LEVELS_def
      of_count_def exact_eval)

text \<open>Level 7 never shows a failed fetch while its switch is on: the failure starts the next fetch.\<close>

lemma level7_error_never_shown:
  "evidenceOn (fold level7_act as open_level7) \<Longrightarrow> evidence (fold level7_act as open_level7) \<noteq> EvidenceError msg"
  using level7.inv_run [of as] by (auto simp: level7_seen_def)

text \<open>An edit of a week cannot shorten or lengthen the plan of level 9.\<close>

lemma level9_twelve_weeks: "length (l9_plan (fold level9_act as open_level9)) = 12"
  using level9.inv_run [of as] by (simp add: level9_seen_def)

text \<open>Every panel of level 5 finds the row of its mechanism.\<close>

lemma panels_have_data: "list_all (\<lambda>panel. panel_data panel \<noteq> (None :: ('p::len0) algorithmResult option)) PANELS"
proof -
  have i: "ar_id (mechanismScore k s u) = k" for k and s :: "'p labScenario" and u
    by (subst mechanismScore.simps) (simp add: Let_def)
  show ?thesis by (simp add: PANELS_def panel_data_def find_run_def algorithmResults_def Let_def i)
qed

end
