(* ===== verification/Spec2Isabelle.thy ===== *)
theory Spec2Isabelle
  imports Formula ShapleyTransfer NashProtocol Decoys ReportStorage Migration Views DecisionLog Sha256 Tabs TransferPricing MultiPeriod ModelStudio Sampling BuyPlan Convergence ShareEncoder SupplierRisk LearnState PlayPage LabPage SplitLevel ArcPage FactoryConsole AuthorLevel LevelGates
begin

text \<open>
  The Procurement Negotiation Lab (\<^verbatim>\<open>packages/engine\<close> and the negotiation page of
  \<^verbatim>\<open>apps/web\<close>) is a teaching tool: a buyer and one or more suppliers with private costs look
  for a quantity and a price, by protocols that differ in what they reveal. This development models
  the engine as it is written and states what makes each part correct, or where it is not.

  \<^bold>\<open>How the program fits together.\<close> A \<^emph>\<open>scenario\<close> (\<^verbatim>\<open>model/types.ts\<close>, presets in \<^verbatim>\<open>data/\<close>) is checked
  by a schema, migrated from older versions and expanded into \<^emph>\<open>participants\<close>. The lab simulation
  scores protocols on it, plays the rounds of the story game and sweeps information and plans; the
  Nash solver searches a bargain in the clear or by messages, with SHA-256 commitments and an
  exposure report; the transfer ledger splits the utility, by proportion or by Shapley value. Views
  redact what a party may see, the decision log records what happened, run reports collect a run
  and are kept in the browser's storage. Beside the lab stand small engines of the lessons
  (\<^verbatim>\<open>learn/\<close>), each a pure function of its inputs, which share the formula language in which users
  write a utility; and the negotiation page, where two browser tabs exchange a session by links
  and a broadcast channel.

  \<^bold>\<open>Numbers.\<close> A JavaScript number is \<open>'p jsnum\<close> (theory \<open>JsNumber\<close>): a rational rounded to a
  significand of \<open>'p\<close> bits by the rules of IEEE 754 (theory \<open>Rounding\<close>: nearest, ties to even, gradual
  underflow, overflow to infinity), or an infinity or \<open>NaN\<close>. \<open>js\<close> is the type at 53 bits, the
  doubles of the program; \<open>exact\<close> is the type at precision 0, where every operation is exact. The
  definitions are for every \<open>'p\<close>. A law about order is proved at every precision, so it holds of the
  doubles; a law of algebra that rounding would break is proved on \<open>exact\<close>, and says so by its
  types. \<open>JsBounds\<close> tracks magnitudes, so that no double overflows where a property needs it, \<open>JsSort\<close> is
  the stable \<^verbatim>\<open>Array.prototype.sort\<close> on an arbitrary comparison, \<open>NumText\<close> is \<^verbatim>\<open>String(x)\<close> and the other
  number texts. Negative zero is not distinguished from zero.

  \<^bold>\<open>Texts\<close> are lists of bytes, UTF-8 where a text leaves ASCII. \<^bold>\<open>Errors\<close> are \<open>Inl\<close> in a sum, or \<open>None\<close>;
  \<open>Prelude\<close> holds the sequencing of fallible computations and the array and map functions of
  ECMAScript with their laws. \<^bold>\<open>Objects\<close> are records; a JavaScript \<^verbatim>\<open>Map\<close> or an object used as a
  dictionary is an association list in insertion order, or a map where order is never read. An
  override by a partial object is a function on the default record.

  \<^bold>\<open>Theories, under \<^verbatim>\<open>packages/engine/src\<close> unless said otherwise.\<close>
  \<^item> \<open>Formula\<close> (\<^verbatim>\<open>model/formula.ts\<close>): the syntax trees the parser delivers, the whitelist check
    \<open>validate\<close>, compilation and evaluation. A compiled formula evaluates without a host error; the
    check is characterised, and its hole through \<^verbatim>\<open>Object.prototype\<close> is exhibited.
  \<^item> \<open>Types\<close>, \<open>Catalog\<close>, \<open>ScenarioSchema\<close>, \<open>Migration\<close>, \<open>Participants\<close> (\<^verbatim>\<open>model/types.ts\<close>, \<^verbatim>\<open>data/\<close>,
    \<^verbatim>\<open>scenarioSchema.ts\<close>, \<^verbatim>\<open>scenarioMigrate.ts\<close>, \<^verbatim>\<open>factories.ts\<close>, \<^verbatim>\<open>participants.ts\<close>): the data, its
    checks, migration to the current version and the derived parties.
  \<^item> \<open>Simulation\<close>, \<open>SimulationLaws\<close> (\<^verbatim>\<open>model/simulation.ts\<close>): scores, rounds, ledger, sweeps and the plan
    frontier; bounds, dominance of the oracle, monotonicity, soundness of the frontier.
  \<^item> \<open>ShapleyTransfer\<close> (\<^verbatim>\<open>model/shapleyTransfer.ts\<close>): coalitions as 32-bit masks; the axioms of the Shapley
    value for the enumeration, and how far the transfers cancel.
  \<^item> \<open>WeightedNash\<close>, \<open>NashLaws\<close>, \<open>NashProtocol\<close>, \<open>Sha256\<close> (\<^verbatim>\<open>model/weightedNash.ts\<close>): the solver, its optimality and
    rationality, the protocol with its round limit of 200, and the hash on 32-bit words.
  \<^item> \<open>Decoys\<close>, \<open>Provenance\<close>, \<open>Views\<close>, \<open>DecisionLog\<close> (\<^verbatim>\<open>model/decoys.ts\<close>, \<^verbatim>\<open>bridges/sourceProvenance.ts\<close>,
    \<^verbatim>\<open>views.ts\<close>, \<^verbatim>\<open>decisionEvent.ts\<close>): the audit, the merge of sources, redaction as an equivalence
    of what can be told apart, and the log as the newest part of the full history.
  \<^item> \<open>RunReport\<close>, \<open>ReportStorage\<close> (\<^verbatim>\<open>model/runReport.ts\<close>, \<^verbatim>\<open>runReportSchema.ts\<close>, \<^verbatim>\<open>reportMarkdown.ts\<close>,
    \<^verbatim>\<open>reportStorage.ts\<close>): reports, their text, and the store as a refinement of a bounded list.
  \<^item> \<open>Base64\<close>, \<open>NegotiationSession\<close>, \<open>NegotiationContract\<close>, \<open>Tabs\<close> (\<^verbatim>\<open>learn/negotiationSession.ts\<close>,
    \<^verbatim>\<open>learn/negotiationContract.ts\<close>, \<^verbatim>\<open>apps/web/src/surfaces/negotiate/NegotiateSurface.tsx\<close>): sessions,
    the links that carry them with their round trips, and two tabs and their channel as a step
    relation, with what every schedule keeps and what some schedules lose.
  \<^item> \<open>TransferPricing\<close>, \<open>MultiPeriod\<close>, \<open>ModelStudio\<close>, \<open>Sampling\<close>, \<open>BuyPlan\<close> and the further engines of the
    lessons listed with their files at the head of each theory (\<^verbatim>\<open>learn/\<close>).

  \<^bold>\<open>Interfaces.\<close> The locales state what a component asks of another: the comparison a sort relies on,
  the laws of a merge, of an encoding, of a bounded log, of a store. Each is interpreted on the
  program's own definitions in the theory of the component that provides it, and the properties
  rest on the interpretations.

  \<^bold>\<open>Loops, bounds and fuel.\<close> Loops over lists and over counters with a known end are structural.
  A loop whose end depends on its numbers (\<open>Sampling\<close>) is a partial function with result \<open>None\<close> when it
  does not return, and its termination is proved under the condition the theorem states. Fuel occurs
  only in number texts, where it exceeds the number of digits of any double, and in the protocol,
  where it is the program's own round limit. The Shapley enumeration is stated up to 31 players,
  the width of the program's masks (the program itself stops at 8).

  \<^bold>\<open>Parameters.\<close> What the program takes from elsewhere is an argument of the definitions: the
  expression parser \<^verbatim>\<open>acorn\<close>, \<^verbatim>\<open>Math.sqrt\<close>, \<^verbatim>\<open>log\<close>, \<^verbatim>\<open>exp\<close> and \<^verbatim>\<open>pow\<close>, \<^verbatim>\<open>toLocaleString\<close>, \<^verbatim>\<open>localeCompare\<close>, the clock,
  random identifiers, \<^verbatim>\<open>JSON.stringify\<close> and \<^verbatim>\<open>JSON.parse\<close>. What a property assumes of one of them is a
  hypothesis of the property.

  \<^bold>\<open>Not modelled.\<close> The React surfaces of the web and mobile apps are markup over the engine: their
  rendering, styling, animation and event wiring are left out, apart from the state logic of the
  negotiation page. Prose that no code reads (glossary, lesson texts, descriptions in the
  catalogs) is left out; so are the re-exports of \<^verbatim>\<open>index.ts\<close>, the test suites and build
  configuration, and the Python prototype in the repository. Unknown keys and values of foreign type
  reach the program only through \<^verbatim>\<open>zod\<close> schemas; the schemas are modelled on records whose fields
  have the declared types.
\<close>

end
